(* ===== verification/Prelude.thy ===== *)
theory Prelude
  imports Main "HOL-Library.AList"
begin

text \<open>
  Shared vocabulary of the marketplace model: the types that name the contract's data
  (account ids, balances, timestamps, fee-share sets), the machine-integer bounds of the
  Rust types (u32, u64, u128), the error values that stand for the contract's panics,
  the currency-transfer primitive through which every payment leaves the contract, the
  execution environment a handler reads (block time, caller, attached deposit), and the
  generic lemmas on lists, association lists and orderings that the component theories
  share.
\<close>

section \<open>Types of the model\<close>

type_synonym account = string
type_synonym balance = nat
type_synonym timestamp = nat

text \<open>
  A Rust \<open>HashMap\<close> that the code iterates is an association list with distinct keys:
  \<open>insert\<close> is \<^const>\<open>AList.update\<close>, \<open>remove\<close> is \<^const>\<open>AList.delete\<close>, \<open>get\<close> is
  \<^const>\<open>map_of\<close>. An \<open>Origins\<close> value (bid.rs) maps a beneficiary to its weight.
\<close>

type_synonym origins = "(account \<times> nat) list"

text \<open>
  The \<open>Payout\<close> both contracts agree on (payouts.rs of the NFT contract, sale.rs of the
  market): a map from receiver to amount, as JSON over the cross-contract call.
\<close>

type_synonym payout = "(account \<times> balance) list"

named_theorems market_consts "numeric constants of the contracts, unfolded in evaluations"

definition u32_max :: nat where [market_consts]: "u32_max = 2 ^ 32 - 1"
definition u64_max :: nat where [market_consts]: "u64_max = 2 ^ 64 - 1"
definition u128_max :: nat where [market_consts]: "u128_max = 2 ^ 128 - 1"

text \<open>The account id of the native currency (\<open>"near"\<close> in the source).\<close>

definition NEAR :: account where [market_consts]: "NEAR = ''near''"

section \<open>Errors\<close>

text \<open>
  Every \<open>require!\<close>, \<open>assert!\<close>, \<open>expect\<close> and \<open>panic\<close> of the contract aborts the
  whole call with no state change; the model returns \<open>Inl\<close> of one of these values.
  Arithmetic overflow of a checked Rust integer operation is \<open>ArithmeticOverflow\<close>;
  \<open>UnwrapNone\<close> is an \<open>unwrap()\<close> on \<open>None\<close>.
\<close>

datatype error =
    TokenNotSupported account
  | MaxOriginsExceeded
  | BidTooLow balance
  | NoSale
  | NoToken
  | NoSuchBid
  | BidNotEnded
  | BidHasNoEnd
  | SaleNotInProgress
  | CannotBidOwnSale
  | NotSupportedFt
  | ZeroDeposit
  | NoBids
  | BidOutOfTime
  | NotSaleOwner
  | OnlyOwnerCanRemove
  | IncorrectDuration
  | IncorrectStart
  | AuctionNotInProgress
  | AuctionNotActive
  | AuctionDoesNotExist
  | CannotBidOwnAuction
  | ShouldBidAtLeast balance
  | OnlyAuctionOwnerCanCancel
  | AuctionHasBid
  | AuctionNotEnded
  | NoFinalBid
  | RequiresOneYocto
  | ArithmeticOverflow
  | IndexOutOfBounds
  | NotCrossContractCall
  | OwnerNotSigner
  | InsufficientStorage
  | MoreSalesThanStorage
  | TokenTypeNotSubstr
  | IndexEntryMissing
  | RequiresMinimumDeposit
  | NoTokenSeries
  | TooManyReceivers
  | RoyaltyTooHigh
  | RoyaltyCapExceeded
  | MintAccessDenied
  | PermissionDenied
  | MaxTokenMinted
  | TitleMissing
  | TokenNotFound
  | SenderNotApproved
  | OwnerMustDiffer
  | OnlyContractOwner
  | OutOfBounds
  | ZeroLimit
  | NoContract
  | UnwrapNone

section \<open>The currency-transfer primitive\<close>

text \<open>
  A payment the contract issues: a native transfer (\<open>Promise::new(r).transfer(a)\<close>) or a
  fungible-token transfer call (\<open>ft_transfer\<close> on the token contract \<open>ft\<close>).
\<close>

datatype transfer =
    NearTransfer account balance
  | FtTransfer account account balance

fun transfer_amount :: "transfer \<Rightarrow> balance" where
  "transfer_amount (NearTransfer r a) = a"
| "transfer_amount (FtTransfer ft r a) = a"

fun transfer_receiver :: "transfer \<Rightarrow> account" where
  "transfer_receiver (NearTransfer r a) = r"
| "transfer_receiver (FtTransfer ft r a) = r"

definition total_paid :: "transfer list \<Rightarrow> balance" where
  "total_paid ts = sum_list (map transfer_amount ts)"

section \<open>The execution environment\<close>

text \<open>
  What a handler reads from \<open>near_sdk::env\<close>: the block time, the caller
  (\<open>predecessor_account_id\<close>), the transaction signer, the attached deposit and the
  contract's own account.
\<close>

record env =
  block_timestamp :: timestamp
  predecessor_account_id :: account
  signer_account_id :: account
  attached_deposit :: balance
  current_account_id :: account

section \<open>Generic lemmas\<close>

lemma total_paid_simps [simp]:
  "total_paid [] = 0"
  "total_paid (t # ts) = transfer_amount t + total_paid ts"
  "total_paid (ts @ us) = total_paid ts + total_paid us"
  by (simp_all add: total_paid_def)

subsection \<open>Ordered lists\<close>

text \<open>
  Appending an element that is above the last one keeps a list ordered by a transitive
  relation: the bid ledger compares a new bid with the last one only.
\<close>

lemma sorted_wrt_snoc_last:
  assumes "transp R" and "sorted_wrt R xs" and "xs \<noteq> [] \<Longrightarrow> R (last xs) x"
  shows "sorted_wrt R (xs @ [x])"
proof -
  have "\<forall>y \<in> set xs. R y x"
  proof
    fix y assume y: "y \<in> set xs"
    then have ne: "xs \<noteq> []" by auto
    then have xs: "xs = butlast xs @ [last xs]" by simp
    show "R y x"
    proof (cases "y = last xs")
      case True
      with assms(3) ne show ?thesis by simp
    next
      case False
      with y xs have "y \<in> set (butlast xs)" by (metis rotate1.simps(2) set_ConsD set_rotate1)
      with assms(2) xs have "R y (last xs)"
        by (metis sorted_wrt_append list.set_intros(1))
      with assms(1,3) ne show ?thesis by (meson transpE)
    qed
  qed
  with assms(2) show ?thesis by (simp add: sorted_wrt_append)
qed

lemma sorted_wrt_tl: "sorted_wrt R xs \<Longrightarrow> sorted_wrt R (tl xs)"
  by (cases xs) simp_all

lemma sorted_wrt_remove_nth:
  assumes s: "sorted_wrt R xs"
  shows "sorted_wrt R (take i xs @ drop (Suc i) xs)"
proof -
  from s have "sorted_wrt R (take i xs @ drop i xs)" by simp
  then have t: "sorted_wrt R (take i xs)" and d: "sorted_wrt R (drop i xs)"
    and td: "\<forall>x \<in> set (take i xs). \<forall>y \<in> set (drop i xs). R x y"
    by (auto simp only: sorted_wrt_append)
  have tl_eq: "drop (Suc i) xs = tl (drop i xs)" by (simp add: drop_Suc drop_tl)
  have "set (drop (Suc i) xs) \<subseteq> set (drop i xs)" by (simp add: set_drop_subset_set_drop)
  with t d td tl_eq show ?thesis
    by (auto simp: sorted_wrt_append intro: sorted_wrt_tl)
qed

lemma set_remove_nth_subset: "set (take i xs @ drop (Suc i) xs) \<subseteq> set xs"
  by (auto dest: in_set_takeD in_set_dropD)

subsection \<open>Association lists\<close>

lemma find_Some_set: "find P xs = Some y \<Longrightarrow> y \<in> set xs \<and> P y"
  by (induction xs) (auto split: if_splits)

lemma map_of_update_eq [simp]: "map_of (AList.update k v xs) = (map_of xs)(k \<mapsto> v)"
  by (rule update_conv')

lemma map_of_delete_eq [simp]: "map_of (AList.delete k xs) = (map_of xs)(k := None)"
  by (rule delete_conv')

lemma set_update_subset: "set (AList.update k v xs) \<subseteq> insert (k, v) (set xs)"
  by (induction xs) auto

lemma set_delete_subset: "set (AList.delete k xs) \<subseteq> set xs"
  by (simp add: AList.delete_eq)

lemma sum_list_map_update:
  fixes f :: "'k \<times> 'v \<Rightarrow> nat"
  shows "distinct (map fst xs) \<Longrightarrow>
   sum_list (map f (AList.update k v xs)) + (case map_of xs k of None \<Rightarrow> 0 | Some w \<Rightarrow> f (k, w))
   = sum_list (map f xs) + f (k, v)"
proof (induction xs)
  case Nil
  then show ?case by simp
next
  case (Cons p xs)
  obtain a b where p: "p = (a, b)" by (cases p)
  show ?case
  proof (cases "a = k")
    case True
    with p show ?thesis by simp
  next
    case False
    with p Cons show ?thesis by simp
  qed
qed
lemma sum_list_map_delete:
  fixes f :: "'k \<times> 'v \<Rightarrow> nat"
  shows "distinct (map fst xs) \<Longrightarrow>
   sum_list (map f (AList.delete k xs)) + (case map_of xs k of None \<Rightarrow> 0 | Some w \<Rightarrow> f (k, w))
   = sum_list (map f xs)"
proof (induction xs)
  case Nil
  then show ?case by simp
next
  case (Cons p xs)
  obtain a b where p: "p = (a, b)" by (cases p)
  show ?case
  proof (cases "a = k")
    case True
    with p Cons.prems have "AList.delete k xs = xs" by (auto intro: delete_id)
    with True p show ?thesis by simp
  next
    case False
    with p Cons show ?thesis by simp
  qed
qed

end
