(* ===== verification/Fee.thy ===== *)
theory Fee
  imports Prelude
begin

text \<open>
  The fee calculator of src/market/src/fee.rs: the total weight of a fee-share set
  (\<open>calculate_origins\<close>, a u32 sum), the seller-side net of a gross amount
  (\<open>calculate_actual_amount\<close>) and the buyer-side gross of a net price
  (\<open>calculate_price_with_fees\<close>), all on u128 with the overflow checks of the Rust
  build (an overflow panics, here \<open>None\<close>). The lemmas show when each operation
  overflows, that stripping the fees from the gross price of a net price gives the net
  price back exactly, and that the net amount is monotone in the gross amount.
\<close>

section \<open>Constants and operations\<close>

definition PAYOUT_TOTAL_VALUE :: nat where [market_consts]: "PAYOUT_TOTAL_VALUE = 10000"
definition PROTOCOL_FEE :: nat where [market_consts]: "PROTOCOL_FEE = 300"

text \<open>The loop of \<open>calculate_origins\<close>: \<open>total += val\<close> on a u32 for each weight.\<close>

fun calculate_origins_loop :: "nat \<Rightarrow> nat list \<Rightarrow> nat option" where
  "calculate_origins_loop tot [] = Some tot"
| "calculate_origins_loop tot (v # vs) =
     (if u32_max < tot + v then None else calculate_origins_loop (tot + v) vs)"

definition calculate_origins :: "origins \<Rightarrow> nat option" where
  "calculate_origins os = calculate_origins_loop 0 (map snd os)"

definition calculate_actual_amount :: "balance \<Rightarrow> nat \<Rightarrow> balance option" where
  "calculate_actual_amount amount tot_origins =
     (let m = amount * (tot_origins + PROTOCOL_FEE) in
      if u128_max < m then None
      else Some (amount - m div (PAYOUT_TOTAL_VALUE + tot_origins + PROTOCOL_FEE)))"

text \<open>
  The total weight of an optional fee-share set, \<open>0\<close> when there is none: the prologue
  of \<open>calculate_price_with_fees\<close> (and of \<open>add_bid\<close> in bid.rs).
\<close>

definition total_origins :: "origins option \<Rightarrow> nat option" where
  "total_origins oo = (case oo of Some os \<Rightarrow> calculate_origins os | None \<Rightarrow> Some 0)"

definition calculate_price_with_fees :: "balance \<Rightarrow> origins option \<Rightarrow> balance option" where
  "calculate_price_with_fees price oo =
     (case total_origins oo of
        None \<Rightarrow> None
      | Some t \<Rightarrow>
          (let m = price * (PAYOUT_TOTAL_VALUE + PROTOCOL_FEE + t) in
           if u128_max < m then None else Some (m div PAYOUT_TOTAL_VALUE)))"

section \<open>Arithmetic of fee stripping\<close>

text \<open>
  With denominator \<open>D\<close> and fee weight \<open>W\<close>, adding the fee (\<open>p * (D + W) div D\<close>)
  and stripping it again (\<open>g - g * W div (D + W)\<close>) is the identity on \<open>p\<close>, in spite
  of the two floor divisions.
\<close>

lemma le_gross_of_net:
  fixes p D W :: nat
  assumes D: "0 < D"
  shows "p \<le> p * (D + W) div D"
  using D by (metis div_le_mono div_mult_self1_is_m le_add1 mult_le_mono2 mult.commute)

lemma strip_fee_exact:
  fixes p D W :: nat
  assumes D: "0 < D"
  shows "p * (D + W) div D - (p * (D + W) div D) * W div (D + W) = p"
proof -
  define g where "g = p * (D + W) div D"
  have lo: "g * D \<le> p * (D + W)"
    unfolding g_def using times_div_less_eq_dividend [of D "p * (D + W)"]
    by (simp add: mult.commute)
  have hi: "p * (D + W) < g * D + D" unfolding g_def using D
    by (metis div_mult_mod_eq add_less_cancel_left mod_less_divisor)
  have gp: "p \<le> g" unfolding g_def using D by (rule le_gross_of_net)
  have "(g * W) div (D + W) = g - p"
  proof (rule div_nat_eqI)
    show "(D + W) * (g - p) \<le> g * W"
      using lo gp by (simp add: algebra_simps diff_mult_distrib2)
    show "g * W < (D + W) * Suc (g - p)"
      using hi gp by (simp add: algebra_simps diff_mult_distrib2)
  qed
  then show ?thesis using gp unfolding g_def by simp
qed

text \<open>Stripping a fee of weight \<open>W \<le> K\<close> out of \<open>K\<close> is monotone in the amount.\<close>

lemma strip_fee_mono:
  fixes a b W K :: nat
  assumes ab: "a \<le> b" and WK: "W \<le> K"
  shows "a - a * W div K \<le> b - b * W div K"
proof (cases "K = 0")
  case True
  with ab show ?thesis by simp
next
  case False
  have "b * W = a * W + (b - a) * W" using ab by (simp add: diff_mult_distrib add_mult_distrib)
  also have "\<dots> \<le> a * W + (b - a) * K" using WK by simp
  finally have "b * W div K \<le> (a * W + (b - a) * K) div K" by (rule div_le_mono)
  also have "\<dots> = a * W div K + (b - a)" using False by simp
  finally have bw: "b * W div K \<le> a * W div K + (b - a)" .
  have "a * W div K \<le> a * K div K" using div_le_mono [OF mult_le_mono2 [OF WK]] .
  then have "a * W div K \<le> a" using False by simp
  with bw ab show ?thesis by linarith
qed

section \<open>Functional behaviour\<close>

lemma calculate_origins_loop_eq:
  "t \<le> u32_max \<Longrightarrow> calculate_origins_loop t vs =
     (if u32_max < t + sum_list vs then None else Some (t + sum_list vs))"
  by (induction t vs rule: calculate_origins_loop.induct) (auto simp: add.assoc)

lemma calculate_origins_eq:
  "calculate_origins os =
     (if u32_max < sum_list (map snd os) then None else Some (sum_list (map snd os)))"
  by (simp add: calculate_origins_def calculate_origins_loop_eq u32_max_def)

lemma calculate_origins_Nil [simp]: "calculate_origins [] = Some 0"
  by (simp add: calculate_origins_def)

lemma total_origins_simps [simp]:
  "total_origins None = Some 0"
  "total_origins (Some os) = calculate_origins os"
  by (simp_all add: total_origins_def)

lemma calculate_actual_amount_Some_iff:
  "calculate_actual_amount a w = Some x \<longleftrightarrow>
     a * (w + PROTOCOL_FEE) \<le> u128_max \<and>
     x = a - a * (w + PROTOCOL_FEE) div (PAYOUT_TOTAL_VALUE + w + PROTOCOL_FEE)"
  by (auto simp: calculate_actual_amount_def Let_def not_less)

lemma calculate_price_with_fees_Some_iff:
  "calculate_price_with_fees p oo = Some g \<longleftrightarrow>
     (\<exists>w. total_origins oo = Some w \<and>
          p * (PAYOUT_TOTAL_VALUE + PROTOCOL_FEE + w) \<le> u128_max \<and>
          g = p * (PAYOUT_TOTAL_VALUE + PROTOCOL_FEE + w) div PAYOUT_TOTAL_VALUE)"
  by (auto simp: calculate_price_with_fees_def Let_def not_less split: option.splits)

lemmas fee_Some_iffs = calculate_actual_amount_Some_iff calculate_price_with_fees_Some_iff

lemma calculate_actual_amount_le:
  "calculate_actual_amount a w = Some x \<Longrightarrow> x \<le> a"
  by (simp add: calculate_actual_amount_Some_iff)

lemma calculate_price_with_fees_ge:
  "calculate_price_with_fees p oo = Some g \<Longrightarrow> p \<le> g"
  using le_gross_of_net [of PAYOUT_TOTAL_VALUE p]
  by (auto simp: calculate_price_with_fees_Some_iff PAYOUT_TOTAL_VALUE_def add.assoc)

lemma calculate_actual_amount_mono:
  assumes ab: "a \<le> b" and b: "calculate_actual_amount b w = Some y"
  shows "\<exists>x. calculate_actual_amount a w = Some x \<and> x \<le> y"
proof -
  have "a * (w + PROTOCOL_FEE) \<le> b * (w + PROTOCOL_FEE)" using ab by simp
  moreover have "b * (w + PROTOCOL_FEE) \<le> u128_max"
    using b by (simp add: calculate_actual_amount_Some_iff)
  ultimately have nov: "a * (w + PROTOCOL_FEE) \<le> u128_max" by (rule le_trans)
  have "w + PROTOCOL_FEE \<le> PAYOUT_TOTAL_VALUE + w + PROTOCOL_FEE" by simp
  from strip_fee_mono [OF ab this] b nov show ?thesis
    by (simp add: calculate_actual_amount_Some_iff mult.assoc)
qed

text \<open>
  The arithmetic of the round trip: the gross \<open>p * (D + W) div D\<close> of a net price
  \<open>p\<close>, for a weight \<open>W\<close> at most \<open>D\<close>, stays within the bound of its
  numerator after multiplication by \<open>W\<close>, and stripping \<open>W\<close> from it gives \<open>p\<close>.
\<close>

lemma gross_strip_fee:
  fixes p D W M :: nat
  assumes D: "0 < D" and cap: "W \<le> D" and nov: "p * (D + W) \<le> M"
  shows "(p * (D + W) div D) * W \<le> M \<and> p * (D + W) div D - (p * (D + W) div D) * W div (D + W) = p"
proof
  have "(p * (D + W) div D) * W \<le> (p * (D + W) div D) * D" using cap by simp
  also have "\<dots> \<le> p * (D + W)"
    using times_div_less_eq_dividend [of D "p * (D + W)"] by (simp add: mult.commute)
  finally show "(p * (D + W) div D) * W \<le> M" using nov by (rule le_trans)
  show "p * (D + W) div D - (p * (D + W) div D) * W div (D + W) = p"
    by (rule strip_fee_exact [OF D])
qed

section \<open>Round trip and sufficiency of a deposit\<close>

text \<open>
  C1. Fee round trip: for a fee-share set whose total weight leaves room for the
  protocol fee (weight plus 300 at most 10000, which the 4700 cap of \<open>add_bid\<close>
  guarantees), stripping the fees from the buyer-side gross of a net price \<open>p\<close> with
  \<open>calculate_actual_amount\<close> gives back exactly \<open>p\<close>, and never overflows when the
  gross did not. The spec allows one unit of rounding slack; the code has none.
\<close>

theorem price_with_fees_round_trip:
  assumes w: "total_origins oo = Some w"
    and cap: "w + PROTOCOL_FEE \<le> PAYOUT_TOTAL_VALUE"
    and g: "calculate_price_with_fees p oo = Some g"
  shows "calculate_actual_amount g w = Some p"
proof -
  from g w have gdef: "g = p * (PAYOUT_TOTAL_VALUE + (PROTOCOL_FEE + w)) div PAYOUT_TOTAL_VALUE"
    and nov: "p * (PAYOUT_TOTAL_VALUE + (PROTOCOL_FEE + w)) \<le> u128_max"
    by (auto simp: calculate_price_with_fees_Some_iff add.assoc)
  have "0 < PAYOUT_TOTAL_VALUE" by (simp add: PAYOUT_TOTAL_VALUE_def)
  from gross_strip_fee [OF this _ nov] cap show ?thesis
    unfolding gdef by (simp add: calculate_actual_amount_Some_iff ac_simps)
qed

theorem price_with_fees_round_trip_witness:
  "calculate_price_with_fees 10000 (Some [(''origin1'', 100)]) = Some 10400 \<and>
   calculate_actual_amount 10400 100 = Some 10000"
proof -
  have w: "total_origins (Some [(''origin1'', 100)]) = Some 100"
    by (simp add: calculate_origins_eq market_consts)
  have cap: "100 + PROTOCOL_FEE \<le> PAYOUT_TOTAL_VALUE" by (simp add: market_consts)
  have g: "calculate_price_with_fees 10000 (Some [(''origin1'', 100)]) = Some 10400"
    by (simp add: calculate_price_with_fees_def calculate_origins_eq market_consts)
  from price_with_fees_round_trip [OF w cap g] g show ?thesis by simp
qed

text \<open>
  A deposit at least the gross of a net price \<open>p\<close> is worth at least \<open>p\<close> net,
  whatever the weight of the fee shares: the bound the auction relies on for its minimal
  next bid, where the bidder's fee shares are not capped.
\<close>

lemma actual_amount_of_sufficient_deposit:
  assumes w: "total_origins oo = Some w"
    and g: "calculate_price_with_fees p oo = Some g"
    and gd: "g \<le> d"
    and d: "calculate_actual_amount d w = Some x"
  shows "p \<le> x"
proof -
  from calculate_actual_amount_mono [OF gd d] obtain x' where
    x': "calculate_actual_amount g w = Some x'" and "x' \<le> x" by blast
  from g w have "g = p * (PAYOUT_TOTAL_VALUE + (PROTOCOL_FEE + w)) div PAYOUT_TOTAL_VALUE"
    by (auto simp: calculate_price_with_fees_Some_iff add.assoc)
  moreover have "0 < PAYOUT_TOTAL_VALUE" by (simp add: PAYOUT_TOTAL_VALUE_def)
  ultimately have "x' = p"
    using x' strip_fee_exact [of PAYOUT_TOTAL_VALUE p "PROTOCOL_FEE + w"]
    by (simp add: calculate_actual_amount_Some_iff ac_simps)
  with \<open>x' \<le> x\<close> show ?thesis by simp
qed

end
