(* ===== verification/Bid.thy ===== *)
theory Bid
  imports Fee "HOL-Library.Multiset"
begin

text \<open>
  The bid ledger of src/market/src/bid.rs. A \<open>Bid\<close> is a record; the bids of a sale
  are a map from currency to the list of its bids, oldest first (\<open>Bids\<close>). This theory
  holds the bucket-level operations that the handlers of Sale.thy compose: the order
  check and the push with eviction of \<open>add_bid\<close>, the search-and-remove of
  \<open>internal_remove_bid\<close> (inner.rs), the \<open>retain\<close> loop of \<open>cancel_expired_bids\<close>,
  and the refund primitives \<open>refund_bid\<close> and \<open>refund_all_bids\<close>. Its lemmas show
  that every operation keeps a bucket strictly increasing in net amount and within the
  history length, and that no value is lost: the prices of the bids kept plus the
  refunds issued equal the prices of the bids before plus the bid added.
\<close>

section \<open>Bids\<close>

record bid =
  bid_owner_id :: account
  bid_price :: balance
  bid_start :: timestamp
  bid_end :: "timestamp option"
  bid_origins :: origins

type_synonym bids = "(account \<times> bid list) list"

definition bid_in_limits :: "bid \<Rightarrow> timestamp \<Rightarrow> bool" where
  "bid_in_limits b now =
     (bid_start b < now \<and> (case bid_end b of Some e \<Rightarrow> now < e | None \<Rightarrow> True))"

definition refund_bid :: "account \<Rightarrow> account \<Rightarrow> balance \<Rightarrow> transfer" where
  "refund_bid bid_ft owner_id price =
     (if bid_ft = NEAR then NearTransfer owner_id price else FtTransfer bid_ft owner_id price)"

definition refund_all_bids :: "bids \<Rightarrow> transfer list" where
  "refund_all_bids bids_map =
     concat (map (\<lambda>(ft, bs). map (\<lambda>b. refund_bid ft (bid_owner_id b) (bid_price b)) bs) bids_map)"

text \<open>
  The net amount of a stored bid, as \<open>add_bid\<close> computes it for the current last bid:
  its origins' total weight, then \<open>calculate_actual_amount\<close> of its price.
\<close>

definition bid_actual_amount :: "bid \<Rightarrow> balance option" where
  "bid_actual_amount b =
     (case calculate_origins (bid_origins b) of
        None \<Rightarrow> None
      | Some w \<Rightarrow> calculate_actual_amount (bid_price b) w)"

section \<open>Bucket operations\<close>

text \<open>
  The tail of \<open>add_bid\<close>: push the new bid and, when the bucket is longer than the
  history length, refund the earliest bid and remove it.
\<close>

definition push_bid :: "nat \<Rightarrow> account \<Rightarrow> bid list \<Rightarrow> bid \<Rightarrow> bid list \<times> transfer list" where
  "push_bid bid_history_length ft bs new_bid =
     (let bs' = bs @ [new_bid] in
      if bid_history_length < length bs'
      then (tl bs', [refund_bid ft (bid_owner_id (hd bs')) (bid_price (hd bs'))])
      else (bs', []))"

text \<open>
  The order check of \<open>add_bid\<close>: when the bucket has a last bid, the new bid's net
  amount must be strictly greater than the last bid's, else the call panics with the
  last bid's price in the message.
\<close>

definition ledger_submit ::
  "nat \<Rightarrow> account \<Rightarrow> bid list \<Rightarrow> bid \<Rightarrow> balance \<Rightarrow> error + (bid list \<times> transfer list)" where
  "ledger_submit bid_history_length ft bs new_bid actual_amount =
     (if bs = [] then Inr (push_bid bid_history_length ft bs new_bid)
      else (case bid_actual_amount (last bs) of
              None \<Rightarrow> Inl ArithmeticOverflow
            | Some current_amount \<Rightarrow>
                if current_amount < actual_amount
                then Inr (push_bid bid_history_length ft bs new_bid)
                else Inl (BidTooLow (bid_price (last bs)))))"

text \<open>
  The search of \<open>internal_remove_bid\<close>: the first bid of the bucket with the given
  owner and price, taken out of the list.
\<close>

fun take_out_bid :: "account \<Rightarrow> balance \<Rightarrow> bid list \<Rightarrow> (bid \<times> bid list) option" where
  "take_out_bid owner_id price [] = None"
| "take_out_bid owner_id price (b # bs) =
     (if bid_owner_id b = owner_id \<and> bid_price b = price then Some (b, bs)
      else map_option (\<lambda>(x, rest). (x, b # rest)) (take_out_bid owner_id price bs))"

text \<open>
  The same search as the Rust loop writes it: the first pair of \<open>bid_vec.iter().enumerate()\<close>
  whose bid has the owner and the price, the bid of that pair returned and the vector
  with \<open>remove(index)\<close> applied.
\<close>

definition remove_bid_at :: "account \<Rightarrow> balance \<Rightarrow> bid list \<Rightarrow> (bid \<times> bid list) option" where
  "remove_bid_at owner_id price bid_vec =
     (case find (\<lambda>(index, b). bid_owner_id b = owner_id \<and> bid_price b = price) (enumerate 0 bid_vec) of
        None \<Rightarrow> None
      | Some (index, b) \<Rightarrow> Some (b, take index bid_vec @ drop (Suc index) bid_vec))"

text \<open>
  The \<open>retain\<close> loop of \<open>cancel_expired_bids\<close>: a bid with an end at or before the
  block time is refunded and dropped, every other bid is kept, in order.
\<close>

fun retain_unexpired :: "timestamp \<Rightarrow> account \<Rightarrow> bid list \<Rightarrow> bid list \<times> transfer list" where
  "retain_unexpired now ft [] = ([], [])"
| "retain_unexpired now ft (b # bs) =
     (let (kept, refunds) = retain_unexpired now ft bs in
      case bid_end b of
        Some e \<Rightarrow>
          if e \<le> now then (kept, refund_bid ft (bid_owner_id b) (bid_price b) # refunds)
          else (b # kept, refunds)
      | None \<Rightarrow> (b # kept, refunds))"

text \<open>A bid has expired when it has an end at or before the block time.\<close>

definition bid_expired :: "timestamp \<Rightarrow> bid \<Rightarrow> bool" where
  "bid_expired now b = (case bid_end b of Some e \<Rightarrow> e \<le> now | None \<Rightarrow> False)"

section \<open>Invariant of a bucket\<close>

text \<open>
  A bucket is well formed when it is no longer than the history length and strictly
  increasing in net amount (every net amount computed without overflow).
\<close>

definition bid_lt :: "bid \<Rightarrow> bid \<Rightarrow> bool" where
  "bid_lt a b =
     (case (bid_actual_amount a, bid_actual_amount b) of
        (Some x, Some y) \<Rightarrow> x < y
      | _ \<Rightarrow> False)"

definition bucket_ok :: "nat \<Rightarrow> bid list \<Rightarrow> bool" where
  "bucket_ok bid_history_length bs =
     (length bs \<le> bid_history_length \<and> sorted_wrt bid_lt bs)"

definition escrow :: "bid list \<Rightarrow> balance" where
  "escrow bs = sum_list (map bid_price bs)"

lemma escrow_simps [simp]:
  "escrow [] = 0"
  "escrow (b # bs) = bid_price b + escrow bs"
  "escrow (bs @ cs) = escrow bs + escrow cs"
  by (simp_all add: escrow_def)

lemma transp_bid_lt: "transp bid_lt"
  by (rule transpI) (auto simp: bid_lt_def split: option.splits)

lemma refund_bid_amount [simp]: "transfer_amount (refund_bid ft ow p) = p"
  by (simp add: refund_bid_def)

lemma refund_bid_receiver [simp]: "transfer_receiver (refund_bid ft ow p) = ow"
  by (simp add: refund_bid_def)

lemma total_paid_refund_all_bids:
  "total_paid (refund_all_bids bm) = sum_list (map (\<lambda>(ft, bs). escrow bs) bm)"
  by (induction bm) (auto simp: refund_all_bids_def total_paid_def escrow_def comp_def)

subsection \<open>Pushing a bid\<close>

lemma push_bid_cases:
  "push_bid n ft bs b =
     (if n < Suc (length bs)
      then (tl (bs @ [b]), [refund_bid ft (bid_owner_id (hd (bs @ [b]))) (bid_price (hd (bs @ [b])))])
      else (bs @ [b], []))"
  by (simp add: push_bid_def Let_def)

lemma push_bid_length:
  "length bs \<le> n \<Longrightarrow> push_bid n ft bs b = (bs', rs) \<Longrightarrow> length bs' \<le> n"
  by (auto simp: push_bid_cases split: if_splits)

lemma push_bid_escrow:
  "push_bid n ft bs b = (bs', rs) \<Longrightarrow> escrow bs' + total_paid rs = escrow bs + bid_price b"
proof -
  assume p: "push_bid n ft bs b = (bs', rs)"
  have "escrow (tl (bs @ [b])) + bid_price (hd (bs @ [b])) = escrow bs + bid_price b"
    by (cases bs) simp_all
  with p show ?thesis by (auto simp: push_bid_cases split: if_splits)
qed

lemma push_bid_sorted:
  assumes "sorted_wrt bid_lt bs" and "bs \<noteq> [] \<Longrightarrow> bid_lt (last bs) b"
    and "push_bid n ft bs b = (bs', rs)"
  shows "sorted_wrt bid_lt bs'"
proof -
  have "sorted_wrt bid_lt (bs @ [b])"
    using sorted_wrt_snoc_last [OF transp_bid_lt assms(1,2)] .
  with assms(3) show ?thesis by (auto simp: push_bid_cases intro: sorted_wrt_tl split: if_splits)
qed

lemma push_bid_last:
  "0 < n \<Longrightarrow> push_bid n ft bs b = (bs', rs) \<Longrightarrow> bs' \<noteq> [] \<and> last bs' = b"
  by (cases bs) (auto simp: push_bid_cases split: if_splits)

subsection \<open>The order check\<close>

lemma ledger_submit_Inr_push:
  "ledger_submit n ft bs b a = Inr r \<Longrightarrow> r = push_bid n ft bs b"
  by (auto simp: ledger_submit_def split: if_splits option.splits)

lemma ledger_submit_Inr_above_last:
  "ledger_submit n ft bs b a = Inr r \<Longrightarrow> bs \<noteq> [] \<Longrightarrow>
     \<exists>c. bid_actual_amount (last bs) = Some c \<and> c < a"
  by (auto simp: ledger_submit_def split: if_splits option.splits)

lemma ledger_submit_bucket_ok:
  assumes ok: "bucket_ok n bs" and a: "bid_actual_amount b = Some a"
    and r: "ledger_submit n ft bs b a = Inr (bs', rs)"
  shows "bucket_ok n bs'"
proof -
  from r have p: "push_bid n ft bs b = (bs', rs)" by (rule ledger_submit_Inr_push [symmetric])
  have "bs \<noteq> [] \<Longrightarrow> bid_lt (last bs) b"
    using ledger_submit_Inr_above_last [OF r] a by (auto simp: bid_lt_def)
  with ok p show ?thesis
    unfolding bucket_ok_def by (blast intro: push_bid_sorted push_bid_length)
qed

lemma ledger_submit_escrow:
  "ledger_submit n ft bs b a = Inr (bs', rs) \<Longrightarrow> escrow bs' + total_paid rs = escrow bs + bid_price b"
  by (rule push_bid_escrow) (rule ledger_submit_Inr_push [symmetric])

lemma ledger_submit_rejects:
  "bs \<noteq> [] \<Longrightarrow> bid_actual_amount (last bs) = Some c \<Longrightarrow> a \<le> c \<Longrightarrow>
     ledger_submit n ft bs b a = Inl (BidTooLow (bid_price (last bs)))"
  by (simp add: ledger_submit_def)

subsection \<open>Taking a bid out\<close>

lemma take_out_bid_Some:
  "take_out_bid ow p bs = Some (x, rest) \<Longrightarrow>
     bid_owner_id x = ow \<and> bid_price x = p \<and> mset bs = add_mset x (mset rest)"
  by (induction ow p bs arbitrary: rest rule: take_out_bid.induct) (auto split: if_splits)

lemma take_out_bid_None:
  "take_out_bid ow p bs = None \<longleftrightarrow> (\<forall>b \<in> set bs. \<not> (bid_owner_id b = ow \<and> bid_price b = p))"
  by (induction ow p bs rule: take_out_bid.induct) auto

lemma take_out_bid_sorted:
  "take_out_bid ow p bs = Some (x, rest) \<Longrightarrow> sorted_wrt R bs \<Longrightarrow> sorted_wrt R rest"
proof (induction ow p bs arbitrary: rest rule: take_out_bid.induct)
  case (1 ow p)
  then show ?case by simp
next
  case (2 ow p b bs)
  show ?case
  proof (cases "bid_owner_id b = ow \<and> bid_price b = p")
    case True
    with "2.prems" show ?thesis by auto
  next
    case False
    with "2.prems"(1) obtain rest' where r: "take_out_bid ow p bs = Some (x, rest')"
      and rest: "rest = b # rest'" by auto
    from take_out_bid_Some [OF r] have "set rest' \<subseteq> set bs"
      by (metis insert_subset set_mset_add_mset_insert set_mset_mset subset_insertI)
    with "2.IH" [OF False r] "2.prems"(2) rest show ?thesis by auto
  qed
qed

lemma take_out_bid_escrow:
  "take_out_bid ow p bs = Some (x, rest) \<Longrightarrow> escrow bs = bid_price x + escrow rest"
  by (induction ow p bs arbitrary: rest rule: take_out_bid.induct) (auto split: if_splits)

lemma take_out_bid_length:
  "take_out_bid ow p bs = Some (x, rest) \<Longrightarrow> length bs = Suc (length rest)"
  by (induction ow p bs arbitrary: rest rule: take_out_bid.induct) (auto split: if_splits)

subsection \<open>Dropping expired bids\<close>

lemma retain_unexpired_eq:
  "retain_unexpired now ft bs =
     (filter (\<lambda>b. \<not> bid_expired now b) bs,
      map (\<lambda>b. refund_bid ft (bid_owner_id b) (bid_price b)) (filter (bid_expired now) bs))"
  by (induction bs) (auto simp: bid_expired_def split: option.splits)

lemma retain_unexpired_escrow:
  "retain_unexpired now ft bs = (kept, rs) \<Longrightarrow> escrow kept + total_paid rs = escrow bs"
  by (induction bs arbitrary: kept rs) (auto simp: retain_unexpired_eq bid_expired_def
      total_paid_def comp_def split: option.splits)

lemma retain_unexpired_bucket_ok:
  "bucket_ok n bs \<Longrightarrow> bucket_ok n (fst (retain_unexpired now ft bs))"
  by (auto simp: retain_unexpired_eq bucket_ok_def sorted_wrt_filter intro: le_trans [OF length_filter_le])

text \<open>
  Removing a bid by its index in the enumeration of the bucket, as \<open>internal_remove_bid\<close>
  does, agrees with the recursive search and removal.
\<close>

lemma find_enumerate_ge:
  "find P (enumerate n xs) = Some (i, x) \<Longrightarrow> n \<le> i"
  by (drule find_Some_set) (simp add: in_set_enumerate_eq)

lemma take_out_bid_enumerate:
  "take_out_bid ow p bs =
     (case find (\<lambda>(i, b). bid_owner_id b = ow \<and> bid_price b = p) (enumerate n bs) of
        None \<Rightarrow> None
      | Some (i, b) \<Rightarrow> Some (b, take (i - n) bs @ drop (Suc (i - n)) bs))"
proof (induction bs arbitrary: n)
  case Nil
  show ?case by simp
next
  case (Cons c cs)
  show ?case
  proof (cases "bid_owner_id c = ow \<and> bid_price c = p")
    case True
    then show ?thesis by simp
  next
    case False
    have "i - n = Suc (i - Suc n)"
      if "find (\<lambda>(i, b). bid_owner_id b = ow \<and> bid_price b = p) (enumerate (Suc n) cs) = Some (i, x)" for i x
      using find_enumerate_ge [OF that] by simp
    with False Cons.IH [of "Suc n"] show ?thesis
      by (auto split: option.splits)
  qed
qed

lemma take_out_bid_eq_remove_bid_at:
  "take_out_bid owner_id price bid_vec = remove_bid_at owner_id price bid_vec"
  using take_out_bid_enumerate [of owner_id price bid_vec 0] by (simp add: remove_bid_at_def split: option.splits)

lemma take_out_bid_first:
  "\<forall>x\<in>set xs. \<not> (bid_owner_id x = ow \<and> bid_price x = p) \<Longrightarrow> bid_owner_id b = ow \<Longrightarrow> bid_price b = p \<Longrightarrow>
     take_out_bid ow p (xs @ b # ys) = Some (b, xs @ ys)"
  by (induction xs) auto

text \<open>
  C30. The loop of \<open>internal_remove_bid\<close> (src/market/src/inner.rs: the first match of
  \<open>bid_vec.iter().enumerate()\<close>, then \<open>Vec::remove\<close> at its index) removes exactly the
  first bid of the given owner and price: on a bucket \<open>xs @ b # ys\<close> where \<open>b\<close> is
  the first such bid it returns \<open>b\<close> and \<open>xs @ ys\<close>, keeping every other bid in order,
  and it returns nothing exactly when no bid of the bucket matches.
\<close>

theorem remove_bid_at_first_match:
  assumes "\<forall>x\<in>set xs. \<not> (bid_owner_id x = owner_id \<and> bid_price x = price)"
    and "bid_owner_id b = owner_id" and "bid_price b = price"
  shows "remove_bid_at owner_id price (xs @ b # ys) = Some (b, xs @ ys) \<and>
         (remove_bid_at owner_id price bid_vec = None \<longleftrightarrow>
            (\<forall>x\<in>set bid_vec. \<not> (bid_owner_id x = owner_id \<and> bid_price x = price)))"
  using take_out_bid_first [OF assms] take_out_bid_None [of owner_id price bid_vec]
  by (simp add: take_out_bid_eq_remove_bid_at)

end
