(* ===== verification/Market.thy ===== *)
theory Market
  imports Bid
begin

text \<open>
  The data of the market contract: the \<open>Sale\<close> record (sale.rs), the \<open>Auction\<close>
  record (auction.rs), the contract state (\<open>Market\<close> and \<open>MarketSales\<close> of lib.rs),
  the arguments an approval carries (market_core.rs), the listing key, and the effects
  a handler emits: a payment, or the cross-contract call \<open>nft_transfer_payout\<close>
  followed by a callback to the market (the first phase of settlement). Persistent maps
  (\<open>UnorderedMap\<close>, \<open>LookupMap\<close>) are HOL maps, \<open>UnorderedSet\<close>s their element
  vectors. Account identifiers valid for the NEAR runtime and the injectivity of the
  listing key on them close the theory.
\<close>

section \<open>Listings\<close>

type_synonym conditions = "(account \<times> balance) list"

record sale =
  sale_owner_id :: account
  sale_approval_id :: nat
  sale_nft_contract_id :: account
  sale_token_id :: string
  sale_conditions :: conditions
  sale_bids :: bids
  sale_created_at :: timestamp
  sale_token_type :: "string option"
  sale_start :: "timestamp option"
  sale_end :: "timestamp option"
  sale_origins :: origins

definition sale_in_limits :: "sale \<Rightarrow> timestamp \<Rightarrow> bool" where
  "sale_in_limits s now =
     ((case sale_start s of Some st \<Rightarrow> st < now | None \<Rightarrow> True) \<and>
      (case sale_end s of Some e \<Rightarrow> now < e | None \<Rightarrow> True))"

definition sale_extend :: "sale \<Rightarrow> timestamp \<Rightarrow> sale \<times> bool" where
  "sale_extend s time =
     (case sale_end s of Some e \<Rightarrow> (s\<lparr>sale_end := Some (e + time)\<rparr>, True) | None \<Rightarrow> (s, False))"

record auction =
  auction_owner_id :: account
  auction_approval_id :: nat
  auction_nft_contract_id :: account
  auction_token_id :: string
  auction_bid :: "bid option"
  auction_created_at :: timestamp
  auction_ft_token_id :: account
  auction_minimal_step :: balance
  auction_start_price :: balance
  auction_buy_out_price :: "balance option"
  auction_start :: timestamp
  auction_end :: timestamp
  auction_origins :: origins

section \<open>Contract state\<close>

text \<open>
  \<open>Market\<close> (its set of NFT contracts) and the \<open>MarketSales\<close> it holds, flattened into
  one record. A near-sdk \<open>UnorderedSet\<close> of an index is its element vector
  (\<open>as_vector\<close>): the views page through it by position. A near-sdk
  \<open>UnorderedMap\<close> (\<open>sales\<close>, \<open>auctions\<close>) is its lookup, a map, together with
  the vector of its keys (\<open>sale_keys\<close>, \<open>auction_keys\<close>), in whose order
  \<open>values()\<close> iterates.
\<close>

record market =
  non_fungible_token_account_ids :: "account set"
  market_owner_id :: account
  sales :: "string \<rightharpoonup> sale"
  sale_keys :: "string list"
  by_owner_id :: "account \<rightharpoonup> string list"
  by_nft_contract_id :: "account \<rightharpoonup> string list"
  by_nft_token_type :: "string \<rightharpoonup> string list"
  ft_token_ids :: "account set"
  storage_deposits :: "account \<rightharpoonup> balance"
  bid_history_length :: nat
  auctions :: "nat \<rightharpoonup> auction"
  auction_keys :: "nat list"
  next_auction_id :: nat

definition BID_HISTORY_LENGTH_DEFAULT :: nat where [market_consts]:
  "BID_HISTORY_LENGTH_DEFAULT = 5"

text \<open>\<open>STORAGE_PRICE_PER_BYTE\<close> of near-sdk is \<open>10^19\<close> yoctoNEAR.\<close>

definition STORAGE_PER_SALE :: balance where [market_consts]:
  "STORAGE_PER_SALE = 1000 * 10 ^ 19"

definition market_new :: "account list \<Rightarrow> account \<Rightarrow> market" where
  "market_new nft_ids owner_id =
     \<lparr>non_fungible_token_account_ids = set nft_ids, market_owner_id = owner_id,
      sales = Map.empty, sale_keys = [], by_owner_id = Map.empty, by_nft_contract_id = Map.empty,
      by_nft_token_type = Map.empty, ft_token_ids = {NEAR}, storage_deposits = Map.empty,
      bid_history_length = BID_HISTORY_LENGTH_DEFAULT, auctions = Map.empty,
      auction_keys = [], next_auction_id = 0\<rparr>"

definition DELIMETER :: string where [market_consts]: "DELIMETER = ''||''"

definition contract_and_token_id :: "account \<Rightarrow> string \<Rightarrow> string" where
  "contract_and_token_id nft_contract_id token_id = nft_contract_id @ DELIMETER @ token_id"

text \<open>
  Account identifiers as the NEAR runtime accepts them (near-sdk's \<open>AccountId\<close>): between
  2 and 64 characters among lower-case letters, digits and \<open>- _ .\<close>. The runtime's rule
  also forbids a separator at either end or twice in a row; the weaker predicate here
  only makes the lemmas that assume it stronger.
\<close>

definition account_char :: "char \<Rightarrow> bool" where
  "account_char c = (c \<in> set ''abcdefghijklmnopqrstuvwxyz0123456789-_.'')"

definition valid_account_id :: "account \<Rightarrow> bool" where
  "valid_account_id a = (2 \<le> length a \<and> length a \<le> 64 \<and> list_all account_char a)"

section \<open>Arguments of an approval\<close>

record sale_args =
  sa_sale_conditions :: conditions
  sa_token_type :: "string option"
  sa_start :: "timestamp option"
  sa_end :: "timestamp option"
  sa_origins :: "origins option"

record auction_args =
  aa_token_type :: "string option"
  aa_minimal_step :: balance
  aa_start_price :: balance
  aa_start :: "timestamp option"
  aa_duration :: timestamp
  aa_buy_out_price :: "balance option"
  aa_origins :: "origins option"

datatype args_kind = SaleKind sale_args | AuctionKind auction_args

section \<open>Effects\<close>

text \<open>
  The fee memo sent to the NFT contract (\<open>Fees\<close> of fee.rs, serialized to JSON in the
  source), the arguments of \<open>nft_transfer_payout\<close> (attached deposit: one yoctoNEAR),
  and the callback the market schedules after it, with the context it captures.
\<close>

record fees =
  fees_buyer :: origins
  fees_seller :: origins

record payout_call =
  pc_receiver_id :: account
  pc_token_id :: string
  pc_approval_id :: nat
  pc_memo :: fees
  pc_balance :: balance
  pc_max_len_payout :: nat
  pc_nft_contract_id :: account

datatype callback =
    ResolvePurchase account account sale balance
  | ResolveFinishAuction account account balance

datatype effect =
    Pay transfer
  | TransferPayout payout_call callback

definition paid :: "effect list \<Rightarrow> transfer list" where
  "paid es = concat (map (\<lambda>e. case e of Pay t \<Rightarrow> [t] | TransferPayout _ _ \<Rightarrow> []) es)"

text \<open>\<open>HashMap::insert\<close> of the protocol fee into a copy of a fee-share set.\<close>

definition with_protocol_fee :: "account \<Rightarrow> origins \<Rightarrow> origins" where
  "with_protocol_fee current os = AList.update current PROTOCOL_FEE os"


section \<open>JSON views\<close>

text \<open>
  \<open>SaleJson\<close> (sale.rs) and \<open>AuctionJson\<close> (auction.rs), the records the views return:
  \<open>json_from_sale\<close> (sale_views.rs) and \<open>json_from_auction\<close> (auction.rs) copy every
  field but the approval id, and for an auction its fee shares.
\<close>

record sale_json =
  sj_owner_id :: account
  sj_nft_contract_id :: account
  sj_token_id :: string
  sj_sale_conditions :: conditions
  sj_bids :: bids
  sj_created_at :: timestamp
  sj_token_type :: "string option"
  sj_start :: "timestamp option"
  sj_end :: "timestamp option"
  sj_origins :: origins

definition json_from_sale :: "sale \<Rightarrow> sale_json" where
  "json_from_sale sale =
     \<lparr>sj_owner_id = sale_owner_id sale, sj_nft_contract_id = sale_nft_contract_id sale,
      sj_token_id = sale_token_id sale, sj_sale_conditions = sale_conditions sale,
      sj_bids = sale_bids sale, sj_created_at = sale_created_at sale, sj_token_type = sale_token_type sale,
      sj_start = sale_start sale, sj_end = sale_end sale, sj_origins = sale_origins sale\<rparr>"

record auction_json =
  aj_owner_id :: account
  aj_nft_contract_id :: account
  aj_token_id :: string
  aj_bid :: "bid option"
  aj_created_at :: timestamp
  aj_ft_token_id :: account
  aj_minimal_step :: balance
  aj_start_price :: balance
  aj_buy_out_price :: "balance option"
  aj_start :: timestamp
  aj_end :: timestamp

definition json_from_auction :: "auction \<Rightarrow> auction_json" where
  "json_from_auction auction =
     \<lparr>aj_owner_id = auction_owner_id auction, aj_nft_contract_id = auction_nft_contract_id auction,
      aj_token_id = auction_token_id auction, aj_bid = auction_bid auction,
      aj_created_at = auction_created_at auction, aj_ft_token_id = auction_ft_token_id auction,
      aj_minimal_step = auction_minimal_step auction, aj_start_price = auction_start_price auction,
      aj_buy_out_price = auction_buy_out_price auction, aj_start = auction_start auction,
      aj_end = auction_end auction\<rparr>"

section \<open>Example states\<close>

text \<open>
  Concrete data the witnesses evaluate on: token \<open>1:1\<close> of contract \<open>nft\<close> listed
  by \<open>alice\<close> for 10000 yoctoNEAR in a market created by \<open>market\<close>, bids without
  fee shares, five increasing bids, and an environment at block time 10.
\<close>

definition demo_sale :: sale where
  "demo_sale =
     \<lparr>sale_owner_id = ''alice'', sale_approval_id = 0, sale_nft_contract_id = ''nft'',
      sale_token_id = ''1:1'', sale_conditions = [(NEAR, 10000)], sale_bids = [],
      sale_created_at = 0, sale_token_type = None, sale_start = Some 0, sale_end = None,
      sale_origins = []\<rparr>"

definition demo_key :: string where
  "demo_key = contract_and_token_id ''nft'' ''1:1''"

definition demo_market :: market where
  "demo_market =
     (market_new [''nft''] ''market'')\<lparr>sales := [demo_key \<mapsto> demo_sale], sale_keys := [demo_key],
        by_owner_id := [''alice'' \<mapsto> [demo_key]], by_nft_contract_id := [''nft'' \<mapsto> [''1:1'']]\<rparr>"

definition demo_bid :: "account \<Rightarrow> balance \<Rightarrow> bid" where
  "demo_bid who p = \<lparr>bid_owner_id = who, bid_price = p, bid_start = 1, bid_end = None, bid_origins = []\<rparr>"

definition demo_env :: "account \<Rightarrow> balance \<Rightarrow> env" where
  "demo_env caller deposit =
     \<lparr>block_timestamp = 10, predecessor_account_id = caller, signer_account_id = caller,
      attached_deposit = deposit, current_account_id = ''market''\<rparr>"

definition demo_five :: "bid list" where
  "demo_five = [demo_bid ''b1'' 10300, demo_bid ''b2'' 10400, demo_bid ''b3'' 10500,
                demo_bid ''b4'' 10600, demo_bid ''b5'' 10700]"

lemma paid_simps [simp]:
  "paid [] = []"
  "paid (Pay t # es) = t # paid es"
  "paid (TransferPayout c k # es) = paid es"
  "paid (es @ fs) = paid es @ paid fs"
  by (simp_all add: paid_def)

lemma paid_map_Pay [simp]: "paid (map Pay ts) = ts"
  by (induction ts) simp_all

section \<open>Keys of the sales\<close>

text \<open>
  No valid account identifier contains the bar of the delimiter, so a key made of one is
  read back unambiguously; without that restriction two listings would share a key.
\<close>

lemma valid_account_id_no_bar: "valid_account_id a \<Longrightarrow> CHR ''|'' \<notin> set a"
proof
  assume "valid_account_id a" and bar: "CHR ''|'' \<in> set a"
  then have "\<forall>x\<in>set a. account_char x" by (simp add: valid_account_id_def list_all_iff)
  with bar have "account_char CHR ''|''" by blast
  then show False by (simp add: account_char_def)
qed

lemma append_bar_inj:
  "CHR ''|'' \<notin> set c1 \<Longrightarrow> CHR ''|'' \<notin> set c2 \<Longrightarrow>
     c1 @ CHR ''|'' # r1 = c2 @ CHR ''|'' # r2 \<longleftrightarrow> c1 = c2 \<and> r1 = r2"
proof (induction c1 arbitrary: c2)
  case Nil
  then show ?case by (cases c2) auto
next
  case (Cons x xs)
  then show ?case by (cases c2) auto
qed

lemma sale_key_collision:
  "contract_and_token_id ''a|'' ''b'' = contract_and_token_id ''a'' ''|b''"
  by (simp add: contract_and_token_id_def DELIMETER_def)

text \<open>
  C32. A sale's storage key \<open>format!("{}{}{}", nft_contract_id, DELIMETER, token_id)\<close>
  identifies the listing: for contract accounts that are valid NEAR account identifiers,
  two keys are equal exactly when the contracts and the token identifiers are, whatever
  the token identifiers contain.
\<close>

theorem sale_key_injective:
  assumes "valid_account_id c1" and "valid_account_id c2"
  shows "contract_and_token_id c1 t1 = contract_and_token_id c2 t2 \<longleftrightarrow> c1 = c2 \<and> t1 = t2"
proof -
  have "c1 @ CHR ''|'' # CHR ''|'' # t1 = c2 @ CHR ''|'' # CHR ''|'' # t2 \<longleftrightarrow> c1 = c2 \<and> t1 = t2"
    using append_bar_inj [OF valid_account_id_no_bar [OF assms(1)] valid_account_id_no_bar [OF assms(2)],
        of "CHR ''|'' # t1" "CHR ''|'' # t2"]
    by simp
  then show ?thesis unfolding contract_and_token_id_def DELIMETER_def by simp
qed

theorem sale_key_injective_witness:
  "valid_account_id ''nft'' \<and> valid_account_id ''nft.x'' \<and>
   contract_and_token_id ''nft'' ''1:1'' \<noteq> contract_and_token_id ''nft.x'' ''1:1''"
proof -
  have v: "valid_account_id ''nft''" "valid_account_id ''nft.x''"
    by (simp_all add: valid_account_id_def account_char_def)
  from sale_key_injective [OF v, of "''1:1''" "''1:1''"] v show ?thesis by simp
qed

text \<open>The first-match removal of \<open>internal_remove_bid\<close> on a bucket of the example bids.\<close>

theorem remove_bid_at_first_match_witness:
  "remove_bid_at ''bob'' 200 [demo_bid ''ann'' 200, demo_bid ''bob'' 200, demo_bid ''bob'' 200, demo_bid ''cat'' 300] =
     Some (demo_bid ''bob'' 200, [demo_bid ''ann'' 200, demo_bid ''bob'' 200, demo_bid ''cat'' 300]) \<and>
   remove_bid_at ''bob'' 200 [demo_bid ''ann'' 200] = None"
  using remove_bid_at_first_match [of "[demo_bid ''ann'' 200]" "''bob''" 200 "demo_bid ''bob'' 200"
      "[demo_bid ''bob'' 200, demo_bid ''cat'' 300]" "[demo_bid ''ann'' 200]"]
  by (simp add: demo_bid_def)

end
