(* ===== verification/Directory.thy ===== *)
theory Directory
  imports Market
begin

text \<open>
  The marketplace directory: the three secondary indices of listings (by owner, by NFT
  contract, by token type) kept beside the map of sales. \<open>index_insert\<close> is the
  get-or-create-then-insert pattern of \<open>start_sale\<close> (sale.rs); \<open>index_remove\<close> is
  the get-expect-remove-and-drop-if-empty pattern of \<open>internal_remove_sale\<close> (inner.rs),
  which removes a sale from storage and from every index. An index entry is the element
  vector of a near-sdk \<open>UnorderedSet\<close>. The lemmas give the result of a removal, show
  that it panics only when an index misses the sale's entry, which the directory
  invariant excludes, and that the vector updates implement the updates of sets.
\<close>

section \<open>Unordered sets\<close>

text \<open>
  near-sdk's \<open>UnorderedSet\<close> keeps its elements in a vector beside a map from element to
  position: \<open>insert\<close> pushes an element that is not there yet; \<open>remove\<close> moves the last
  element into the place of the removed one and pops (\<open>swap_remove\<close>), so removals
  reorder the vector that the views page through.
\<close>

definition uset_insert :: "'a list \<Rightarrow> 'a \<Rightarrow> 'a list" where
  "uset_insert xs x = (if x \<in> set xs then xs else xs @ [x])"

definition uset_remove :: "'a list \<Rightarrow> 'a \<Rightarrow> 'a list" where
  "uset_remove xs x =
     (case find (\<lambda>(i, y). y = x) (enumerate 0 xs) of
        None \<Rightarrow> xs
      | Some (i, _) \<Rightarrow> butlast (xs[i := last xs]))"

section \<open>Unordered maps\<close>

text \<open>
  near-sdk's \<open>UnorderedMap\<close> keeps a vector of keys and a vector of values beside a map
  from key to position: \<open>insert\<close> at a new key pushes both, \<open>insert\<close> at a present key
  replaces the value in place, \<open>remove\<close> swap-removes both. The model keeps the lookup
  as a HOL map and the key vector as a list that the handlers update with
  \<open>uset_insert\<close> and \<open>uset_remove\<close>; \<open>keys_of\<close> is the representation invariant
  that ties them, and \<open>values()\<close> is the lookup of each key in vector order.
\<close>

definition keys_of :: "'k list \<Rightarrow> ('k \<rightharpoonup> 'v) \<Rightarrow> bool" where
  "keys_of ks M = (distinct ks \<and> set ks = dom M)"

definition umap_values :: "'k list \<Rightarrow> ('k \<rightharpoonup> 'v) \<Rightarrow> 'v list" where
  "umap_values ks M = map (\<lambda>k. the (M k)) ks"

section \<open>Index updates\<close>

definition index_insert :: "('k \<rightharpoonup> 'a list) \<Rightarrow> 'k \<Rightarrow> 'a \<Rightarrow> ('k \<rightharpoonup> 'a list)" where
  "index_insert idx k x = idx(k \<mapsto> uset_insert (case idx k of None \<Rightarrow> [] | Some s \<Rightarrow> s) x)"

definition index_remove :: "('k \<rightharpoonup> 'a list) \<Rightarrow> 'k \<Rightarrow> 'a \<Rightarrow> ('k \<rightharpoonup> 'a list) option" where
  "index_remove idx k x =
     (case idx k of
        None \<Rightarrow> None
      | Some s \<Rightarrow> (let s' = uset_remove s x in Some (if s' = [] then idx(k := None) else idx(k \<mapsto> s'))))"

definition internal_remove_sale :: "market \<Rightarrow> account \<Rightarrow> string \<Rightarrow> error + (market \<times> sale)" where
  "internal_remove_sale m nft_contract_id token_id =
     (let contract_and_token_id = contract_and_token_id nft_contract_id token_id in
      case sales m contract_and_token_id of
        None \<Rightarrow> Inl NoSale
      | Some sale \<Rightarrow>
          (case index_remove (by_owner_id m) (sale_owner_id sale) contract_and_token_id of
             None \<Rightarrow> Inl IndexEntryMissing
           | Some bo \<Rightarrow>
               (case index_remove (by_nft_contract_id m) nft_contract_id token_id of
                  None \<Rightarrow> Inl IndexEntryMissing
                | Some bc \<Rightarrow>
                    (let m' = m\<lparr>sales := (sales m)(contract_and_token_id := None),
                                sale_keys := uset_remove (sale_keys m) contract_and_token_id,
                                by_owner_id := bo, by_nft_contract_id := bc\<rparr> in
                     case sale_token_type sale of
                       None \<Rightarrow> Inr (m', sale)
                     | Some token_type \<Rightarrow>
                         (case index_remove (by_nft_token_type m') token_type contract_and_token_id of
                            None \<Rightarrow> Inl IndexEntryMissing
                          | Some bt \<Rightarrow> Inr (m'\<lparr>by_nft_token_type := bt\<rparr>, sale))))))"

section \<open>The indices as sets\<close>

text \<open>
  The contract uses an index as a set of keys: \<open>abs_index\<close> forgets the order of the
  vectors, and \<open>set_index_insert\<close> and \<open>set_index_remove\<close> are the updates on sets
  that \<open>start_sale\<close> and \<open>internal_remove_sale\<close> mean.
\<close>

definition abs_index :: "('k \<rightharpoonup> 'a list) \<Rightarrow> ('k \<rightharpoonup> 'a set)" where
  "abs_index idx = (\<lambda>k. map_option set (idx k))"

definition set_index_insert :: "('k \<rightharpoonup> 'a set) \<Rightarrow> 'k \<Rightarrow> 'a \<Rightarrow> ('k \<rightharpoonup> 'a set)" where
  "set_index_insert idx k x = idx(k \<mapsto> insert x (case idx k of None \<Rightarrow> {} | Some s \<Rightarrow> s))"

definition set_index_remove :: "('k \<rightharpoonup> 'a set) \<Rightarrow> 'k \<Rightarrow> 'a \<Rightarrow> ('k \<rightharpoonup> 'a set) option" where
  "set_index_remove idx k x =
     (case idx k of
        None \<Rightarrow> None
      | Some s \<Rightarrow> Some (if s - {x} = {} then idx(k := None) else idx(k \<mapsto> s - {x})))"

section \<open>Lemmas\<close>

lemma set_uset_insert [simp]: "set (uset_insert xs x) = insert x (set xs)"
  by (auto simp: uset_insert_def)

lemma length_uset_insert: "length (uset_insert xs x) \<le> Suc (length xs)"
  by (simp add: uset_insert_def)

lemma distinct_uset_insert: "distinct xs \<Longrightarrow> distinct (uset_insert xs x)"
  by (simp add: uset_insert_def)

lemma find_enumerate_Some:
  "find (\<lambda>(i, y). y = x) (enumerate 0 xs) = Some (i, z) \<Longrightarrow> i < length xs \<and> xs ! i = x \<and> z = x"
proof -
  assume "find (\<lambda>(i, y). y = x) (enumerate 0 xs) = Some (i, z)"
  then have "(i, z) \<in> set (enumerate 0 xs)" and "z = x"
    by (auto dest: find_Some_set)
  then show ?thesis by (simp add: in_set_enumerate_eq)
qed

lemma find_enumerate_None:
  "find (\<lambda>(i, y). y = x) (enumerate 0 xs) = None \<longleftrightarrow> x \<notin> set xs"
proof -
  have "x \<in> set xs \<longleftrightarrow> (\<exists>p\<in>set (enumerate 0 xs). snd p = x)"
    by (metis (no_types, lifting) map_snd_enumerate image_iff set_map)
  then show ?thesis by (auto simp: find_None_iff)
qed

lemma set_swap_remove:
  assumes "i < length xs"
  shows "set xs - {xs ! i} \<subseteq> set (butlast (xs[i := last xs]))"
proof
  fix y assume "y \<in> set xs - {xs ! i}"
  then obtain j where j: "j < length xs" "xs ! j = y" and ne: "j \<noteq> i"
    by (auto simp: in_set_conv_nth)
  show "y \<in> set (butlast (xs[i := last xs]))"
  proof (cases "j = length xs - 1")
    case True
    have "xs \<noteq> []" using j by auto
    with j True have "y = last xs" by (simp add: last_conv_nth)
    moreover from True ne assms have "i < length xs - 1" by simp
    ultimately show ?thesis using assms
      by (auto simp: in_set_conv_nth nth_butlast intro!: exI [of _ i])
  next
    case False
    with j ne assms show ?thesis
      by (auto simp: in_set_conv_nth nth_butlast intro!: exI [of _ j])
  qed
qed

lemma uset_remove_keeps: "y \<in> set xs \<Longrightarrow> y \<noteq> x \<Longrightarrow> y \<in> set (uset_remove xs x)"
proof (cases "find (\<lambda>(i, y). y = x) (enumerate 0 xs)")
  case (Some p)
  then obtain i z where p: "find (\<lambda>(i, y). y = x) (enumerate 0 xs) = Some (i, z)" by (cases p) auto
  assume "y \<in> set xs" "y \<noteq> x"
  with find_enumerate_Some [OF p] set_swap_remove [of i xs] p show ?thesis
    by (auto simp: uset_remove_def)
qed (simp add: uset_remove_def)

lemma set_uset_remove_subset: "set (uset_remove xs x) \<subseteq> set xs"
proof (cases "find (\<lambda>(i, y). y = x) (enumerate 0 xs)")
  case (Some p)
  then obtain i z where p: "find (\<lambda>(i, y). y = x) (enumerate 0 xs) = Some (i, z)" by (cases p) auto
  from find_enumerate_Some [OF p] have "xs \<noteq> []" by auto
  then have "set (xs[i := last xs]) \<subseteq> set xs"
    using set_update_subset_insert [of xs i "last xs"] last_in_set by blast
  with p show ?thesis by (auto simp: uset_remove_def dest: in_set_butlastD)
qed (simp add: uset_remove_def)

lemma distinct_swap_remove:
  assumes d: "distinct xs" and i: "i < length xs"
  shows "distinct (butlast (xs[i := last xs]))"
proof (cases "i = length xs - 1")
  case True
  from i have "xs \<noteq> []" by auto
  with True have "xs[i := last xs] = xs" by (simp add: last_conv_nth)
  with d show ?thesis by (simp add: distinct_butlast)
next
  case False
  from i obtain ys l where xs: "xs = ys @ [l]" by (cases xs rule: rev_cases) auto
  with i False have iy: "i < length ys" by simp
  from d xs have "distinct ys" "l \<notin> set ys" by simp_all
  then have "distinct (ys[i := l])" by (simp add: distinct_list_update)
  with xs iy show ?thesis by (simp add: list_update_append butlast_append)
qed

lemma distinct_uset_remove: "distinct xs \<Longrightarrow> distinct (uset_remove xs x)"
proof (cases "find (\<lambda>(i, y). y = x) (enumerate 0 xs)")
  case (Some p)
  then obtain i z where p: "find (\<lambda>(i, y). y = x) (enumerate 0 xs) = Some (i, z)" by (cases p) auto
  assume "distinct xs"
  with find_enumerate_Some [OF p] distinct_swap_remove [of xs i] p show ?thesis
    by (simp add: uset_remove_def)
qed (simp add: uset_remove_def)

lemma length_uset_remove: "length (uset_remove xs x) \<le> length xs"
  by (auto simp: uset_remove_def split: option.splits)


lemma index_remove_Some:
  assumes "index_remove idx k x = Some idx'"
  shows "\<exists>s. idx k = Some s \<and> (\<forall>k'. k' \<noteq> k \<longrightarrow> idx' k' = idx k') \<and>
           idx' k = (if uset_remove s x = [] then None else Some (uset_remove s x))"
proof (cases "idx k")
  case None
  with assms show ?thesis by (simp add: index_remove_def)
next
  case (Some s)
  with assms have "idx' = (if uset_remove s x = [] then idx(k := None) else idx(k \<mapsto> uset_remove s x))"
    by (simp add: index_remove_def Let_def)
  with Some show ?thesis by simp
qed
lemma index_remove_other:
  assumes r: "index_remove idx k x = Some idx'" and ne: "k' \<noteq> k"
  shows "idx' k' = idx k'"
proof -
  from index_remove_Some [OF r] have "\<forall>k'. k' \<noteq> k \<longrightarrow> idx' k' = idx k'" by blast
  with ne show ?thesis by simp
qed
lemma index_remove_defined [simp]:
  "(index_remove idx k x = None) = (idx k = None)"
  by (cases "idx k") (simp_all add: index_remove_def Let_def)
lemma index_insert_at [simp]:
  "index_insert idx k x k = Some (uset_insert (case idx k of None \<Rightarrow> [] | Some s \<Rightarrow> s) x)"
  by (simp add: index_insert_def)

lemma index_insert_other [simp]: "k' \<noteq> k \<Longrightarrow> index_insert idx k x k' = idx k'"
  by (simp add: index_insert_def)

text \<open>
  A removal takes the sale out of the map of sales and leaves every other listing and
  the auctions untouched.
\<close>

lemma internal_remove_sale_Inr:
  assumes "internal_remove_sale m c t = Inr (m', s)"
  shows "sales m (contract_and_token_id c t) = Some s"
    and "sales m' = (sales m)(contract_and_token_id c t := None)"
    and "auctions m' = auctions m" and "ft_token_ids m' = ft_token_ids m"
    and "bid_history_length m' = bid_history_length m"
    and "storage_deposits m' = storage_deposits m"
    and "next_auction_id m' = next_auction_id m"
  using assms
  by (auto simp: internal_remove_sale_def Let_def split: option.splits)
lemma internal_remove_sale_NoSale:
  "sales m (contract_and_token_id c t) = None \<Longrightarrow> internal_remove_sale m c t = Inl NoSale"
  by (simp add: internal_remove_sale_def)

lemma length_uset_remove_mem:
  "x \<in> set xs \<Longrightarrow> length (uset_remove xs x) = length xs - 1"
proof -
  assume "x \<in> set xs"
  then obtain i z where p: "find (\<lambda>(i, y). y = x) (enumerate 0 xs) = Some (i, z)"
    using find_enumerate_None [of x xs] by (cases "find (\<lambda>(i, y). y = x) (enumerate 0 xs)") auto
  then show ?thesis by (simp add: uset_remove_def)
qed

lemma set_uset_remove_distinct:
  assumes d: "distinct xs"
  shows "set (uset_remove xs x) = set xs - {x}"
proof (cases "x \<in> set xs")
  case False
  then have "find (\<lambda>(i, y). y = x) (enumerate 0 xs) = None" by (simp add: find_enumerate_None)
  with False show ?thesis by (simp add: uset_remove_def)
next
  case True
  have sub: "set xs - {x} \<subseteq> set (uset_remove xs x)"
  proof
    fix y assume "y \<in> set xs - {x}"
    then show "y \<in> set (uset_remove xs x)" by (simp add: uset_remove_keeps)
  qed
  have "card (set (uset_remove xs x)) = length (uset_remove xs x)"
    by (rule distinct_card [OF distinct_uset_remove [OF d]])
  also have "\<dots> = length xs - 1" by (rule length_uset_remove_mem [OF True])
  also have "\<dots> = card (set xs - {x})"
    using True by (simp add: card_Diff_singleton distinct_card [OF d])
  finally have "card (set xs - {x}) = card (set (uset_remove xs x))" by simp
  from card_subset_eq [OF finite_set sub this] show ?thesis by simp
qed

lemma keys_of_empty [simp]: "keys_of [] Map.empty"
  by (simp add: keys_of_def)

lemma keys_of_insert: "keys_of ks M \<Longrightarrow> keys_of (uset_insert ks k) (M(k \<mapsto> v))"
  by (simp add: keys_of_def distinct_uset_insert)

lemma keys_of_remove: "keys_of ks M \<Longrightarrow> keys_of (uset_remove ks k) (M(k := None))"
  by (simp add: keys_of_def distinct_uset_remove set_uset_remove_distinct)

lemma keys_of_update: "keys_of ks M \<Longrightarrow> M k \<noteq> None \<Longrightarrow> keys_of ks (M(k \<mapsto> v))"
  by (auto simp: keys_of_def)

lemma set_umap_values: "keys_of ks M \<Longrightarrow> set (umap_values ks M) = ran M"
  by (force simp: keys_of_def umap_values_def ran_def)

lemma length_umap_values: "keys_of ks M \<Longrightarrow> length (umap_values ks M) = card (dom M)"
  by (auto simp: keys_of_def umap_values_def distinct_card [symmetric])

text \<open>
  The vector indices implement the set indices: on indices whose vectors have no
  duplicates, inserting a key and removing a key (push, and swap-and-pop of near-sdk's
  \<open>UnorderedSet\<close>, dropping an emptied entry) act on the underlying sets exactly as
  insertion and removal of the key, and a removal fails exactly when the entry is missing.
\<close>

theorem index_refines_set_index:
  assumes d: "\<forall>k s. idx k = Some s \<longrightarrow> distinct s"
  shows "abs_index (index_insert idx k x) = set_index_insert (abs_index idx) k x \<and>
         map_option abs_index (index_remove idx k x) = set_index_remove (abs_index idx) k x"
proof
  show "abs_index (index_insert idx k x) = set_index_insert (abs_index idx) k x"
    by (rule ext) (auto simp: abs_index_def set_index_insert_def index_insert_def split: option.splits)
next
  show "map_option abs_index (index_remove idx k x) = set_index_remove (abs_index idx) k x"
  proof (cases "idx k")
    case None
    then show ?thesis by (simp add: index_remove_def set_index_remove_def abs_index_def)
  next
    case (Some s)
    with d have st: "set (uset_remove s x) = set s - {x}" by (simp add: set_uset_remove_distinct)
    then have e: "(uset_remove s x = []) = (set s - {x} = {})" by (metis set_empty)
    show ?thesis
      by (rule option.expand) (auto simp: Some index_remove_def set_index_remove_def abs_index_def Let_def st e)
  qed
qed

theorem index_refines_set_index_witness:
  "map_option abs_index (index_remove [''alice'' \<mapsto> [''a'', ''b'']] ''alice'' ''a'') =
     set_index_remove (abs_index [''alice'' \<mapsto> [''a'', ''b'']]) ''alice'' ''a''"
proof -
  have d: "\<forall>k s. [''alice'' \<mapsto> [''a'', ''b'']] k = Some s \<longrightarrow> distinct s" by simp
  from index_refines_set_index [OF d, of "''alice''" "''a''"] show ?thesis by blast
qed

end
