(* ===== verification/Sale.thy ===== *)
theory Sale
  imports Directory
begin

text \<open>
  The sale entity (src/market/src/sale.rs) and the handlers of the bid ledger that act on
  a sale (src/market/src/bid.rs, the bid part of inner.rs). Each handler takes the
  contract state, the environment and the call's arguments and returns a panic or the
  new state with the effects it issued, in order: payments (\<open>Pay\<close>) and the first phase
  of a settlement (\<open>TransferPayout\<close>: the call to the NFT contract and the callback to
  \<open>resolve_purchase\<close>). A panic reverts the whole call, so an \<open>Inl\<close> result leaves the
  state as it was.
\<close>

section \<open>Bid ledger handlers\<close>

definition add_bid ::
  "market \<Rightarrow> string \<Rightarrow> balance \<Rightarrow> account \<Rightarrow> account \<Rightarrow> sale \<Rightarrow> timestamp \<Rightarrow>
   timestamp option \<Rightarrow> origins option \<Rightarrow> error + (market \<times> effect list)" where
  "add_bid m ctid amount ft_token_id buyer_id sale start bid_end_at origins =
     (if ft_token_id \<notin> ft_token_ids m then Inl (TokenNotSupported ft_token_id)
      else case total_origins origins of
        None \<Rightarrow> Inl ArithmeticOverflow
      | Some tot \<Rightarrow>
          if \<not> tot < 4700 then Inl MaxOriginsExceeded
          else case calculate_actual_amount amount tot of
            None \<Rightarrow> Inl ArithmeticOverflow
          | Some actual_amount \<Rightarrow>
              (let new_bid = \<lparr>bid_owner_id = buyer_id, bid_price = amount, bid_start = start,
                              bid_end = bid_end_at, bid_origins = case_option [] id origins\<rparr>;
                   bids_for_token_id = case_option [] id (map_of (sale_bids sale) ft_token_id)
               in case ledger_submit (bid_history_length m) ft_token_id bids_for_token_id
                         new_bid actual_amount of
                    Inl e \<Rightarrow> Inl e
                  | Inr (bs, refunds) \<Rightarrow>
                      (let sale' = sale\<lparr>sale_bids := AList.update ft_token_id bs (sale_bids sale)\<rparr>
                       in Inr (m\<lparr>sales := (sales m)(ctid \<mapsto> sale')\<rparr>,
                               map Pay refunds))))"

definition internal_remove_bid ::
  "market \<Rightarrow> account \<Rightarrow> account \<Rightarrow> string \<Rightarrow> account \<Rightarrow> balance \<Rightarrow> error + (market \<times> bid option)" where
  "internal_remove_bid m nft_contract_id ft_token_id token_id owner_id price =
     (let ctid = contract_and_token_id nft_contract_id token_id in
      case sales m ctid of
        None \<Rightarrow> Inl NoSale
      | Some sale \<Rightarrow>
          (case map_of (sale_bids sale) ft_token_id of
             None \<Rightarrow> Inl NoToken
           | Some bid_vec \<Rightarrow>
               (case take_out_bid owner_id price bid_vec of
                  None \<Rightarrow> Inr (m, None)
                | Some (b, rest) \<Rightarrow>
                    (let sale' = sale\<lparr>sale_bids :=
                                   if length bid_vec = 1 then AList.delete ft_token_id (sale_bids sale)
                                   else AList.update ft_token_id rest (sale_bids sale)\<rparr>
                     in Inr (m\<lparr>sales := (sales m)(ctid \<mapsto> sale')\<rparr>, Some b)))))"

definition remove_bid ::
  "market \<Rightarrow> env \<Rightarrow> account \<Rightarrow> string \<Rightarrow> account \<Rightarrow> balance \<Rightarrow> error + (market \<times> effect list)" where
  "remove_bid m env nft_contract_id token_id ft_token_id price =
     (if attached_deposit env \<noteq> 1 then Inl RequiresOneYocto
      else (let owner_id = predecessor_account_id env in
            case internal_remove_bid m nft_contract_id ft_token_id token_id owner_id price of
              Inl e \<Rightarrow> Inl e
            | Inr (m', _) \<Rightarrow> Inr (m', [Pay (refund_bid ft_token_id owner_id price)])))"

definition cancel_bid ::
  "market \<Rightarrow> env \<Rightarrow> account \<Rightarrow> string \<Rightarrow> account \<Rightarrow> account \<Rightarrow> balance \<Rightarrow>
   error + (market \<times> effect list)" where
  "cancel_bid m env nft_contract_id token_id ft_token_id owner_id price =
     (case internal_remove_bid m nft_contract_id ft_token_id token_id owner_id price of
        Inl e \<Rightarrow> Inl e
      | Inr (m', None) \<Rightarrow> Inl NoSuchBid
      | Inr (m', Some b) \<Rightarrow>
          (case bid_end b of
             Some e \<Rightarrow>
               if block_timestamp env \<ge> e
               then Inr (m', [Pay (refund_bid ft_token_id owner_id price)])
               else Inl BidNotEnded
           | None \<Rightarrow> Inl BidHasNoEnd))"

definition cancel_expired_bids ::
  "market \<Rightarrow> env \<Rightarrow> account \<Rightarrow> string \<Rightarrow> account \<Rightarrow> error + (market \<times> effect list)" where
  "cancel_expired_bids m env nft_contract_id token_id ft_token_id =
     (let ctid = contract_and_token_id nft_contract_id token_id in
      case sales m ctid of
        None \<Rightarrow> Inl NoSale
      | Some sale \<Rightarrow>
          (case map_of (sale_bids sale) ft_token_id of
             None \<Rightarrow> Inl NoToken
           | Some bid_vec \<Rightarrow>
               (let (kept, refunds) = retain_unexpired (block_timestamp env) ft_token_id bid_vec;
                    sale' = sale\<lparr>sale_bids :=
                              if kept = [] then AList.delete ft_token_id (sale_bids sale)
                              else AList.update ft_token_id kept (sale_bids sale)\<rparr>
                in Inr (m\<lparr>sales := (sales m)(ctid \<mapsto> sale')\<rparr>, map Pay refunds))))"

section \<open>Sale handlers\<close>

text \<open>
  The first phase of settlement: the sale leaves storage and every index, and the
  market asks the NFT contract to transfer the token to the buyer and split the price,
  passing both fee-share sets with the protocol fee added; the callback receives the
  removed sale.
\<close>

definition process_purchase ::
  "market \<Rightarrow> env \<Rightarrow> account \<Rightarrow> string \<Rightarrow> account \<Rightarrow> balance \<Rightarrow> account \<Rightarrow> origins \<Rightarrow>
   error + (market \<times> effect list)" where
  "process_purchase m env nft_contract_id token_id ft_token_id price buyer_id origins =
     (case internal_remove_sale m nft_contract_id token_id of
        Inl e \<Rightarrow> Inl e
      | Inr (m', sale) \<Rightarrow>
          (let fees = \<lparr>fees_buyer = with_protocol_fee (current_account_id env) origins,
                       fees_seller = with_protocol_fee (current_account_id env) (sale_origins sale)\<rparr>;
               call = \<lparr>pc_receiver_id = buyer_id, pc_token_id = token_id,
                       pc_approval_id = sale_approval_id sale, pc_memo = fees, pc_balance = price,
                       pc_max_len_payout = 10, pc_nft_contract_id = nft_contract_id\<rparr>
           in Inr (m', [TransferPayout call (ResolvePurchase ft_token_id buyer_id sale price)])))"

definition offer ::
  "market \<Rightarrow> env \<Rightarrow> account \<Rightarrow> string \<Rightarrow> account \<Rightarrow> timestamp option \<Rightarrow> timestamp option \<Rightarrow>
   origins option \<Rightarrow> error + (market \<times> effect list)" where
  "offer m env nft_contract_id token_id ft_token_id start duration origins =
     (let ctid = contract_and_token_id nft_contract_id token_id;
          now = block_timestamp env in
      case sales m ctid of
        None \<Rightarrow> Inl NoSale
      | Some sale \<Rightarrow>
          if \<not> sale_in_limits sale now then Inl SaleNotInProgress
          else (let buyer_id = predecessor_account_id env in
            if sale_owner_id sale = buyer_id then Inl CannotBidOwnSale
            else case map_of (sale_conditions sale) ft_token_id of
              None \<Rightarrow> Inl NotSupportedFt
            | Some price \<Rightarrow>
                (let deposit = attached_deposit env in
                 if \<not> 0 < deposit then Inl ZeroDeposit
                 else case calculate_price_with_fees price origins of
                   None \<Rightarrow> Inl ArithmeticOverflow
                 | Some with_fees \<Rightarrow>
                     if deposit = with_fees
                     then process_purchase m env nft_contract_id token_id ft_token_id deposit buyer_id
                            (case_option [] id origins)
                     else (let start' = case_option now id start in
                           case duration of
                             None \<Rightarrow> add_bid m ctid deposit ft_token_id buyer_id sale start' None origins
                           | Some d \<Rightarrow>
                               if u64_max < d + start' then Inl ArithmeticOverflow
                               else add_bid m ctid deposit ft_token_id buyer_id sale start'
                                      (Some (d + start')) origins))))"

definition accept_offer ::
  "market \<Rightarrow> env \<Rightarrow> account \<Rightarrow> string \<Rightarrow> account \<Rightarrow> error + (market \<times> effect list)" where
  "accept_offer m env nft_contract_id token_id ft_token_id =
     (let ctid = contract_and_token_id nft_contract_id token_id;
          now = block_timestamp env in
      case sales m ctid of
        None \<Rightarrow> Inl NoSale
      | Some sale \<Rightarrow>
          if \<not> sale_in_limits sale now then Inl SaleNotInProgress
          else case map_of (sale_bids sale) ft_token_id of
            None \<Rightarrow> Inl NoBids
          | Some bids_for_token_id \<Rightarrow>
              (let sale' = sale\<lparr>sale_bids := AList.delete ft_token_id (sale_bids sale)\<rparr> in
               if bids_for_token_id = [] then Inl IndexOutOfBounds
               else (let bid = last bids_for_token_id in
                     if \<not> bid_in_limits bid now then Inl BidOutOfTime
                     else process_purchase (m\<lparr>sales := (sales m)(ctid \<mapsto> sale')\<rparr>) env
                            nft_contract_id token_id ft_token_id (bid_price bid) (bid_owner_id bid)
                            (bid_origins bid))))"

definition remove_sale :: "market \<Rightarrow> env \<Rightarrow> account \<Rightarrow> string \<Rightarrow> error + (market \<times> effect list)" where
  "remove_sale m env nft_contract_id token_id =
     (if attached_deposit env \<noteq> 1 then Inl RequiresOneYocto
      else case internal_remove_sale m nft_contract_id token_id of
        Inl e \<Rightarrow> Inl e
      | Inr (m', sale) \<Rightarrow>
          (let owner_id = predecessor_account_id env in
           if sale_in_limits sale (block_timestamp env) \<and> owner_id \<noteq> sale_owner_id sale
           then Inl OnlyOwnerCanRemove
           else Inr (m', map Pay (refund_all_bids (sale_bids sale)))))"

definition update_price ::
  "market \<Rightarrow> env \<Rightarrow> account \<Rightarrow> string \<Rightarrow> account \<Rightarrow> balance \<Rightarrow> error + (market \<times> effect list)" where
  "update_price m env nft_contract_id token_id ft_token_id price =
     (if attached_deposit env \<noteq> 1 then Inl RequiresOneYocto
      else (let ctid = contract_and_token_id nft_contract_id token_id in
            case sales m ctid of
              None \<Rightarrow> Inl NoSale
            | Some sale \<Rightarrow>
                if predecessor_account_id env \<noteq> sale_owner_id sale then Inl NotSaleOwner
                else if ft_token_id \<notin> ft_token_ids m then Inl (TokenNotSupported ft_token_id)
                else Inr (m\<lparr>sales := (sales m)(ctid \<mapsto>
                            sale\<lparr>sale_conditions := AList.update ft_token_id price (sale_conditions sale)\<rparr>)\<rparr>,
                          [])))"

section \<open>Invariant of the ledgers\<close>

text \<open>
  Every bucket of a sale is non-empty and well formed (Bid.thy), and its currencies are
  distinct keys; a market is well formed when every stored sale is. The escrow of a
  sale is the total price of the bids it holds.
\<close>

definition sale_ledger_ok :: "nat \<Rightarrow> sale \<Rightarrow> bool" where
  "sale_ledger_ok n s =
     (distinct (map fst (sale_bids s)) \<and> (\<forall>(ft, bs) \<in> set (sale_bids s). bs \<noteq> [] \<and> bucket_ok n bs))"

definition market_ledgers_ok :: "market \<Rightarrow> bool" where
  "market_ledgers_ok m = (\<forall>k s. sales m k = Some s \<longrightarrow> sale_ledger_ok (bid_history_length m) s)"

definition sale_escrow :: "sale \<Rightarrow> balance" where
  "sale_escrow s = sum_list (map (\<lambda>(ft, bs). escrow bs) (sale_bids s))"

abbreviation new_bid :: "account \<Rightarrow> balance \<Rightarrow> timestamp \<Rightarrow> timestamp option \<Rightarrow> origins option \<Rightarrow> bid" where
  "new_bid buyer_id amount start e origins \<equiv>
     \<lparr>bid_owner_id = buyer_id, bid_price = amount, bid_start = start, bid_end = e,
      bid_origins = case_option [] id origins\<rparr>"

section \<open>Lemmas on the ledger handlers\<close>

lemma bid_actual_amount_new_bid:
  "bid_actual_amount (new_bid b amount s e origins) =
     (case total_origins origins of None \<Rightarrow> None | Some w \<Rightarrow> calculate_actual_amount amount w)"
  by (cases origins) (simp_all add: bid_actual_amount_def split: option.splits)

lemma add_bid_Inr:
  assumes "add_bid m ctid amount ft buyer sale start e origins = Inr (m', effs)"
  obtains tot a bs' refunds where "ft \<in> ft_token_ids m" and "total_origins origins = Some tot"
    and "tot < 4700" and "calculate_actual_amount amount tot = Some a"
    and "ledger_submit (bid_history_length m) ft (case_option [] id (map_of (sale_bids sale) ft))
           (new_bid buyer amount start e origins) a = Inr (bs', refunds)"
    and "m' = m\<lparr>sales := (sales m)(ctid \<mapsto> sale\<lparr>sale_bids := AList.update ft bs' (sale_bids sale)\<rparr>)\<rparr>"
    and "effs = map Pay refunds"
  using assms
  by (auto simp: add_bid_def Let_def split: if_splits option.splits sum.splits prod.splits)

lemma sale_ledger_ok_update:
  assumes ok: "sale_ledger_ok n s" and ne: "bs \<noteq> []" and b: "bucket_ok n bs"
  shows "sale_ledger_ok n (s\<lparr>sale_bids := AList.update ft bs (sale_bids s)\<rparr>)"
proof -
  have "distinct (map fst (AList.update ft bs (sale_bids s)))"
    using ok by (simp add: sale_ledger_ok_def distinct_update)
  moreover have "set (AList.update ft bs (sale_bids s)) \<subseteq> insert (ft, bs) (set (sale_bids s))"
    by (rule set_update_subset)
  ultimately show ?thesis using ok ne b by (fastforce simp: sale_ledger_ok_def)
qed

lemma sale_ledger_ok_delete:
  "sale_ledger_ok n s \<Longrightarrow> sale_ledger_ok n (s\<lparr>sale_bids := AList.delete ft (sale_bids s)\<rparr>)"
  using set_delete_subset [of ft "sale_bids s"]
  by (fastforce simp: sale_ledger_ok_def distinct_delete)

lemma sale_ledger_ok_bucket:
  "sale_ledger_ok n s \<Longrightarrow> map_of (sale_bids s) ft = Some bs \<Longrightarrow> bs \<noteq> [] \<and> bucket_ok n bs"
  by (auto simp: sale_ledger_ok_def dest!: map_of_SomeD)

lemma market_ledgers_ok_store:
  "market_ledgers_ok m \<Longrightarrow> sale_ledger_ok (bid_history_length m) s \<Longrightarrow>
     market_ledgers_ok (m\<lparr>sales := (sales m)(k \<mapsto> s)\<rparr>)"
  by (simp add: market_ledgers_ok_def)

lemma market_ledgers_ok_sale:
  "market_ledgers_ok m \<Longrightarrow> sales m k = Some s \<Longrightarrow> sale_ledger_ok (bid_history_length m) s"
  by (simp add: market_ledgers_ok_def)

text \<open>
  An accepted bid stores back the same sale (same owner, listing and token type) with
  the bucket of its currency replaced by a non-empty, well-formed one.
\<close>

lemma add_bid_stores:
  assumes sok: "sale_ledger_ok (bid_history_length m) sale" and n: "0 < bid_history_length m"
    and r: "add_bid m ctid amount ft buyer sale start e origins = Inr (m', effs)"
  shows "\<exists>bs'. m' = m\<lparr>sales := (sales m)(ctid \<mapsto> sale\<lparr>sale_bids := AList.update ft bs' (sale_bids sale)\<rparr>)\<rparr> \<and>
           sale_ledger_ok (bid_history_length m) (sale\<lparr>sale_bids := AList.update ft bs' (sale_bids sale)\<rparr>)"
proof -
  obtain tot a bs' refunds where w: "total_origins origins = Some tot"
    and a: "calculate_actual_amount amount tot = Some a"
    and sub: "ledger_submit (bid_history_length m) ft (case_option [] id (map_of (sale_bids sale) ft))
                (new_bid buyer amount start e origins) a = Inr (bs', refunds)"
    and m': "m' = m\<lparr>sales := (sales m)(ctid \<mapsto> sale\<lparr>sale_bids := AList.update ft bs' (sale_bids sale)\<rparr>)\<rparr>"
    by (rule add_bid_Inr [OF r])
  have "bucket_ok (bid_history_length m) (case_option [] id (map_of (sale_bids sale) ft))"
    using sale_ledger_ok_bucket [OF sok] by (auto simp: bucket_ok_def split: option.splits)
  moreover have "bid_actual_amount (new_bid buyer amount start e origins) = Some a"
    using w a by (simp add: bid_actual_amount_new_bid)
  ultimately have bok: "bucket_ok (bid_history_length m) bs'"
    using sub by (rule ledger_submit_bucket_ok)
  have "push_bid (bid_history_length m) ft (case_option [] id (map_of (sale_bids sale) ft))
          (new_bid buyer amount start e origins) = (bs', refunds)"
    using ledger_submit_Inr_push [OF sub] by simp
  then have "bs' \<noteq> []" using push_bid_last [OF n] by blast
  with bok sok m' show ?thesis by (auto simp: sale_ledger_ok_update)
qed

text \<open>
  C2. Bid-ledger invariant: \<open>add_bid\<close> keeps every sale's buckets non-empty, no longer
  than the history length and strictly increasing in net amount (fee-exclusive actual
  amount), so the stored bids of a currency are always ordered from lowest to highest
  and the last one is the highest.
\<close>

theorem add_bid_keeps_ledgers:
  assumes ok: "market_ledgers_ok m" and n: "0 < bid_history_length m"
    and s: "sales m ctid = Some sale"
    and r: "add_bid m ctid amount ft buyer sale start e origins = Inr (m', effs)"
  shows "market_ledgers_ok m'"
proof -
  from add_bid_stores [OF market_ledgers_ok_sale [OF ok s] n r] obtain sale' where
    "m' = m\<lparr>sales := (sales m)(ctid \<mapsto> sale')\<rparr>" and "sale_ledger_ok (bid_history_length m) sale'"
    by blast
  with ok show ?thesis by (simp add: market_ledgers_ok_store)
qed
lemma demo_market_ledgers_ok: "market_ledgers_ok demo_market"
  by (simp add: market_ledgers_ok_def sale_ledger_ok_def demo_market_def demo_sale_def market_new_def)

theorem add_bid_keeps_ledgers_witness:
  "\<exists>r. add_bid demo_market demo_key 10300 NEAR ''bob'' demo_sale 1 None None = Inr r \<and>
       market_ledgers_ok (fst r)"
proof -
  have n: "0 < bid_history_length demo_market"
    by (simp add: demo_market_def market_new_def market_consts)
  have s: "sales demo_market demo_key = Some demo_sale" by (simp add: demo_market_def)
  obtain r where r: "add_bid demo_market demo_key 10300 NEAR ''bob'' demo_sale 1 None None = Inr r"
    by (simp add: add_bid_def demo_market_def demo_sale_def market_new_def calculate_actual_amount_def
        ledger_submit_def push_bid_def market_consts)
  have "market_ledgers_ok (fst r)"
    using add_bid_keeps_ledgers [OF demo_market_ledgers_ok n s, where m' = "fst r" and effs = "snd r"] r by simp
  with r show ?thesis by blast
qed


section \<open>Behaviour of the handlers\<close>

text \<open>
  C3. Order check: a bid whose net amount is not strictly above the net amount of the
  last bid of its currency is rejected with the last bid's price, and since a panic
  reverts the call, storage is unchanged. Ties are rejected.
\<close>

theorem add_bid_rejects_not_higher:
  assumes "ft \<in> ft_token_ids m" and "total_origins origins = Some tot" and "tot < 4700"
    and "calculate_actual_amount amount tot = Some a"
    and "map_of (sale_bids sale) ft = Some bs" and "bs \<noteq> []"
    and "bid_actual_amount (last bs) = Some c" and "a \<le> c"
  shows "add_bid m ctid amount ft buyer sale start e origins = Inl (BidTooLow (bid_price (last bs)))"
  using assms by (simp add: add_bid_def ledger_submit_rejects)

theorem add_bid_rejects_not_higher_witness:
  "add_bid demo_market demo_key 10300 NEAR ''carol''
     (demo_sale\<lparr>sale_bids := [(NEAR, [demo_bid ''bob'' 10300])]\<rparr>) 1 None None
   = Inl (BidTooLow 10300)"
proof -
  have "bid_actual_amount (last [demo_bid ''bob'' 10300]) = Some 10000"
    by (simp add: bid_actual_amount_def demo_bid_def calculate_actual_amount_def market_consts)
  moreover have "calculate_actual_amount 10300 0 = Some 10000"
    by (simp add: calculate_actual_amount_def market_consts)
  moreover have "NEAR \<in> ft_token_ids demo_market" by (simp add: demo_market_def market_new_def)
  ultimately show ?thesis
    using add_bid_rejects_not_higher [where m = demo_market and ft = NEAR and origins = None
        and tot = 0 and amount = 10300 and a = 10000 and bs = "[demo_bid ''bob'' 10300]"
        and c = 10000 and sale = "demo_sale\<lparr>sale_bids := [(NEAR, [demo_bid ''bob'' 10300])]\<rparr>"]
    by (simp add: demo_bid_def)
qed

text \<open>
  C4. Bounded history with refund of the evicted bid: when the bucket of the currency
  is full, an accepted bid is appended last, the earliest bid is removed, and the only
  effect of the call is a refund of that earliest bid's full gross price to its owner.
\<close>

theorem add_bid_evicts_oldest:
  assumes r: "add_bid m ctid amount ft buyer sale start e origins = Inr (m', effs)"
    and b: "map_of (sale_bids sale) ft = Some bs" and full: "length bs = bid_history_length m"
    and ne: "bs \<noteq> []"
  shows "effs = [Pay (refund_bid ft (bid_owner_id (hd bs)) (bid_price (hd bs)))] \<and>
         sales m' ctid = Some (sale\<lparr>sale_bids :=
           AList.update ft (tl bs @ [new_bid buyer amount start e origins]) (sale_bids sale)\<rparr>)"
proof -
  obtain tot a bs' refunds where "ft \<in> ft_token_ids m" and "total_origins origins = Some tot"
    and "tot < 4700" and "calculate_actual_amount amount tot = Some a"
    and sub: "ledger_submit (bid_history_length m) ft (case_option [] id (map_of (sale_bids sale) ft))
                (new_bid buyer amount start e origins) a = Inr (bs', refunds)"
    and m': "m' = m\<lparr>sales := (sales m)(ctid \<mapsto> sale\<lparr>sale_bids := AList.update ft bs' (sale_bids sale)\<rparr>)\<rparr>"
    and effs: "effs = map Pay refunds"
    by (rule add_bid_Inr [OF r])
  from ledger_submit_Inr_push [OF sub] b have
    "push_bid (bid_history_length m) ft bs (new_bid buyer amount start e origins) = (bs', refunds)"
    by simp
  with full ne have "bs' = tl bs @ [new_bid buyer amount start e origins]"
    and "refunds = [refund_bid ft (bid_owner_id (hd bs)) (bid_price (hd bs))]"
    by (simp_all add: push_bid_cases)
  with m' effs show ?thesis by simp
qed

theorem add_bid_evicts_oldest_witness:
  "\<exists>m'. add_bid demo_market demo_key 10800 NEAR ''b6'' (demo_sale\<lparr>sale_bids := [(NEAR, demo_five)]\<rparr>)
          1 None None = Inr (m', [Pay (NearTransfer ''b1'' 10300)]) \<and>
        sales m' demo_key = Some (demo_sale\<lparr>sale_bids := [(NEAR, tl demo_five @ [demo_bid ''b6'' 10800])]\<rparr>)"
proof -
  let ?S = "demo_sale\<lparr>sale_bids := [(NEAR, demo_five)]\<rparr>"
  have "\<exists>r. add_bid demo_market demo_key 10800 NEAR ''b6'' ?S 1 None None = Inr r"
    by (simp add: add_bid_def demo_market_def market_new_def demo_five_def demo_bid_def
        calculate_actual_amount_def ledger_submit_def bid_actual_amount_def push_bid_def market_consts)
  then obtain m' effs where r: "add_bid demo_market demo_key 10800 NEAR ''b6'' ?S 1 None None = Inr (m', effs)"
    by auto
  have b: "map_of (sale_bids ?S) NEAR = Some demo_five" by simp
  have full: "length demo_five = bid_history_length demo_market"
    by (simp add: demo_five_def demo_market_def market_new_def market_consts)
  have ne: "demo_five \<noteq> []" by (simp add: demo_five_def)
  from add_bid_evicts_oldest [OF r b full ne]
  have "effs = [Pay (refund_bid NEAR (bid_owner_id (hd demo_five)) (bid_price (hd demo_five)))] \<and>
        sales m' demo_key = Some (?S\<lparr>sale_bids := AList.update NEAR
           (tl demo_five @ [new_bid ''b6'' 10800 1 None None]) (sale_bids ?S)\<rparr>)" .
  then have "effs = [Pay (NearTransfer ''b1'' 10300)] \<and>
        sales m' demo_key = Some (demo_sale\<lparr>sale_bids := [(NEAR, tl demo_five @ [demo_bid ''b6'' 10800])]\<rparr>)"
    by (simp add: demo_five_def demo_bid_def refund_bid_def)
  with r show ?thesis by blast
qed

text \<open>
  C5. Escrow conservation of the ledger: after an accepted bid, the gross prices held
  in the sale's buckets plus the refunds the call issued equal the prices held before
  plus the new bid's deposit; no value is created or lost.
\<close>

theorem add_bid_conserves_escrow:
  assumes d: "distinct (map fst (sale_bids sale))"
    and r: "add_bid m ctid amount ft buyer sale start e origins = Inr (m', effs)"
  shows "\<exists>s'. sales m' ctid = Some s' \<and> sale_escrow s' + total_paid (paid effs) = sale_escrow sale + amount"
proof -
  obtain tot a bs' refunds where "ft \<in> ft_token_ids m" and "total_origins origins = Some tot"
    and "tot < 4700" and "calculate_actual_amount amount tot = Some a"
    and sub: "ledger_submit (bid_history_length m) ft (case_option [] id (map_of (sale_bids sale) ft))
                (new_bid buyer amount start e origins) a = Inr (bs', refunds)"
    and m': "m' = m\<lparr>sales := (sales m)(ctid \<mapsto> sale\<lparr>sale_bids := AList.update ft bs' (sale_bids sale)\<rparr>)\<rparr>"
    and effs: "effs = map Pay refunds"
    by (rule add_bid_Inr [OF r])
  let ?old = "case_option [] id (map_of (sale_bids sale) ft)"
  let ?f = "\<lambda>(ft :: account, bs :: bid list). escrow bs"
  have esc: "escrow bs' + total_paid refunds = escrow ?old + amount"
    using ledger_submit_escrow [OF sub] by simp
  have old: "(case map_of (sale_bids sale) ft of None \<Rightarrow> 0 | Some w \<Rightarrow> ?f (ft, w)) = escrow ?old"
    by (cases "map_of (sale_bids sale) ft") simp_all
  have "sum_list (map ?f (AList.update ft bs' (sale_bids sale)))
        + (case map_of (sale_bids sale) ft of None \<Rightarrow> 0 | Some w \<Rightarrow> ?f (ft, w))
        = sum_list (map ?f (sale_bids sale)) + ?f (ft, bs')"
    by (rule sum_list_map_update [OF d])
  then have "sum_list (map ?f (AList.update ft bs' (sale_bids sale))) + escrow ?old
        = sale_escrow sale + escrow bs'"
    by (simp only: old sale_escrow_def) simp
  with esc have "sum_list (map ?f (AList.update ft bs' (sale_bids sale))) + total_paid refunds
        = sale_escrow sale + amount"
    by linarith
  with m' effs show ?thesis by (simp add: sale_escrow_def)
qed

theorem add_bid_conserves_escrow_witness:
  "\<exists>m' effs s'. add_bid demo_market demo_key 10300 NEAR ''bob'' demo_sale 1 None None = Inr (m', effs) \<and>
     sales m' demo_key = Some s' \<and> sale_escrow s' + total_paid (paid effs) = sale_escrow demo_sale + 10300"
proof -
  have "\<exists>r. add_bid demo_market demo_key 10300 NEAR ''bob'' demo_sale 1 None None = Inr r"
    by (simp add: add_bid_def demo_market_def demo_sale_def market_new_def calculate_actual_amount_def
        ledger_submit_def push_bid_def market_consts)
  then obtain m' effs where r: "add_bid demo_market demo_key 10300 NEAR ''bob'' demo_sale 1 None None = Inr (m', effs)"
    by auto
  have d: "distinct (map fst (sale_bids demo_sale))" by (simp add: demo_sale_def)
  from add_bid_conserves_escrow [OF d r] r show ?thesis by blast
qed

text \<open>
  C6. Finding: \<open>remove_bid\<close> refunds the requested price to the caller even when
  the caller holds no bid of that price. \<open>internal_remove_bid\<close>'s result is
  discarded, so any account can withdraw any amount from the contract's balance by naming
  a sale and a currency that has a bucket; the state is left unchanged.
\<close>

theorem remove_bid_pays_without_bid:
  assumes "attached_deposit env = 1"
    and "sales m (contract_and_token_id c t) = Some s" and "map_of (sale_bids s) ft = Some bs"
    and "\<forall>b \<in> set bs. \<not> (bid_owner_id b = predecessor_account_id env \<and> bid_price b = p)"
  shows "remove_bid m env c t ft p = Inr (m, [Pay (refund_bid ft (predecessor_account_id env) p)])"
proof -
  from assms(4) have "take_out_bid (predecessor_account_id env) p bs = None"
    by (simp add: take_out_bid_None)
  with assms(1-3) show ?thesis
    by (simp add: remove_bid_def internal_remove_bid_def)
qed

theorem remove_bid_pays_without_bid_witness:
  "remove_bid (demo_market\<lparr>sales := [demo_key \<mapsto> demo_sale\<lparr>sale_bids := [(NEAR, [demo_bid ''bob'' 10300])]\<rparr>]\<rparr>)
     (demo_env ''mallory'' 1) ''nft'' ''1:1'' NEAR (10 ^ 24)
   = Inr (demo_market\<lparr>sales := [demo_key \<mapsto> demo_sale\<lparr>sale_bids := [(NEAR, [demo_bid ''bob'' 10300])]\<rparr>]\<rparr>,
          [Pay (NearTransfer ''mallory'' (10 ^ 24))])"
proof -
  let ?S = "demo_sale\<lparr>sale_bids := [(NEAR, [demo_bid ''bob'' 10300])]\<rparr>"
  let ?M = "demo_market\<lparr>sales := [demo_key \<mapsto> ?S]\<rparr>"
  have a1: "attached_deposit (demo_env ''mallory'' 1) = 1" by (simp add: demo_env_def)
  have a2: "sales ?M (contract_and_token_id ''nft'' ''1:1'') = Some ?S" by (simp add: demo_key_def)
  have a3: "map_of (sale_bids ?S) NEAR = Some [demo_bid ''bob'' 10300]" by simp
  have a4: "\<forall>b \<in> set [demo_bid ''bob'' 10300].
      \<not> (bid_owner_id b = predecessor_account_id (demo_env ''mallory'' 1) \<and> bid_price b = 10 ^ 24)"
    by (simp add: demo_bid_def demo_env_def)
  have "predecessor_account_id (demo_env ''mallory'' 1) = ''mallory''" by (simp add: demo_env_def)
  with remove_bid_pays_without_bid [OF a1 a2 a3 a4] show ?thesis
    by (simp add: refund_bid_def)
qed

lemma process_purchase_ignores_caller:
  "process_purchase m (env\<lparr>predecessor_account_id := caller\<rparr>) c t ft p b os = process_purchase m env c t ft p b os"
  by (simp add: process_purchase_def cong: sum.case_cong)

text \<open>
  C7. Finding: \<open>accept_offer\<close> never reads the caller. Its result is the same
  for every predecessor account, so any account, not only the sale owner, can accept the
  latest offer and start the settlement. The comment in the source expects a panic in
  \<open>internal_remove_sale\<close> for a non-owner; there is none.
\<close>

theorem accept_offer_ignores_caller:
  "accept_offer m (env\<lparr>predecessor_account_id := caller\<rparr>) c t ft = accept_offer m env c t ft"
  by (simp add: accept_offer_def Let_def process_purchase_ignores_caller cong: option.case_cong if_cong)

end
