(* ===== verification/Settlement.thy ===== *)
theory Settlement
  imports Market
begin

text \<open>
  The second phase of settlement: the callbacks the market runs after the NFT contract's
  \<open>nft_transfer_payout\<close> (sale.rs \<open>resolve_purchase\<close> and \<open>resolve_token_buy\<close>,
  auction.rs \<open>resolve_finish_auction\<close>). The promise result is \<open>None\<close> when the call
  failed or its value is not a \<open>Payout\<close>, else the payout map as an association list.
  A payout is accepted when it is non-empty, short enough, and its values can be
  subtracted one by one from the price (u128 \<open>checked_sub\<close>) leaving at most 1; then
  every payee is paid, else the buyer is refunded. The callbacks change no storage: their
  result is the payments they issue and the amount they return to the caller.
  The lemmas give the exact acceptance condition (the values sum to the price or to one
  less), the payments on each branch, and the conservation of the price on each branch.
\<close>

section \<open>Validation of a payout\<close>

text \<open>The \<open>checked_sub\<close> loop over the payout's values.\<close>

fun payout_remainder :: "balance \<Rightarrow> balance list \<Rightarrow> balance option" where
  "payout_remainder remainder [] = Some remainder"
| "payout_remainder remainder (v # vs) =
     (if remainder < v then None else payout_remainder (remainder - v) vs)"

definition payout_fits :: "balance \<Rightarrow> payout \<Rightarrow> bool" where
  "payout_fits price p =
     (case payout_remainder price (map snd p) of None \<Rightarrow> False | Some r \<Rightarrow> r \<le> 1)"

text \<open>The payments of an accepted payout: native transfers, or \<open>ft_transfer\<close> calls.\<close>

definition payout_transfers :: "account \<Rightarrow> payout \<Rightarrow> transfer list" where
  "payout_transfers ft_token_id p =
     (if ft_token_id = NEAR then map (\<lambda>(receiver_id, amount). NearTransfer receiver_id amount) p
      else map (\<lambda>(receiver_id, amount). FtTransfer ft_token_id receiver_id amount) p)"

section \<open>Callbacks\<close>

definition resolve_purchase ::
  "account \<Rightarrow> account \<Rightarrow> sale \<Rightarrow> balance \<Rightarrow> payout option \<Rightarrow> effect list \<times> balance" where
  "resolve_purchase ft_token_id buyer_id sale price result =
     (let payout_option =
        (case result of
           None \<Rightarrow> None
         | Some p \<Rightarrow>
             if 10 < length p + length (sale_bids sale) \<or> p = [] then None
             else if payout_fits price p then Some p else None)
      in case payout_option of
           None \<Rightarrow> ((if ft_token_id = NEAR then [Pay (NearTransfer buyer_id price)] else []), price)
         | Some p \<Rightarrow>
             (map Pay (refund_all_bids (sale_bids sale)) @ map Pay (payout_transfers ft_token_id p),
              if ft_token_id = NEAR then price else 0))"

definition resolve_finish_auction ::
  "account \<Rightarrow> account \<Rightarrow> balance \<Rightarrow> payout option \<Rightarrow> effect list \<times> balance" where
  "resolve_finish_auction ft_token_id buyer_id price result =
     (let payout_option =
        (case result of
           None \<Rightarrow> None
         | Some p \<Rightarrow>
             if 10 < length p \<or> p = [] then None
             else if payout_fits price p then Some p else None)
      in case payout_option of
           None \<Rightarrow> ((if ft_token_id = NEAR then [Pay (NearTransfer buyer_id price)] else []), price)
         | Some p \<Rightarrow>
             (map Pay (payout_transfers ft_token_id p), if ft_token_id = NEAR then price else 0))"

definition resolve_token_buy ::
  "account \<Rightarrow> balance \<Rightarrow> balance \<Rightarrow> payout option \<Rightarrow> effect list \<times> balance" where
  "resolve_token_buy buyer_id deposit price result =
     (let payout_option =
        (case result of None \<Rightarrow> None | Some p \<Rightarrow> if payout_fits price p then Some p else None)
      in case payout_option of
           None \<Rightarrow> ([Pay (NearTransfer buyer_id deposit)], price)
         | Some p \<Rightarrow> (map (\<lambda>(receiver_id, amount). Pay (NearTransfer receiver_id amount)) p, price))"

text \<open>Running the callback a settlement scheduled, on the NFT contract's answer.\<close>

fun run_callback :: "callback \<Rightarrow> payout option \<Rightarrow> effect list \<times> balance" where
  "run_callback (ResolvePurchase ft buyer sale price) r = resolve_purchase ft buyer sale price r"
| "run_callback (ResolveFinishAuction ft buyer price) r = resolve_finish_auction ft buyer price r"

section \<open>Lemmas\<close>

lemma payout_remainder_eq:
  "payout_remainder r vs = (if sum_list vs \<le> r then Some (r - sum_list vs) else None)"
  by (induction r vs rule: payout_remainder.induct) auto

text \<open>
  The \<open>checked_sub\<close> loop of the callbacks accepts a payout exactly when its values
  sum to the price or to one less.
\<close>

lemma payout_fits_iff:
  "payout_fits price p \<longleftrightarrow> sum_list (map snd p) \<le> price \<and> price \<le> sum_list (map snd p) + 1"
  by (auto simp: payout_fits_def payout_remainder_eq)

lemma total_paid_payout_transfers [simp]:
  "total_paid (payout_transfers ft p) = sum_list (map snd p)"
  by (induction p) (auto simp: payout_transfers_def)

lemma receivers_payout_transfers:
  "map transfer_receiver (payout_transfers ft p) = map fst p"
  by (induction p) (auto simp: payout_transfers_def)

lemma amounts_payout_transfers:
  "map transfer_amount (payout_transfers ft p) = map snd p"
  by (induction p) (auto simp: payout_transfers_def)


section \<open>Behaviour of the callbacks\<close>

text \<open>
  C8. Order independence of the payout check: the callbacks subtract the values of the
  payout \<open>HashMap\<close> from the price in its iteration order, which is unspecified; a
  payout is accepted or rejected the same way in every order of its values.
\<close>

theorem payout_fits_any_order:
  assumes "mset (map snd p) = mset (map snd q)"
  shows "payout_fits price p = payout_fits price q"
proof -
  from assms have "sum_list (map snd p) = sum_list (map snd q)"
    by (metis sum_mset_sum_list)
  then show ?thesis by (simp add: payout_fits_iff)
qed

theorem payout_fits_any_order_witness:
  "payout_fits 10300 [(''market'', 600), (''alice'', 9700)] \<and>
   payout_fits 10300 [(''alice'', 9700), (''market'', 600)]"
proof -
  have "payout_fits 10300 [(''market'', 600), (''alice'', 9700)]"
    by (simp add: payout_fits_def)
  moreover have "mset (map snd [(''market'', 600::nat), (''alice'', 9700)]) =
                 mset (map snd [(''alice'', 9700::nat), (''market'', 600)])"
    by simp
  ultimately show ?thesis
    using payout_fits_any_order [where price = 10300] by blast
qed

text \<open>
  C9. Disbursement: when the NFT contract answers with a valid payout (at most 10
  entries together with the sale's currencies, non-empty, summing to the price or one
  less), \<open>resolve_purchase\<close> first refunds every bid still held by the sale, then
  pays every payee exactly its listed amount; the payees receive the price up to one
  unit. For the native currency it returns the price, not 0.
\<close>

theorem resolve_purchase_disburses:
  assumes "length p + length (sale_bids sale) \<le> 10" and "p \<noteq> []"
    and "sum_list (map snd p) \<le> price" and "price \<le> sum_list (map snd p) + 1"
  shows "resolve_purchase ft buyer sale price (Some p) =
           (map Pay (refund_all_bids (sale_bids sale)) @ map Pay (payout_transfers ft p),
            if ft = NEAR then price else 0) \<and>
         total_paid (payout_transfers ft p) \<le> price \<and> price \<le> total_paid (payout_transfers ft p) + 1"
  using assms by (simp add: resolve_purchase_def payout_fits_iff)

theorem resolve_purchase_disburses_witness:
  "resolve_purchase NEAR ''bob'' demo_sale 10300 (Some [(''market'', 600), (''alice'', 9700)]) =
     ([Pay (NearTransfer ''market'' 600), Pay (NearTransfer ''alice'' 9700)], 10300)"
proof -
  have "length [(''market'', 600::nat), (''alice'', 9700)] + length (sale_bids demo_sale) \<le> 10"
    by (simp add: demo_sale_def)
  from resolve_purchase_disburses [OF this, where price = 10300 and ft = NEAR and buyer = "''bob''"]
  show ?thesis by (simp add: demo_sale_def refund_all_bids_def payout_transfers_def)
qed

text \<open>
  C10. Refund: when the NFT call failed or its payout is rejected, \<open>resolve_purchase\<close>
  for the native currency returns the buyer's whole payment and pays nobody else. The
  witness is a payout the NFT contract of this repository really computes (see
  Payouts.thy) for a gross price of 103013: its values sum to 103011, two short.
\<close>

theorem resolve_purchase_refunds_on_failure:
  assumes "result = None \<or>
    (\<exists>p. result = Some p \<and> (10 < length p + length (sale_bids sale) \<or> p = [] \<or> \<not> payout_fits price p))"
  shows "resolve_purchase NEAR buyer sale price result = ([Pay (NearTransfer buyer price)], price)"
  using assms by (auto simp: resolve_purchase_def)

theorem resolve_purchase_refunds_on_failure_witness:
  "resolve_purchase NEAR ''bob'' demo_sale 103013 (Some [(''market'', 6000), (''creator'', 5000), (''alice'', 92011)]) =
     ([Pay (NearTransfer ''bob'' 103013)], 103013)"
proof -
  have "\<not> payout_fits 103013 [(''market'', 6000), (''creator'', 5000), (''alice'', 92011)]"
    by (simp add: payout_fits_iff)
  then show ?thesis
    using resolve_purchase_refunds_on_failure
      [where result = "Some [(''market'', 6000), (''creator'', 5000), (''alice'', 92011)]"
         and sale = demo_sale and price = 103013 and buyer = "''bob''"]
    by blast
qed

text \<open>
  C11. Conservation of an auction's price: whatever the NFT contract answers,
  \<open>resolve_finish_auction\<close> in the native currency pays out the winning bid's
  price, up to the one unit of rounding slack, either to the payees or back to the bidder.
\<close>

theorem resolve_finish_auction_conserves:
  "total_paid (paid (fst (resolve_finish_auction NEAR buyer price r))) \<le> price \<and>
   price \<le> total_paid (paid (fst (resolve_finish_auction NEAR buyer price r))) + 1"
proof (cases "\<exists>p. r = Some p \<and> \<not> (10 < length p \<or> p = []) \<and> payout_fits price p")
  case True
  then obtain p where "r = Some p" and "\<not> (10 < length p \<or> p = [])" and "payout_fits price p" by blast
  then show ?thesis by (simp add: resolve_finish_auction_def payout_fits_iff)
next
  case False
  then have "fst (resolve_finish_auction NEAR buyer price r) = [Pay (NearTransfer buyer price)]"
    by (cases r) (auto simp: resolve_finish_auction_def)
  then show ?thesis by simp
qed

end
