(* ===== verification/Auction.thy ===== *)
theory Auction
  imports Directory
begin

text \<open>
  The auction entity (auction.rs, auction_views.rs): an English auction with one live
  bid, a minimal step between consecutive bids measured on the net amounts, a soft close
  that pushes the end to 15 minutes after a late bid, and an optional buyout price that
  moves the end to the current block time. The handlers are \<open>start_auction\<close> (called
  from \<open>nft_on_approve\<close>), \<open>auction_add_bid\<close>, \<open>cancel_auction\<close> and
  \<open>finish_auction\<close>, the first phase of an auction's settlement; the views they call
  are \<open>check_auction_in_progress\<close> and \<open>get_minimal_next_bid\<close>. Each handler reads
  the auction from \<open>auctions\<close> and writes it back, so the model is a function on the
  market record. The lemmas give every handler's result on each branch, the strict
  increase of the net bid, the soft-close and buyout rules for the end time, the refund of
  the replaced bid, and the fresh identifiers of new auctions.
\<close>

section \<open>Constants and views\<close>

definition NANOS_PER_SEC :: nat where [market_consts]: "NANOS_PER_SEC = 1000000000"

definition EXTENSION_DURATION :: nat where [market_consts]:
  "EXTENSION_DURATION = 15 * 60 * NANOS_PER_SEC"

definition MAX_DURATION :: nat where [market_consts]:
  "MAX_DURATION = 1000 * 60 * 60 * 24 * NANOS_PER_SEC"

text \<open>The currency of a bid: its token type, the native currency by default.\<close>

definition token_type_to_ft_token_type :: "market \<Rightarrow> string option \<Rightarrow> error + account" where
  "token_type_to_ft_token_type m token_type =
     (let token_type = (case token_type of Some t \<Rightarrow> t | None \<Rightarrow> NEAR) in
      if token_type \<in> ft_token_ids m then Inr token_type else Inl (TokenNotSupported token_type))"

definition get_current_buyer :: "market \<Rightarrow> nat \<Rightarrow> error + account option" where
  "get_current_buyer m auction_id =
     (case auctions m auction_id of
        None \<Rightarrow> Inl AuctionDoesNotExist
      | Some auction \<Rightarrow> Inr (map_option bid_owner_id (auction_bid auction)))"

definition check_auction_in_progress :: "market \<Rightarrow> env \<Rightarrow> nat \<Rightarrow> error + bool" where
  "check_auction_in_progress m env auction_id =
     (case auctions m auction_id of
        None \<Rightarrow> Inl AuctionDoesNotExist
      | Some auction \<Rightarrow>
          Inr (block_timestamp env \<le> auction_end auction \<and> auction_start auction < block_timestamp env))"

text \<open>The minimal net amount of the next bid; the sum is a checked u128 addition.\<close>

definition get_minimal_next_bid :: "market \<Rightarrow> nat \<Rightarrow> error + balance" where
  "get_minimal_next_bid m auction_id =
     (case auctions m auction_id of
        None \<Rightarrow> Inl AuctionDoesNotExist
      | Some auction \<Rightarrow>
          (case auction_bid auction of
             None \<Rightarrow> Inr (auction_start_price auction)
           | Some bid \<Rightarrow>
               (case bid_actual_amount bid of
                  None \<Rightarrow> Inl ArithmeticOverflow
                | Some actual_amount \<Rightarrow>
                    if u128_max < actual_amount + auction_minimal_step auction
                    then Inl ArithmeticOverflow
                    else Inr (actual_amount + auction_minimal_step auction))))"

definition get_current_bid :: "market \<Rightarrow> nat \<Rightarrow> error + balance option" where
  "get_current_bid m auction_id =
     (case auctions m auction_id of
        None \<Rightarrow> Inl AuctionDoesNotExist
      | Some auction \<Rightarrow>
          (case auction_bid auction of
             None \<Rightarrow> Inr None
           | Some bid \<Rightarrow>
               (case bid_actual_amount bid of
                  None \<Rightarrow> Inl ArithmeticOverflow
                | Some actual_amount \<Rightarrow> Inr (Some actual_amount))))"

section \<open>Handlers\<close>

text \<open>
  \<open>start_auction\<close>: the duration bounds, the currency, a start not in the past, the end
  \<open>start + duration\<close> (u64), a fresh identifier \<open>next_auction_id\<close> (u128, incremented).
  The source returns the auction as \<open>AuctionJson\<close>, a projection of its fields; the
  model returns the auction.
\<close>

definition start_auction ::
  "market \<Rightarrow> env \<Rightarrow> auction_args \<Rightarrow> string \<Rightarrow> account \<Rightarrow> nat \<Rightarrow> account \<Rightarrow>
   error + (market \<times> nat \<times> auction)" where
  "start_auction m env args token_id owner_id approval_id nft_contract_id =
     (if \<not> (EXTENSION_DURATION \<le> aa_duration args \<and> aa_duration args \<le> MAX_DURATION)
      then Inl IncorrectDuration
      else case token_type_to_ft_token_type m (aa_token_type args) of
        Inl e \<Rightarrow> Inl e
      | Inr ft_token_id \<Rightarrow>
          (let now = block_timestamp env;
               start = (case aa_start args of Some s \<Rightarrow> s | None \<Rightarrow> now) in
           if start < now then Inl IncorrectStart
           else if u64_max < start + aa_duration args then Inl ArithmeticOverflow
           else
             (let auction_id = next_auction_id m;
                  auction = \<lparr>auction_owner_id = owner_id, auction_approval_id = approval_id,
                    auction_nft_contract_id = nft_contract_id, auction_token_id = token_id,
                    auction_bid = None, auction_created_at = now, auction_ft_token_id = ft_token_id,
                    auction_minimal_step = aa_minimal_step args,
                    auction_start_price = aa_start_price args,
                    auction_buy_out_price = aa_buy_out_price args, auction_start = start,
                    auction_end = start + aa_duration args,
                    auction_origins = (case aa_origins args of Some os \<Rightarrow> os | None \<Rightarrow> [])\<rparr>
              in if u128_max < auction_id + 1 then Inl ArithmeticOverflow
                 else Inr (m\<lparr>auctions := (auctions m)(auction_id \<mapsto> auction),
                             auction_keys := uset_insert (auction_keys m) auction_id,
                             next_auction_id := auction_id + 1\<rparr>, auction_id, auction))))"

text \<open>
  The buyout test of \<open>auction_add_bid\<close>: the deposit covers the buyout price with the
  bidder's fees.
\<close>

definition buy_out_reached :: "auction \<Rightarrow> balance \<Rightarrow> origins option \<Rightarrow> error + bool" where
  "buy_out_reached auction deposit origins =
     (case auction_buy_out_price auction of
        None \<Rightarrow> Inr False
      | Some buy_out_price \<Rightarrow>
          (case calculate_price_with_fees buy_out_price origins of
             None \<Rightarrow> Inl ArithmeticOverflow
           | Some p \<Rightarrow> Inr (p \<le> deposit)))"

text \<open>
  The new end time: the buyout sets it to now; otherwise a bid closer than
  \<open>EXTENSION_DURATION\<close> to the end pushes it to \<open>now + EXTENSION_DURATION\<close>. Both
  the subtraction and the addition are u64 operations.
\<close>

definition extended_end :: "timestamp \<Rightarrow> timestamp \<Rightarrow> bool \<Rightarrow> error + timestamp" where
  "extended_end end_time now bought_out =
     (let end_time = (if bought_out then now else end_time) in
      if end_time < now then Inl ArithmeticOverflow
      else if end_time - now < EXTENSION_DURATION \<and> \<not> bought_out
      then (if u64_max < now + EXTENSION_DURATION then Inl ArithmeticOverflow
            else Inr (now + EXTENSION_DURATION))
      else Inr end_time)"

definition auction_add_bid ::
  "market \<Rightarrow> env \<Rightarrow> nat \<Rightarrow> string option \<Rightarrow> origins option \<Rightarrow> error + (market \<times> effect list)" where
  "auction_add_bid m env auction_id token_type origins =
     (case token_type_to_ft_token_type m token_type of
        Inl e \<Rightarrow> Inl e
      | Inr ft_token_id \<Rightarrow>
          if ft_token_id \<notin> ft_token_ids m then Inl (TokenNotSupported ft_token_id)
          else case check_auction_in_progress m env auction_id of
            Inl e \<Rightarrow> Inl e
          | Inr False \<Rightarrow> Inl AuctionNotInProgress
          | Inr True \<Rightarrow>
              (case auctions m auction_id of
                 None \<Rightarrow> Inl AuctionNotActive
               | Some auction \<Rightarrow>
                   if auction_owner_id auction = predecessor_account_id env
                   then Inl CannotBidOwnAuction
                   else (let deposit = attached_deposit env in
                     case get_minimal_next_bid m auction_id of
                       Inl e \<Rightarrow> Inl e
                     | Inr minimal_next \<Rightarrow>
                         (case calculate_price_with_fees minimal_next origins of
                            None \<Rightarrow> Inl ArithmeticOverflow
                          | Some min_deposit \<Rightarrow>
                              if deposit < min_deposit then Inl (ShouldBidAtLeast min_deposit)
                              else
                                (let refund =
                                   (case auction_bid auction of
                                      None \<Rightarrow> []
                                    | Some previous_bid \<Rightarrow>
                                        [Pay (refund_bid ft_token_id (bid_owner_id previous_bid)
                                                (bid_price previous_bid))]) in
                                 case buy_out_reached auction deposit origins of
                                   Inl e \<Rightarrow> Inl e
                                 | Inr bought_out \<Rightarrow>
                                     (let now = block_timestamp env;
                                          bid = \<lparr>bid_owner_id = predecessor_account_id env,
                                            bid_price = deposit, bid_start = now, bid_end = None,
                                            bid_origins = (case origins of Some os \<Rightarrow> os | None \<Rightarrow> [])\<rparr> in
                                      case extended_end (auction_end auction) now bought_out of
                                        Inl e \<Rightarrow> Inl e
                                      | Inr end_time \<Rightarrow>
                                          Inr (m\<lparr>auctions := (auctions m)(auction_id \<mapsto>
                                                 auction\<lparr>auction_bid := Some bid,
                                                         auction_end := end_time\<rparr>)\<rparr>,
                                               refund)))))))"

definition cancel_auction :: "market \<Rightarrow> env \<Rightarrow> nat \<Rightarrow> error + (market \<times> effect list)" where
  "cancel_auction m env auction_id =
     (if attached_deposit env \<noteq> 1 then Inl RequiresOneYocto
      else case auctions m auction_id of
        None \<Rightarrow> Inl AuctionNotActive
      | Some auction \<Rightarrow>
          if auction_owner_id auction \<noteq> predecessor_account_id env then Inl OnlyAuctionOwnerCanCancel
          else if auction_bid auction \<noteq> None then Inl AuctionHasBid
          else Inr (m\<lparr>auctions := (auctions m)(auction_id := None),
                       auction_keys := uset_remove (auction_keys m) auction_id\<rparr>, []))"

text \<open>
  \<open>finish_auction\<close>, callable by anyone: removes the auction, then asks the NFT contract
  for the transfer and the payout, with the bid's and the auction's fee shares, each with
  the protocol fee of the market's own account, and schedules
  \<open>resolve_finish_auction\<close>.
\<close>

definition finish_auction :: "market \<Rightarrow> env \<Rightarrow> nat \<Rightarrow> error + (market \<times> effect list)" where
  "finish_auction m env auction_id =
     (case auctions m auction_id of
        None \<Rightarrow> Inl AuctionNotActive
      | Some auction \<Rightarrow>
          if \<not> auction_end auction < block_timestamp env then Inl AuctionNotEnded
          else case auction_bid auction of
            None \<Rightarrow> Inl NoFinalBid
          | Some final_bid \<Rightarrow>
              (let fees = \<lparr>fees_buyer = with_protocol_fee (current_account_id env) (bid_origins final_bid),
                           fees_seller = with_protocol_fee (current_account_id env) (auction_origins auction)\<rparr>;
                   call = \<lparr>pc_receiver_id = bid_owner_id final_bid, pc_token_id = auction_token_id auction,
                           pc_approval_id = auction_approval_id auction, pc_memo = fees,
                           pc_balance = bid_price final_bid, pc_max_len_payout = 10,
                           pc_nft_contract_id = auction_nft_contract_id auction\<rparr>
               in Inr (m\<lparr>auctions := (auctions m)(auction_id := None),
                         auction_keys := uset_remove (auction_keys m) auction_id\<rparr>,
                       [TransferPayout call (ResolveFinishAuction (auction_ft_token_id auction)
                          (bid_owner_id final_bid) (bid_price final_bid))])))"


section \<open>Example auction\<close>

text \<open>
  Token \<open>1:2\<close> of contract \<open>nft\<close> auctioned by \<open>alice\<close> from time 0 for one
  hour, start price 10000, minimal step 100, buyout price \<open>10^10\<close> (scenario B of
  the integration tests), as the only auction of a fresh market.
\<close>

definition demo_auction :: auction where
  "demo_auction =
     \<lparr>auction_owner_id = ''alice'', auction_approval_id = 0, auction_nft_contract_id = ''nft'',
      auction_token_id = ''1:2'', auction_bid = None, auction_created_at = 0,
      auction_ft_token_id = NEAR, auction_minimal_step = 100, auction_start_price = 10000,
      auction_buy_out_price = Some (10 ^ 10), auction_start = 0,
      auction_end = 60 * 60 * NANOS_PER_SEC, auction_origins = []\<rparr>"

definition demo_auction_market :: market where
  "demo_auction_market =
     (market_new [''nft''] ''market'')\<lparr>auctions := [0 \<mapsto> demo_auction], auction_keys := [0],
        next_auction_id := 1\<rparr>"

definition auction_env :: "account \<Rightarrow> balance \<Rightarrow> timestamp \<Rightarrow> env" where
  "auction_env caller deposit now =
     \<lparr>block_timestamp = now, predecessor_account_id = caller, signer_account_id = caller,
      attached_deposit = deposit, current_account_id = ''market''\<rparr>"


definition demo_auction_bid_market :: market where
  "demo_auction_bid_market =
     demo_auction_market\<lparr>auctions := [0 \<mapsto> demo_auction\<lparr>auction_bid := Some (demo_bid ''bob'' 10300)\<rparr>]\<rparr>"

definition demo_auction_args :: auction_args where
  "demo_auction_args =
     \<lparr>aa_token_type = None, aa_minimal_step = 100, aa_start_price = 10000, aa_start = None,
      aa_duration = EXTENSION_DURATION, aa_buy_out_price = Some (10 ^ 10), aa_origins = None\<rparr>"

section \<open>Invariant and escrow\<close>

text \<open>
  The money the market holds for an auction is the price of its live bid. A stored
  auction is well formed when it starts strictly before it ends and its end fits in a
  u64; the auctions of a market are well formed and their identifiers are below
  \<open>next_auction_id\<close>, so a new identifier is fresh.
\<close>

definition auction_escrow :: "auction \<Rightarrow> balance" where
  "auction_escrow a = (case auction_bid a of None \<Rightarrow> 0 | Some b \<Rightarrow> bid_price b)"

definition auction_wf :: "auction \<Rightarrow> bool" where
  "auction_wf a = (auction_start a < auction_end a \<and> auction_end a \<le> u64_max)"

definition auctions_ok :: "market \<Rightarrow> bool" where
  "auctions_ok m =
     (\<forall>k\<in>dom (auctions m). k < next_auction_id m \<and>
        (case auctions m k of Some a \<Rightarrow> auction_wf a | None \<Rightarrow> True))"

text \<open>
  A variant of the bidding on one auction: one more than the room left above the net
  amount of the live bid, or more than any such value before the first bid.
\<close>

definition bids_left :: "market \<Rightarrow> nat \<Rightarrow> nat" where
  "bids_left m aid =
     (case auctions m aid of
        None \<Rightarrow> 0
      | Some a \<Rightarrow> (case auction_bid a of
          None \<Rightarrow> u128_max + 2
        | Some b \<Rightarrow> (case bid_actual_amount b of None \<Rightarrow> 0 | Some x \<Rightarrow> u128_max + 1 - x)))"

section \<open>Lemmas\<close>

lemmas auction_demo_defs = demo_auction_bid_market_def demo_bid_def demo_auction_market_def demo_auction_def auction_env_def market_new_def
  auction_add_bid_def token_type_to_ft_token_type_def check_auction_in_progress_def
  get_minimal_next_bid_def calculate_price_with_fees_def calculate_actual_amount_def
  bid_actual_amount_def buy_out_reached_def extended_end_def market_consts

lemma auction_add_bid_Inr:
  assumes r: "auction_add_bid m env aid tt os = Inr (m', effs)"
  obtains ft a mn md bo e' where
    "token_type_to_ft_token_type m tt = Inr ft" "ft \<in> ft_token_ids m"
    "auctions m aid = Some a" "block_timestamp env \<le> auction_end a"
    "auction_start a < block_timestamp env"
    "auction_owner_id a \<noteq> predecessor_account_id env"
    "get_minimal_next_bid m aid = Inr mn" "calculate_price_with_fees mn os = Some md"
    "md \<le> attached_deposit env" "buy_out_reached a (attached_deposit env) os = Inr bo"
    "extended_end (auction_end a) (block_timestamp env) bo = Inr e'"
    "m' = m\<lparr>auctions := (auctions m)(aid \<mapsto> a\<lparr>auction_bid := Some
            \<lparr>bid_owner_id = predecessor_account_id env, bid_price = attached_deposit env,
             bid_start = block_timestamp env, bid_end = None,
             bid_origins = (case os of Some o' \<Rightarrow> o' | None \<Rightarrow> [])\<rparr>, auction_end := e'\<rparr>)\<rparr>"
    "effs = (case auction_bid a of None \<Rightarrow> []
             | Some pb \<Rightarrow> [Pay (refund_bid ft (bid_owner_id pb) (bid_price pb))])"
  using r
  by (auto simp: auction_add_bid_def check_auction_in_progress_def Let_def not_less
           split: sum.splits option.splits if_splits bool.splits)

lemma extended_end_Inr:
  assumes "extended_end e now bo = Inr e'" and "now \<le> e"
  shows "e' = (if bo then now else max e (now + EXTENSION_DURATION))"
  using assms by (auto simp: extended_end_def Let_def split: if_splits)

lemma get_minimal_next_bid_Inr:
  assumes "auctions m aid = Some a" and "get_minimal_next_bid m aid = Inr mn"
  shows "(case auction_bid a of None \<Rightarrow> mn = auction_start_price a
          | Some b \<Rightarrow> \<exists>x. bid_actual_amount b = Some x \<and> mn = x + auction_minimal_step a)"
  using assms by (auto simp: get_minimal_next_bid_def split: option.splits if_splits)

lemma total_origins_of_bid:
  "total_origins os = calculate_origins (case os of Some o' \<Rightarrow> o' | None \<Rightarrow> [])"
  by (cases os) simp_all

lemma calculate_actual_amount_bounded:
  "calculate_actual_amount a w = Some x \<Longrightarrow> x \<le> u128_max"
proof -
  assume c: "calculate_actual_amount a w = Some x"
  then have "a * (w + PROTOCOL_FEE) \<le> u128_max" by (simp add: calculate_actual_amount_Some_iff)
  moreover have "a \<le> a * (w + PROTOCOL_FEE)" by (simp add: PROTOCOL_FEE_def)
  ultimately show ?thesis using calculate_actual_amount_le [OF c] by linarith
qed

lemma get_minimal_next_bid_bounded:
  assumes "auctions m aid = Some a" "auction_bid a = Some b" "get_minimal_next_bid m aid = Inr mn"
  shows "mn \<le> u128_max"
  using assms by (auto simp: get_minimal_next_bid_def split: option.splits if_splits)

lemma auction_add_bid_bids_left:
  assumes r: "auction_add_bid m env aid tt os = Inr (m', effs)" and a: "auctions m aid = Some a"
    and step: "0 < auction_minimal_step a"
  shows "bids_left m' aid < bids_left m aid"
proof -
  obtain a0 mn md e' where a0: "auctions m aid = Some a0" and mn: "get_minimal_next_bid m aid = Inr mn"
    and md: "calculate_price_with_fees mn os = Some md" and dep: "md \<le> attached_deposit env"
    and m0: "m' = m\<lparr>auctions := (auctions m)(aid \<mapsto> a0\<lparr>auction_bid := Some
            \<lparr>bid_owner_id = predecessor_account_id env, bid_price = attached_deposit env,
             bid_start = block_timestamp env, bid_end = None,
             bid_origins = (case os of Some o' \<Rightarrow> o' | None \<Rightarrow> [])\<rparr>, auction_end := e'\<rparr>)\<rparr>"
    by (rule auction_add_bid_Inr [OF r])
  from a0 a m0 have m': "m' = m\<lparr>auctions := (auctions m)(aid \<mapsto> a\<lparr>auction_bid := Some
            \<lparr>bid_owner_id = predecessor_account_id env, bid_price = attached_deposit env,
             bid_start = block_timestamp env, bid_end = None,
             bid_origins = (case os of Some o' \<Rightarrow> o' | None \<Rightarrow> [])\<rparr>, auction_end := e'\<rparr>)\<rparr>"
    by simp
  let ?b' = "\<lparr>bid_owner_id = predecessor_account_id env, bid_price = attached_deposit env,
             bid_start = block_timestamp env, bid_end = None,
             bid_origins = (case os of Some o' \<Rightarrow> o' | None \<Rightarrow> [])\<rparr>"
  have new: "bids_left m' aid = (case bid_actual_amount ?b' of None \<Rightarrow> 0 | Some y \<Rightarrow> u128_max + 1 - y)"
    by (simp add: m' bids_left_def)
  have y: "mn \<le> y \<and> y \<le> u128_max" if y: "bid_actual_amount ?b' = Some y" for y
  proof -
    from y obtain w where w: "total_origins os = Some w"
      and d: "calculate_actual_amount (attached_deposit env) w = Some y"
      by (auto simp: bid_actual_amount_def total_origins_of_bid split: option.splits)
    show ?thesis
      using actual_amount_of_sufficient_deposit [OF w md dep d] calculate_actual_amount_bounded [OF d]
      by simp
  qed
  show ?thesis
  proof (cases "auction_bid a")
    case None
    then have "bids_left m aid = u128_max + 2" by (simp add: bids_left_def a)
    with new y show ?thesis by (auto split: option.splits)
  next
    case (Some b)
    with get_minimal_next_bid_Inr [OF a mn] obtain x where x: "bid_actual_amount b = Some x"
      and mnx: "mn = x + auction_minimal_step a" by auto
    have old: "bids_left m aid = u128_max + 1 - x" by (simp add: bids_left_def a Some x)
    from get_minimal_next_bid_bounded [OF a Some mn] mnx step have "x < u128_max" by simp
    with new y old mnx step show ?thesis by (auto split: option.splits)
  qed
qed

lemma auctions_ok_at:
  assumes "auctions_ok m" and "auctions m k = Some a"
  shows "k < next_auction_id m \<and> auction_wf a"
proof -
  from assms have "k \<in> dom (auctions m)" by blast
  with assms(1) have "k < next_auction_id m \<and> (case auctions m k of Some a \<Rightarrow> auction_wf a | None \<Rightarrow> True)"
    unfolding auctions_ok_def by (rule bspec)
  with assms(2) show ?thesis by simp
qed

lemma auctions_ok_update:
  assumes ok: "auctions_ok m" and k: "k \<in> dom (auctions m)" and wf: "auction_wf a"
    and n: "next_auction_id m' = next_auction_id m"
  shows "auctions_ok (m'\<lparr>auctions := (auctions m)(k \<mapsto> a)\<rparr>)"
  using ok k wf n by (auto simp: auctions_ok_def)

lemma auctions_ok_remove:
  assumes ok: "auctions_ok m" and n: "next_auction_id m' = next_auction_id m"
  shows "auctions_ok (m'\<lparr>auctions := (auctions m)(k := None), auction_keys := ks\<rparr>)"
  using ok n by (auto simp: auctions_ok_def)

lemma cancel_auction_keeps_ok:
  "auctions_ok m \<Longrightarrow> cancel_auction m env aid = Inr (m', effs) \<Longrightarrow> auctions_ok m'"
  by (auto simp: cancel_auction_def auctions_ok_remove split: if_splits option.splits)

lemma finish_auction_keeps_ok:
  "auctions_ok m \<Longrightarrow> finish_auction m env aid = Inr (m', effs) \<Longrightarrow> auctions_ok m'"
  by (auto simp: finish_auction_def Let_def auctions_ok_remove split: if_splits option.splits)

lemma demo_auction_market_ok: "auctions_ok demo_auction_market"
  by (simp add: auctions_ok_def auction_wf_def demo_auction_market_def demo_auction_def
      market_new_def market_consts)

lemma demo_auction_bid_market_ok: "auctions_ok demo_auction_bid_market"
  by (simp add: auctions_ok_def auction_wf_def demo_auction_bid_market_def demo_auction_market_def
      demo_auction_def market_new_def market_consts)

section \<open>Behaviour of the handlers\<close>

text \<open>
  C12. Outbidding: an accepted bid on an auction is recorded as its live bid, with the
  caller, the deposit and the fee shares of the call; its net amount (the deposit less
  the fees, when defined) is at least the start price for a first bid, and at least the
  net amount of the replaced bid plus the minimal step otherwise.
\<close>

theorem auction_add_bid_raises:
  assumes r: "auction_add_bid m env aid tt os = Inr (m', effs)" and a: "auctions m aid = Some a"
  shows "\<exists>a' b'. auctions m' aid = Some a' \<and> auction_bid a' = Some b' \<and>
           bid_owner_id b' = predecessor_account_id env \<and> bid_price b' = attached_deposit env \<and>
           bid_origins b' = (case os of Some o' \<Rightarrow> o' | None \<Rightarrow> []) \<and>
           (\<forall>y. bid_actual_amount b' = Some y \<longrightarrow>
              (case auction_bid a of None \<Rightarrow> auction_start_price a \<le> y
               | Some b \<Rightarrow> \<exists>x. bid_actual_amount b = Some x \<and> x + auction_minimal_step a \<le> y))"
proof -
  obtain ft a0 mn md bo e' where a0: "auctions m aid = Some a0"
    and mn: "get_minimal_next_bid m aid = Inr mn" and md: "calculate_price_with_fees mn os = Some md"
    and dep: "md \<le> attached_deposit env"
    and m': "m' = m\<lparr>auctions := (auctions m)(aid \<mapsto> a0\<lparr>auction_bid := Some
            \<lparr>bid_owner_id = predecessor_account_id env, bid_price = attached_deposit env,
             bid_start = block_timestamp env, bid_end = None,
             bid_origins = (case os of Some o' \<Rightarrow> o' | None \<Rightarrow> [])\<rparr>, auction_end := e'\<rparr>)\<rparr>"
    by (rule auction_add_bid_Inr [OF r])
  from a0 a have aa: "a0 = a" by simp
  let ?b' = "\<lparr>bid_owner_id = predecessor_account_id env, bid_price = attached_deposit env,
             bid_start = block_timestamp env, bid_end = None,
             bid_origins = (case os of Some o' \<Rightarrow> o' | None \<Rightarrow> [])\<rparr>"
  have "mn \<le> y" if y: "bid_actual_amount ?b' = Some y" for y
  proof -
    from y obtain w where w: "total_origins os = Some w"
      and d: "calculate_actual_amount (attached_deposit env) w = Some y"
      by (auto simp: bid_actual_amount_def total_origins_of_bid split: option.splits)
    show ?thesis by (rule actual_amount_of_sufficient_deposit [OF w md dep d])
  qed
  with get_minimal_next_bid_Inr [OF a mn] m' aa show ?thesis
    by (auto split: option.splits)
qed

theorem auction_add_bid_raises_witness:
  "\<exists>m' effs. auction_add_bid demo_auction_bid_market (auction_env ''carol'' 10403 20) 0 None None
         = Inr (m', effs) \<and>
       (\<exists>a' b'. auctions m' 0 = Some a' \<and> auction_bid a' = Some b' \<and> bid_owner_id b' = ''carol'' \<and>
          bid_actual_amount b' = Some 10100 \<and> bid_actual_amount (demo_bid ''bob'' 10300) = Some 10000 \<and>
          10000 + auction_minimal_step demo_auction \<le> 10100)"
proof -
  let ?e = "auction_env ''carol'' 10403 20"
  have "\<exists>r. auction_add_bid demo_auction_bid_market ?e 0 None None = Inr r"
    by (simp add: auction_demo_defs)
  then obtain m' effs where r: "auction_add_bid demo_auction_bid_market ?e 0 None None = Inr (m', effs)"
    by auto
  have a: "auctions demo_auction_bid_market 0 = Some (demo_auction\<lparr>auction_bid := Some (demo_bid ''bob'' 10300)\<rparr>)"
    by (simp add: demo_auction_bid_market_def)
  from auction_add_bid_raises [OF r a] obtain a' b' where a': "auctions m' 0 = Some a'"
    and b': "auction_bid a' = Some b'" and o: "bid_owner_id b' = ''carol''"
    and pr: "bid_price b' = 10403" and og: "bid_origins b' = []"
    and up: "\<forall>y. bid_actual_amount b' = Some y \<longrightarrow>
              (\<exists>x. bid_actual_amount (demo_bid ''bob'' 10300) = Some x \<and> x + auction_minimal_step demo_auction \<le> y)"
    by (auto simp: auction_env_def)
  have y: "bid_actual_amount b' = Some 10100"
    using pr og by (simp add: bid_actual_amount_def calculate_actual_amount_def market_consts)
  have x: "bid_actual_amount (demo_bid ''bob'' 10300) = Some 10000"
    by (simp add: bid_actual_amount_def demo_bid_def calculate_actual_amount_def market_consts)
  from up y x have "10000 + auction_minimal_step demo_auction \<le> 10100" by auto
  with r a' b' o y x show ?thesis by blast
qed

text \<open>
  C13. Soft close and buyout: after an accepted bid the auction ends at the block time
  when the deposit reaches the buyout price with fees, and otherwise at the later of its
  old end and 15 minutes after the bid; in particular the end never decreases except by a
  buyout.
\<close>

theorem auction_add_bid_end_time:
  assumes r: "auction_add_bid m env aid tt os = Inr (m', effs)" and a: "auctions m aid = Some a"
  shows "\<exists>a' bo. auctions m' aid = Some a' \<and> buy_out_reached a (attached_deposit env) os = Inr bo \<and>
           auction_end a' = (if bo then block_timestamp env
                             else max (auction_end a) (block_timestamp env + EXTENSION_DURATION))"
proof -
  obtain a0 bo e' m'' where a0: "auctions m aid = Some a0" and le: "block_timestamp env \<le> auction_end a0"
    and bo: "buy_out_reached a0 (attached_deposit env) os = Inr bo"
    and e': "extended_end (auction_end a0) (block_timestamp env) bo = Inr e'"
    and m': "auctions m' aid = Some (a0\<lparr>auction_bid := m'', auction_end := e'\<rparr>)"
    by (rule auction_add_bid_Inr [OF r]) simp
  from a0 a have "a0 = a" by simp
  with bo m' extended_end_Inr [OF e' le] show ?thesis by auto
qed

theorem auction_add_bid_end_time_witness:
  "\<exists>m' effs. auction_add_bid demo_auction_market (auction_env ''bob'' 10300 (59 * 60 * NANOS_PER_SEC))
         0 None None = Inr (m', effs) \<and>
       (\<exists>a'. auctions m' 0 = Some a' \<and> auction_end a' = 59 * 60 * NANOS_PER_SEC + EXTENSION_DURATION)"
proof -
  let ?e = "auction_env ''bob'' 10300 (59 * 60 * NANOS_PER_SEC)"
  have "\<exists>r. auction_add_bid demo_auction_market ?e 0 None None = Inr r"
    by (simp add: auction_demo_defs)
  then obtain m' effs where r: "auction_add_bid demo_auction_market ?e 0 None None = Inr (m', effs)"
    by auto
  have a: "auctions demo_auction_market 0 = Some demo_auction" by (simp add: demo_auction_market_def)
  have bo: "buy_out_reached demo_auction (attached_deposit ?e) None = Inr False"
    by (simp add: auction_demo_defs)
  from auction_add_bid_end_time [OF r a] bo obtain a' where "auctions m' 0 = Some a'"
    and "auction_end a' = max (auction_end demo_auction) (block_timestamp ?e + EXTENSION_DURATION)"
    by auto
  then have "auctions m' 0 = Some a' \<and> auction_end a' = 59 * 60 * NANOS_PER_SEC + EXTENSION_DURATION"
    by (simp add: demo_auction_def auction_env_def market_consts)
  with r show ?thesis by blast
qed

text \<open>
  C14. Buyout does not close the auction at once: after a buyout bid the auction ends at
  the block time of the bid, and at that same block time it is still in progress (the
  window is \<open>start < now \<le> end\<close>) and cannot be finished (that needs
  \<open>end < now\<close>). The spec says that progress becomes false right after a buyout;
  in the code another bid in the same block can still replace the buyer.
\<close>

theorem auction_buy_out_stays_open:
  assumes r: "auction_add_bid m env aid tt os = Inr (m', effs)" and a: "auctions m aid = Some a"
    and bo: "buy_out_reached a (attached_deposit env) os = Inr True"
  shows "\<exists>a'. auctions m' aid = Some a' \<and> auction_end a' = block_timestamp env \<and>
           check_auction_in_progress m' env aid = Inr True \<and> finish_auction m' env aid = Inl AuctionNotEnded"
proof -
  obtain a0 bo' e' b' where a0: "auctions m aid = Some a0"
    and st: "auction_start a0 < block_timestamp env" and le: "block_timestamp env \<le> auction_end a0"
    and bo': "buy_out_reached a0 (attached_deposit env) os = Inr bo'"
    and e': "extended_end (auction_end a0) (block_timestamp env) bo' = Inr e'"
    and m': "auctions m' aid = Some (a0\<lparr>auction_bid := Some b', auction_end := e'\<rparr>)"
    by (rule auction_add_bid_Inr [OF r]) simp
  from a0 a bo bo' have "a0 = a" and "bo'" by simp_all
  with extended_end_Inr [OF e' le] have "e' = block_timestamp env" by simp
  with m' st show ?thesis
    by (simp add: check_auction_in_progress_def finish_auction_def)
qed

theorem auction_buy_out_stays_open_witness:
  "\<exists>m' effs. auction_add_bid demo_auction_bid_market (auction_env ''carol'' 10300000000 20) 0 None None
         = Inr (m', effs) \<and>
       check_auction_in_progress m' (auction_env ''carol'' 10300000000 20) 0 = Inr True \<and>
       finish_auction m' (auction_env ''carol'' 10300000000 20) 0 = Inl AuctionNotEnded"
proof -
  let ?e = "auction_env ''carol'' 10300000000 20"
  have "\<exists>r. auction_add_bid demo_auction_bid_market ?e 0 None None = Inr r"
    by (simp add: auction_demo_defs)
  then obtain m' effs where r: "auction_add_bid demo_auction_bid_market ?e 0 None None = Inr (m', effs)"
    by auto
  have a: "auctions demo_auction_bid_market 0 = Some (demo_auction\<lparr>auction_bid := Some (demo_bid ''bob'' 10300)\<rparr>)"
    by (simp add: demo_auction_bid_market_def)
  have bo: "buy_out_reached (demo_auction\<lparr>auction_bid := Some (demo_bid ''bob'' 10300)\<rparr>)
              (attached_deposit ?e) None = Inr True"
    by (simp add: auction_demo_defs)
  from auction_buy_out_stays_open [OF r a bo] r show ?thesis by blast
qed

text \<open>
  C15. Refund of the replaced bid: an accepted bid pays back exactly the replaced bid, to
  its owner, in the currency of the new bid, and nothing else; the price held for the
  auction plus the refund equals the price held before plus the deposit.
\<close>

theorem auction_add_bid_refunds_previous:
  assumes r: "auction_add_bid m env aid tt os = Inr (m', effs)" and a: "auctions m aid = Some a"
  shows "\<exists>ft a'. token_type_to_ft_token_type m tt = Inr ft \<and> auctions m' aid = Some a' \<and>
           effs = (case auction_bid a of None \<Rightarrow> []
                   | Some b \<Rightarrow> [Pay (refund_bid ft (bid_owner_id b) (bid_price b))]) \<and>
           auction_escrow a' + total_paid (paid effs) = auction_escrow a + attached_deposit env"
proof -
  obtain ft a0 b' e' where ft: "token_type_to_ft_token_type m tt = Inr ft" and a0: "auctions m aid = Some a0"
    and m': "auctions m' aid = Some (a0\<lparr>auction_bid := Some b', auction_end := e'\<rparr>)"
    and p: "bid_price b' = attached_deposit env"
    and effs: "effs = (case auction_bid a0 of None \<Rightarrow> []
             | Some pb \<Rightarrow> [Pay (refund_bid ft (bid_owner_id pb) (bid_price pb))])"
    by (rule auction_add_bid_Inr [OF r]) simp_all
  from a0 a have "a0 = a" by simp
  with ft m' p effs show ?thesis
    by (auto simp: auction_escrow_def split: option.splits)
qed

theorem auction_add_bid_refunds_previous_witness:
  "\<exists>m' effs. auction_add_bid demo_auction_bid_market (auction_env ''carol'' 10403 20) 0 None None
         = Inr (m', effs) \<and> effs = [Pay (NearTransfer ''bob'' 10300)] \<and>
       (\<exists>a'. auctions m' 0 = Some a' \<and> auction_escrow a' = 10403)"
proof -
  let ?e = "auction_env ''carol'' 10403 20"
  have "\<exists>r. auction_add_bid demo_auction_bid_market ?e 0 None None = Inr r"
    by (simp add: auction_demo_defs)
  then obtain m' effs where r: "auction_add_bid demo_auction_bid_market ?e 0 None None = Inr (m', effs)"
    by auto
  have a: "auctions demo_auction_bid_market 0 = Some (demo_auction\<lparr>auction_bid := Some (demo_bid ''bob'' 10300)\<rparr>)"
    by (simp add: demo_auction_bid_market_def)
  from auction_add_bid_refunds_previous [OF r a] obtain ft a' where
    ft: "token_type_to_ft_token_type demo_auction_bid_market None = Inr ft" and a': "auctions m' 0 = Some a'"
    and effs: "effs = [Pay (refund_bid ft ''bob'' 10300)]"
    and esc: "auction_escrow a' + total_paid (paid effs) = 10300 + 10403"
    by (auto simp: auction_escrow_def demo_bid_def auction_env_def)
  from ft have "ft = NEAR"
    by (simp add: token_type_to_ft_token_type_def demo_auction_bid_market_def demo_auction_market_def
        market_new_def split: if_splits)
  with effs esc have "effs = [Pay (NearTransfer ''bob'' 10300)] \<and> auction_escrow a' = 10403"
    by (simp add: refund_bid_def)
  with r a' show ?thesis by blast
qed

text \<open>
  C16. Finishing an auction: it succeeds only after the end time and with a live bid;
  it removes the auction and asks the NFT contract to transfer the token to the bidder
  for the bid's price, with the protocol fee of the market in both fee memos, and
  schedules \<open>resolve_finish_auction\<close> for that bidder and price.
\<close>

theorem finish_auction_settles:
  assumes "finish_auction m env aid = Inr (m', effs)"
  shows "\<exists>a b call. auctions m aid = Some a \<and> auction_end a < block_timestamp env \<and>
           auction_bid a = Some b \<and>
           m' = m\<lparr>auctions := (auctions m)(aid := None), auction_keys := uset_remove (auction_keys m) aid\<rparr> \<and>
           effs = [TransferPayout call (ResolveFinishAuction (auction_ft_token_id a) (bid_owner_id b) (bid_price b))] \<and>
           pc_receiver_id call = bid_owner_id b \<and> pc_balance call = bid_price b \<and>
           pc_nft_contract_id call = auction_nft_contract_id a \<and> pc_token_id call = auction_token_id a \<and>
           map_of (fees_buyer (pc_memo call)) (current_account_id env) = Some PROTOCOL_FEE \<and>
           map_of (fees_seller (pc_memo call)) (current_account_id env) = Some PROTOCOL_FEE"
  using assms
  by (auto simp: finish_auction_def Let_def with_protocol_fee_def not_less split: if_splits option.splits)

theorem finish_auction_settles_witness:
  "\<exists>m' effs. finish_auction demo_auction_bid_market (auction_env ''anyone'' 0 (60 * 60 * NANOS_PER_SEC + 1)) 0
       = Inr (m', effs) \<and> auctions m' 0 = None \<and>
     (\<exists>call. effs = [TransferPayout call (ResolveFinishAuction NEAR ''bob'' 10300)] \<and> pc_balance call = 10300)"
proof -
  let ?e = "auction_env ''anyone'' 0 (60 * 60 * NANOS_PER_SEC + 1)"
  have "\<exists>r. finish_auction demo_auction_bid_market ?e 0 = Inr r"
    by (simp add: finish_auction_def demo_auction_bid_market_def demo_auction_market_def demo_auction_def
        auction_env_def)
  then obtain m' effs where r: "finish_auction demo_auction_bid_market ?e 0 = Inr (m', effs)" by auto
  from finish_auction_settles [OF r] r show ?thesis
    by (auto simp: demo_auction_bid_market_def demo_auction_market_def demo_auction_def demo_bid_def)
qed

text \<open>
  C17. Cancelling an auction: it succeeds exactly when the call carries one yoctoNEAR,
  the caller owns the auction and it has no bid yet; then it removes the auction and
  pays nothing. An auction with a bid can never be cancelled.
\<close>

theorem cancel_auction_iff:
  "cancel_auction m env aid = Inr (m', effs) \<longleftrightarrow>
     attached_deposit env = 1 \<and>
     (\<exists>a. auctions m aid = Some a \<and> auction_owner_id a = predecessor_account_id env \<and>
          auction_bid a = None) \<and>
     m' = m\<lparr>auctions := (auctions m)(aid := None), auction_keys := uset_remove (auction_keys m) aid\<rparr> \<and>
     effs = []"
  by (auto simp: cancel_auction_def split: option.splits)

theorem cancel_auction_iff_witness:
  "cancel_auction demo_auction_market (auction_env ''alice'' 1 20) 0 =
     Inr (demo_auction_market\<lparr>auctions := Map.empty, auction_keys := []\<rparr>, []) \<and>
   (\<forall>r. cancel_auction demo_auction_bid_market (auction_env ''alice'' 1 20) 0 \<noteq> Inr r)"
proof -
  have "cancel_auction demo_auction_market (auction_env ''alice'' 1 20) 0 =
          Inr (demo_auction_market\<lparr>auctions := (auctions demo_auction_market)(0 := None),
                 auction_keys := uset_remove (auction_keys demo_auction_market) 0\<rparr>, [])"
    using cancel_auction_iff [of demo_auction_market "auction_env ''alice'' 1 20" 0]
    by (simp add: demo_auction_market_def demo_auction_def auction_env_def)
  moreover have "(auctions demo_auction_market)(0 := None) = Map.empty"
    by (simp add: demo_auction_market_def market_new_def)
  moreover have "uset_remove (auction_keys demo_auction_market) 0 = []"
    by (simp add: demo_auction_market_def market_new_def uset_remove_def)
  moreover have "cancel_auction demo_auction_bid_market (auction_env ''alice'' 1 20) 0 \<noteq> Inr r" for r
    using cancel_auction_iff [of demo_auction_bid_market "auction_env ''alice'' 1 20" 0 "fst r" "snd r"]
    by (cases r) (simp add: demo_auction_bid_market_def demo_auction_market_def demo_auction_def)
  ultimately show ?thesis by simp
qed

text \<open>
  C18. Opening an auction: from a market whose auctions satisfy the invariant,
  \<open>start_auction\<close> stores the new auction under a fresh identifier, overwriting
  nothing, keeps the invariant, starts it no earlier than the block time, and gives it a
  duration between 15 minutes and 1000 days and no bid.
\<close>

theorem start_auction_fresh:
  assumes ok: "auctions_ok m"
    and r: "start_auction m env args token_id owner_id approval_id nft_contract_id = Inr (m', aid, a)"
  shows "auctions m aid = None \<and> auctions m' = (auctions m)(aid \<mapsto> a) \<and> auctions_ok m' \<and>
         block_timestamp env \<le> auction_start a \<and>
         EXTENSION_DURATION \<le> auction_end a - auction_start a \<and>
         auction_end a - auction_start a \<le> MAX_DURATION \<and> auction_bid a = None"
proof -
  from r have aid: "aid = next_auction_id m" and n': "next_auction_id m' = aid + 1"
    and m': "auctions m' = (auctions m)(aid \<mapsto> a)"
    and st: "block_timestamp env \<le> auction_start a"
    and d: "auction_end a = auction_start a + aa_duration args"
    and dur: "EXTENSION_DURATION \<le> aa_duration args" "aa_duration args \<le> MAX_DURATION"
    and b: "auction_bid a = None" and u: "auction_end a \<le> u64_max"
    by (auto simp: start_auction_def Let_def not_less split: if_splits sum.splits option.splits)
  have fresh: "auctions m aid = None"
    using ok aid by (auto simp: auctions_ok_def)
  have "0 < EXTENSION_DURATION" by (simp add: market_consts)
  with dur d u have "auction_wf a" by (simp add: auction_wf_def)
  moreover have "k < next_auction_id m' \<and> auction_wf a'" if "auctions m' k = Some a'" for k a'
  proof (cases "k = aid")
    case True
    with that m' n' \<open>auction_wf a\<close> show ?thesis by simp
  next
    case False
    with that m' have "auctions m k = Some a'" by simp
    from auctions_ok_at [OF ok this] n' aid show ?thesis by simp
  qed
  ultimately have "auctions_ok m'" by (auto simp: auctions_ok_def)
  with fresh m' st d dur b show ?thesis by simp
qed

theorem start_auction_fresh_witness:
  "\<exists>m' a. start_auction demo_auction_market (auction_env ''dave'' 0 10) demo_auction_args ''1:3''
           ''dave'' 0 ''nft'' = Inr (m', 1, a) \<and>
         auctions demo_auction_market 1 = None \<and> auctions_ok m' \<and> auction_start a = 10 \<and>
         auction_end a - auction_start a = EXTENSION_DURATION"
proof -
  have "\<exists>m' a. start_auction demo_auction_market (auction_env ''dave'' 0 10) demo_auction_args ''1:3''
           ''dave'' 0 ''nft'' = Inr (m', 1, a)"
    by (simp add: start_auction_def demo_auction_args_def demo_auction_market_def market_new_def
        token_type_to_ft_token_type_def auction_env_def market_consts Let_def)
  then obtain m' a where r: "start_auction demo_auction_market (auction_env ''dave'' 0 10) demo_auction_args
           ''1:3'' ''dave'' 0 ''nft'' = Inr (m', 1, a)" by blast
  from r have st: "auction_start a = 10" and en: "auction_end a = 10 + EXTENSION_DURATION"
    by (auto simp: start_auction_def demo_auction_args_def demo_auction_market_def market_new_def
        token_type_to_ft_token_type_def auction_env_def market_consts Let_def split: if_splits)
  from start_auction_fresh [OF demo_auction_market_ok r] r st en show ?thesis by auto
qed

text \<open>
  C19. Invariant of the auctions: an accepted bid keeps every auction starting strictly
  before it ends with its end within u64, and the identifiers below the next one; in
  particular the u64 subtraction \<open>end - now\<close> of the extension rule never wraps.
\<close>

theorem auction_add_bid_keeps_ok:
  assumes ok: "auctions_ok m" and r: "auction_add_bid m env aid tt os = Inr (m', effs)"
  shows "auctions_ok m'"
proof -
  obtain a bo e' b' where a: "auctions m aid = Some a"
    and st: "auction_start a < block_timestamp env" and le: "block_timestamp env \<le> auction_end a"
    and e': "extended_end (auction_end a) (block_timestamp env) bo = Inr e'"
    and m': "m' = m\<lparr>auctions := (auctions m)(aid \<mapsto> a\<lparr>auction_bid := Some b', auction_end := e'\<rparr>)\<rparr>"
    by (rule auction_add_bid_Inr [OF r]) simp
  from auctions_ok_at [OF ok a] have wf: "auction_wf a" ..
  have "auction_wf (a\<lparr>auction_bid := Some b', auction_end := e'\<rparr>)"
  proof (cases bo)
    case True
    with extended_end_Inr [OF e' le] st le wf show ?thesis by (simp add: auction_wf_def)
  next
    case False
    with extended_end_Inr [OF e' le] wf have "auction_end a \<le> e'" by (simp add: auction_wf_def)
    moreover from e' False have "e' \<le> u64_max" using wf
      by (auto simp: extended_end_def auction_wf_def Let_def split: if_splits)
    ultimately show ?thesis using wf by (simp add: auction_wf_def)
  qed
  with ok a m' show ?thesis by (simp add: auctions_ok_update domI)
qed

theorem auction_add_bid_keeps_ok_witness:
  "\<exists>m' effs. auction_add_bid demo_auction_bid_market (auction_env ''carol'' 10403 20) 0 None None
         = Inr (m', effs) \<and> auctions_ok m'"
proof -
  have "\<exists>r. auction_add_bid demo_auction_bid_market (auction_env ''carol'' 10403 20) 0 None None = Inr r"
    by (simp add: auction_demo_defs)
  then obtain m' effs where
    r: "auction_add_bid demo_auction_bid_market (auction_env ''carol'' 10403 20) 0 None None = Inr (m', effs)"
    by auto
  from auction_add_bid_keeps_ok [OF demo_auction_bid_market_ok r] r show ?thesis by blast
qed

text \<open>
  C29. Bidding on an auction ends: when the auction's minimal step is positive there is
  no infinite sequence of accepted bids on it, since each one raises the net amount of
  the live bid by at least the step and net amounts are u128 values.
\<close>

theorem auction_bidding_terminates:
  "wf {(m', m). \<exists>env tt os effs a. auctions m aid = Some a \<and> 0 < auction_minimal_step a \<and>
                  auction_add_bid m env aid tt os = Inr (m', effs)}"
  by (rule wf_subset [OF wf_measure [of "\<lambda>m. bids_left m aid"]])
     (auto simp: measure_def inv_image_def dest: auction_add_bid_bids_left)

theorem auction_bidding_terminates_witness:
  "\<exists>m'. (m', demo_auction_market) \<in>
     {(m', m). \<exists>env tt os effs a. auctions m 0 = Some a \<and> 0 < auction_minimal_step a \<and>
                  auction_add_bid m env 0 tt os = Inr (m', effs)} \<and>
   wf {(m', m). \<exists>env tt os effs a. auctions m 0 = Some a \<and> 0 < auction_minimal_step a \<and>
                  auction_add_bid m env 0 tt os = Inr (m', effs)}"
proof -
  have "\<exists>r. auction_add_bid demo_auction_market (auction_env ''bob'' 10300 15) 0 None None = Inr r"
    by (simp add: auction_demo_defs)
  then obtain m' effs where
    r: "auction_add_bid demo_auction_market (auction_env ''bob'' 10300 15) 0 None None = Inr (m', effs)"
    by auto
  have a: "auctions demo_auction_market 0 = Some demo_auction" "0 < auction_minimal_step demo_auction"
    by (simp_all add: auction_demo_defs)
  from r a auction_bidding_terminates [of 0] show ?thesis by blast
qed

end
