(* ===== verification/Nft.thy ===== *)
theory Nft
  imports Prelude
begin

text \<open>
  The NFT contract (src/nft/src): tokens grouped in series that share metadata and a
  royalty map. The state (\<open>Nft\<close> of lib.rs) is the token ownership of near-contract-
  standards' \<open>NonFungibleToken\<close> (owner by token, tokens by owner, approvals by token),
  the issue time of each token, the series in creation order, and the private-minting
  switch with its minters (permissions.rs). The handlers are \<open>nft_create_series\<close>,
  \<open>nft_mint\<close> (lib.rs), \<open>grant\<close>, \<open>deny\<close>, \<open>set_private_minting\<close> (permissions.rs),
  \<open>nft_transfer\<close> (nft_core.rs, with the library's \<open>internal_transfer\<close>) and the
  approval \<open>nft_approve\<close> of the library that notifies the market; the views are
  \<open>nft_token\<close>, \<open>nft_get_series\<close>, \<open>nft_series\<close> and \<open>nft_supply_for_series\<close>.
  Token metadata is reduced to the fields the code reads or writes (title, copies, issue
  time); storage-deposit refunds and event logs are not modelled.
\<close>

section \<open>Token identifiers\<close>

text \<open>
  Decimal printing of a number (Rust's \<open>to_string\<close> and \<open>format!\<close> of an integer),
  and the series part of a token id: the text before the first \<open>TOKEN_DELIMETER\<close>.
\<close>

definition TOKEN_DELIMETER :: char where [market_consts]: "TOKEN_DELIMETER = CHR '':''"

definition digit_char :: "nat \<Rightarrow> char" where
  "digit_char d = char_of (48 + d)"

fun string_of_nat :: "nat \<Rightarrow> string" where
  "string_of_nat n = (if n < 10 then [digit_char n] else string_of_nat (n div 10) @ [digit_char (n mod 10)])"

definition series_of_token :: "string \<Rightarrow> string" where
  "series_of_token token_id = takeWhile (\<lambda>c. c \<noteq> TOKEN_DELIMETER) token_id"

definition series_token_id :: "string \<Rightarrow> nat \<Rightarrow> string" where
  "series_token_id token_series_id n = token_series_id @ [TOKEN_DELIMETER] @ string_of_nat n"

section \<open>State\<close>

record token_metadata =
  tm_title :: "string option"
  tm_copies :: "nat option"
  tm_issued_at :: "string option"

text \<open>\<open>TokenSeries\<close> (token_series.rs); its \<open>UnorderedSet\<close> of tokens in insertion order.\<close>

record token_series =
  ts_metadata :: token_metadata
  ts_owner_id :: account
  ts_tokens :: "string list"
  ts_royalty :: "(account \<times> nat) list"

record nft =
  nft_owner_id :: account
  owner_by_id :: "string \<rightharpoonup> account"
  tokens_per_owner :: "account \<rightharpoonup> string set"
  approvals_by_id :: "string \<rightharpoonup> (account \<times> nat) list"
  next_approval_id_by_id :: "string \<rightharpoonup> nat"
  token_issued_at :: "string \<rightharpoonup> timestamp"
  token_series_by_id :: "(string \<times> token_series) list"
  private_mint_enabled :: bool
  private_minters :: "account set"

definition nft_new :: "account \<Rightarrow> account list \<Rightarrow> bool \<Rightarrow> nft" where
  "nft_new owner_id minters enabled =
     \<lparr>nft_owner_id = owner_id, owner_by_id = Map.empty, tokens_per_owner = Map.empty,
      approvals_by_id = Map.empty, next_approval_id_by_id = Map.empty, token_issued_at = Map.empty,
      token_series_by_id = [], private_mint_enabled = enabled,
      private_minters = set minters\<rparr>"

text \<open>\<open>new_default_meta\<close>: no private minters, private minting off.\<close>

definition new_default_meta :: "account \<Rightarrow> nft" where
  "new_default_meta owner_id = nft_new owner_id [] False"

section \<open>Permissions\<close>

definition is_allowed :: "nft \<Rightarrow> account \<Rightarrow> bool" where
  "is_allowed n account_id = (\<not> private_mint_enabled n \<or> account_id \<in> private_minters n)"

definition grant :: "nft \<Rightarrow> env \<Rightarrow> account \<Rightarrow> error + (nft \<times> bool)" where
  "grant n env account_id =
     (if predecessor_account_id env \<noteq> nft_owner_id n then Inl OnlyContractOwner
      else Inr (n\<lparr>private_minters := insert account_id (private_minters n)\<rparr>,
                account_id \<notin> private_minters n))"

definition deny :: "nft \<Rightarrow> env \<Rightarrow> account \<Rightarrow> error + (nft \<times> bool)" where
  "deny n env account_id =
     (if predecessor_account_id env \<noteq> nft_owner_id n then Inl OnlyContractOwner
      else Inr (n\<lparr>private_minters := private_minters n - {account_id}\<rparr>,
                account_id \<in> private_minters n))"

definition set_private_minting :: "nft \<Rightarrow> env \<Rightarrow> bool \<Rightarrow> error + nft" where
  "set_private_minting n env enabled =
     (if predecessor_account_id env \<noteq> nft_owner_id n then Inl OnlyContractOwner
      else Inr (n\<lparr>private_mint_enabled := enabled\<rparr>))"

section \<open>Series and minting\<close>

definition MAXIMUM_ROYALTY :: nat where [market_consts]: "MAXIMUM_ROYALTY = 5000"

text \<open>The royalty total \<open>royalty.values().sum()\<close>, a u32 sum.\<close>

fun u32_sum :: "nat \<Rightarrow> nat list \<Rightarrow> nat option" where
  "u32_sum acc [] = Some acc"
| "u32_sum acc (v # vs) = (if u32_max < acc + v then None else u32_sum (acc + v) vs)"

definition nft_create_series ::
  "nft \<Rightarrow> env \<Rightarrow> token_metadata \<Rightarrow> (account \<times> nat) list option \<Rightarrow> error + (nft \<times> string)" where
  "nft_create_series n env token_metadata royalty =
     (if \<not> is_allowed n (predecessor_account_id env) then Inl MintAccessDenied
      else (let owner_id = predecessor_account_id env;
                token_series_id = string_of_nat (length (token_series_by_id n) + 1) in
            if tm_title token_metadata = None then Inl TitleMissing
            else case u32_sum 0 (map snd (case royalty of Some r \<Rightarrow> r | None \<Rightarrow> [])) of
              None \<Rightarrow> Inl ArithmeticOverflow
            | Some total_payouts \<Rightarrow>
                if MAXIMUM_ROYALTY < total_payouts then Inl RoyaltyCapExceeded
                else Inr (n\<lparr>token_series_by_id := AList.update token_series_id
                            \<lparr>ts_metadata = token_metadata, ts_owner_id = owner_id, ts_tokens = [],
                             ts_royalty = (case royalty of Some r \<Rightarrow> r | None \<Rightarrow> [])\<rparr>
                            (token_series_by_id n)\<rparr>, token_series_id)))"

definition set_insert :: "'a \<Rightarrow> 'a list \<Rightarrow> 'a list" where
  "set_insert x xs = (if x \<in> set xs then xs else xs @ [x])"

definition nft_mint ::
  "nft \<Rightarrow> env \<Rightarrow> string \<Rightarrow> account \<Rightarrow> error + (nft \<times> string)" where
  "nft_mint n env token_series_id receiver_id =
     (if \<not> is_allowed n (predecessor_account_id env) then Inl MintAccessDenied
      else case map_of (token_series_by_id n) token_series_id of
        None \<Rightarrow> Inl NoTokenSeries
      | Some token_series \<Rightarrow>
          if predecessor_account_id env \<noteq> ts_owner_id token_series then Inl PermissionDenied
          else if \<not> length (ts_tokens token_series) <
                    (case tm_copies (ts_metadata token_series) of Some c \<Rightarrow> c | None \<Rightarrow> u64_max)
          then Inl MaxTokenMinted
          else (let token_id = series_token_id token_series_id (length (ts_tokens token_series) + 1);
                    owned = (case tokens_per_owner n receiver_id of Some s \<Rightarrow> s | None \<Rightarrow> {}) in
                Inr (n\<lparr>owner_by_id := (owner_by_id n)(token_id \<mapsto> receiver_id),
                       token_issued_at := (token_issued_at n)(token_id \<mapsto> block_timestamp env),
                       tokens_per_owner := (tokens_per_owner n)(receiver_id \<mapsto> insert token_id owned),
                       token_series_by_id := AList.update token_series_id
                          (token_series\<lparr>ts_tokens := set_insert token_id (ts_tokens token_series)\<rparr>)
                          (token_series_by_id n)\<rparr>, token_id)))"

section \<open>Transfer and approval\<close>

text \<open>
  \<open>NonFungibleToken::internal_transfer\<close> of near-contract-standards (library code, the
  semantics \<open>nft_transfer\<close> relies on): the sender must own the token or be approved
  for it, with the given approval id if one is given; all approvals are cleared; the
  owner must change; ownership and the per-owner sets move to the receiver.
\<close>

definition internal_transfer ::
  "nft \<Rightarrow> account \<Rightarrow> account \<Rightarrow> string \<Rightarrow> nat option \<Rightarrow> error + (nft \<times> account)" where
  "internal_transfer n sender_id receiver_id token_id approval_id =
     (case owner_by_id n token_id of
        None \<Rightarrow> Inl TokenNotFound
      | Some owner_id \<Rightarrow>
          (let approved = (case approvals_by_id n token_id of Some a \<Rightarrow> a | None \<Rightarrow> []) in
           if sender_id \<noteq> owner_id \<and>
              (case map_of approved sender_id of
                 None \<Rightarrow> True
               | Some actual \<Rightarrow> (case approval_id of Some given \<Rightarrow> actual \<noteq> given | None \<Rightarrow> False))
           then Inl SenderNotApproved
           else if owner_id = receiver_id then Inl OwnerMustDiffer
           else (let from_set = (case tokens_per_owner n owner_id of Some s \<Rightarrow> s | None \<Rightarrow> {}) - {token_id};
                     to_set = insert token_id (case tokens_per_owner n receiver_id of Some s \<Rightarrow> s | None \<Rightarrow> {}) in
                 Inr (n\<lparr>approvals_by_id := (approvals_by_id n)(token_id := None),
                        owner_by_id := (owner_by_id n)(token_id \<mapsto> receiver_id),
                        tokens_per_owner := ((tokens_per_owner n)
                           (owner_id := (if from_set = {} then None else Some from_set)))
                           (receiver_id \<mapsto> to_set)\<rparr>, owner_id))))"

definition nft_transfer ::
  "nft \<Rightarrow> env \<Rightarrow> account \<Rightarrow> string \<Rightarrow> nat option \<Rightarrow> error + nft" where
  "nft_transfer n env receiver_id token_id approval_id =
     (case owner_by_id n token_id of
        None \<Rightarrow> Inl TokenNotFound
      | Some _ \<Rightarrow>
          if attached_deposit env \<noteq> 1 then Inl RequiresOneYocto
          else case internal_transfer n (predecessor_account_id env) receiver_id token_id approval_id of
            Inl e \<Rightarrow> Inl e
          | Inr (n', _) \<Rightarrow> Inr n')"

text \<open>
  \<open>nft_approve\<close> of the library: the owner grants \<open>account_id\<close> the next approval id of
  the token and, with a message, calls \<open>nft_on_approve\<close> on that account; the model
  returns the arguments of that call (token, owner, approval id, message).
\<close>

definition nft_approve ::
  "nft \<Rightarrow> env \<Rightarrow> string \<Rightarrow> account \<Rightarrow> 'msg option \<Rightarrow>
   error + (nft \<times> (string \<times> account \<times> nat \<times> 'msg) option)" where
  "nft_approve n env token_id account_id msg =
     (if attached_deposit env < 1 then Inl RequiresOneYocto
      else case owner_by_id n token_id of
        None \<Rightarrow> Inl TokenNotFound
      | Some owner_id \<Rightarrow>
          if predecessor_account_id env \<noteq> owner_id then Inl PermissionDenied
          else (let approval_id = (case next_approval_id_by_id n token_id of Some i \<Rightarrow> i | None \<Rightarrow> 1);
                    approved = (case approvals_by_id n token_id of Some a \<Rightarrow> a | None \<Rightarrow> []) in
                Inr (n\<lparr>approvals_by_id := (approvals_by_id n)(token_id \<mapsto> AList.update account_id approval_id approved),
                       next_approval_id_by_id := (next_approval_id_by_id n)(token_id \<mapsto> approval_id + 1)\<rparr>,
                     map_option (\<lambda>m. (token_id, owner_id, approval_id, m)) msg)))"

section \<open>Views\<close>

text \<open>
  \<open>nft_token\<close> (nft_core.rs) returns the library's \<open>Token\<close> (the struct the market's
  token.rs declares again, field for field): the metadata of the token's
  series with the token's issue time (the decimal string \<open>nft_mint\<close> stored) and no
  copies. It unwraps the lookups of the series and of the token's metadata, which panic
  when missing.
\<close>

record token_view =
  tv_token_id :: string
  tv_owner_id :: account
  tv_metadata :: token_metadata
  tv_approved_account_ids :: "(account \<times> nat) list"

definition nft_token :: "nft \<Rightarrow> string \<Rightarrow> error + token_view option" where
  "nft_token n token_id =
     (case owner_by_id n token_id of
        None \<Rightarrow> Inr None
      | Some owner_id \<Rightarrow>
          (case map_of (token_series_by_id n) (series_of_token token_id) of
             None \<Rightarrow> Inl UnwrapNone
           | Some series \<Rightarrow>
               (case token_issued_at n token_id of
                  None \<Rightarrow> Inl UnwrapNone
                | Some t \<Rightarrow>
                    Inr (Some \<lparr>tv_token_id = token_id, tv_owner_id = owner_id,
                               tv_metadata = (ts_metadata series)\<lparr>tm_issued_at := Some (string_of_nat t), tm_copies := None\<rparr>,
                               tv_approved_account_ids =
                                 (case approvals_by_id n token_id of Some a \<Rightarrow> a | None \<Rightarrow> [])\<rparr>))))"

definition nft_get_series :: "nft \<Rightarrow> string \<Rightarrow> error + (token_metadata \<times> account \<times> (account \<times> nat) list)" where
  "nft_get_series n token_series_id =
     (case map_of (token_series_by_id n) token_series_id of
        None \<Rightarrow> Inl NoTokenSeries
      | Some s \<Rightarrow> Inr (ts_metadata s, ts_owner_id s, ts_royalty s))"

text \<open>
  \<open>nft_series\<close> pages the series in creation order. The contract runs as wasm32 code,
  where \<open>usize\<close> has 32 bits: \<open>v as usize\<close> keeps the low 32 bits of the u64 limit and
  the default \<open>usize::MAX\<close> is \<open>2^32 - 1\<close>.
\<close>

definition nft_series ::
  "nft \<Rightarrow> nat option \<Rightarrow> nat option \<Rightarrow> error + (token_metadata \<times> account \<times> (account \<times> nat) list) list" where
  "nft_series n from_index limit =
     (let start_index = (case from_index of Some i \<Rightarrow> i | None \<Rightarrow> 0) in
      if \<not> start_index < length (token_series_by_id n) then Inl OutOfBounds
      else (let limit = (case limit of Some l \<Rightarrow> l mod 2 ^ 32 | None \<Rightarrow> u32_max) in
            if limit = 0 then Inl ZeroLimit
            else Inr (map (\<lambda>(_, s). (ts_metadata s, ts_owner_id s, ts_royalty s))
                        (take limit (drop start_index (token_series_by_id n))))))"

definition nft_supply_for_series :: "nft \<Rightarrow> string \<Rightarrow> error + nat" where
  "nft_supply_for_series n token_series_id =
     (case map_of (token_series_by_id n) token_series_id of
        None \<Rightarrow> Inl NoTokenSeries
      | Some s \<Rightarrow> Inr (length (ts_tokens s)))"


section \<open>Example state\<close>

text \<open>
  Series \<open>1\<close> created by \<open>alice\<close> with a 5% royalty to \<open>creator\<close>; its token
  \<open>1:1\<close> owned by \<open>alice\<close> and approved for the account \<open>market\<close> with approval
  id 0; calls to the NFT contract \<open>nft\<close>.
\<close>

definition demo_series :: token_series where
  "demo_series =
     \<lparr>ts_metadata = \<lparr>tm_title = Some ''Series'', tm_copies = None, tm_issued_at = None\<rparr>, ts_owner_id = ''alice'',
      ts_tokens = [''1:1''], ts_royalty = [(''creator'', 500)]\<rparr>"

definition demo_nft :: nft where
  "demo_nft =
     (nft_new ''nft'' [] False)\<lparr>owner_by_id := [''1:1'' \<mapsto> ''alice''],
        tokens_per_owner := [''alice'' \<mapsto> {''1:1''}], approvals_by_id := [''1:1'' \<mapsto> [(''market'', 0)]],
        next_approval_id_by_id := [''1:1'' \<mapsto> 1], token_issued_at := [''1:1'' \<mapsto> 0],
        token_series_by_id := [(''1'', demo_series)]\<rparr>"

definition nft_env :: "account \<Rightarrow> balance \<Rightarrow> env" where
  "nft_env caller deposit =
     \<lparr>block_timestamp = 10, predecessor_account_id = caller, signer_account_id = caller,
      attached_deposit = deposit, current_account_id = ''nft''\<rparr>"

end
