(* ===== verification/Payouts.thy ===== *)
theory Payouts
  imports Nft
begin

text \<open>
  The payout split of the NFT contract (payouts.rs): \<open>nft_payout\<close> and
  \<open>nft_transfer_payout\<close>, which the market calls in the first phase of settlement.
  The market's fee memo (\<open>Fees\<close>: the buyer-side and seller-side fee shares in basis
  points) raises the total weight from 10000 to \<open>10000 + buyer weight\<close>; the buyer
  fee is stripped from the balance, and each fee share, each royalty and the owner's
  remainder is paid \<open>weight * initial_price / 10000\<close>, rounded down, by
  \<open>royalty_to_payout\<close>. The shares accumulate in a \<open>HashMap\<close>: the buyer shares are
  inserted, the seller shares and royalties added to what is there. Then the token is
  transferred to the buyer. The lemmas bound the sum of the payout against the balance:
  it is at least the balance less the number of rounded shares, and at most one more
  than the balance when the buyer weight is at most 10000.
\<close>

section \<open>Definitions\<close>

definition ROYALTY_TOTAL_VALUE :: nat where [market_consts]: "ROYALTY_TOTAL_VALUE = 10000"

text \<open>\<open>Fees\<close> of payouts.rs, the JSON memo the market sends.\<close>

record nft_fees =
  nf_buyer :: "(account \<times> nat) list"
  nf_seller :: "(account \<times> nat) list"

text \<open>\<open>royalty_to_payout\<close>: a u128 product, checked, divided by 10000.\<close>

definition royalty_to_payout :: "nat \<Rightarrow> balance \<Rightarrow> balance option" where
  "royalty_to_payout a b = (if u128_max < a * b then None else Some (a * b div ROYALTY_TOTAL_VALUE))"

text \<open>
  The buyer loop: \<open>payout.insert(k, royalty_to_payout(v, initial_price))\<close> and
  \<open>total_payout += v\<close> (u32) for every share not of the token owner.
\<close>

fun insert_shares ::
  "account \<Rightarrow> balance \<Rightarrow> (account \<times> nat) list \<Rightarrow> payout \<Rightarrow> nat \<Rightarrow> error + (payout \<times> nat)" where
  "insert_shares owner ip [] p t = Inr (p, t)"
| "insert_shares owner ip ((k, v) # kvs) p t =
     (if k = owner then insert_shares owner ip kvs p t
      else case royalty_to_payout v ip of
        None \<Rightarrow> Inl ArithmeticOverflow
      | Some x \<Rightarrow> if u32_max < t + v then Inl ArithmeticOverflow
                  else insert_shares owner ip kvs (AList.update k x p) (t + v))"

text \<open>
  The seller and royalty loops: \<open>*payout.entry(k).or_insert(0) += royalty_to_payout(v, ip)\<close>
  (a u128 addition) and \<open>total_payout += v\<close>.
\<close>

fun add_shares ::
  "account \<Rightarrow> balance \<Rightarrow> (account \<times> nat) list \<Rightarrow> payout \<Rightarrow> nat \<Rightarrow> error + (payout \<times> nat)" where
  "add_shares owner ip [] p t = Inr (p, t)"
| "add_shares owner ip ((k, v) # kvs) p t =
     (if k = owner then add_shares owner ip kvs p t
      else case royalty_to_payout v ip of
        None \<Rightarrow> Inl ArithmeticOverflow
      | Some x \<Rightarrow>
          (let old = (case map_of p k of Some y \<Rightarrow> y | None \<Rightarrow> 0) in
           if u128_max < old + x then Inl ArithmeticOverflow
           else if u32_max < t + v then Inl ArithmeticOverflow
           else add_shares owner ip kvs (AList.update k (old + x) p) (t + v)))"

definition nft_payout :: "nft \<Rightarrow> string \<Rightarrow> balance \<Rightarrow> nat \<Rightarrow> error + payout" where
  "nft_payout n token_id balance max_len_payout =
     (case owner_by_id n token_id of
        None \<Rightarrow> Inl NoToken
      | Some token_owner \<Rightarrow>
          (case map_of (token_series_by_id n) (series_of_token token_id) of
             None \<Rightarrow> Inl NoTokenSeries
           | Some series \<Rightarrow>
               (let royalty = ts_royalty series in
                if max_len_payout < length royalty then Inl TooManyReceivers
                else case insert_shares token_owner balance royalty [] 0 of
                  Inl e \<Rightarrow> Inl e
                | Inr (p, total_payout) \<Rightarrow>
                    if ROYALTY_TOTAL_VALUE < total_payout then Inl RoyaltyTooHigh
                    else case royalty_to_payout (ROYALTY_TOTAL_VALUE - total_payout) balance of
                      None \<Rightarrow> Inl ArithmeticOverflow
                    | Some x \<Rightarrow> Inr (AList.update token_owner x p))))"

text \<open>
  The buyer fee of a memo: the buyer weight (a u32 sum), the total weight
  \<open>max_payout\<close> (u32), and the initial price, the balance less
  \<open>balance * buyer_value / (10000 + buyer_value)\<close> (a checked u128 product).
\<close>

definition strip_buyer_fee :: "balance \<Rightarrow> nft_fees option \<Rightarrow> error + (nat \<times> balance)" where
  "strip_buyer_fee balance memo =
     (case memo of
        None \<Rightarrow> Inr (ROYALTY_TOTAL_VALUE, balance)
      | Some fees \<Rightarrow>
          (case u32_sum 0 (map snd (nf_buyer fees)) of
             None \<Rightarrow> Inl ArithmeticOverflow
           | Some buyer_value \<Rightarrow>
               if u32_max < ROYALTY_TOTAL_VALUE + buyer_value then Inl ArithmeticOverflow
               else if u128_max < balance * buyer_value then Inl ArithmeticOverflow
               else Inr (ROYALTY_TOTAL_VALUE + buyer_value,
                         balance - balance * buyer_value div (ROYALTY_TOTAL_VALUE + buyer_value))))"

text \<open>The fee shares of the memo, buyer side inserted and seller side added.\<close>

definition fee_shares :: "account \<Rightarrow> balance \<Rightarrow> nft_fees option \<Rightarrow> error + (payout \<times> nat)" where
  "fee_shares owner ip memo =
     (case memo of
        None \<Rightarrow> Inr ([], 0)
      | Some fees \<Rightarrow>
          (case insert_shares owner ip (nf_buyer fees) [] 0 of
             Inl e \<Rightarrow> Inl e
           | Inr (p, t) \<Rightarrow> add_shares owner ip (nf_seller fees) p t))"

definition nft_transfer_payout ::
  "nft \<Rightarrow> env \<Rightarrow> account \<Rightarrow> string \<Rightarrow> nat \<Rightarrow> nft_fees option \<Rightarrow> balance \<Rightarrow> nat \<Rightarrow>
   error + (nft \<times> payout)" where
  "nft_transfer_payout n env receiver_id token_id approval_id memo balance max_len_payout =
     (if attached_deposit env \<noteq> 1 then Inl RequiresOneYocto
      else case owner_by_id n token_id of
        None \<Rightarrow> Inl NoToken
      | Some token_owner \<Rightarrow>
          (case map_of (token_series_by_id n) (series_of_token token_id) of
             None \<Rightarrow> Inl NoTokenSeries
           | Some series \<Rightarrow>
               (let royalty = ts_royalty series in
                if max_len_payout < length royalty then Inl TooManyReceivers
                else case strip_buyer_fee balance memo of
                  Inl e \<Rightarrow> Inl e
                | Inr (max_payout, initial_price) \<Rightarrow>
                    (case fee_shares token_owner initial_price memo of
                       Inl e \<Rightarrow> Inl e
                     | Inr (p, t) \<Rightarrow>
                         (case add_shares token_owner initial_price royalty p t of
                            Inl e \<Rightarrow> Inl e
                          | Inr (p, total_payout) \<Rightarrow>
                              if max_payout < total_payout then Inl RoyaltyTooHigh
                              else case royalty_to_payout (max_payout - total_payout) initial_price of
                                None \<Rightarrow> Inl ArithmeticOverflow
                              | Some x \<Rightarrow>
                                  (let p = AList.update token_owner x p in
                                   if max_len_payout < length p then Inl TooManyReceivers
                                   else case nft_transfer n env receiver_id token_id (Some approval_id) of
                                     Inl e \<Rightarrow> Inl e
                                   | Inr n' \<Rightarrow> Inr (n', p)))))))"


text \<open>The fee memo the market sends for a sale in NEAR without fee shares of its own.\<close>

definition demo_memo :: "nft_fees option" where
  "demo_memo = Some \<lparr>nf_buyer = [(''market'', 300)], nf_seller = [(''market'', 300)]\<rparr>"


section \<open>Lemmas\<close>

lemma royalty_to_payout_Some:
  assumes "royalty_to_payout a b = Some x"
  shows "ROYALTY_TOTAL_VALUE * x \<le> a * b \<and> a * b < ROYALTY_TOTAL_VALUE * x + ROYALTY_TOTAL_VALUE"
proof -
  have D: "0 < ROYALTY_TOTAL_VALUE" by (simp add: ROYALTY_TOTAL_VALUE_def)
  from assms have x: "x = a * b div ROYALTY_TOTAL_VALUE"
    by (simp add: royalty_to_payout_def split: if_splits)
  have "ROYALTY_TOTAL_VALUE * x \<le> a * b" unfolding x by (simp add: times_div_less_eq_dividend)
  moreover have "a * b < ROYALTY_TOTAL_VALUE * x + ROYALTY_TOTAL_VALUE"
    unfolding x using D by (metis div_mult_mod_eq add_less_cancel_left mod_less_divisor mult.commute)
  ultimately show ?thesis ..
qed

lemma sum_update_fresh:
  fixes p :: "('k \<times> nat) list"
  shows "distinct (map fst p) \<Longrightarrow> map_of p k = None \<Longrightarrow>
     sum_list (map snd (AList.update k x p)) = sum_list (map snd p) + x"
  using sum_list_map_update [of p snd k x] by simp

lemma sum_update_add:
  fixes p :: "('k \<times> nat) list"
  assumes "distinct (map fst p)"
  shows "sum_list (map snd (AList.update k ((case map_of p k of Some y \<Rightarrow> y | None \<Rightarrow> 0) + x) p)) =
     sum_list (map snd p) + x"
proof (cases "map_of p k")
  case None
  then show ?thesis using sum_list_map_update [of p snd k x] assms by simp
next
  case (Some y)
  then show ?thesis using sum_list_map_update [of p snd k "y + x"] assms by simp
qed

text \<open>The weight loops: every share adds its weight to the total and its rounded amount to the payout.\<close>

lemma insert_shares_Inr:
  assumes "insert_shares owner ip kvs p t = Inr (p', t')"
    and "distinct (map fst p)" and "distinct (map fst kvs)" and "set (map fst kvs) \<inter> fst ` set p = {}"
  shows "distinct (map fst p') \<and> fst ` set p' \<subseteq> fst ` set p \<union> (set (map fst kvs) - {owner}) \<and> t \<le> t' \<and>
         ROYALTY_TOTAL_VALUE * sum_list (map snd p') + t * ip \<le> ROYALTY_TOTAL_VALUE * sum_list (map snd p) + t' * ip \<and>
         t' * ip + ROYALTY_TOTAL_VALUE * sum_list (map snd p) \<le>
           ROYALTY_TOTAL_VALUE * sum_list (map snd p') + t * ip + ROYALTY_TOTAL_VALUE * length kvs"
  using assms
proof (induction owner ip kvs p t rule: insert_shares.induct)
  case (1 owner ip p t)
  then show ?case by simp
next
  case (2 owner ip k v kvs p t)
  show ?case
  proof (cases "k = owner")
    case True
    with "2.IH"(1) [of ] "2.prems" show ?thesis by (auto simp: algebra_simps)
  next
    case False
    with "2.prems" obtain x where x: "royalty_to_payout v ip = Some x" and nov: "\<not> u32_max < t + v"
      and r: "insert_shares owner ip kvs (AList.update k x p) (t + v) = Inr (p', t')"
      by (auto split: option.splits if_splits)
    have fresh: "map_of p k = None" using "2.prems"(4) by (auto simp: map_of_eq_None_iff)
    have dist: "distinct (map fst (AList.update k x p))" using "2.prems"(2) by (simp add: AList.distinct_update)
    have disj: "set (map fst kvs) \<inter> fst ` set (AList.update k x p) = {}"
      using "2.prems"(3,4) by (auto simp: AList.dom_update)
    from "2.IH"(2) [OF False x nov r dist _ disj] "2.prems"(3)
    have ih: "distinct (map fst p') \<and> fst ` set p' \<subseteq> fst ` set (AList.update k x p) \<union> (set (map fst kvs) - {owner}) \<and>
         t + v \<le> t' \<and>
         ROYALTY_TOTAL_VALUE * sum_list (map snd p') + (t + v) * ip \<le> ROYALTY_TOTAL_VALUE * sum_list (map snd (AList.update k x p)) + t' * ip \<and>
         t' * ip + ROYALTY_TOTAL_VALUE * sum_list (map snd (AList.update k x p)) \<le>
           ROYALTY_TOTAL_VALUE * sum_list (map snd p') + (t + v) * ip + ROYALTY_TOTAL_VALUE * length kvs"
      by simp
    have s: "sum_list (map snd (AList.update k x p)) = sum_list (map snd p) + x"
      by (rule sum_update_fresh [OF "2.prems"(2) fresh])
    from royalty_to_payout_Some [OF x] ih False show ?thesis
      unfolding s by (auto simp: AList.dom_update algebra_simps)
  qed
qed

lemma add_shares_Inr:
  assumes "add_shares owner ip kvs p t = Inr (p', t')" and "distinct (map fst p)"
  shows "distinct (map fst p') \<and> fst ` set p' \<subseteq> fst ` set p \<union> (set (map fst kvs) - {owner}) \<and> t \<le> t' \<and>
         ROYALTY_TOTAL_VALUE * sum_list (map snd p') + t * ip \<le> ROYALTY_TOTAL_VALUE * sum_list (map snd p) + t' * ip \<and>
         t' * ip + ROYALTY_TOTAL_VALUE * sum_list (map snd p) \<le>
           ROYALTY_TOTAL_VALUE * sum_list (map snd p') + t * ip + ROYALTY_TOTAL_VALUE * length kvs"
  using assms
proof (induction owner ip kvs p t rule: add_shares.induct)
  case (1 owner ip p t)
  then show ?case by simp
next
  case (2 owner ip k v kvs p t)
  show ?case
  proof (cases "k = owner")
    case True
    with "2.IH"(1) "2.prems" show ?thesis by (auto simp: algebra_simps)
  next
    case False
    let ?old = "case map_of p k of Some y \<Rightarrow> y | None \<Rightarrow> 0"
    from False "2.prems" obtain x where x: "royalty_to_payout v ip = Some x"
      and nov1: "\<not> u128_max < ?old + x" and nov: "\<not> u32_max < t + v"
      and r: "add_shares owner ip kvs (AList.update k (?old + x) p) (t + v) = Inr (p', t')"
      by (auto simp: Let_def split: option.splits if_splits)
    have dist: "distinct (map fst (AList.update k (?old + x) p))"
      using "2.prems"(2) by (simp add: AList.distinct_update)
    from "2.IH"(2) [OF False x refl nov1 nov r dist]
    have ih: "distinct (map fst p') \<and> fst ` set p' \<subseteq> fst ` set (AList.update k (?old + x) p) \<union> (set (map fst kvs) - {owner}) \<and>
         t + v \<le> t' \<and>
         ROYALTY_TOTAL_VALUE * sum_list (map snd p') + (t + v) * ip \<le> ROYALTY_TOTAL_VALUE * sum_list (map snd (AList.update k (?old + x) p)) + t' * ip \<and>
         t' * ip + ROYALTY_TOTAL_VALUE * sum_list (map snd (AList.update k (?old + x) p)) \<le>
           ROYALTY_TOTAL_VALUE * sum_list (map snd p') + (t + v) * ip + ROYALTY_TOTAL_VALUE * length kvs"
      by simp
    have s: "sum_list (map snd (AList.update k (?old + x) p)) = sum_list (map snd p) + x"
      by (rule sum_update_add [OF "2.prems"(2)])
    from royalty_to_payout_Some [OF x] ih False show ?thesis
      unfolding s by (auto simp: AList.dom_update algebra_simps)
  qed
qed

lemma u32_sum_eq:
  "acc \<le> u32_max \<Longrightarrow> u32_sum acc vs = (if acc + sum_list vs \<le> u32_max then Some (acc + sum_list vs) else None)"
  by (induction acc vs rule: u32_sum.induct) (auto simp: add.assoc)

text \<open>Stripping the buyer fee: the initial price weighted by \<open>10000 + V\<close> is the balance
  weighted by 10000, up to less than \<open>10000 + V\<close>.\<close>

lemma strip_buyer_fee_Inr:
  assumes "strip_buyer_fee B memo = Inr (M, ip)"
  shows "ROYALTY_TOTAL_VALUE * B \<le> M * ip \<and> M * ip < ROYALTY_TOTAL_VALUE * B + M \<and>
         M = ROYALTY_TOTAL_VALUE + (case memo of None \<Rightarrow> 0 | Some f \<Rightarrow> sum_list (map snd (nf_buyer f)))"
proof (cases memo)
  case None
  with assms show ?thesis by (simp add: strip_buyer_fee_def ROYALTY_TOTAL_VALUE_def)
next
  case (Some f)
  let ?D = ROYALTY_TOTAL_VALUE and ?V = "sum_list (map snd (nf_buyer f))"
  from assms Some have M: "M = ?D + ?V" and ip: "ip = B - B * ?V div (?D + ?V)"
    by (auto simp: strip_buyer_fee_def u32_sum_eq [of 0] split: if_splits)
  define q where "q = B * ?V div (?D + ?V)"
  have pos: "0 < ?D + ?V" by (simp add: ROYALTY_TOTAL_VALUE_def)
  have lo: "(?D + ?V) * q \<le> B * ?V" unfolding q_def by (simp add: times_div_less_eq_dividend)
  have hi: "B * ?V < (?D + ?V) * q + (?D + ?V)" unfolding q_def using pos
    by (metis div_mult_mod_eq add_less_cancel_left mod_less_divisor mult.commute)
  have "B * ?V div (?D + ?V) \<le> B * (?D + ?V) div (?D + ?V)" by (rule div_le_mono) simp
  moreover have "B * (?D + ?V) div (?D + ?V) = B" using pos by simp
  ultimately have qB: "q \<le> B" unfolding q_def by simp
  have "M * ip = (?D + ?V) * B - (?D + ?V) * q" unfolding M ip q_def [symmetric] by (simp add: diff_mult_distrib2)
  with lo hi qB show ?thesis unfolding M using Some by (auto simp: algebra_simps)
qed

lemma fee_shares_Inr:
  assumes "fee_shares owner ip memo = Inr (p, t)"
    and "case memo of None \<Rightarrow> True | Some f \<Rightarrow> distinct (map fst (nf_buyer f))"
  shows "distinct (map fst p) \<and> owner \<notin> fst ` set p \<and>
         ROYALTY_TOTAL_VALUE * sum_list (map snd p) \<le> t * ip \<and>
         t * ip \<le> ROYALTY_TOTAL_VALUE * sum_list (map snd p) +
           ROYALTY_TOTAL_VALUE * (case memo of None \<Rightarrow> 0 | Some f \<Rightarrow> length (nf_buyer f) + length (nf_seller f))"
proof (cases memo)
  case None
  with assms show ?thesis by (simp add: fee_shares_def)
next
  case (Some f)
  with assms obtain p1 t1 where r1: "insert_shares owner ip (nf_buyer f) [] 0 = Inr (p1, t1)"
    and r2: "add_shares owner ip (nf_seller f) p1 t1 = Inr (p, t)" and d: "distinct (map fst (nf_buyer f))"
    by (auto simp: fee_shares_def split: sum.splits)
  from insert_shares_Inr [OF r1 _ d] have i1: "distinct (map fst p1) \<and> fst ` set p1 \<subseteq> set (map fst (nf_buyer f)) - {owner} \<and>
      ROYALTY_TOTAL_VALUE * sum_list (map snd p1) \<le> t1 * ip \<and>
      t1 * ip \<le> ROYALTY_TOTAL_VALUE * sum_list (map snd p1) + ROYALTY_TOTAL_VALUE * length (nf_buyer f)"
    by simp
  with add_shares_Inr [OF r2] show ?thesis using Some by (auto simp: algebra_simps)
qed

lemma nft_transfer_payout_Inr:
  assumes "nft_transfer_payout n env receiver_id token_id approval_id memo balance max_len = Inr (n', p)"
  obtains owner s M ip p1 t1 p2 t2 x where "attached_deposit env = 1"
    "owner_by_id n token_id = Some owner"
    "map_of (token_series_by_id n) (series_of_token token_id) = Some s"
    "length (ts_royalty s) \<le> max_len" "strip_buyer_fee balance memo = Inr (M, ip)"
    "fee_shares owner ip memo = Inr (p1, t1)" "add_shares owner ip (ts_royalty s) p1 t1 = Inr (p2, t2)"
    "t2 \<le> M" "royalty_to_payout (M - t2) ip = Some x" "p = AList.update owner x p2"
    "length p \<le> max_len" "nft_transfer n env receiver_id token_id (Some approval_id) = Inr n'"
  using assms
  by (auto simp: nft_transfer_payout_def Let_def not_less split: if_splits option.splits sum.splits)

lemma internal_transfer_Inr:
  assumes "internal_transfer n sender receiver token_id aid = Inr (n', owner)"
  shows "owner_by_id n token_id = Some owner \<and> owner \<noteq> receiver \<and>
         (sender = owner \<or> (\<exists>a. map_of (case approvals_by_id n token_id of Some l \<Rightarrow> l | None \<Rightarrow> []) sender = Some a \<and>
                                (case aid of Some g \<Rightarrow> a = g | None \<Rightarrow> True))) \<and>
         owner_by_id n' = (owner_by_id n)(token_id \<mapsto> receiver) \<and>
         approvals_by_id n' = (approvals_by_id n)(token_id := None) \<and>
         token_series_by_id n' = token_series_by_id n"
  using assms
  by (auto simp: internal_transfer_def Let_def split: option.splits if_splits)


section \<open>Properties of the payout split\<close>

text \<open>
  The arithmetic of the payout bounds: each share is a quotient by
  \<open>ROYALTY_TOTAL_VALUE\<close> rounded down, so the shares of a sum \<open>M * ip\<close> lose less
  than one unit each, and the buyer's fee is stripped with a rounding up.
\<close>

lemma payout_sum_low:
  fixes D S1 S2 t1 t2 ip x M bal r c :: nat
  assumes "t1 * ip \<le> D * S1 + D * c" "t2 * ip + D * S1 \<le> D * S2 + t1 * ip + D * r"
    "(M - t2) * ip < D * x + D" "t2 \<le> M" "D * bal \<le> M * ip" "0 < D"
  shows "bal \<le> S2 + x + r + c"
proof -
  have "M * ip = t2 * ip + (M - t2) * ip" using assms(4) by (simp add: add_mult_distrib [symmetric])
  with assms(1-5) have "D * bal < D * (S2 + x + r + c + 1)" by (simp add: distrib_left)
  then show ?thesis by (simp only: mult_less_cancel1) simp
qed

lemma payout_sum_high:
  fixes D S1 S2 t1 t2 ip x M bal V :: nat
  assumes "D * S1 \<le> t1 * ip" "D * S2 + t1 * ip \<le> D * S1 + t2 * ip"
    "D * x \<le> (M - t2) * ip" "t2 \<le> M" "M * ip < D * bal + M"
  shows "M \<le> 2 * D \<Longrightarrow> S2 + x \<le> bal + 1"
proof -
  assume M2: "M \<le> 2 * D"
  have "M * ip = t2 * ip + (M - t2) * ip" using assms(4) by (simp add: add_mult_distrib [symmetric])
  with assms(1-3,5) M2 have "D * (S2 + x) < D * (bal + 2)" by (simp add: distrib_left)
  then show ?thesis by (simp only: mult_less_cancel1) simp
qed

text \<open>
  C20. Rounding of the payout split: when \<open>nft_transfer_payout\<close> succeeds, with a memo
  whose buyer shares have distinct accounts and weigh at most 10000, the amounts it
  reports sum to at most the balance plus one, and to at least the balance less the
  number of fee and royalty shares. The market accepts only a sum equal to the balance
  or one less: the NFT contract can report a split the market rejects, after it has
  transferred the token. The cap on the buyer's weight is a hypothesis that the market
  does not enforce; without it the upper bound fails
  (\<open>nft_transfer_payout_uncapped_buyer_fee\<close>).
\<close>

theorem nft_transfer_payout_sum_bounds:
  assumes r: "nft_transfer_payout n env receiver_id token_id approval_id memo balance max_len = Inr (n', p)"
    and buyer: "case memo of None \<Rightarrow> True
                | Some f \<Rightarrow> distinct (map fst (nf_buyer f)) \<and> sum_list (map snd (nf_buyer f)) \<le> ROYALTY_TOTAL_VALUE"
  shows "\<exists>s. map_of (token_series_by_id n) (series_of_token token_id) = Some s \<and>
           balance \<le> sum_list (map snd p) + length (ts_royalty s) +
             (case memo of None \<Rightarrow> 0 | Some f \<Rightarrow> length (nf_buyer f) + length (nf_seller f)) \<and>
           sum_list (map snd p) \<le> balance + 1"
proof -
  let ?D = ROYALTY_TOTAL_VALUE
  let ?c = "case memo of None \<Rightarrow> 0 | Some f \<Rightarrow> length (nf_buyer f) + length (nf_seller f)"
  let ?V = "case memo of None \<Rightarrow> 0 | Some f \<Rightarrow> sum_list (map snd (nf_buyer f))"
  obtain owner s M ip p1 t1 p2 t2 x where s: "map_of (token_series_by_id n) (series_of_token token_id) = Some s"
    and st: "strip_buyer_fee balance memo = Inr (M, ip)" and fs: "fee_shares owner ip memo = Inr (p1, t1)"
    and ad: "add_shares owner ip (ts_royalty s) p1 t1 = Inr (p2, t2)" and t2: "t2 \<le> M"
    and x: "royalty_to_payout (M - t2) ip = Some x" and p: "p = AList.update owner x p2"
    by (rule nft_transfer_payout_Inr [OF r])
  from buyer have d: "case memo of None \<Rightarrow> True | Some f \<Rightarrow> distinct (map fst (nf_buyer f))"
    by (auto split: option.splits)
  from fee_shares_Inr [OF fs d] have f1: "distinct (map fst p1)" "owner \<notin> fst ` set p1"
    "?D * sum_list (map snd p1) \<le> t1 * ip" "t1 * ip \<le> ?D * sum_list (map snd p1) + ?D * ?c"
    by auto
  from add_shares_Inr [OF ad f1(1)] f1(2) have f2: "distinct (map fst p2)" "owner \<notin> fst ` set p2"
    "?D * sum_list (map snd p2) + t1 * ip \<le> ?D * sum_list (map snd p1) + t2 * ip"
    "t2 * ip + ?D * sum_list (map snd p1) \<le> ?D * sum_list (map snd p2) + t1 * ip + ?D * length (ts_royalty s)"
    by auto
  have "map_of p2 owner = None" using f2(2) by (simp add: map_of_eq_None_iff)
  then have sp: "sum_list (map snd p) = sum_list (map snd p2) + x"
    unfolding p by (rule sum_update_fresh [OF f2(1)])
  from royalty_to_payout_Some [OF x] have rx: "?D * x \<le> (M - t2) * ip" "(M - t2) * ip < ?D * x + ?D" by auto
  from strip_buyer_fee_Inr [OF st] have fee: "?D * balance \<le> M * ip" "M * ip < ?D * balance + M"
    and M: "M = ?D + ?V" by auto
  have V: "?V \<le> ?D" using buyer by (auto split: option.splits)
  have pos: "0 < ?D" by (simp add: ROYALTY_TOTAL_VALUE_def)
  from payout_sum_low [OF f1(4) f2(4) rx(2) t2 fee(1) pos] payout_sum_high [OF f1(3) f2(3) rx(1) t2 fee(2)] M V
  have "balance \<le> sum_list (map snd p2) + x + length (ts_royalty s) + ?c"
    and "sum_list (map snd p2) + x \<le> balance + 1" by auto
  with s sp show ?thesis by auto
qed

theorem nft_transfer_payout_sum_bounds_witness:
  "\<exists>n'. nft_transfer_payout demo_nft (nft_env ''market'' 1) ''bob'' ''1:1'' 0 demo_memo 103013 10 =
          Inr (n', [(''market'', 6000), (''creator'', 5000), (''alice'', 92011)]) \<and>
        (103013::nat) \<le> 103011 + 1 + 2 \<and> (103011::nat) \<le> 103013 + 1"
proof -
  have "\<exists>n'. nft_transfer_payout demo_nft (nft_env ''market'' 1) ''bob'' ''1:1'' 0 demo_memo 103013 10 =
          Inr (n', [(''market'', 6000), (''creator'', 5000), (''alice'', 92011)])"
    by (simp add: nft_transfer_payout_def demo_nft_def demo_series_def nft_new_def nft_env_def demo_memo_def
        series_of_token_def strip_buyer_fee_def fee_shares_def royalty_to_payout_def nft_transfer_def
        internal_transfer_def Let_def market_consts)
  then obtain n' where r: "nft_transfer_payout demo_nft (nft_env ''market'' 1) ''bob'' ''1:1'' 0 demo_memo 103013 10 =
          Inr (n', [(''market'', 6000), (''creator'', 5000), (''alice'', 92011)])" ..
  have b: "case demo_memo of None \<Rightarrow> True
           | Some f \<Rightarrow> distinct (map fst (nf_buyer f)) \<and> sum_list (map snd (nf_buyer f)) \<le> ROYALTY_TOTAL_VALUE"
    by (simp add: demo_memo_def market_consts)
  from nft_transfer_payout_sum_bounds [OF r b] r show ?thesis
    by (auto simp: demo_nft_def demo_series_def demo_memo_def series_of_token_def market_consts)
qed

text \<open>
  C21. Authorization of the transfer: a successful \<open>nft_transfer_payout\<close> moves the token
  from its owner, who differs from the receiver, to the receiver, only when the caller is
  the owner or approved for the token with exactly the given approval id; it clears the
  token's approvals and leaves the series unchanged, and the owner appears in the payout.
\<close>

theorem nft_transfer_payout_authorized:
  assumes "nft_transfer_payout n env receiver_id token_id approval_id memo balance max_len = Inr (n', p)"
  shows "\<exists>owner. owner_by_id n token_id = Some owner \<and> owner \<noteq> receiver_id \<and>
           (predecessor_account_id env = owner \<or>
            map_of (case approvals_by_id n token_id of Some l \<Rightarrow> l | None \<Rightarrow> []) (predecessor_account_id env) = Some approval_id) \<and>
           owner_by_id n' = (owner_by_id n)(token_id \<mapsto> receiver_id) \<and>
           approvals_by_id n' token_id = None \<and> token_series_by_id n' = token_series_by_id n \<and>
           owner \<in> fst ` set p"
proof -
  obtain owner x p2 where o: "owner_by_id n token_id = Some owner" and p: "p = AList.update owner x p2"
    and t: "nft_transfer n env receiver_id token_id (Some approval_id) = Inr n'"
    by (rule nft_transfer_payout_Inr [OF assms])
  from t o obtain owner' where "internal_transfer n (predecessor_account_id env) receiver_id token_id (Some approval_id) = Inr (n', owner')"
    by (auto simp: nft_transfer_def split: if_splits sum.splits)
  from internal_transfer_Inr [OF this] o p show ?thesis by (auto simp: AList.dom_update)
qed

theorem nft_transfer_payout_authorized_witness:
  "\<exists>n' p. nft_transfer_payout demo_nft (nft_env ''market'' 1) ''bob'' ''1:1'' 0 demo_memo 103013 10 = Inr (n', p) \<and>
          owner_by_id n' ''1:1'' = Some ''bob'' \<and> approvals_by_id n' ''1:1'' = None"
proof -
  have "\<exists>r. nft_transfer_payout demo_nft (nft_env ''market'' 1) ''bob'' ''1:1'' 0 demo_memo 103013 10 = Inr r"
    by (simp add: nft_transfer_payout_def demo_nft_def demo_series_def nft_new_def nft_env_def demo_memo_def
        series_of_token_def strip_buyer_fee_def fee_shares_def royalty_to_payout_def nft_transfer_def
        internal_transfer_def Let_def market_consts)
  then obtain n' p where r: "nft_transfer_payout demo_nft (nft_env ''market'' 1) ''bob'' ''1:1'' 0 demo_memo 103013 10 = Inr (n', p)"
    by auto
  from nft_transfer_payout_authorized [OF r] r show ?thesis by auto
qed

text \<open>
  Without the cap on the buyer's fee weight the upper bound of C20 fails: the market
  passes the buyer's origins to the memo unchecked, and with a buyer weight of 30000 the
  split of a balance of 1 pays out 3.
\<close>

lemma nft_transfer_payout_uncapped_buyer_fee:
  "\<exists>n'. nft_transfer_payout demo_nft (nft_env ''market'' 1) ''bob'' ''1:1'' 0
          (Some \<lparr>nf_buyer = [(''market'', 30000)], nf_seller = []\<rparr>) 1 10 =
        Inr (n', [(''market'', 3), (''creator'', 0), (''alice'', 0)])"
  by (simp add: nft_transfer_payout_def demo_nft_def demo_series_def nft_new_def nft_env_def
      series_of_token_def strip_buyer_fee_def fee_shares_def royalty_to_payout_def nft_transfer_def
      internal_transfer_def Let_def market_consts u32_sum_eq)

end
