(* ===== verification/Contract.thy ===== *)
theory Contract
  imports Sale Auction
begin

text \<open>
  The market contract as a whole: the approval entry point \<open>nft_on_approve\<close>
  (market_core.rs), which opens a sale (\<open>start_sale\<close>, sale.rs) or an auction; the
  storage deposits that pay for listings (lib.rs \<open>storage_deposit\<close>,
  \<open>storage_withdraw\<close>); the test-only methods of hack.rs, which are public; the supply
  views (sale_views.rs). A datatype of the contract's state-changing calls with one step
  function dispatches to every handler of the model; \<open>reachable\<close> is the set of
  states reachable from \<open>new\<close> by successful calls in any environment, and
  \<open>market_run\<close> runs a sequence of calls, reverting each call that panics. The
  invariant of the reachable states is in Invariant.thy.
\<close>

section \<open>Opening a listing\<close>

text \<open>Rust's \<open>str::contains\<close>: the pattern occurs at some position of the text.\<close>

definition str_contains :: "string \<Rightarrow> string \<Rightarrow> bool" where
  "str_contains s pat = list_ex (\<lambda>i. take (length pat) (drop i s) = pat) [0..<Suc (length s)]"

definition index_card :: "('k \<rightharpoonup> 'a list) \<Rightarrow> 'k \<Rightarrow> nat" where
  "index_card idx k = (case idx k of None \<Rightarrow> 0 | Some s \<Rightarrow> length s)"

definition deposit_of :: "market \<Rightarrow> account \<Rightarrow> balance" where
  "deposit_of m a = (case storage_deposits m a of None \<Rightarrow> 0 | Some d \<Rightarrow> d)"

text \<open>
  \<open>start_sale\<close>: every currency of the conditions must be supported; the sale is stored
  under its key (replacing any sale stored there), then indexed by owner, after a check
  that the signer's deposit exceeds the storage of the owner's current sales, by NFT
  contract, and by token type, which must occur in the token id.
\<close>

definition start_sale ::
  "market \<Rightarrow> env \<Rightarrow> sale_args \<Rightarrow> string \<Rightarrow> account \<Rightarrow> nat \<Rightarrow> account \<Rightarrow> error + (market \<times> sale)" where
  "start_sale m env args token_id owner_id approval_id nft_contract_id =
     (case filter (\<lambda>ft. ft \<notin> ft_token_ids m) (map fst (sa_sale_conditions args)) of
        ft # _ \<Rightarrow> Inl (TokenNotSupported ft)
      | [] \<Rightarrow>
          (let ctid = contract_and_token_id nft_contract_id token_id;
               start = (case sa_start args of Some s \<Rightarrow> s | None \<Rightarrow> block_timestamp env);
               sale = \<lparr>sale_owner_id = owner_id, sale_approval_id = approval_id,
                       sale_nft_contract_id = nft_contract_id, sale_token_id = token_id,
                       sale_conditions = sa_sale_conditions args, sale_bids = [],
                       sale_created_at = block_timestamp env, sale_token_type = sa_token_type args,
                       sale_start = Some start, sale_end = sa_end args,
                       sale_origins = (case sa_origins args of Some os \<Rightarrow> os | None \<Rightarrow> [])\<rparr>;
               m1 = m\<lparr>sales := (sales m)(ctid \<mapsto> sale), sale_keys := uset_insert (sale_keys m) ctid\<rparr>;
               owner_paid_storage = deposit_of m (signer_account_id env);
               owner_occupied_storage = index_card (by_owner_id m) owner_id * STORAGE_PER_SALE in
           if u128_max < owner_occupied_storage then Inl ArithmeticOverflow
           else if \<not> owner_occupied_storage < owner_paid_storage then Inl MoreSalesThanStorage
           else (let m2 = m1\<lparr>by_owner_id := index_insert (by_owner_id m1) owner_id ctid,
                             by_nft_contract_id := index_insert (by_nft_contract_id m1) nft_contract_id token_id\<rparr> in
                 case sa_token_type args of
                   None \<Rightarrow> Inr (m2, sale)
                 | Some token_type \<Rightarrow>
                     if \<not> str_contains token_id token_type then Inl TokenTypeNotSubstr
                     else Inr (m2\<lparr>by_nft_token_type := index_insert (by_nft_token_type m2) token_type ctid\<rparr>, sale))))"

definition get_supply_by_owner_id :: "market \<Rightarrow> account \<Rightarrow> nat" where
  "get_supply_by_owner_id m account_id = index_card (by_owner_id m) account_id"

definition get_supply_by_nft_contract_id :: "market \<Rightarrow> account \<Rightarrow> nat" where
  "get_supply_by_nft_contract_id m nft_contract_id = index_card (by_nft_contract_id m) nft_contract_id"

definition get_supply_by_nft_token_type :: "market \<Rightarrow> string \<Rightarrow> nat" where
  "get_supply_by_nft_token_type m token_type = index_card (by_nft_token_type m) token_type"

definition get_sale :: "market \<Rightarrow> account \<Rightarrow> string \<Rightarrow> sale_json option" where
  "get_sale m nft_contract_id token_id = map_option json_from_sale (sales m (contract_and_token_id nft_contract_id token_id))"

text \<open>The view \<open>price_with_fees\<close> (fee.rs): the buyer's price of a net price; an overflow panics.\<close>

definition price_with_fees :: "balance \<Rightarrow> origins option \<Rightarrow> error + balance" where
  "price_with_fees price origins =
     (case calculate_price_with_fees price origins of None \<Rightarrow> Inl ArithmeticOverflow | Some p \<Rightarrow> Inr p)"

definition storage_amount :: balance where "storage_amount = STORAGE_PER_SALE"

datatype listing = SaleListing sale | AuctionListing nat auction

text \<open>
  \<open>nft_on_approve\<close>, called by the NFT contract (the predecessor) in a transaction signed
  by the token owner: the signer's deposit must cover one more sale; the message, parsed
  as \<open>ArgsKind\<close>, opens a sale or an auction.
\<close>

definition nft_on_approve ::
  "market \<Rightarrow> env \<Rightarrow> string \<Rightarrow> account \<Rightarrow> nat \<Rightarrow> args_kind \<Rightarrow> error + (market \<times> listing)" where
  "nft_on_approve m env token_id owner_id approval_id args =
     (let nft_contract_id = predecessor_account_id env;
          signer_id = signer_account_id env in
      if nft_contract_id = signer_id then Inl NotCrossContractCall
      else if owner_id \<noteq> signer_id then Inl OwnerNotSigner
      else (let owner_paid_storage = deposit_of m signer_id;
                signer_storage_required = (get_supply_by_owner_id m signer_id + 1) * storage_amount in
            if u128_max < signer_storage_required then Inl ArithmeticOverflow
            else if owner_paid_storage < signer_storage_required then Inl InsufficientStorage
            else case args of
              SaleKind sale_args \<Rightarrow>
                (case start_sale m env sale_args token_id owner_id approval_id nft_contract_id of
                   Inl e \<Rightarrow> Inl e
                 | Inr (m', sale) \<Rightarrow> Inr (m', SaleListing sale))
            | AuctionKind auction_args \<Rightarrow>
                (case start_auction m env auction_args token_id owner_id approval_id nft_contract_id of
                   Inl e \<Rightarrow> Inl e
                 | Inr (m', auction_id, auction) \<Rightarrow> Inr (m', AuctionListing auction_id auction))))"

section \<open>Storage deposits\<close>

definition storage_withdraw :: "market \<Rightarrow> env \<Rightarrow> error + (market \<times> effect list)" where
  "storage_withdraw m env =
     (if attached_deposit env \<noteq> 1 then Inl RequiresOneYocto
      else (let owner_id = predecessor_account_id env;
                amount = deposit_of m owner_id;
                diff = index_card (by_owner_id m) owner_id * STORAGE_PER_SALE in
            if u128_max < diff then Inl ArithmeticOverflow
            else if amount < diff then Inl ArithmeticOverflow
            else Inr (m\<lparr>storage_deposits := (storage_deposits m)(owner_id :=
                         if 0 < diff then Some diff else None)\<rparr>,
                      if 0 < amount - diff then [Pay (NearTransfer owner_id (amount - diff))] else [])))"

definition storage_deposit :: "market \<Rightarrow> env \<Rightarrow> account option \<Rightarrow> error + market" where
  "storage_deposit m env account_id =
     (let storage_account_id = (case account_id of Some a \<Rightarrow> a | None \<Rightarrow> predecessor_account_id env);
          deposit = attached_deposit env in
      if deposit < STORAGE_PER_SALE then Inl RequiresMinimumDeposit
      else (let balance = deposit_of m storage_account_id + deposit in
            if u128_max < balance then Inl ArithmeticOverflow
            else Inr (m\<lparr>storage_deposits := (storage_deposits m)(storage_account_id \<mapsto> balance)\<rparr>)))"

section \<open>Test-only methods\<close>

text \<open>hack.rs: public methods with no access check that move an end time to now.\<close>

definition hack_finish_sale :: "market \<Rightarrow> env \<Rightarrow> string \<Rightarrow> error + market" where
  "hack_finish_sale m env nft_contract_token =
     (case sales m nft_contract_token of
        None \<Rightarrow> Inl NoSale
      | Some sale \<Rightarrow>
          Inr (m\<lparr>sales := (sales m)(nft_contract_token \<mapsto> sale\<lparr>sale_end := Some (block_timestamp env)\<rparr>)\<rparr>))"

definition hack_finish_bid :: "market \<Rightarrow> env \<Rightarrow> string \<Rightarrow> error + market" where
  "hack_finish_bid m env nft_contract_token =
     (case sales m nft_contract_token of
        None \<Rightarrow> Inl NoSale
      | Some sale \<Rightarrow>
          (case map_of (sale_bids sale) NEAR of
             None \<Rightarrow> Inl NoBids
           | Some bs \<Rightarrow>
               (let bs' = (if bs = [] then bs
                           else butlast bs @ [(last bs)\<lparr>bid_end := Some (block_timestamp env)\<rparr>]) in
                Inr (m\<lparr>sales := (sales m)(nft_contract_token \<mapsto>
                       sale\<lparr>sale_bids := AList.update NEAR bs' (sale_bids sale)\<rparr>)\<rparr>))))"

definition hack_finish_auction :: "market \<Rightarrow> env \<Rightarrow> nat \<Rightarrow> error + market" where
  "hack_finish_auction m env auction_id =
     (case auctions m auction_id of
        None \<Rightarrow> Inl AuctionDoesNotExist
      | Some auction \<Rightarrow>
          Inr (m\<lparr>auctions := (auctions m)(auction_id \<mapsto> auction\<lparr>auction_end := block_timestamp env\<rparr>)\<rparr>))"

section \<open>The contract as a state machine\<close>

text \<open>
  The public calls that change the market's state, with their arguments. The
  settlement callbacks change no state (Settlement.thy) and the views none.
\<close>

datatype market_call =
    NftOnApprove string account nat args_kind
  | StorageDeposit "account option"
  | StorageWithdraw
  | Offer account string account "timestamp option" "timestamp option" "origins option"
  | AcceptOffer account string account
  | RemoveSale account string
  | UpdatePrice account string account balance
  | RemoveBid account string account balance
  | CancelBid account string account account balance
  | CancelExpiredBids account string account
  | AuctionAddBid nat "string option" "origins option"
  | CancelAuction nat
  | FinishAuction nat
  | HackFinishSale string
  | HackFinishBid string
  | HackFinishAuction nat

fun market_step :: "market \<Rightarrow> env \<Rightarrow> market_call \<Rightarrow> error + (market \<times> effect list)" where
  "market_step m env (NftOnApprove t o' a args) =
     (case nft_on_approve m env t o' a args of Inl e \<Rightarrow> Inl e | Inr (m', _) \<Rightarrow> Inr (m', []))"
| "market_step m env (StorageDeposit a) =
     (case storage_deposit m env a of Inl e \<Rightarrow> Inl e | Inr m' \<Rightarrow> Inr (m', []))"
| "market_step m env StorageWithdraw = storage_withdraw m env"
| "market_step m env (Offer c t ft s d os) = offer m env c t ft s d os"
| "market_step m env (AcceptOffer c t ft) = accept_offer m env c t ft"
| "market_step m env (RemoveSale c t) = remove_sale m env c t"
| "market_step m env (UpdatePrice c t ft p) = update_price m env c t ft p"
| "market_step m env (RemoveBid c t ft p) = remove_bid m env c t ft p"
| "market_step m env (CancelBid c t ft o' p) = cancel_bid m env c t ft o' p"
| "market_step m env (CancelExpiredBids c t ft) = cancel_expired_bids m env c t ft"
| "market_step m env (AuctionAddBid i tt os) = auction_add_bid m env i tt os"
| "market_step m env (CancelAuction i) = cancel_auction m env i"
| "market_step m env (FinishAuction i) = finish_auction m env i"
| "market_step m env (HackFinishSale k) =
     (case hack_finish_sale m env k of Inl e \<Rightarrow> Inl e | Inr m' \<Rightarrow> Inr (m', []))"
| "market_step m env (HackFinishBid k) =
     (case hack_finish_bid m env k of Inl e \<Rightarrow> Inl e | Inr m' \<Rightarrow> Inr (m', []))"
| "market_step m env (HackFinishAuction i) =
     (case hack_finish_auction m env i of Inl e \<Rightarrow> Inl e | Inr m' \<Rightarrow> Inr (m', []))"

inductive reachable :: "market \<Rightarrow> bool" where
  init: "reachable (market_new nft_ids owner_id)"
| step: "reachable m \<Longrightarrow> market_step m env c = Inr (m', effs) \<Longrightarrow> reachable m'"

text \<open>
  A sequence of calls, each in its own environment, as the runtime executes them: a call
  that panics is reverted and leaves the state as it was, and the next call runs on.
  The result is the final state and the outcome of every call.
\<close>

fun market_run :: "market \<Rightarrow> (env \<times> market_call) list \<Rightarrow> market \<times> (error + effect list) list" where
  "market_run m [] = (m, [])"
| "market_run m ((env, c) # cs) =
     (case market_step m env c of
        Inl e \<Rightarrow> (let (m', rs) = market_run m cs in (m', Inl e # rs))
      | Inr (m1, effs) \<Rightarrow> (let (m', rs) = market_run m1 cs in (m', Inr effs # rs)))"

section \<open>Opening a sale\<close>

lemma start_sale_parts:
  assumes "start_sale m env args t owner approval c = Inr (m', sale)"
  shows "sales m' = (sales m)(contract_and_token_id c t \<mapsto> sale) \<and>
         by_owner_id m' = index_insert (by_owner_id m) owner (contract_and_token_id c t) \<and>
         by_nft_contract_id m' = index_insert (by_nft_contract_id m) c t \<and>
         by_nft_token_type m' = (case sa_token_type args of None \<Rightarrow> by_nft_token_type m
                                 | Some tt \<Rightarrow> index_insert (by_nft_token_type m) tt (contract_and_token_id c t)) \<and>
         sale_owner_id sale = owner \<and> sale_nft_contract_id sale = c \<and> sale_token_id sale = t \<and>
         sale_token_type sale = sa_token_type args \<and> sale_bids sale = [] \<and>
         storage_deposits m' = storage_deposits m \<and> ft_token_ids m' = ft_token_ids m \<and>
         bid_history_length m' = bid_history_length m \<and> auctions m' = auctions m \<and>
         next_auction_id m' = next_auction_id m \<and>
         sale_keys m' = uset_insert (sale_keys m) (contract_and_token_id c t) \<and> auction_keys m' = auction_keys m"
  using assms
  by (auto simp: start_sale_def Let_def split: list.splits if_splits option.splits)

section \<open>Runs\<close>

lemma reachable_market_run: "reachable m \<Longrightarrow> reachable (fst (market_run m cs))"
proof (induction m cs rule: market_run.induct)
  case (1 m)
  then show ?case by simp
next
  case (2 m env c cs)
  show ?case
  proof (cases "market_step m env c")
    case (Inl e)
    from "2.IH"(1) [OF Inl] "2.prems" have "reachable (fst (market_run m cs))" .
    with Inl show ?thesis by (cases "market_run m cs") simp
  next
    case (Inr r)
    obtain m1 effs where r: "r = (m1, effs)" by (cases r)
    with Inr "2.prems" have "reachable m1" by (blast intro: reachable.step)
    from "2.IH"(2) [OF Inr r [symmetric] this] have "reachable (fst (market_run m1 cs))" .
    with Inr r show ?thesis by (cases "market_run m1 cs") simp
  qed
qed

end
