(* ===== verification/Views.thy ===== *)
theory Views
  imports Contract
begin

text \<open>
  The paginated views of src/market/src/sale_views.rs over the directory indices. Each
  reads the element vector of an index (\<open>as_vector\<close>), takes the positions
  \<open>start..min(start + limit, len)\<close> with a checked u64 addition, and looks every key up in
  the map of sales with \<open>unwrap()\<close>, returning the sale's \<open>json_from_sale\<close>.
\<close>

section \<open>Pages of an index\<close>

definition page_indices :: "nat \<Rightarrow> nat \<Rightarrow> nat \<Rightarrow> error + nat list" where
  "page_indices start limit len =
     (if u64_max < start + limit then Inl ArithmeticOverflow else Inr [start..<min (start + limit) len])"

text \<open>The loop body \<open>self.market.sales.get(&key).unwrap()\<close>, pushed in order.\<close>

fun sales_at_keys :: "market \<Rightarrow> string list \<Rightarrow> error + sale_json list" where
  "sales_at_keys m [] = Inr []"
| "sales_at_keys m (k # ks) =
     (case sales m k of
        None \<Rightarrow> Inl UnwrapNone
      | Some s \<Rightarrow> (case sales_at_keys m ks of Inl e \<Rightarrow> Inl e | Inr ss \<Rightarrow> Inr (json_from_sale s # ss)))"

section \<open>Views\<close>

definition get_supply_sales :: "market \<Rightarrow> nat" where
  "get_supply_sales m = card (dom (sales m))"

definition get_sales_by_owner_id :: "market \<Rightarrow> account \<Rightarrow> nat \<Rightarrow> nat \<Rightarrow> error + sale_json list" where
  "get_sales_by_owner_id m account_id from_index limit =
     (case by_owner_id m account_id of
        None \<Rightarrow> Inr []
      | Some keys \<Rightarrow>
          (case page_indices from_index limit (length keys) of
             Inl e \<Rightarrow> Inl e
           | Inr is \<Rightarrow> sales_at_keys m (map (\<lambda>i. keys ! i) is)))"

definition get_sales_by_nft_contract_id :: "market \<Rightarrow> account \<Rightarrow> nat \<Rightarrow> nat \<Rightarrow> error + sale_json list" where
  "get_sales_by_nft_contract_id m nft_contract_id from_index limit =
     (case by_nft_contract_id m nft_contract_id of
        None \<Rightarrow> Inr []
      | Some keys \<Rightarrow>
          (case page_indices from_index limit (length keys) of
             Inl e \<Rightarrow> Inl e
           | Inr is \<Rightarrow> sales_at_keys m (map (\<lambda>i. contract_and_token_id nft_contract_id (keys ! i)) is)))"

definition get_sales_by_nft_token_type :: "market \<Rightarrow> string \<Rightarrow> nat \<Rightarrow> nat \<Rightarrow> error + sale_json list" where
  "get_sales_by_nft_token_type m token_type from_index limit =
     (case by_nft_token_type m token_type of
        None \<Rightarrow> Inr []
      | Some keys \<Rightarrow>
          (case page_indices from_index limit (length keys) of
             Inl e \<Rightarrow> Inl e
           | Inr is \<Rightarrow> sales_at_keys m (map (\<lambda>i. keys ! i) is)))"

definition get_auction :: "market \<Rightarrow> nat \<Rightarrow> error + auction_json" where
  "get_auction m auction_id =
     (case auctions m auction_id of None \<Rightarrow> Inl AuctionDoesNotExist | Some a \<Rightarrow> Inr (json_from_auction a))"

text \<open>
  \<open>get_sales\<close> (sale_views.rs) and \<open>get_auctions\<close> (auction_views.rs) iterate the
  values of an \<open>UnorderedMap\<close> in the order of its key vector, skip \<open>from_index\<close>
  and take \<open>limit\<close> of them. Both are read \<open>as usize\<close>, which on NEAR's 32-bit wasm
  target keeps their low 32 bits; a missing limit is \<open>usize::MAX\<close>.
\<close>

definition get_sales :: "market \<Rightarrow> nat option \<Rightarrow> nat option \<Rightarrow> sale_json list" where
  "get_sales m from_index limit =
     (let start_index = (case from_index of None \<Rightarrow> 0 | Some i \<Rightarrow> i);
          limit = (case limit of Some v \<Rightarrow> v mod 2 ^ 32 | None \<Rightarrow> u32_max)
      in map json_from_sale (take limit (drop (start_index mod 2 ^ 32) (umap_values (sale_keys m) (sales m)))))"

definition get_auctions :: "market \<Rightarrow> nat option \<Rightarrow> nat option \<Rightarrow> auction_json list" where
  "get_auctions m from_index limit =
     (let start_index = (case from_index of None \<Rightarrow> 0 | Some i \<Rightarrow> i);
          limit = (case limit of Some v \<Rightarrow> v mod 2 ^ 32 | None \<Rightarrow> u32_max)
      in map json_from_auction (take limit (drop (start_index mod 2 ^ 32) (umap_values (auction_keys m) (auctions m)))))"

section \<open>Lemmas\<close>

lemma get_sales_default:
  "card (dom (sales m)) \<le> u32_max \<Longrightarrow> keys_of (sale_keys m) (sales m) \<Longrightarrow>
     get_sales m None None = map (\<lambda>k. json_from_sale (the (sales m k))) (sale_keys m)"
proof -
  assume "card (dom (sales m)) \<le> u32_max" and "keys_of (sale_keys m) (sales m)"
  then have "length (umap_values (sale_keys m) (sales m)) \<le> u32_max" by (simp add: length_umap_values)
  then show ?thesis by (simp add: get_sales_def) (simp add: umap_values_def)
qed

lemma get_auctions_default:
  "card (dom (auctions m)) \<le> u32_max \<Longrightarrow> keys_of (auction_keys m) (auctions m) \<Longrightarrow>
     get_auctions m None None = map (\<lambda>k. json_from_auction (the (auctions m k))) (auction_keys m)"
proof -
  assume "card (dom (auctions m)) \<le> u32_max" and "keys_of (auction_keys m) (auctions m)"
  then have "length (umap_values (auction_keys m) (auctions m)) \<le> u32_max" by (simp add: length_umap_values)
  then show ?thesis by (simp add: get_auctions_def) (simp add: umap_values_def)
qed

lemma get_sales_wraps: "get_sales m (Some (i + 2 ^ 32)) l = get_sales m (Some i) l"
  by (simp add: get_sales_def)

lemma get_sales_page:
  assumes "length (sale_keys m) \<le> u32_max" and "i < 2 ^ 32" and "l < 2 ^ 32"
  shows "get_sales m (Some i) (Some l) = take l (drop i (get_sales m None None))"
  using assms by (simp add: get_sales_def umap_values_def take_map drop_map)


lemma sales_at_keys_Inr:
  "(\<forall>k\<in>set ks. sales m k \<noteq> None) \<Longrightarrow> sales_at_keys m ks = Inr (map (\<lambda>k. json_from_sale (the (sales m k))) ks)"
  by (induction ks) auto

lemma sales_at_keys_Inl:
  "sales_at_keys m ks = Inl e \<longleftrightarrow> e = UnwrapNone \<and> (\<exists>k\<in>set ks. sales m k = None)"
  by (induction ks) (auto split: option.splits sum.splits)

lemma map_nth_upt_page:
  "map (\<lambda>i. keys ! i) [start..<min (start + limit) (length keys)] = take limit (drop start keys)"
proof (rule nth_equalityI)
  show "length (map (\<lambda>i. keys ! i) [start..<min (start + limit) (length keys)]) =
        length (take limit (drop start keys))" by simp
next
  fix i assume "i < length (map (\<lambda>i. keys ! i) [start..<min (start + limit) (length keys)])"
  then have l: "i < length [start..<min (start + limit) (length keys)]" by simp
  then have n: "[start..<min (start + limit) (length keys)] ! i = start + i" by (subst nth_upt) auto
  from l have "i < limit" "start + i < length keys" by (simp_all add: min_def split: if_splits)
  with l n show "map (\<lambda>i. keys ! i) [start..<min (start + limit) (length keys)] ! i = take limit (drop start keys) ! i"
    by simp
qed

text \<open>
  C33. Paging by index equals skipping and taking: when every key of the owner's index
  has a sale and \<open>from_index + limit\<close> fits in a u64, \<open>get_sales_by_owner_id\<close> returns
  the JSON views of the sales of \<open>take limit (drop from_index keys)\<close>, in the order of the index vector.
\<close>

theorem get_sales_by_owner_id_page:
  assumes idx: "by_owner_id m a = Some keys" and backed: "\<forall>k\<in>set keys. sales m k \<noteq> None"
    and fits: "from_index + limit \<le> u64_max"
  shows "get_sales_by_owner_id m a from_index limit =
           Inr (map (\<lambda>k. json_from_sale (the (sales m k))) (take limit (drop from_index keys)))"
proof -
  have "\<forall>k\<in>set (take limit (drop from_index keys)). sales m k \<noteq> None"
    using backed by (auto dest: in_set_takeD in_set_dropD)
  with idx fits show ?thesis
    by (simp add: get_sales_by_owner_id_def page_indices_def map_nth_upt_page sales_at_keys_Inr)
qed

theorem get_sales_by_owner_id_page_witness:
  "get_sales_by_owner_id demo_market ''alice'' 0 10 = Inr [json_from_sale demo_sale]"
proof -
  have idx: "by_owner_id demo_market ''alice'' = Some [demo_key]"
    and backed: "\<forall>k\<in>set [demo_key]. sales demo_market k \<noteq> None"
    and fits: "0 + 10 \<le> u64_max"
    by (simp_all add: demo_market_def u64_max_def)
  from get_sales_by_owner_id_page [OF idx backed fits] show ?thesis by (simp add: demo_market_def)
qed

text \<open>
  C34. A view fails exactly in two ways: when \<open>from_index + limit\<close> overflows a u64, and
  otherwise when a key on the requested page has no sale (the \<open>unwrap()\<close> panics); an
  account without an index entry gets an empty page.
\<close>

theorem get_sales_by_owner_id_fails:
  "get_sales_by_owner_id m a from_index limit = Inl e \<longleftrightarrow>
     (\<exists>keys. by_owner_id m a = Some keys \<and>
        (if u64_max < from_index + limit then e = ArithmeticOverflow
         else e = UnwrapNone \<and> (\<exists>k\<in>set (take limit (drop from_index keys)). sales m k = None)))"
  by (auto simp: get_sales_by_owner_id_def page_indices_def map_nth_upt_page sales_at_keys_Inl
           split: option.splits)

theorem get_sales_by_owner_id_fails_witness:
  "get_sales_by_owner_id demo_market ''alice'' 1 u64_max = Inl ArithmeticOverflow \<and>
   get_sales_by_owner_id demo_market ''bob'' 1 u64_max = Inr []"
proof -
  have "\<exists>keys. by_owner_id demo_market ''alice'' = Some keys \<and>
          (if u64_max < 1 + u64_max then ArithmeticOverflow = ArithmeticOverflow
           else ArithmeticOverflow = UnwrapNone \<and>
                (\<exists>k\<in>set (take u64_max (drop 1 keys)). sales demo_market k = None))"
    by (simp add: demo_market_def)
  then have "get_sales_by_owner_id demo_market ''alice'' 1 u64_max = Inl ArithmeticOverflow"
    using get_sales_by_owner_id_fails [of demo_market "''alice''" 1 u64_max ArithmeticOverflow] by blast
  moreover have "get_sales_by_owner_id demo_market ''bob'' 1 u64_max = Inr []"
    by (simp add: get_sales_by_owner_id_def demo_market_def market_new_def)
  ultimately show ?thesis by blast
qed

end
