(* ===== verification/Scenarios.thy ===== *)
theory Scenarios
  imports Views
begin

text \<open>
  Concrete runs of the market contract built from the handlers of Contract.thy, the way
  the integration tests drive the deployed contract, and the properties they exhibit:
  a re-approval drops the bids of the sale it replaces (C26), a re-listing under
  another token type leaves a stale type-index entry on which the type view panics,
  and the test-only \<open>hack_finish_auction\<close> lets anyone end any auction (C28). The
  stale owner-index entry of a token that changes owner is C27 (Invariant.thy), shown
  for every state; \<open>stale_prefix_market\<close> is the state from which its example starts.
\<close>

section \<open>Scenarios\<close>

text \<open>
  Runs of calls from a fresh market with contract \<open>nft\<close> whitelisted: the NFT
  contract's \<open>nft_approve\<close> reaches the market as \<open>nft_on_approve\<close> with the
  NFT contract as predecessor and the token owner as signer (\<open>approve_env\<close>).
  \<open>listing_calls\<close>: \<open>alice\<close> pays storage for two sales and lists token
  \<open>1:1\<close> at 10000; \<open>bob\<close> bids 10000, less than the price with fees.
  \<open>stale_calls\<close>: \<open>alice\<close> lists the token; after the token has passed to
  \<open>bob\<close>, \<open>bob\<close> lists it again and removes the sale.
  \<open>retyped_calls\<close>: \<open>alice\<close> lists the token under the token type \<open>1\<close>, lists it
  again without a token type, and removes the sale.
\<close>

definition demo_listing :: "balance \<Rightarrow> sale_args" where
  "demo_listing p = \<lparr>sa_sale_conditions = [(NEAR, p)], sa_token_type = None, sa_start = None,
                     sa_end = None, sa_origins = None\<rparr>"

definition approve_env :: "account \<Rightarrow> env" where
  "approve_env owner =
     \<lparr>block_timestamp = 10, predecessor_account_id = ''nft'', signer_account_id = owner,
      attached_deposit = 0, current_account_id = ''market''\<rparr>"

definition listing_calls :: "(env \<times> market_call) list" where
  "listing_calls =
     [(auction_env ''alice'' (2 * STORAGE_PER_SALE) 10, StorageDeposit None),
      (approve_env ''alice'', NftOnApprove ''1:1'' ''alice'' 0 (SaleKind (demo_listing 10000))),
      (auction_env ''bob'' 10000 20, Offer ''nft'' ''1:1'' NEAR None None None)]"

definition stale_calls :: "(env \<times> market_call) list" where
  "stale_calls =
     [(auction_env ''alice'' STORAGE_PER_SALE 10, StorageDeposit None),
      (approve_env ''alice'', NftOnApprove ''1:1'' ''alice'' 0 (SaleKind (demo_listing 10000))),
      (auction_env ''bob'' STORAGE_PER_SALE 10, StorageDeposit None),
      (approve_env ''bob'', NftOnApprove ''1:1'' ''bob'' 1 (SaleKind (demo_listing 10000))),
      (auction_env ''bob'' 1 20, RemoveSale ''nft'' ''1:1'')]"

definition retyped_calls :: "(env \<times> market_call) list" where
  "retyped_calls =
     [(auction_env ''alice'' (2 * STORAGE_PER_SALE) 10, StorageDeposit None),
      (approve_env ''alice'', NftOnApprove ''1:1'' ''alice'' 0
         (SaleKind ((demo_listing 10000)\<lparr>sa_token_type := Some ''1''\<rparr>))),
      (approve_env ''alice'', NftOnApprove ''1:1'' ''alice'' 1 (SaleKind (demo_listing 10000))),
      (auction_env ''alice'' 1 20, RemoveSale ''nft'' ''1:1'')]"

definition stale_prefix_market :: market where
  "stale_prefix_market = fst (market_run (market_new [''nft''] ''market'') (take 3 stale_calls))"

definition listed_market :: market where
  "listed_market = fst (market_run (market_new [''nft''] ''market'') listing_calls)"

definition retyped_market :: market where
  "retyped_market = fst (market_run (market_new [''nft''] ''market'') retyped_calls)"

section \<open>Evaluating the runs\<close>

lemmas run_defs = market_new_def auction_env_def approve_env_def demo_listing_def
  nft_on_approve_def start_sale_def storage_deposit_def offer_def add_bid_def remove_sale_def
  internal_remove_sale_def get_supply_by_owner_id_def index_card_def deposit_of_def storage_amount_def
  index_insert_def index_remove_def uset_insert_def uset_remove_def contract_and_token_id_def sale_in_limits_def Let_def
  calculate_price_with_fees_def calculate_actual_amount_def ledger_submit_def push_bid_def
  market_consts

lemma listed_market_eq:
  "listed_market =
     (market_new [''nft''] ''market'')\<lparr>
        sales := [contract_and_token_id ''nft'' ''1:1'' \<mapsto> demo_sale\<lparr>sale_created_at := 10,
          sale_start := Some 10, sale_bids := [(NEAR, [demo_bid ''bob'' 10000\<lparr>bid_start := 20\<rparr>])]\<rparr>],
        sale_keys := [contract_and_token_id ''nft'' ''1:1''],
        by_owner_id := [''alice'' \<mapsto> [contract_and_token_id ''nft'' ''1:1'']],
        by_nft_contract_id := [''nft'' \<mapsto> [''1:1'']],
        storage_deposits := [''alice'' \<mapsto> 2 * STORAGE_PER_SALE]\<rparr>"
  by (simp add: listed_market_def listing_calls_def run_defs demo_sale_def demo_bid_def)

lemma retyped_market_eq:
  "retyped_market =
     (market_new [''nft''] ''market'')\<lparr>by_nft_token_type := [''1'' \<mapsto> [contract_and_token_id ''nft'' ''1:1'']],
        storage_deposits := [''alice'' \<mapsto> 2 * STORAGE_PER_SALE]\<rparr>"
  by (simp add: retyped_market_def retyped_calls_def run_defs str_contains_def)

lemma reachable_stale_prefix_market: "reachable stale_prefix_market"
  unfolding stale_prefix_market_def by (rule reachable_market_run [OF reachable.init])

lemma reachable_retyped_market: "reachable retyped_market"
  unfolding retyped_market_def by (rule reachable_market_run [OF reachable.init])

lemma reachable_listed_market: "reachable listed_market"
  unfolding listed_market_def by (rule reachable_market_run [OF reachable.init])

section \<open>Properties shown by the runs\<close>

text \<open>
  C26. Approving a token that is already listed replaces its sale by a new one with no
  bids, and the call pays nothing: the deposits of the bids of the replaced sale stay
  in the contract with no record of them.
\<close>

theorem relisting_drops_bids:
  assumes r: "market_step m env (NftOnApprove t o' a (SaleKind args)) = Inr (m', effs)"
  shows "effs = [] \<and> (\<exists>s'. sales m' (contract_and_token_id (predecessor_account_id env) t) = Some s' \<and>
                              sale_bids s' = [])"
proof -
  from r obtain l where "nft_on_approve m env t o' a (SaleKind args) = Inr (m', l)" and "effs = []"
    by (auto split: sum.splits)
  then obtain sale where ss: "start_sale m env args t o' a (predecessor_account_id env) = Inr (m', sale)"
    by (auto simp: nft_on_approve_def Let_def split: if_splits sum.splits)
  from start_sale_parts [OF ss] have "sales m' (contract_and_token_id (predecessor_account_id env) t) = Some sale"
    and "sale_bids sale = []" by simp_all
  with \<open>effs = []\<close> show ?thesis by blast
qed

theorem relisting_drops_bids_witness:
  "sale_escrow (the (sales listed_market (contract_and_token_id ''nft'' ''1:1''))) = 10000 \<and>
   (\<exists>m' effs s'. market_step listed_market (approve_env ''alice'')
        (NftOnApprove ''1:1'' ''alice'' 1 (SaleKind (demo_listing 20000))) = Inr (m', effs) \<and>
      effs = [] \<and> sales m' (contract_and_token_id ''nft'' ''1:1'') = Some s' \<and> sale_bids s' = [])"
proof -
  obtain m' effs where r: "market_step listed_market (approve_env ''alice'')
        (NftOnApprove ''1:1'' ''alice'' 1 (SaleKind (demo_listing 20000))) = Inr (m', effs)"
    by (simp add: listed_market_eq run_defs)
  from relisting_drops_bids [OF r] r have "\<exists>m' effs s'. market_step listed_market (approve_env ''alice'')
        (NftOnApprove ''1:1'' ''alice'' 1 (SaleKind (demo_listing 20000))) = Inr (m', effs) \<and>
      effs = [] \<and> sales m' (contract_and_token_id ''nft'' ''1:1'') = Some s' \<and> sale_bids s' = []"
    by (auto simp: approve_env_def)
  moreover have "sale_escrow (the (sales listed_market (contract_and_token_id ''nft'' ''1:1''))) = 10000"
    by (simp add: listed_market_eq sale_escrow_def demo_bid_def)
  ultimately show ?thesis by blast
qed

text \<open>
  Re-listing a token under another token type leaves the sale's key in the index of
  the old type: after \<open>alice\<close> re-lists without a type and removes the sale, the type
  index \<open>1\<close> still counts one sale and its paginated view panics.
\<close>

theorem retyped_type_view_panics:
  "reachable retyped_market \<and> sales retyped_market (contract_and_token_id ''nft'' ''1:1'') = None \<and>
   get_supply_by_nft_token_type retyped_market ''1'' = 1 \<and>
   get_sales_by_nft_token_type retyped_market ''1'' 0 10 = Inl UnwrapNone"
  using reachable_retyped_market
  by (simp add: retyped_market_eq run_defs get_supply_by_nft_token_type_def get_sales_by_nft_token_type_def
                page_indices_def u64_max_def)

text \<open>
  C28. The test-only \<open>hack_finish_auction\<close> is public: any account can move the end of
  any auction with a bid to the current time, after which anyone can settle it with
  \<open>finish_auction\<close> before the end the owner chose.
\<close>

theorem hack_finish_auction_ends_early:
  assumes a: "auctions m aid = Some a" and b: "auction_bid a = Some b"
    and t: "block_timestamp env < block_timestamp env'"
  shows "\<exists>m1 m2 effs. market_step m env (HackFinishAuction aid) = Inr (m1, []) \<and>
           market_step m1 env' (FinishAuction aid) = Inr (m2, effs)"
  using a b t by (simp add: hack_finish_auction_def finish_auction_def Let_def)

theorem hack_finish_auction_ends_early_witness:
  "block_timestamp (auction_env ''mallory'' 0 21) < auction_end demo_auction \<and>
   (\<exists>m1 m2 effs. market_step demo_auction_bid_market (auction_env ''mallory'' 0 20) (HackFinishAuction 0) = Inr (m1, []) \<and>
      market_step m1 (auction_env ''mallory'' 0 21) (FinishAuction 0) = Inr (m2, effs))"
  using hack_finish_auction_ends_early [of demo_auction_bid_market 0 "demo_auction\<lparr>auction_bid := Some (demo_bid ''bob'' 10300)\<rparr>"
      "demo_bid ''bob'' 10300" "auction_env ''mallory'' 0 20" "auction_env ''mallory'' 0 21"]
  by (simp add: demo_auction_bid_market_def auction_env_def demo_auction_def NANOS_PER_SEC_def)

end
