(* ===== verification/Invariant.thy ===== *)
theory Invariant
  imports Scenarios
begin

text \<open>
  The invariant of every state of the market contract reachable from \<open>new\<close> by
  successful calls (Contract.thy, \<open>reachable\<close>): currencies and history length are
  fixed, every sale's bid ledger is well formed, every stored sale is filed under its key
  and in its owner, NFT-contract and token-type indices, every owner's deposit covers the
  storage of its indexed sales and fits in a u128, and every auction id is below the
  counter. One lemma per handler shows it keeps the invariant; rule induction lifts it
  to all reachable states; C23 to C25 are its consequences for callers.
\<close>

section \<open>The invariant of reachable states\<close>

text \<open>
  Every stored sale is filed under its own key and appears in the owner, NFT-contract and
  token-type indices; every owner's deposit covers the storage of the sales indexed under
  the owner; every auction id is below the counter; the key vectors of the two
  \<open>UnorderedMap\<close>s list the keys of their maps once each.
\<close>

definition directory_ok :: "market \<Rightarrow> bool" where
  "directory_ok m =
     (\<forall>k s. sales m k = Some s \<longrightarrow>
        k = contract_and_token_id (sale_nft_contract_id s) (sale_token_id s) \<and>
        (\<exists>S. by_owner_id m (sale_owner_id s) = Some S \<and> k \<in> set S) \<and>
        (\<exists>T. by_nft_contract_id m (sale_nft_contract_id s) = Some T \<and> sale_token_id s \<in> set T) \<and>
        (\<forall>tt. sale_token_type s = Some tt \<longrightarrow> (\<exists>U. by_nft_token_type m tt = Some U \<and> k \<in> set U)))"

definition storage_ok :: "market \<Rightarrow> bool" where
  "storage_ok m =
     ((\<forall>a. index_card (by_owner_id m) a * STORAGE_PER_SALE \<le> deposit_of m a) \<and>
      (\<forall>a S. by_owner_id m a = Some S \<longrightarrow> distinct S) \<and>
      (\<forall>a. deposit_of m a \<le> u128_max))"

definition auction_ids_ok :: "market \<Rightarrow> bool" where
  "auction_ids_ok m = (\<forall>k\<in>dom (auctions m). k < next_auction_id m)"

definition market_inv :: "market \<Rightarrow> bool" where
  "market_inv m =
     (ft_token_ids m = {NEAR} \<and> bid_history_length m = BID_HISTORY_LENGTH_DEFAULT \<and>
      market_ledgers_ok m \<and> directory_ok m \<and> storage_ok m \<and> auction_ids_ok m \<and>
      keys_of (sale_keys m) (sales m) \<and> keys_of (auction_keys m) (auctions m))"

definition same_listing :: "sale \<Rightarrow> sale \<Rightarrow> bool" where
  "same_listing s s' =
     (sale_owner_id s' = sale_owner_id s \<and> sale_nft_contract_id s' = sale_nft_contract_id s \<and>
      sale_token_id s' = sale_token_id s \<and> sale_token_type s' = sale_token_type s)"

section \<open>Each handler keeps the invariant\<close>

lemma same_listing_bids [simp]: "same_listing s (s\<lparr>sale_bids := b\<rparr>)"
  by (simp add: same_listing_def)

lemma market_inv_store:
  assumes inv: "market_inv m" and s: "sales m k = Some s" and ok: "sale_ledger_ok (bid_history_length m) s'"
    and same: "same_listing s s'"
  shows "market_inv (m\<lparr>sales := (sales m)(k \<mapsto> s')\<rparr>)"
proof -
  have "directory_ok (m\<lparr>sales := (sales m)(k \<mapsto> s')\<rparr>)"
    unfolding directory_ok_def
  proof (intro allI impI)
    fix k' s'' assume a: "sales (m\<lparr>sales := (sales m)(k \<mapsto> s')\<rparr>) k' = Some s''"
    show "k' = contract_and_token_id (sale_nft_contract_id s'') (sale_token_id s'') \<and>
        (\<exists>S. by_owner_id (m\<lparr>sales := (sales m)(k \<mapsto> s')\<rparr>) (sale_owner_id s'') = Some S \<and> k' \<in> set S) \<and>
        (\<exists>T. by_nft_contract_id (m\<lparr>sales := (sales m)(k \<mapsto> s')\<rparr>) (sale_nft_contract_id s'') = Some T \<and> sale_token_id s'' \<in> set T) \<and>
        (\<forall>tt. sale_token_type s'' = Some tt \<longrightarrow> (\<exists>U. by_nft_token_type (m\<lparr>sales := (sales m)(k \<mapsto> s')\<rparr>) tt = Some U \<and> k' \<in> set U))"
    proof (cases "k' = k")
      case True
      with a have "s'' = s'" by simp
      with True s same inv show ?thesis by (simp add: market_inv_def directory_ok_def same_listing_def)
    next
      case False
      with a have "sales m k' = Some s''" by simp
      with inv show ?thesis by (simp add: market_inv_def directory_ok_def)
    qed
  qed
  moreover have "market_ledgers_ok (m\<lparr>sales := (sales m)(k \<mapsto> s')\<rparr>)"
    using inv ok by (simp add: market_inv_def market_ledgers_ok_store)
  ultimately show ?thesis using inv s
    by (simp add: market_inv_def storage_ok_def auction_ids_ok_def index_card_def deposit_of_def keys_of_update)
qed


lemma index_remove_keeps:
  assumes r: "index_remove idx k x = Some idx'" and S: "idx k' = Some S" and y: "y \<in> set S"
    and ne: "k' = k \<longrightarrow> y \<noteq> x"
  shows "\<exists>S'. idx' k' = Some S' \<and> y \<in> set S'"
proof (cases "k' = k")
  case True
  from index_remove_Some [OF r] obtain s0 where "idx k = Some s0"
    and "idx' k = (if uset_remove s0 x = [] then None else Some (uset_remove s0 x))" by blast
  with True S y ne uset_remove_keeps [of y s0 x] show ?thesis by auto
next
  case False
  with index_remove_other [OF r False] S y show ?thesis by simp
qed

lemma index_remove_card:
  assumes r: "index_remove idx k x = Some idx'" and fin: "\<forall>S. idx k' = Some S \<longrightarrow> distinct S"
  shows "index_card idx' k' \<le> index_card idx k' \<and> (\<forall>S'. idx' k' = Some S' \<longrightarrow> distinct S')"
proof (cases "k' = k")
  case True
  from index_remove_Some [OF r] obtain s0 where s0: "idx k = Some s0"
    and "idx' k = (if uset_remove s0 x = [] then None else Some (uset_remove s0 x))" by blast
  with True fin show ?thesis
    by (auto simp: index_card_def length_uset_remove distinct_uset_remove)
next
  case False
  with index_remove_other [OF r False] fin show ?thesis by (simp add: index_card_def)
qed

lemma internal_remove_sale_parts:
  assumes "internal_remove_sale m c t = Inr (m', s)"
  shows "\<exists>bo bc. sales m (contract_and_token_id c t) = Some s \<and>
           index_remove (by_owner_id m) (sale_owner_id s) (contract_and_token_id c t) = Some bo \<and>
           index_remove (by_nft_contract_id m) c t = Some bc \<and>
           sales m' = (sales m)(contract_and_token_id c t := None) \<and> by_owner_id m' = bo \<and>
           sale_keys m' = uset_remove (sale_keys m) (contract_and_token_id c t) \<and> auction_keys m' = auction_keys m \<and>
           by_nft_contract_id m' = bc \<and> storage_deposits m' = storage_deposits m \<and>
           ft_token_ids m' = ft_token_ids m \<and> bid_history_length m' = bid_history_length m \<and>
           auctions m' = auctions m \<and> next_auction_id m' = next_auction_id m \<and>
           (case sale_token_type s of
              None \<Rightarrow> by_nft_token_type m' = by_nft_token_type m
            | Some tt \<Rightarrow> index_remove (by_nft_token_type m) tt (contract_and_token_id c t) = Some (by_nft_token_type m'))"
  using assms
  by (auto simp: internal_remove_sale_def Let_def split: option.splits)

lemma market_inv_remove:
  assumes inv: "market_inv m" and r: "internal_remove_sale m c t = Inr (m', s)"
  shows "market_inv m'"
proof -
  let ?k = "contract_and_token_id c t"
  from internal_remove_sale_parts [OF r] obtain bo bc where s: "sales m ?k = Some s"
    and bo: "index_remove (by_owner_id m) (sale_owner_id s) ?k = Some bo"
    and bc: "index_remove (by_nft_contract_id m) c t = Some bc"
    and sm: "sales m' = (sales m)(?k := None)" and bom: "by_owner_id m' = bo"
    and km: "sale_keys m' = uset_remove (sale_keys m) ?k" "auction_keys m' = auction_keys m"
    and bcm: "by_nft_contract_id m' = bc"
    and rest: "storage_deposits m' = storage_deposits m" "ft_token_ids m' = ft_token_ids m"
      "bid_history_length m' = bid_history_length m" "auctions m' = auctions m"
      "next_auction_id m' = next_auction_id m"
    and tt: "case sale_token_type s of
              None \<Rightarrow> by_nft_token_type m' = by_nft_token_type m
            | Some tt \<Rightarrow> index_remove (by_nft_token_type m) tt ?k = Some (by_nft_token_type m')"
    by blast
  have dir: "directory_ok m" and led: "market_ledgers_ok m" and sto: "storage_ok m"
    using inv by (simp_all add: market_inv_def)
  have "directory_ok m'"
    unfolding directory_ok_def
  proof (intro allI impI)
    fix k' s' assume a: "sales m' k' = Some s'"
    with sm have ne: "k' \<noteq> ?k" and s': "sales m k' = Some s'" by (auto split: if_splits)
    from dir s' have key: "k' = contract_and_token_id (sale_nft_contract_id s') (sale_token_id s')"
      and o: "\<exists>S. by_owner_id m (sale_owner_id s') = Some S \<and> k' \<in> set S"
      and n: "\<exists>T. by_nft_contract_id m (sale_nft_contract_id s') = Some T \<and> sale_token_id s' \<in> set T"
      and y: "\<forall>tt. sale_token_type s' = Some tt \<longrightarrow> (\<exists>U. by_nft_token_type m tt = Some U \<and> k' \<in> set U)"
      by (simp_all add: directory_ok_def)
    from o obtain S where "by_owner_id m (sale_owner_id s') = Some S" and "k' \<in> set S" by blast
    from index_remove_keeps [OF bo this] ne have o': "\<exists>S'. by_owner_id m' (sale_owner_id s') = Some S' \<and> k' \<in> set S'"
      using bom by simp
    from n obtain T where "by_nft_contract_id m (sale_nft_contract_id s') = Some T" and "sale_token_id s' \<in> set T" by blast
    moreover have "sale_nft_contract_id s' = c \<longrightarrow> sale_token_id s' \<noteq> t" using key ne by auto
    ultimately have n': "\<exists>T'. by_nft_contract_id m' (sale_nft_contract_id s') = Some T' \<and> sale_token_id s' \<in> set T'"
      using index_remove_keeps [OF bc] bcm by simp
    have y': "\<exists>U. by_nft_token_type m' tt = Some U \<and> k' \<in> set U" if "sale_token_type s' = Some tt" for tt
    proof -
      from y that obtain U where U: "by_nft_token_type m tt = Some U" and "k' \<in> set U" by blast
      show ?thesis
      proof (cases "sale_token_type s")
        case None
        with tt U \<open>k' \<in> set U\<close> show ?thesis by simp
      next
        case (Some tt0)
        with tt have "index_remove (by_nft_token_type m) tt0 ?k = Some (by_nft_token_type m')" by simp
        from index_remove_keeps [OF this U \<open>k' \<in> set U\<close>] ne show ?thesis by simp
      qed
    qed
    from key o' n' y' show "k' = contract_and_token_id (sale_nft_contract_id s') (sale_token_id s') \<and>
        (\<exists>S. by_owner_id m' (sale_owner_id s') = Some S \<and> k' \<in> set S) \<and>
        (\<exists>T. by_nft_contract_id m' (sale_nft_contract_id s') = Some T \<and> sale_token_id s' \<in> set T) \<and>
        (\<forall>tt. sale_token_type s' = Some tt \<longrightarrow> (\<exists>U. by_nft_token_type m' tt = Some U \<and> k' \<in> set U))"
      by blast
  qed
  moreover have "storage_ok m'"
    unfolding storage_ok_def
  proof (intro conjI allI impI)
    fix a
    from sto have "\<forall>S. by_owner_id m a = Some S \<longrightarrow> distinct S" by (simp add: storage_ok_def)
    from index_remove_card [OF bo this] bom have "index_card (by_owner_id m') a \<le> index_card (by_owner_id m) a"
      by simp
    then have "index_card (by_owner_id m') a * STORAGE_PER_SALE \<le> index_card (by_owner_id m) a * STORAGE_PER_SALE"
      by simp
    also have "\<dots> \<le> deposit_of m a" using sto by (simp add: storage_ok_def)
    finally show "index_card (by_owner_id m') a * STORAGE_PER_SALE \<le> deposit_of m' a"
      using rest(1) by (simp add: deposit_of_def)
  next
    fix a S assume "by_owner_id m' a = Some S"
    moreover from sto have "\<forall>S. by_owner_id m a = Some S \<longrightarrow> distinct S" by (simp add: storage_ok_def)
    ultimately show "distinct S" using index_remove_card [OF bo] bom by auto
  next
    fix a
    from sto have "deposit_of m a \<le> u128_max" by (simp add: storage_ok_def)
    with rest(1) show "deposit_of m' a \<le> u128_max" by (simp add: deposit_of_def)
  qed
  moreover have "market_ledgers_ok m'" using led sm rest(3) by (simp add: market_ledgers_ok_def)
  ultimately show ?thesis using inv rest sm km by (simp add: market_inv_def auction_ids_ok_def keys_of_remove)
qed


lemma index_insert_keeps:
  "idx k' = Some S \<Longrightarrow> y \<in> set S \<Longrightarrow> \<exists>S'. index_insert idx k x k' = Some S' \<and> y \<in> set S'"
  by (cases "k' = k") (auto simp: index_insert_def)

lemma index_insert_card:
  assumes "\<forall>S. idx k' = Some S \<longrightarrow> distinct S"
  shows "index_card (index_insert idx k x) k' \<le> index_card idx k' + (if k' = k then 1 else 0) \<and>
         (\<forall>S'. index_insert idx k x k' = Some S' \<longrightarrow> distinct S')"
  using assms
  by (cases "idx k'") (auto simp: index_insert_def index_card_def length_uset_insert distinct_uset_insert uset_insert_def)

lemma directory_ok_start_sale:
  assumes dir: "directory_ok m" and r: "start_sale m env args t owner approval c = Inr (m', sale)"
  shows "directory_ok m'"
proof -
  let ?k = "contract_and_token_id c t"
  note p = start_sale_parts [OF r]
  show "directory_ok m'"
    unfolding directory_ok_def
  proof (intro allI impI)
    fix k' s' assume a: "sales m' k' = Some s'"
    show "k' = contract_and_token_id (sale_nft_contract_id s') (sale_token_id s') \<and>
        (\<exists>S. by_owner_id m' (sale_owner_id s') = Some S \<and> k' \<in> set S) \<and>
        (\<exists>T. by_nft_contract_id m' (sale_nft_contract_id s') = Some T \<and> sale_token_id s' \<in> set T) \<and>
        (\<forall>tt. sale_token_type s' = Some tt \<longrightarrow> (\<exists>U. by_nft_token_type m' tt = Some U \<and> k' \<in> set U))"
    proof (cases "k' = ?k")
      case True
      with a p have "s' = sale" by simp
      with True p show ?thesis by (auto simp: index_insert_def split: option.splits)
    next
      case False
      with a p have s': "sales m k' = Some s'" by simp
      from dir s' have key: "k' = contract_and_token_id (sale_nft_contract_id s') (sale_token_id s')"
        and o: "\<exists>S. by_owner_id m (sale_owner_id s') = Some S \<and> k' \<in> set S"
        and n: "\<exists>T. by_nft_contract_id m (sale_nft_contract_id s') = Some T \<and> sale_token_id s' \<in> set T"
        and y: "\<forall>tt. sale_token_type s' = Some tt \<longrightarrow> (\<exists>U. by_nft_token_type m tt = Some U \<and> k' \<in> set U)"
        by (simp_all add: directory_ok_def)
      have y': "\<exists>U. by_nft_token_type m' tt = Some U \<and> k' \<in> set U" if "sale_token_type s' = Some tt" for tt
      proof -
        from y that obtain U where "by_nft_token_type m tt = Some U" and "k' \<in> set U" by blast
        then show ?thesis
        proof (cases "sa_token_type args")
          case None
          with p \<open>by_nft_token_type m tt = Some U\<close> \<open>k' \<in> set U\<close> show ?thesis by simp
        next
          case (Some tt0)
          from index_insert_keeps [where idx = "by_nft_token_type m" and k' = tt and S = U,
                OF \<open>by_nft_token_type m tt = Some U\<close> \<open>k' \<in> set U\<close>, of tt0 ?k] p Some
          show ?thesis by simp
        qed
      qed
      from o obtain S where "by_owner_id m (sale_owner_id s') = Some S" and "k' \<in> set S" by blast
      from index_insert_keeps [where idx = "by_owner_id m" and k' = "sale_owner_id s'" and S = S, OF this, of owner ?k] p
      have o': "\<exists>S. by_owner_id m' (sale_owner_id s') = Some S \<and> k' \<in> set S" by simp
      from n obtain T where "by_nft_contract_id m (sale_nft_contract_id s') = Some T" and "sale_token_id s' \<in> set T" by blast
      from index_insert_keeps [where idx = "by_nft_contract_id m" and k' = "sale_nft_contract_id s'" and S = T, OF this, of c t] p
      have n': "\<exists>T. by_nft_contract_id m' (sale_nft_contract_id s') = Some T \<and> sale_token_id s' \<in> set T" by simp
      from key o' n' y' show ?thesis by blast
    qed
  qed
qed

lemma storage_ok_start_sale:
  assumes sto: "storage_ok m" and r: "start_sale m env args t owner approval c = Inr (m', sale)"
    and paid: "(index_card (by_owner_id m) owner + 1) * STORAGE_PER_SALE \<le> deposit_of m owner"
  shows "storage_ok m'"
proof -
  let ?k = "contract_and_token_id c t"
  from start_sale_parts [OF r] have bo: "by_owner_id m' = index_insert (by_owner_id m) owner ?k"
    and sd: "storage_deposits m' = storage_deposits m" by blast+
  have dep: "deposit_of m' a = deposit_of m a" for a using sd by (simp add: deposit_of_def)
  have fin: "\<forall>S. by_owner_id m a = Some S \<longrightarrow> distinct S" for a using sto unfolding storage_ok_def by blast
  have cov: "index_card (by_owner_id m) a * STORAGE_PER_SALE \<le> deposit_of m a" for a
    using sto unfolding storage_ok_def by blast
  have le: "index_card (by_owner_id m') a \<le> index_card (by_owner_id m) a + (if a = owner then 1 else 0)"
    and fin': "\<forall>S'. by_owner_id m' a = Some S' \<longrightarrow> distinct S'" for a
    using index_insert_card [where idx = "by_owner_id m" and k' = a, OF fin, of owner ?k] bo by simp_all
  have "index_card (by_owner_id m') a * STORAGE_PER_SALE \<le> deposit_of m' a" for a
  proof (cases "a = owner")
    case True
    with le [of a] have "index_card (by_owner_id m') a \<le> index_card (by_owner_id m) owner + 1" by simp
    then have "index_card (by_owner_id m') a * STORAGE_PER_SALE \<le> (index_card (by_owner_id m) owner + 1) * STORAGE_PER_SALE"
      by (rule mult_right_mono) simp
    also have "\<dots> \<le> deposit_of m owner" by (rule paid)
    finally show ?thesis using True dep by simp
  next
    case False
    with le [of a] have "index_card (by_owner_id m') a \<le> index_card (by_owner_id m) a" by simp
    then have "index_card (by_owner_id m') a * STORAGE_PER_SALE \<le> index_card (by_owner_id m) a * STORAGE_PER_SALE"
      by (rule mult_right_mono) simp
    also have "\<dots> \<le> deposit_of m a" by (rule cov)
    finally show ?thesis using dep by simp
  qed
  moreover have "deposit_of m' a \<le> u128_max" for a using sto dep unfolding storage_ok_def by simp
  ultimately show ?thesis using fin' unfolding storage_ok_def by blast
qed

lemma market_inv_start_sale:
  assumes inv: "market_inv m" and r: "start_sale m env args t owner approval c = Inr (m', sale)"
    and paid: "(index_card (by_owner_id m) owner + 1) * STORAGE_PER_SALE \<le> deposit_of m owner"
  shows "market_inv m'"
proof -
  let ?k = "contract_and_token_id c t"
  note p = start_sale_parts [OF r]
  from inv have "directory_ok m" and "storage_ok m" by (simp_all add: market_inv_def)
  from directory_ok_start_sale [OF this(1) r] storage_ok_start_sale [OF this(2) r paid]
  have "directory_ok m'" and "storage_ok m'" .
  moreover note calculation
  moreover have "market_ledgers_ok m'"
  proof -
    have "sale_ledger_ok (bid_history_length m) sale" using p by (simp add: sale_ledger_ok_def)
    with inv p have "market_ledgers_ok (m\<lparr>sales := (sales m)(?k \<mapsto> sale)\<rparr>)"
      by (simp add: market_inv_def market_ledgers_ok_store)
    with p show ?thesis by (simp add: market_ledgers_ok_def)
  qed
  ultimately show ?thesis using inv p by (simp add: market_inv_def auction_ids_ok_def keys_of_insert)
qed

lemma start_auction_parts:
  assumes "start_auction m env args t owner approval c = Inr (m', aid, a)"
  shows "aid = next_auction_id m \<and> auctions m' = (auctions m)(aid \<mapsto> a) \<and> next_auction_id m' = aid + 1 \<and>
         sales m' = sales m \<and> by_owner_id m' = by_owner_id m \<and> by_nft_contract_id m' = by_nft_contract_id m \<and>
         by_nft_token_type m' = by_nft_token_type m \<and> storage_deposits m' = storage_deposits m \<and>
         ft_token_ids m' = ft_token_ids m \<and> bid_history_length m' = bid_history_length m \<and>
         auction_keys m' = uset_insert (auction_keys m) aid \<and> sale_keys m' = sale_keys m"
  using assms
  by (auto simp: start_auction_def Let_def split: if_splits sum.splits option.splits)

lemma market_inv_auctions:
  assumes inv: "market_inv m" and ids: "auction_ids_ok m'"
    and same: "sales m' = sales m" "by_owner_id m' = by_owner_id m" "by_nft_contract_id m' = by_nft_contract_id m"
      "by_nft_token_type m' = by_nft_token_type m" "storage_deposits m' = storage_deposits m"
      "ft_token_ids m' = ft_token_ids m" "bid_history_length m' = bid_history_length m"
      "sale_keys m' = sale_keys m"
    and keys: "keys_of (auction_keys m') (auctions m')"
  shows "market_inv m'"
proof -
  have "market_ledgers_ok m' = market_ledgers_ok m" using same by (simp add: market_ledgers_ok_def)
  moreover have "directory_ok m' = directory_ok m" using same by (simp add: directory_ok_def)
  moreover have "deposit_of m' = deposit_of m" using same by (simp add: deposit_of_def fun_eq_iff)
  then have "storage_ok m' = storage_ok m" using same by (simp add: storage_ok_def)
  ultimately show ?thesis using inv ids same keys by (simp add: market_inv_def)
qed

lemma market_inv_start_auction:
  assumes inv: "market_inv m" and r: "start_auction m env args t owner approval c = Inr (m', aid, a)"
  shows "market_inv m'"
proof -
  from start_auction_parts [OF r] have aid: "aid = next_auction_id m"
    and au: "auctions m' = (auctions m)(aid \<mapsto> a)" and nx: "next_auction_id m' = aid + 1"
    and same: "sales m' = sales m" "by_owner_id m' = by_owner_id m" "by_nft_contract_id m' = by_nft_contract_id m"
      "by_nft_token_type m' = by_nft_token_type m" "storage_deposits m' = storage_deposits m"
      "ft_token_ids m' = ft_token_ids m" "bid_history_length m' = bid_history_length m"
      "sale_keys m' = sale_keys m"
    and ks: "auction_keys m' = uset_insert (auction_keys m) aid"
    by blast+
  have old: "\<forall>k\<in>dom (auctions m). k < next_auction_id m" using inv by (simp add: market_inv_def auction_ids_ok_def)
  have "auction_ids_ok m'" unfolding auction_ids_ok_def
  proof
    fix k assume "k \<in> dom (auctions m')"
    with au have "k = aid \<or> k \<in> dom (auctions m)" by (simp add: dom_def split: if_splits)
    then show "k < next_auction_id m'"
    proof
      assume "k = aid" with nx show ?thesis by simp
    next
      assume "k \<in> dom (auctions m)"
      with old have "k < next_auction_id m" by blast
      with aid nx show ?thesis by simp
    qed
  qed
  moreover have "keys_of (auction_keys m') (auctions m')"
    using inv au ks by (simp add: market_inv_def keys_of_insert)
  ultimately show ?thesis by (rule market_inv_auctions [OF inv _ same])
qed

lemma market_inv_nft_on_approve:
  assumes inv: "market_inv m" and r: "nft_on_approve m env t owner approval args = Inr (m', l)"
  shows "market_inv m'"
proof (cases args)
  case (SaleKind sa)
  with r obtain sale where ss: "start_sale m env sa t owner approval (predecessor_account_id env) = Inr (m', sale)"
    and o: "owner = signer_account_id env"
    and paid: "(index_card (by_owner_id m) owner + 1) * STORAGE_PER_SALE \<le> deposit_of m owner"
    by (auto simp: nft_on_approve_def Let_def get_supply_by_owner_id_def storage_amount_def not_less
             split: if_splits sum.splits)
  from market_inv_start_sale [OF inv ss paid] show ?thesis .
next
  case (AuctionKind aa)
  with r obtain aid a where "start_auction m env aa t owner approval (predecessor_account_id env) = Inr (m', aid, a)"
    by (auto simp: nft_on_approve_def Let_def split: if_splits sum.splits)
  from market_inv_start_auction [OF inv this] show ?thesis .
qed


lemma market_inv_sale_ok:
  "market_inv m \<Longrightarrow> sales m k = Some s \<Longrightarrow> sale_ledger_ok (bid_history_length m) s"
  unfolding market_inv_def by (blast intro: market_ledgers_ok_sale)

lemma market_inv_history_pos: "market_inv m \<Longrightarrow> 0 < bid_history_length m"
  by (simp add: market_inv_def BID_HISTORY_LENGTH_DEFAULT_def)

lemma process_purchase_Inr:
  "process_purchase m env c t ft p b os = Inr (m', effs) \<Longrightarrow> \<exists>s. internal_remove_sale m c t = Inr (m', s)"
  by (auto simp: process_purchase_def Let_def split: sum.splits)

lemma market_inv_process_purchase:
  "market_inv m \<Longrightarrow> process_purchase m env c t ft p b os = Inr (m', effs) \<Longrightarrow> market_inv m'"
  by (blast dest: process_purchase_Inr intro: market_inv_remove)

lemma market_inv_add_bid:
  assumes inv: "market_inv m" and s: "sales m ctid = Some sale"
    and r: "add_bid m ctid amount ft buyer sale start e origins = Inr (m', effs)"
  shows "market_inv m'"
proof -
  from add_bid_stores [OF market_inv_sale_ok [OF inv s] market_inv_history_pos [OF inv] r]
  obtain bs' where "m' = m\<lparr>sales := (sales m)(ctid \<mapsto> sale\<lparr>sale_bids := AList.update ft bs' (sale_bids sale)\<rparr>)\<rparr>"
    and "sale_ledger_ok (bid_history_length m) (sale\<lparr>sale_bids := AList.update ft bs' (sale_bids sale)\<rparr>)"
    by blast
  with market_inv_store [OF inv s] show ?thesis by simp
qed

lemma offer_Inr:
  assumes "offer m env c t ft st d os = Inr r"
  shows "process_purchase m env c t ft (attached_deposit env) (predecessor_account_id env) (case_option [] id os) = Inr r \<or>
         (\<exists>sale start e. sales m (contract_and_token_id c t) = Some sale \<and>
            add_bid m (contract_and_token_id c t) (attached_deposit env) ft (predecessor_account_id env) sale start e os = Inr r)"
  using assms by (auto simp: offer_def Let_def split: option.splits if_splits)

lemma market_inv_offer:
  assumes inv: "market_inv m" and r: "offer m env c t ft st d os = Inr (m', effs)"
  shows "market_inv m'"
  using offer_Inr [OF r]
proof
  assume "process_purchase m env c t ft (attached_deposit env) (predecessor_account_id env) (case_option [] id os) = Inr (m', effs)"
  from market_inv_process_purchase [OF inv this] show ?thesis .
next
  assume "\<exists>sale start e. sales m (contract_and_token_id c t) = Some sale \<and>
            add_bid m (contract_and_token_id c t) (attached_deposit env) ft (predecessor_account_id env) sale start e os = Inr (m', effs)"
  then obtain sale start e where "sales m (contract_and_token_id c t) = Some sale"
    and "add_bid m (contract_and_token_id c t) (attached_deposit env) ft (predecessor_account_id env) sale start e os = Inr (m', effs)"
    by blast
  from market_inv_add_bid [OF inv this] show ?thesis .
qed

lemma accept_offer_Inr:
  assumes "accept_offer m env c t ft = Inr r"
  shows "\<exists>sale p b os. sales m (contract_and_token_id c t) = Some sale \<and>
           process_purchase (m\<lparr>sales := (sales m)(contract_and_token_id c t \<mapsto>
             sale\<lparr>sale_bids := AList.delete ft (sale_bids sale)\<rparr>)\<rparr>) env c t ft p b os = Inr r"
  using assms by (auto simp: accept_offer_def Let_def split: option.splits if_splits)

lemma market_inv_accept_offer:
  assumes inv: "market_inv m" and r: "accept_offer m env c t ft = Inr (m', effs)"
  shows "market_inv m'"
proof -
  from accept_offer_Inr [OF r] obtain sale p b os where s: "sales m (contract_and_token_id c t) = Some sale"
    and pp: "process_purchase (m\<lparr>sales := (sales m)(contract_and_token_id c t \<mapsto>
             sale\<lparr>sale_bids := AList.delete ft (sale_bids sale)\<rparr>)\<rparr>) env c t ft p b os = Inr (m', effs)"
    by blast
  have "market_inv (m\<lparr>sales := (sales m)(contract_and_token_id c t \<mapsto>
             sale\<lparr>sale_bids := AList.delete ft (sale_bids sale)\<rparr>)\<rparr>)"
    using market_inv_store [OF inv s] sale_ledger_ok_delete [OF market_inv_sale_ok [OF inv s]] by simp
  from market_inv_process_purchase [OF this pp] show ?thesis .
qed

lemma market_inv_remove_sale:
  assumes inv: "market_inv m" and r: "remove_sale m env c t = Inr (m', effs)"
  shows "market_inv m'"
proof -
  from r obtain s where "internal_remove_sale m c t = Inr (m', s)"
    by (auto simp: remove_sale_def Let_def split: if_splits sum.splits)
  from market_inv_remove [OF inv this] show ?thesis .
qed

lemma market_inv_update_price:
  assumes inv: "market_inv m" and r: "update_price m env c t ft p = Inr (m', effs)"
  shows "market_inv m'"
proof -
  from r obtain sale where s: "sales m (contract_and_token_id c t) = Some sale"
    and m': "m' = m\<lparr>sales := (sales m)(contract_and_token_id c t \<mapsto>
               sale\<lparr>sale_conditions := AList.update ft p (sale_conditions sale)\<rparr>)\<rparr>"
    by (auto simp: update_price_def Let_def split: if_splits option.splits)
  have "sale_ledger_ok (bid_history_length m) (sale\<lparr>sale_conditions := AList.update ft p (sale_conditions sale)\<rparr>)"
    using market_inv_sale_ok [OF inv s] by (simp add: sale_ledger_ok_def)
  with market_inv_store [OF inv s] m' show ?thesis by (simp add: same_listing_def)
qed

lemma bucket_ok_take_out:
  "take_out_bid ow p bs = Some (x, rest) \<Longrightarrow> bucket_ok n bs \<Longrightarrow> bucket_ok n rest"
  using take_out_bid_length take_out_bid_sorted by (fastforce simp: bucket_ok_def)

text \<open>A sale whose bucket of one currency is replaced by a bucket, or dropped when empty.\<close>

lemma market_inv_store_bucket:
  assumes inv: "market_inv m" and s: "sales m k = Some sale"
    and b: "bs' \<noteq> [] \<Longrightarrow> bucket_ok (bid_history_length m) bs'"
  shows "market_inv (m\<lparr>sales := (sales m)(k \<mapsto> sale\<lparr>sale_bids :=
           if bs' = [] then AList.delete ft (sale_bids sale) else AList.update ft bs' (sale_bids sale)\<rparr>)\<rparr>)"
proof -
  have "sale_ledger_ok (bid_history_length m) (sale\<lparr>sale_bids :=
           if bs' = [] then AList.delete ft (sale_bids sale) else AList.update ft bs' (sale_bids sale)\<rparr>)"
    using market_inv_sale_ok [OF inv s] b by (simp add: sale_ledger_ok_delete sale_ledger_ok_update)
  with market_inv_store [OF inv s] show ?thesis by simp
qed

lemma market_inv_internal_remove_bid:
  assumes inv: "market_inv m" and r: "internal_remove_bid m c ft t ow p = Inr (m', ob)"
  shows "market_inv m'"
proof (cases "m' = m")
  case True
  with inv show ?thesis by simp
next
  case False
  with r obtain sale bs x rest where s: "sales m (contract_and_token_id c t) = Some sale"
    and b: "map_of (sale_bids sale) ft = Some bs" and tk: "take_out_bid ow p bs = Some (x, rest)"
    and m': "m' = m\<lparr>sales := (sales m)(contract_and_token_id c t \<mapsto> sale\<lparr>sale_bids :=
               if length bs = 1 then AList.delete ft (sale_bids sale) else AList.update ft rest (sale_bids sale)\<rparr>)\<rparr>"
    by (auto simp: internal_remove_bid_def Let_def split: option.splits)
  have one: "(length bs = 1) = (rest = [])" using take_out_bid_length [OF tk] by simp
  have "bucket_ok (bid_history_length m) rest"
    using sale_ledger_ok_bucket [OF market_inv_sale_ok [OF inv s] b] bucket_ok_take_out [OF tk] by blast
  from market_inv_store_bucket [OF inv s, of rest ft] this m' one show ?thesis by simp
qed

lemma market_inv_remove_bid:
  "market_inv m \<Longrightarrow> remove_bid m env c t ft p = Inr (m', effs) \<Longrightarrow> market_inv m'"
  by (auto simp: remove_bid_def Let_def split: if_splits sum.splits intro: market_inv_internal_remove_bid)

lemma market_inv_cancel_bid:
  "market_inv m \<Longrightarrow> cancel_bid m env c t ft ow p = Inr (m', effs) \<Longrightarrow> market_inv m'"
  by (auto simp: cancel_bid_def split: if_splits sum.splits option.splits intro: market_inv_internal_remove_bid)

lemma market_inv_cancel_expired_bids:
  assumes inv: "market_inv m" and r: "cancel_expired_bids m env c t ft = Inr (m', effs)"
  shows "market_inv m'"
proof -
  from r obtain sale bs where s: "sales m (contract_and_token_id c t) = Some sale"
    and b: "map_of (sale_bids sale) ft = Some bs"
    and m': "m' = m\<lparr>sales := (sales m)(contract_and_token_id c t \<mapsto> sale\<lparr>sale_bids :=
               if fst (retain_unexpired (block_timestamp env) ft bs) = [] then AList.delete ft (sale_bids sale)
               else AList.update ft (fst (retain_unexpired (block_timestamp env) ft bs)) (sale_bids sale)\<rparr>)\<rparr>"
    by (auto simp: cancel_expired_bids_def Let_def split: option.splits prod.splits)
  have "bucket_ok (bid_history_length m) (fst (retain_unexpired (block_timestamp env) ft bs))"
    using sale_ledger_ok_bucket [OF market_inv_sale_ok [OF inv s] b] by (blast intro: retain_unexpired_bucket_ok)
  from market_inv_store_bucket [OF inv s] this m' show ?thesis by simp
qed

lemma market_inv_auction_update:
  "market_inv m \<Longrightarrow> auctions m k = Some a0 \<Longrightarrow> market_inv (m\<lparr>auctions := (auctions m)(k \<mapsto> a)\<rparr>)"
  by (rule market_inv_auctions) (auto simp: market_inv_def auction_ids_ok_def keys_of_update)

lemma market_inv_auction_remove:
  "market_inv m \<Longrightarrow>
     market_inv (m\<lparr>auctions := (auctions m)(k := None), auction_keys := uset_remove (auction_keys m) k\<rparr>)"
  by (rule market_inv_auctions) (auto simp: market_inv_def auction_ids_ok_def keys_of_remove)

lemma market_inv_auction_add_bid:
  assumes inv: "market_inv m" and r: "auction_add_bid m env aid tt os = Inr (m', effs)"
  shows "market_inv m'"
proof -
  from r obtain a a' where "auctions m aid = Some a" and "m' = m\<lparr>auctions := (auctions m)(aid \<mapsto> a')\<rparr>"
    by (rule auction_add_bid_Inr) blast
  with market_inv_auction_update [OF inv] show ?thesis by blast
qed

lemma market_inv_cancel_auction:
  "market_inv m \<Longrightarrow> cancel_auction m env aid = Inr (m', effs) \<Longrightarrow> market_inv m'"
  by (auto simp: cancel_auction_def market_inv_auction_remove split: if_splits option.splits)

lemma market_inv_finish_auction:
  "market_inv m \<Longrightarrow> finish_auction m env aid = Inr (m', effs) \<Longrightarrow> market_inv m'"
  by (auto simp: finish_auction_def Let_def market_inv_auction_remove split: if_splits option.splits)

lemma market_inv_hack_finish_auction:
  "market_inv m \<Longrightarrow> hack_finish_auction m env aid = Inr m' \<Longrightarrow> market_inv m'"
  by (auto simp: hack_finish_auction_def intro: market_inv_auction_update split: option.splits)

text \<open>A new deposit map that still covers the storage of every owner's sales.\<close>

lemma market_inv_deposits:
  assumes inv: "market_inv m"
    and cov: "\<forall>a. index_card (by_owner_id m) a * STORAGE_PER_SALE \<le> deposit_of (m\<lparr>storage_deposits := D\<rparr>) a"
    and bnd: "\<forall>a. deposit_of (m\<lparr>storage_deposits := D\<rparr>) a \<le> u128_max"
  shows "market_inv (m\<lparr>storage_deposits := D\<rparr>)"
proof -
  have "storage_ok (m\<lparr>storage_deposits := D\<rparr>)"
    using inv cov bnd unfolding market_inv_def storage_ok_def by simp
  moreover have "market_ledgers_ok (m\<lparr>storage_deposits := D\<rparr>) = market_ledgers_ok m"
    by (simp add: market_ledgers_ok_def)
  moreover have "directory_ok (m\<lparr>storage_deposits := D\<rparr>) = directory_ok m"
    by (simp add: directory_ok_def)
  moreover have "auction_ids_ok (m\<lparr>storage_deposits := D\<rparr>) = auction_ids_ok m"
    by (simp add: auction_ids_ok_def)
  ultimately show ?thesis using inv unfolding market_inv_def by simp
qed

lemma storage_covered: "market_inv m \<Longrightarrow> index_card (by_owner_id m) b * STORAGE_PER_SALE \<le> deposit_of m b"
  unfolding market_inv_def storage_ok_def by blast

lemma storage_bounded: "market_inv m \<Longrightarrow> deposit_of m b \<le> u128_max"
  unfolding market_inv_def storage_ok_def by blast

lemma market_inv_storage_deposit:
  assumes inv: "market_inv m" and r: "storage_deposit m env acc = Inr m'"
  shows "market_inv m'"
proof -
  from r obtain a where m': "m' = m\<lparr>storage_deposits := (storage_deposits m)(a \<mapsto> deposit_of m a + attached_deposit env)\<rparr>"
    and le: "deposit_of m a + attached_deposit env \<le> u128_max"
    by (auto simp: storage_deposit_def Let_def split: if_splits)
  let ?m = "m\<lparr>storage_deposits := (storage_deposits m)(a \<mapsto> deposit_of m a + attached_deposit env)\<rparr>"
  have "index_card (by_owner_id m) b * STORAGE_PER_SALE \<le> deposit_of ?m b \<and> deposit_of ?m b \<le> u128_max" for b
  proof (cases "b = a")
    case True
    with storage_covered [OF inv, of b] le show ?thesis by (simp add: deposit_of_def)
  next
    case False
    with storage_covered [OF inv, of b] storage_bounded [OF inv, of b] show ?thesis by (simp add: deposit_of_def)
  qed
  then have "\<forall>b. index_card (by_owner_id m) b * STORAGE_PER_SALE \<le> deposit_of ?m b"
    and "\<forall>b. deposit_of ?m b \<le> u128_max" by blast+
  from market_inv_deposits [OF inv this] m' show ?thesis by simp
qed

lemma market_inv_storage_withdraw:
  assumes inv: "market_inv m" and r: "storage_withdraw m env = Inr (m', effs)"
  shows "market_inv m'"
proof -
  define o' where "o' = predecessor_account_id env"
  define d where "d = index_card (by_owner_id m) o' * STORAGE_PER_SALE"
  from r have m': "m' = m\<lparr>storage_deposits := (storage_deposits m)(o' := if 0 < d then Some d else None)\<rparr>"
    and le: "d \<le> u128_max"
    unfolding storage_withdraw_def Let_def o'_def d_def by (simp_all split del: if_split split: if_split_asm)
  let ?m = "m\<lparr>storage_deposits := (storage_deposits m)(o' := if 0 < d then Some d else None)\<rparr>"
  have "index_card (by_owner_id m) b * STORAGE_PER_SALE \<le> deposit_of ?m b \<and> deposit_of ?m b \<le> u128_max" for b
  proof (cases "b = o'")
    case True
    with le show ?thesis by (simp add: deposit_of_def d_def)
  next
    case False
    with storage_covered [OF inv, of b] storage_bounded [OF inv, of b] show ?thesis by (simp add: deposit_of_def)
  qed
  then have "\<forall>b. index_card (by_owner_id m) b * STORAGE_PER_SALE \<le> deposit_of ?m b"
    and "\<forall>b. deposit_of ?m b \<le> u128_max" by blast+
  from market_inv_deposits [OF inv this] m' show ?thesis by simp
qed

lemma market_inv_hack_finish_sale:
  assumes inv: "market_inv m" and r: "hack_finish_sale m env k = Inr m'"
  shows "market_inv m'"
proof -
  from r obtain sale where s: "sales m k = Some sale"
    and m': "m' = m\<lparr>sales := (sales m)(k \<mapsto> sale\<lparr>sale_end := Some (block_timestamp env)\<rparr>)\<rparr>"
    by (auto simp: hack_finish_sale_def split: option.splits)
  have "sale_ledger_ok (bid_history_length m) (sale\<lparr>sale_end := Some (block_timestamp env)\<rparr>)"
    using market_inv_sale_ok [OF inv s] by (simp add: sale_ledger_ok_def)
  with market_inv_store [OF inv s] m' show ?thesis by (simp add: same_listing_def)
qed

lemma bucket_ok_end_last:
  assumes ok: "bucket_ok n bs" and ne: "bs \<noteq> []"
  shows "bucket_ok n (butlast bs @ [(last bs)\<lparr>bid_end := e\<rparr>])"
proof -
  have "bid_actual_amount ((last bs)\<lparr>bid_end := e\<rparr>) = bid_actual_amount (last bs)"
    by (simp add: bid_actual_amount_def cong: option.case_cong)
  then have bl: "bid_lt x ((last bs)\<lparr>bid_end := e\<rparr>) = bid_lt x (last bs)" for x
    by (simp add: bid_lt_def)
  have "sorted_wrt bid_lt (butlast bs @ [last bs])" using ok ne by (simp add: bucket_ok_def)
  then have "sorted_wrt bid_lt (butlast bs) \<and> (\<forall>x\<in>set (butlast bs). bid_lt x (last bs))"
    unfolding sorted_wrt_append by simp
  with ok ne bl show ?thesis by (simp add: bucket_ok_def sorted_wrt_append)
qed

lemma market_inv_hack_finish_bid:
  assumes inv: "market_inv m" and r: "hack_finish_bid m env k = Inr m'"
  shows "market_inv m'"
proof -
  let ?e = "Some (block_timestamp env)"
  from r obtain sale bs where s: "sales m k = Some sale" and b: "map_of (sale_bids sale) NEAR = Some bs"
    and m': "m' = m\<lparr>sales := (sales m)(k \<mapsto> sale\<lparr>sale_bids := AList.update NEAR
               (if bs = [] then bs else butlast bs @ [(last bs)\<lparr>bid_end := ?e\<rparr>]) (sale_bids sale)\<rparr>)\<rparr>"
    by (auto simp: hack_finish_bid_def Let_def split: option.splits)
  have sok: "sale_ledger_ok (bid_history_length m) sale" by (rule market_inv_sale_ok [OF inv s])
  from sale_ledger_ok_bucket [OF sok b] have ne: "bs \<noteq> []" and ok: "bucket_ok (bid_history_length m) bs"
    by blast+
  have "sale_ledger_ok (bid_history_length m) (sale\<lparr>sale_bids := AList.update NEAR
          (butlast bs @ [(last bs)\<lparr>bid_end := ?e\<rparr>]) (sale_bids sale)\<rparr>)"
    using sale_ledger_ok_update [OF sok _ bucket_ok_end_last [OF ok ne]] by simp
  with market_inv_store [OF inv s] m' ne show ?thesis by simp
qed

section \<open>Reachable states\<close>

lemma market_inv_step:
  assumes inv: "market_inv m" and r: "market_step m env c = Inr (m', effs)"
  shows "market_inv m'"
proof (cases c)
  case (NftOnApprove t o' a args)
  with r obtain l where "nft_on_approve m env t o' a args = Inr (m', l)" by (auto split: sum.splits)
  from market_inv_nft_on_approve [OF inv this] show ?thesis .
next
  case (StorageDeposit a)
  with r have "storage_deposit m env a = Inr m'" by (auto split: sum.splits)
  from market_inv_storage_deposit [OF inv this] show ?thesis .
next
  case (HackFinishSale k)
  with r have "hack_finish_sale m env k = Inr m'" by (auto split: sum.splits)
  from market_inv_hack_finish_sale [OF inv this] show ?thesis .
next
  case (HackFinishBid k)
  with r have "hack_finish_bid m env k = Inr m'" by (auto split: sum.splits)
  from market_inv_hack_finish_bid [OF inv this] show ?thesis .
next
  case (HackFinishAuction i)
  with r have "hack_finish_auction m env i = Inr m'" by (auto split: sum.splits)
  from market_inv_hack_finish_auction [OF inv this] show ?thesis .
qed (use inv r in \<open>auto intro: market_inv_storage_withdraw market_inv_offer market_inv_accept_offer
       market_inv_remove_sale market_inv_update_price market_inv_remove_bid market_inv_cancel_bid
       market_inv_cancel_expired_bids market_inv_auction_add_bid market_inv_cancel_auction
       market_inv_finish_auction\<close>)

lemma market_inv_market_new: "market_inv (market_new nft_ids owner_id)"
  by (simp add: market_inv_def market_new_def directory_ok_def storage_ok_def auction_ids_ok_def keys_of_def
      market_ledgers_ok_def index_card_def deposit_of_def)

lemma market_inv_reachable: "reachable m \<Longrightarrow> market_inv m"
proof (induction rule: reachable.induct)
  case (init nft_ids owner_id)
  show ?case by (rule market_inv_market_new)
next
  case (step m env c m' effs)
  from market_inv_step [OF step.IH step.hyps(2)] show ?case .
qed

lemma internal_remove_sale_succeeds:
  assumes dir: "directory_ok m" and s: "sales m k = Some s"
  shows "\<exists>m'. internal_remove_sale m (sale_nft_contract_id s) (sale_token_id s) = Inr (m', s) \<and>
              sales m' k = None"
proof -
  from dir s have k: "k = contract_and_token_id (sale_nft_contract_id s) (sale_token_id s)"
    and o: "by_owner_id m (sale_owner_id s) \<noteq> None"
    and n: "by_nft_contract_id m (sale_nft_contract_id s) \<noteq> None"
    and y: "\<forall>tt. sale_token_type s = Some tt \<longrightarrow> by_nft_token_type m tt \<noteq> None"
    unfolding directory_ok_def by fastforce+
  show ?thesis
  proof (cases "sale_token_type s")
    case None
    with s k o n show ?thesis
      by (auto simp: internal_remove_sale_def Let_def split: option.splits)
  next
    case (Some tt)
    with y have "by_nft_token_type m tt \<noteq> None" by blast
    with Some s k o n show ?thesis
      by (auto simp: internal_remove_sale_def Let_def split: option.splits)
  qed
qed

section \<open>Properties of the contract\<close>

text \<open>
  C23. In every reachable state the owner of a stored sale can always remove it (with one
  yoctoNEAR attached): the removal never finds an index entry missing, the sale leaves
  storage and every outstanding bid is refunded.
\<close>

theorem reachable_owner_removes_sale:
  assumes r: "reachable m" and s: "sales m k = Some s"
    and d: "attached_deposit env = 1" and o: "predecessor_account_id env = sale_owner_id s"
  shows "\<exists>m'. remove_sale m env (sale_nft_contract_id s) (sale_token_id s) =
                Inr (m', map Pay (refund_all_bids (sale_bids s))) \<and> sales m' k = None"
proof -
  have "directory_ok m" using market_inv_reachable [OF r] by (simp add: market_inv_def)
  from internal_remove_sale_succeeds [OF this s] obtain m' where
    "internal_remove_sale m (sale_nft_contract_id s) (sale_token_id s) = Inr (m', s)" and "sales m' k = None"
    by blast
  with d o show ?thesis by (auto simp: remove_sale_def)
qed

theorem reachable_owner_removes_sale_witness:
  "\<exists>m'. remove_sale listed_market (auction_env ''alice'' 1 30) ''nft'' ''1:1'' =
          Inr (m', [Pay (refund_bid NEAR ''bob'' 10000)]) \<and>
        sales m' (contract_and_token_id ''nft'' ''1:1'') = None"
proof -
  let ?s = "demo_sale\<lparr>sale_created_at := 10, sale_start := Some 10,
              sale_bids := [(NEAR, [demo_bid ''bob'' 10000\<lparr>bid_start := 20\<rparr>])]\<rparr>"
  have s: "sales listed_market (contract_and_token_id ''nft'' ''1:1'') = Some ?s"
    by (simp add: listed_market_eq)
  from reachable_owner_removes_sale [OF reachable_listed_market s, of "auction_env ''alice'' 1 30"]
  show ?thesis by (simp add: auction_env_def demo_sale_def demo_bid_def refund_all_bids_def)
qed

text \<open>
  C24. In every reachable state \<open>storage_withdraw\<close> (with one yoctoNEAR) succeeds: the
  subtraction of the occupied storage from the deposit never underflows, the caller
  receives the difference and keeps exactly the storage of its listed sales.
\<close>

theorem reachable_storage_withdraw:
  assumes r: "reachable m" and d: "attached_deposit env = 1"
  shows "\<exists>m' effs. storage_withdraw m env = Inr (m', effs) \<and>
           total_paid (paid effs) = deposit_of m (predecessor_account_id env) -
             get_supply_by_owner_id m (predecessor_account_id env) * storage_amount \<and>
           deposit_of m' (predecessor_account_id env) =
             get_supply_by_owner_id m (predecessor_account_id env) * storage_amount"
proof -
  let ?o = "predecessor_account_id env"
  have inv: "market_inv m" by (rule market_inv_reachable [OF r])
  have cov: "index_card (by_owner_id m) ?o * STORAGE_PER_SALE \<le> deposit_of m ?o" by (rule storage_covered [OF inv])
  moreover have "deposit_of m ?o \<le> u128_max" by (rule storage_bounded [OF inv])
  ultimately show ?thesis using d
    by (auto simp: storage_withdraw_def Let_def get_supply_by_owner_id_def storage_amount_def deposit_of_def)
qed

theorem reachable_storage_withdraw_witness:
  "\<exists>m' effs. storage_withdraw listed_market (auction_env ''alice'' 1 30) = Inr (m', effs) \<and>
     total_paid (paid effs) = STORAGE_PER_SALE"
  using reachable_storage_withdraw [OF reachable_listed_market, of "auction_env ''alice'' 1 30"]
  by (simp add: auction_env_def listed_market_eq get_supply_by_owner_id_def index_card_def
      deposit_of_def storage_amount_def STORAGE_PER_SALE_def) blast

text \<open>
  C25. In every reachable state of the whole contract, every bid bucket of every sale is
  non-empty, holds at most \<open>BID_HISTORY_LENGTH_DEFAULT\<close> bids and is strictly increasing
  in fee-exclusive net amount.
\<close>

theorem reachable_buckets_ok:
  assumes "reachable m" and "sales m k = Some s" and "map_of (sale_bids s) ft = Some bs"
  shows "bs \<noteq> [] \<and> length bs \<le> BID_HISTORY_LENGTH_DEFAULT \<and> sorted_wrt bid_lt bs"
proof -
  have inv: "market_inv m" by (rule market_inv_reachable [OF assms(1)])
  from sale_ledger_ok_bucket [OF market_inv_sale_ok [OF inv assms(2)] assms(3)] inv
  show ?thesis by (simp add: bucket_ok_def market_inv_def)
qed

theorem reachable_buckets_ok_witness:
  "sorted_wrt bid_lt [demo_bid ''bob'' 10000\<lparr>bid_start := 20\<rparr>] \<and>
   length [demo_bid ''bob'' 10000\<lparr>bid_start := 20\<rparr>] \<le> BID_HISTORY_LENGTH_DEFAULT"
proof -
  let ?s = "demo_sale\<lparr>sale_created_at := 10, sale_start := Some 10,
              sale_bids := [(NEAR, [demo_bid ''bob'' 10000\<lparr>bid_start := 20\<rparr>])]\<rparr>"
  have s: "sales listed_market (contract_and_token_id ''nft'' ''1:1'') = Some ?s"
    by (simp add: listed_market_eq)
  have b: "map_of (sale_bids ?s) NEAR = Some [demo_bid ''bob'' 10000\<lparr>bid_start := 20\<rparr>]" by simp
  from reachable_buckets_ok [OF reachable_listed_market s b] show ?thesis by blast
qed

text \<open>
  C35. In every reachable state the unpaged views \<open>get_sales\<close> and
  \<open>get_auctions\<close> list every stored sale and every auction exactly once: each is the
  JSON view of the map's entries along a duplicate-free enumeration of its keys, as long
  as the map has at most \<open>usize::MAX\<close> entries.
\<close>

theorem reachable_views_list_each_once:
  assumes r: "reachable m" and ns: "card (dom (sales m)) \<le> u32_max" and na: "card (dom (auctions m)) \<le> u32_max"
  shows "(\<exists>ks. distinct ks \<and> set ks = dom (sales m) \<and>
            get_sales m None None = map (\<lambda>k. json_from_sale (the (sales m k))) ks) \<and>
         (\<exists>ks. distinct ks \<and> set ks = dom (auctions m) \<and>
            get_auctions m None None = map (\<lambda>k. json_from_auction (the (auctions m k))) ks)"
proof -
  from market_inv_reachable [OF r] have ks: "keys_of (sale_keys m) (sales m)"
    and ka: "keys_of (auction_keys m) (auctions m)" by (simp_all add: market_inv_def)
  from get_sales_default [OF ns ks] get_auctions_default [OF na ka] ks ka show ?thesis
    unfolding keys_of_def by blast
qed

theorem reachable_views_list_each_once_witness:
  "(\<exists>ks. distinct ks \<and> set ks = dom (sales listed_market) \<and>
      get_sales listed_market None None = map (\<lambda>k. json_from_sale (the (sales listed_market k))) ks) \<and>
   (\<exists>ks. distinct ks \<and> set ks = dom (auctions listed_market) \<and>
      get_auctions listed_market None None = map (\<lambda>k. json_from_auction (the (auctions listed_market k))) ks)"
  by (rule reachable_views_list_each_once [OF reachable_listed_market])
     (simp_all add: listed_market_eq market_new_def u32_max_def)

text \<open>
  C27. Re-listing a listed token under a new owner strands the old owner's index entry,
  in any state: when the NFT contract reports the approval of a new owner and the new
  owner then removes the sale, the sale is gone but the previous owner's index is
  exactly what it was, key included. Her supply view still counts the sale (and so
  \<open>storage_withdraw\<close> keeps its storage), and her view over her whole index panics on
  the \<open>unwrap\<close> of the missing sale.
\<close>

theorem relisting_strands_owner_entry:
  assumes s: "sales m (contract_and_token_id c t) = Some s"
    and idx: "by_owner_id m (sale_owner_id s) = Some S" and k: "contract_and_token_id c t \<in> set S"
    and c: "predecessor_account_id env = c" and new: "o' \<noteq> sale_owner_id s"
    and r1: "market_step m env (NftOnApprove t o' a (SaleKind args)) = Inr (m1, effs1)"
    and r2: "market_step m1 env' (RemoveSale c t) = Inr (m2, effs2)"
    and fits: "length S \<le> u64_max"
  shows "sales m2 (contract_and_token_id c t) = None \<and> by_owner_id m2 (sale_owner_id s) = Some S \<and>
         get_supply_by_owner_id m2 (sale_owner_id s) = get_supply_by_owner_id m (sale_owner_id s) \<and>
         get_sales_by_owner_id m2 (sale_owner_id s) 0 (length S) = Inl UnwrapNone"
proof -
  let ?k = "contract_and_token_id c t" and ?a = "sale_owner_id s"
  from r1 c obtain sale' where ss: "start_sale m env args t o' a c = Inr (m1, sale')"
    by (auto simp: nft_on_approve_def Let_def split: if_splits sum.splits)
  from start_sale_parts [OF ss] have o1: "by_owner_id m1 = index_insert (by_owner_id m) o' ?k"
    and s1: "sales m1 = (sales m)(?k \<mapsto> sale')" and so: "sale_owner_id sale' = o'" by blast+
  from r2 obtain s2 where rs: "internal_remove_sale m1 c t = Inr (m2, s2)"
    by (auto simp: remove_sale_def split: if_splits sum.splits)
  from internal_remove_sale_parts [OF rs] obtain bo where s2: "sales m1 ?k = Some s2"
    and bo: "index_remove (by_owner_id m1) (sale_owner_id s2) ?k = Some bo"
    and o2: "by_owner_id m2 = bo" and sm: "sales m2 = (sales m1)(?k := None)" by blast
  from s1 s2 so have "sale_owner_id s2 = o'" by simp
  with index_remove_other [OF bo] new o1 o2 idx have keep: "by_owner_id m2 ?a = Some S" by simp
  have gone: "sales m2 ?k = None" using sm by simp
  have "sales_at_keys m2 S = Inl UnwrapNone"
    using gone k by (auto simp: sales_at_keys_Inl)
  then have "get_sales_by_owner_id m2 ?a 0 (length S) = Inl UnwrapNone"
    using keep fits map_nth_upt_page [of S 0 "length S"]
    by (simp add: get_sales_by_owner_id_def page_indices_def)
  with keep gone idx show ?thesis by (simp add: get_supply_by_owner_id_def index_card_def)
qed

theorem relisting_strands_owner_entry_witness:
  "reachable stale_prefix_market \<and>
   (\<exists>m1 effs1 m2 effs2.
     market_step stale_prefix_market (approve_env ''bob'') (NftOnApprove ''1:1'' ''bob'' 1 (SaleKind (demo_listing 10000))) =
       Inr (m1, effs1) \<and>
     market_step m1 (auction_env ''bob'' 1 20) (RemoveSale ''nft'' ''1:1'') = Inr (m2, effs2) \<and>
     sales m2 (contract_and_token_id ''nft'' ''1:1'') = None \<and>
     by_owner_id m2 ''alice'' = Some [contract_and_token_id ''nft'' ''1:1''] \<and>
     get_supply_by_owner_id m2 ''alice'' = get_supply_by_owner_id stale_prefix_market ''alice'' \<and>
     get_sales_by_owner_id m2 ''alice'' 0 1 = Inl UnwrapNone)"
proof -
  let ?k = "contract_and_token_id ''nft'' ''1:1''"
  let ?s = "\<lparr>sale_owner_id = ''alice'', sale_approval_id = 0, sale_nft_contract_id = ''nft'', sale_token_id = ''1:1'',
             sale_conditions = [(NEAR, 10000)], sale_bids = [], sale_created_at = 10, sale_token_type = None,
             sale_start = Some 10, sale_end = None, sale_origins = []\<rparr>"
  have m: "sales stale_prefix_market ?k = Some ?s" and i: "by_owner_id stale_prefix_market (sale_owner_id ?s) = Some [?k]"
    by (simp_all add: stale_prefix_market_def stale_calls_def run_defs)
  have "\<exists>m1 effs1. market_step stale_prefix_market (approve_env ''bob'')
      (NftOnApprove ''1:1'' ''bob'' 1 (SaleKind (demo_listing 10000))) = Inr (m1, effs1)"
    by (simp add: stale_prefix_market_def stale_calls_def run_defs)
  then obtain m1 effs1 where r1: "market_step stale_prefix_market (approve_env ''bob'')
      (NftOnApprove ''1:1'' ''bob'' 1 (SaleKind (demo_listing 10000))) = Inr (m1, effs1)" by blast
  have "\<exists>m2 effs2. market_step m1 (auction_env ''bob'' 1 20) (RemoveSale ''nft'' ''1:1'') = Inr (m2, effs2)"
    using r1 by (auto simp: stale_prefix_market_def stale_calls_def run_defs)
  then obtain m2 effs2 where r2: "market_step m1 (auction_env ''bob'' 1 20) (RemoveSale ''nft'' ''1:1'') = Inr (m2, effs2)"
    by blast
  have k: "?k \<in> set [?k]" and c: "predecessor_account_id (approve_env ''bob'') = ''nft''"
    and n: "''bob'' \<noteq> sale_owner_id ?s" and f: "length [?k] \<le> u64_max"
    by (simp_all add: approve_env_def u64_max_def)
  from relisting_strands_owner_entry [OF m i k c n r1 r2 f] r1 r2 reachable_stale_prefix_market
  show ?thesis by auto
qed

end
