(* ===== verification/Sandbox.thy ===== *)
theory Sandbox
  imports Contract Payouts Settlement
begin

text \<open>
  The two contracts deployed side by side, as the integration tests of
  src/tests-workspaces run them in a NEAR sandbox: an NFT contract and a market, each at
  its own account. A user's call is one transaction; its receipts run one after the
  other, each committing its own changes: \<open>nft_approve\<close> with a message commits the
  approval and then calls the market's \<open>nft_on_approve\<close>, whose panic reverts only the
  market's receipt; a settlement's \<open>nft_transfer_payout\<close> runs on the NFT contract and
  its callback on the market. The outcome of a transaction is the status of its last
  receipt, as the tests read it, and the payments it issued. This is the execution model
  of the runtime (spec section 5), not code of the repository.
\<close>

section \<open>The interface between the market and the NFT contract\<close>

text \<open>
  The market serializes its \<open>Fees\<close> (fee.rs) to the JSON memo of
  \<open>nft_transfer_payout\<close>, which the NFT contract parses as its own \<open>Fees\<close>
  (payouts.rs): the same two fee-share maps. \<open>nft_answer\<close> runs the NFT contract's
  handler on the arguments of a \<open>TransferPayout\<close> effect.
\<close>

definition memo_of_fees :: "fees \<Rightarrow> nft_fees option" where
  "memo_of_fees f = Some \<lparr>nf_buyer = fees_buyer f, nf_seller = fees_seller f\<rparr>"

definition nft_answer :: "nft \<Rightarrow> env \<Rightarrow> payout_call \<Rightarrow> error + (nft \<times> payout)" where
  "nft_answer n env call =
     nft_transfer_payout n env (pc_receiver_id call) (pc_token_id call) (pc_approval_id call)
       (memo_of_fees (pc_memo call)) (pc_balance call) (pc_max_len_payout call)"

section \<open>The sandbox\<close>

record sandbox =
  sb_nft_id :: account
  sb_market_id :: account
  sb_nft :: nft
  sb_market :: market

text \<open>The calls a user makes on the NFT contract in the tests.\<close>

datatype nft_call =
    NftCreateSeries token_metadata "(account \<times> nat) list option"
  | NftMint string account
  | NftApprove string account "args_kind option"
  | NftTransfer account string "nat option"
  | NftGrant account
  | NftDeny account
  | NftSetPrivateMinting bool
  | NftTransferPayout account string nat "nft_fees option" balance nat

datatype sandbox_call = CallNft nft_call | CallMarket market_call

text \<open>The environment of a receipt: the same block and signer, another caller and callee.\<close>

definition receipt_env :: "env \<Rightarrow> account \<Rightarrow> account \<Rightarrow> balance \<Rightarrow> env" where
  "receipt_env env caller callee deposit =
     env\<lparr>predecessor_account_id := caller, attached_deposit := deposit, current_account_id := callee\<rparr>"

text \<open>
  The receipts a market call leaves behind, in order: payments, and for a settlement the
  call to the NFT contract (which fails when the listing names another account) followed
  by the callback on its result.
\<close>

fun settle :: "sandbox \<Rightarrow> env \<Rightarrow> effect list \<Rightarrow> sandbox \<times> transfer list" where
  "settle w env [] = (w, [])"
| "settle w env (Pay t # es) = (let (w', ts) = settle w env es in (w', t # ts))"
| "settle w env (TransferPayout call cb # es) =
     (let (n', r) =
        (if pc_nft_contract_id call \<noteq> sb_nft_id w then (sb_nft w, None)
         else case nft_answer (sb_nft w) (receipt_env env (sb_market_id w) (sb_nft_id w) 1) call of
                Inl _ \<Rightarrow> (sb_nft w, None)
              | Inr (n', p) \<Rightarrow> (n', Some p));
          (w', ts) = settle (w\<lparr>sb_nft := n'\<rparr>) env es
      in (w', paid (fst (run_callback cb r)) @ ts))"

definition market_receipt ::
  "sandbox \<Rightarrow> env \<Rightarrow> market_call \<Rightarrow> sandbox \<times> (error + transfer list)" where
  "market_receipt w env c =
     (case market_step (sb_market w) env c of
        Inl e \<Rightarrow> (w, Inl e)
      | Inr (m', effs) \<Rightarrow> (let (w', ts) = settle (w\<lparr>sb_market := m'\<rparr>) env effs in (w', Inr ts)))"

definition nft_receipt :: "sandbox \<Rightarrow> env \<Rightarrow> nft_call \<Rightarrow> sandbox \<times> (error + transfer list)" where
  "nft_receipt w env c =
     (case c of
        NftCreateSeries md r \<Rightarrow>
          (case nft_create_series (sb_nft w) env md r of
             Inl e \<Rightarrow> (w, Inl e) | Inr (n', _) \<Rightarrow> (w\<lparr>sb_nft := n'\<rparr>, Inr []))
      | NftMint s r \<Rightarrow>
          (case nft_mint (sb_nft w) env s r of
             Inl e \<Rightarrow> (w, Inl e) | Inr (n', _) \<Rightarrow> (w\<lparr>sb_nft := n'\<rparr>, Inr []))
      | NftTransfer r t a \<Rightarrow>
          (case nft_transfer (sb_nft w) env r t a of
             Inl e \<Rightarrow> (w, Inl e) | Inr n' \<Rightarrow> (w\<lparr>sb_nft := n'\<rparr>, Inr []))
      | NftGrant a \<Rightarrow>
          (case grant (sb_nft w) env a of
             Inl e \<Rightarrow> (w, Inl e) | Inr (n', _) \<Rightarrow> (w\<lparr>sb_nft := n'\<rparr>, Inr []))
      | NftDeny a \<Rightarrow>
          (case deny (sb_nft w) env a of
             Inl e \<Rightarrow> (w, Inl e) | Inr (n', _) \<Rightarrow> (w\<lparr>sb_nft := n'\<rparr>, Inr []))
      | NftSetPrivateMinting b \<Rightarrow>
          (case set_private_minting (sb_nft w) env b of
             Inl e \<Rightarrow> (w, Inl e) | Inr n' \<Rightarrow> (w\<lparr>sb_nft := n'\<rparr>, Inr []))
      | NftTransferPayout r t a memo b l \<Rightarrow>
          (case nft_transfer_payout (sb_nft w) env r t a memo b l of
             Inl e \<Rightarrow> (w, Inl e) | Inr (n', _) \<Rightarrow> (w\<lparr>sb_nft := n'\<rparr>, Inr []))
      | NftApprove t acc msg \<Rightarrow>
          (case nft_approve (sb_nft w) env t acc msg of
             Inl e \<Rightarrow> (w, Inl e)
           | Inr (n', None) \<Rightarrow> (w\<lparr>sb_nft := n'\<rparr>, Inr [])
           | Inr (n', Some (t', o', a', args)) \<Rightarrow>
               if acc \<noteq> sb_market_id w then (w\<lparr>sb_nft := n'\<rparr>, Inl NoContract)
               else market_receipt (w\<lparr>sb_nft := n'\<rparr>)
                      (receipt_env env (sb_nft_id w) (sb_market_id w) 0) (NftOnApprove t' o' a' args)))"

text \<open>A transaction: a user's call on one of the two contracts, run to its last receipt.\<close>

definition sandbox_step :: "sandbox \<Rightarrow> env \<Rightarrow> sandbox_call \<Rightarrow> sandbox \<times> (error + transfer list)" where
  "sandbox_step w env c =
     (case c of
        CallNft nc \<Rightarrow> nft_receipt w (env\<lparr>current_account_id := sb_nft_id w\<rparr>) nc
      | CallMarket mc \<Rightarrow> market_receipt w (env\<lparr>current_account_id := sb_market_id w\<rparr>) mc)"

fun sandbox_run ::
  "sandbox \<Rightarrow> (env \<times> sandbox_call) list \<Rightarrow> sandbox \<times> (error + transfer list) list" where
  "sandbox_run w [] = (w, [])"
| "sandbox_run w ((env, c) # cs) =
     (let (w1, r) = sandbox_step w env c; (w', rs) = sandbox_run w1 cs in (w', r # rs))"

text \<open>
  \<open>init_nft\<close> and \<open>init_market\<close> of the tests' utils.rs: the NFT contract initialised
  by \<open>new_default_meta\<close>, the market by \<open>new\<close> with that contract whitelisted, both
  owned by the root account.
\<close>

definition init_sandbox :: "account \<Rightarrow> account \<Rightarrow> account \<Rightarrow> sandbox" where
  "init_sandbox root nft_id market_id =
     \<lparr>sb_nft_id = nft_id, sb_market_id = market_id, sb_nft = new_default_meta root,
      sb_market = market_new [nft_id] root\<rparr>"

end
