(* ===== verification/TestUtils.thy ===== *)
theory TestUtils
  imports Sandbox
begin

text \<open>
  The helpers of the integration tests (src/tests-workspaces/src/utils.rs) as
  transactions of the sandbox model: a transaction is the environment of the call (block
  time, caller, attached deposit) and the call. Token metadata keeps the fields the
  contracts read (title, copies); the sandbox's accounts are \<open>root\<close>, the contracts
  \<open>nft\<close> and \<open>market\<close>, and the users.
\<close>

definition ONE_NEAR :: balance where [market_consts]: "ONE_NEAR = 10 ^ 24"

definition tx :: "timestamp \<Rightarrow> account \<Rightarrow> balance \<Rightarrow> sandbox_call \<Rightarrow> env \<times> sandbox_call" where
  "tx t caller deposit c = (auction_env caller deposit t, c)"

text \<open>\<open>init_nft\<close> and \<open>init_market\<close>: both contracts deployed and initialised by the root account.\<close>

definition test_sandbox :: sandbox where
  "test_sandbox = init_sandbox ''root'' ''nft'' ''market''"

definition create_series_raw :: "timestamp \<Rightarrow> account \<Rightarrow> nat option \<Rightarrow> (account \<times> nat) list \<Rightarrow> env \<times> sandbox_call" where
  "create_series_raw t owner copies royalty =
     tx t owner (5 * 10 ^ 21)
       (CallNft (NftCreateSeries \<lparr>tm_title = Some ''some title'', tm_copies = copies, tm_issued_at = None\<rparr> (Some royalty)))"

definition create_series :: "timestamp \<Rightarrow> account \<Rightarrow> account \<Rightarrow> env \<times> sandbox_call" where
  "create_series t user owner = create_series_raw t user (Some 10) [(owner, 1000)]"

definition mint_token :: "timestamp \<Rightarrow> account \<Rightarrow> account \<Rightarrow> string \<Rightarrow> env \<times> sandbox_call" where
  "mint_token t minter receiver series = tx t minter (10 ^ 22) (CallNft (NftMint series receiver))"

definition deposit :: "timestamp \<Rightarrow> account \<Rightarrow> env \<times> sandbox_call" where
  "deposit t user = tx t user ONE_NEAR (CallMarket (StorageDeposit None))"

definition sale_msg :: "conditions \<Rightarrow> string option \<Rightarrow> timestamp option \<Rightarrow> timestamp option \<Rightarrow> args_kind option" where
  "sale_msg conditions token_type start end_time =
     Some (SaleKind \<lparr>sa_sale_conditions = conditions, sa_token_type = token_type, sa_start = start,
                     sa_end = end_time, sa_origins = None\<rparr>)"

definition nft_approve_tx :: "timestamp \<Rightarrow> account \<Rightarrow> string \<Rightarrow> conditions \<Rightarrow> string \<Rightarrow> env \<times> sandbox_call" where
  "nft_approve_tx t user token conditions series =
     tx t user ONE_NEAR (CallNft (NftApprove token ''market'' (sale_msg conditions (Some series) None None)))"

definition offer_tx :: "timestamp \<Rightarrow> account \<Rightarrow> string \<Rightarrow> balance \<Rightarrow> env \<times> sandbox_call" where
  "offer_tx t user token price = tx t user price (CallMarket (Offer ''nft'' token NEAR None None None))"

definition offer_with_duration :: "timestamp \<Rightarrow> account \<Rightarrow> string \<Rightarrow> balance \<Rightarrow> timestamp \<Rightarrow> env \<times> sandbox_call" where
  "offer_with_duration t user token price duration =
     tx t user price (CallMarket (Offer ''nft'' token NEAR None (Some duration) None))"

text \<open>The auction the auction tests open: 15 minutes from now, start price 10000, step 100, buyout \<open>10^10\<close>.\<close>

definition test_auction_args :: auction_args where
  "test_auction_args =
     \<lparr>aa_token_type = None, aa_minimal_step = 100, aa_start_price = 10000, aa_start = None,
      aa_duration = 900000000000, aa_buy_out_price = Some 10000000000, aa_origins = None\<rparr>"

definition auction_approve_tx :: "timestamp \<Rightarrow> account \<Rightarrow> string \<Rightarrow> env \<times> sandbox_call" where
  "auction_approve_tx t user token =
     tx t user ONE_NEAR (CallNft (NftApprove token ''market'' (Some (AuctionKind test_auction_args))))"

lemmas test_defs = test_sandbox_def init_sandbox_def new_default_meta_def nft_new_def market_new_def
  tx_def auction_env_def create_series_raw_def create_series_def mint_token_def deposit_def sale_msg_def
  nft_approve_tx_def offer_tx_def offer_with_duration_def test_auction_args_def auction_approve_tx_def

lemmas sandbox_defs = json_from_sale_def json_from_auction_def sandbox_step_def nft_receipt_def market_receipt_def receipt_env_def
  nft_create_series_def nft_mint_def nft_approve_def nft_transfer_def internal_transfer_def
  is_allowed_def series_token_id_def set_insert_def digit_char_def char_of_def bit_0
  nft_on_approve_def start_sale_def storage_deposit_def get_supply_by_owner_id_def index_card_def
  deposit_of_def storage_amount_def index_insert_def index_remove_def uset_insert_def uset_remove_def contract_and_token_id_def
  str_contains_def get_sale_def price_with_fees_def nft_token_def series_of_token_def Let_def

lemmas sale_defs = offer_def add_bid_def sale_in_limits_def calculate_price_with_fees_def
  calculate_actual_amount_def ledger_submit_def push_bid_def bid_actual_amount_def total_origins_def
  calculate_origins_def process_purchase_def internal_remove_sale_def with_protocol_fee_def
  nft_answer_def memo_of_fees_def nft_transfer_payout_def strip_buyer_fee_def fee_shares_def
  royalty_to_payout_def series_of_token_def resolve_purchase_def payout_fits_def payout_transfers_def
  refund_all_bids_def refund_bid_def accept_offer_def bid_in_limits_def update_price_def remove_sale_def

lemmas auction_defs = start_auction_def auction_add_bid_def token_type_to_ft_token_type_def
  check_auction_in_progress_def get_minimal_next_bid_def buy_out_reached_def extended_end_def
  cancel_auction_def finish_auction_def calculate_price_with_fees_def calculate_actual_amount_def
  bid_actual_amount_def total_origins_def calculate_origins_def refund_bid_def

lemmas bid_defs = remove_bid_def cancel_bid_def internal_remove_bid_def cancel_expired_bids_def
  refund_bid_def

end
