(* ===== verification/TestsSale.thy ===== *)
theory TestsSale
  imports TestUtils
begin

text \<open>
  The sale tests of the integration suite (src/tests-workspaces/src/sale.rs), replayed on
  the sandbox model: each test is the list of transactions it sends, with block times
  chosen in its order (the tests' waits become gaps between block times), and a lemma
  states the outcome of every transaction and the views the test asserts. The outcomes
  are the error values of the panics whose messages the tests match. A test's request
  with a malformed message (\<open>"Not valid args"\<close>) has no counterpart: the model receives
  the parsed \<open>ArgsKind\<close>.
\<close>

section \<open>Transactions of the tests\<close>

definition nft_on_approve_negative :: "(env \<times> sandbox_call) list" where
  "nft_on_approve_negative =
     [create_series 1 ''user1'' ''root'',
      mint_token 2 ''user1'' ''user1'' ''1'',
      tx 3 ''user1'' 0 (CallMarket (NftOnApprove ''1:1'' ''user1'' 1
         (SaleKind \<lparr>sa_sale_conditions = [(NEAR, 10000)], sa_token_type = Some ''1'', sa_start = None,
                    sa_end = None, sa_origins = None\<rparr>))),
      nft_approve_tx 4 ''user1'' ''1:1'' [(NEAR, 10000)] ''1'',
      deposit 5 ''user1'',
      nft_approve_tx 6 ''user1'' ''1:1'' [(''ft.near'', 10000)] ''1'']"

definition nft_on_approve_positive :: "(env \<times> sandbox_call) list" where
  "nft_on_approve_positive =
     [create_series 1 ''user1'' ''root'',
      mint_token 2 ''user1'' ''user1'' ''1'',
      deposit 3 ''user1'',
      nft_approve_tx 4 ''user1'' ''1:1'' [(NEAR, 10000)] ''1'']"

text \<open>\<open>offer_negative\<close>: the sale opens 15 seconds after the approval.\<close>

definition offer_window :: timestamp where
  "offer_window = 100 + 15 * NANOS_PER_SEC"

definition offer_negative_window :: "(env \<times> sandbox_call) list" where
  "offer_negative_window =
     [tx 1 ''user1'' 0 (CallMarket (Offer ''nft'' ''1:1'' NEAR None None None)),
      create_series 2 ''user1'' ''root'',
      mint_token 3 ''user1'' ''user1'' ''1'',
      deposit 4 ''user1'',
      tx 100 ''user1'' ONE_NEAR (CallNft (NftApprove ''1:1'' ''market''
         (sale_msg [(NEAR, 10000)] (Some ''1'') (Some offer_window) None))),
      tx 101 ''user2'' 0 (CallMarket (Offer ''nft'' ''1:1'' NEAR None None None)),
      offer_tx (offer_window + 1) ''user1'' ''1:1'' 10300]"

definition offer_negative_bids :: "(env \<times> sandbox_call) list" where
  "offer_negative_bids =
     [offer_tx (offer_window + 2) ''user2'' ''1:1'' 0,
      tx (offer_window + 3) ''user2'' 1000 (CallMarket (Offer ''nft'' ''1:1'' ''nearcoin'' None None None)),
      offer_tx (offer_window + 4) ''user2'' ''1:1'' 500,
      offer_tx (offer_window + 5) ''user2'' ''1:1'' 400,
      offer_tx (offer_window + 6) ''user2'' ''1:1'' 500,
      tx (offer_window + 7) ''user2'' 2000
        (CallMarket (Offer ''nft'' ''1:1'' NEAR None None (Some [(''user1'', 4701)]))),
      offer_tx (offer_window + 8) ''user2'' ''1:1'' 11500]"

definition offer_positive_buy :: "(env \<times> sandbox_call) list" where
  "offer_positive_buy =
     [create_series 1 ''user1'' ''root'',
      mint_token 2 ''user1'' ''user1'' ''1'',
      deposit 3 ''user1'',
      nft_approve_tx 4 ''user1'' ''1:1'' [(NEAR, 10000)] ''1'',
      offer_tx 5 ''user2'' ''1:1'' 10300]"

text \<open>The bid history loop: bids of 100, then \<open>100 * (i + 1)\<close> for \<open>i = 1..5\<close>.\<close>

definition offer_positive_bids :: "nat \<Rightarrow> (env \<times> sandbox_call) list" where
  "offer_positive_bids n =
     [mint_token 6 ''user1'' ''user1'' ''1'',
      nft_approve_tx 7 ''user1'' ''1:2'' [(NEAR, 10000)] ''1'',
      offer_tx 8 ''user2'' ''1:2'' 100] @
     map (\<lambda>i. offer_tx (8 + i) ''user2'' ''1:2'' (100 * (i + 1))) [1..<Suc n]"

definition accept_offer_setup :: "(env \<times> sandbox_call) list" where
  "accept_offer_setup =
     [create_series_raw 1 ''user1'' (Some 4) [(''user1'', 500)],
      mint_token 2 ''user1'' ''user1'' ''1'',
      deposit 3 ''user1'']"

definition accept_offer_negative :: "(env \<times> sandbox_call) list" where
  "accept_offer_negative =
     accept_offer_setup @
     [tx 4 ''user1'' 0 (CallMarket (AcceptOffer ''nft'' ''1:1'' NEAR)),
      tx 100 ''user1'' ONE_NEAR (CallNft (NftApprove ''1:1'' ''market''
         (sale_msg [(NEAR, 42000)] (Some ''1'') None (Some (100 + 10 * NANOS_PER_SEC))))),
      tx 101 ''user1'' 0 (CallMarket (AcceptOffer ''nft'' ''1:1'' NEAR)),
      offer_with_duration 102 ''user2'' ''1:1'' 200 1,
      tx 104 ''user1'' 0 (CallMarket (AcceptOffer ''nft'' ''1:1'' NEAR)),
      tx (101 + 10 * NANOS_PER_SEC) ''user1'' 0 (CallMarket (AcceptOffer ''nft'' ''1:1'' NEAR))]"

definition listed_42000 :: "(env \<times> sandbox_call) list" where
  "listed_42000 = accept_offer_setup @ [nft_approve_tx 4 ''user1'' ''1:1'' [(NEAR, 42000)] ''1'']"

definition accept_offer_positive :: "(env \<times> sandbox_call) list" where
  "accept_offer_positive =
     listed_42000 @
     [offer_tx 5 ''user2'' ''1:1'' 200,
      tx 6 ''user1'' 0 (CallMarket (AcceptOffer ''nft'' ''1:1'' NEAR))]"

definition update_price_negative :: "(env \<times> sandbox_call) list" where
  "update_price_negative =
     listed_42000 @
     [tx 5 ''user1'' 0 (CallMarket (UpdatePrice ''nft'' ''1:1'' NEAR 10000)),
      tx 6 ''user1'' 1 (CallMarket (UpdatePrice ''market'' ''1:1'' NEAR 10000)),
      tx 7 ''user2'' 1 (CallMarket (UpdatePrice ''nft'' ''1:1'' NEAR 10000)),
      tx 8 ''user1'' 1 (CallMarket (UpdatePrice ''nft'' ''1:1'' ''nearcoin'' 10000))]"

definition update_price_positive :: "(env \<times> sandbox_call) list" where
  "update_price_positive =
     listed_42000 @ [tx 5 ''user1'' 1 (CallMarket (UpdatePrice ''nft'' ''1:1'' NEAR 10000))]"

definition remove_sale_negative :: "(env \<times> sandbox_call) list" where
  "remove_sale_negative =
     listed_42000 @
     [tx 5 ''user1'' 0 (CallMarket (RemoveSale ''nft'' ''1:1'')),
      tx 6 ''user2'' 1 (CallMarket (RemoveSale ''nft'' ''1:1''))]"

definition remove_sale_positive :: "(env \<times> sandbox_call) list" where
  "remove_sale_positive =
     listed_42000 @
     [offer_tx 5 ''user2'' ''1:1'' 4000,
      tx 6 ''user1'' 1 (CallMarket (RemoveSale ''nft'' ''1:1''))]"

section \<open>What the tests observe\<close>

lemmas sale_test_defs = test_defs sandbox_defs sale_defs market_consts

lemma nft_on_approve_negative_outcomes:
  "snd (sandbox_run test_sandbox nft_on_approve_negative) =
     [Inr [], Inr [], Inl NotCrossContractCall, Inl InsufficientStorage, Inr [],
      Inl (TokenNotSupported ''ft.near'')]"
  by (simp add: nft_on_approve_negative_def sale_test_defs)

lemma nft_on_approve_positive_start:
  "map_option sj_start (get_sale (sb_market (fst (sandbox_run test_sandbox nft_on_approve_positive))) ''nft'' ''1:1'') =
     Some (Some 4)"
  by (simp add: nft_on_approve_positive_def sale_test_defs)

lemma offer_negative_outcomes:
  "snd (sandbox_run test_sandbox (offer_negative_window @ offer_negative_bids)) =
     [Inl NoSale, Inr [], Inr [], Inr [], Inr [], Inl SaleNotInProgress, Inl CannotBidOwnSale,
      Inl ZeroDeposit, Inl NotSupportedFt, Inr [], Inl (BidTooLow 500), Inl (BidTooLow 500),
      Inl MaxOriginsExceeded, Inr []]"
  by (simp add: offer_negative_window_def offer_negative_bids_def offer_window_def NANOS_PER_SEC_def
      sale_test_defs)

lemma offer_positive_listed:
  "get_sale (sb_market (fst (sandbox_run test_sandbox (butlast offer_positive_buy)))) ''nft'' ''1:1'' \<noteq> None \<and>
   price_with_fees 10000 None = Inr 10300"
  by (simp add: offer_positive_buy_def sale_test_defs)

text \<open>
  End-to-end scenario A of the spec: a sale at 10000 yoctoNEAR of a token whose
  series pays a 10% royalty; the buyer offers exactly \<open>price_with_fees 10000\<close> =
  10300. The token passes to the buyer, the sale is deleted, and the settlement pays the
  protocol fee of both sides (600) to the market, the royalty (1000) to its holder and
  10000 less the protocol fee and the royalty (8700) to the seller.
\<close>

theorem scenario_a_instant_buy:
  "let (w, rs) = sandbox_run test_sandbox offer_positive_buy in
     last rs = Inr [NearTransfer ''market'' 600, NearTransfer ''root'' 1000, NearTransfer ''user1'' 8700] \<and>
     map_sum id (map_option tv_owner_id) (nft_token (sb_nft w) ''1:1'') = Inr (Some ''user2'') \<and>
     get_sale (sb_market w) ''nft'' ''1:1'' = None"
  by (simp add: offer_positive_buy_def sale_test_defs)

lemma accept_offer_negative_outcomes:
  "snd (sandbox_run test_sandbox accept_offer_negative) =
     [Inr [], Inr [], Inr [], Inl NoSale, Inr [], Inl NoBids, Inr [], Inl BidOutOfTime, Inl SaleNotInProgress]"
  by (simp add: accept_offer_negative_def accept_offer_setup_def NANOS_PER_SEC_def sale_test_defs)

lemma accept_offer_positive_outcome:
  "let (w, rs) = sandbox_run test_sandbox accept_offer_positive in
     last rs = Inr [NearTransfer ''market'' 10, NearTransfer ''user1'' 189] \<and>
     map_sum id (map_option tv_owner_id) (nft_token (sb_nft w) ''1:1'') = Inr (Some ''user2'')"
  by (simp add: accept_offer_positive_def listed_42000_def accept_offer_setup_def sale_test_defs)

lemma update_price_negative_outcomes:
  "drop 4 (snd (sandbox_run test_sandbox update_price_negative)) =
     [Inl RequiresOneYocto, Inl NoSale, Inl NotSaleOwner, Inl (TokenNotSupported ''nearcoin'')]"
  by (simp add: update_price_negative_def listed_42000_def accept_offer_setup_def sale_test_defs)

lemma update_price_positive_price:
  "map_option sj_sale_conditions (get_sale (sb_market (fst (sandbox_run test_sandbox update_price_positive))) ''nft'' ''1:1'') =
     Some [(NEAR, 10000)]"
  by (simp add: update_price_positive_def listed_42000_def accept_offer_setup_def sale_test_defs)

lemma remove_sale_negative_outcomes:
  "drop 4 (snd (sandbox_run test_sandbox remove_sale_negative)) = [Inl RequiresOneYocto, Inl OnlyOwnerCanRemove]"
  by (simp add: remove_sale_negative_def listed_42000_def accept_offer_setup_def sale_test_defs)

lemma remove_sale_positive_outcome:
  "let (w, rs) = sandbox_run test_sandbox remove_sale_positive in
     last rs = Inr [NearTransfer ''user2'' 4000] \<and> get_sale (sb_market w) ''nft'' ''1:1'' = None"
  by (simp add: remove_sale_positive_def listed_42000_def accept_offer_setup_def sale_test_defs)

lemma offer_positive_history_kept:
  "map_option (\<lambda>s. map bid_price (the (map_of (sj_bids s) NEAR)))
     (get_sale (sb_market (fst (sandbox_run test_sandbox (offer_positive_buy @ offer_positive_bids 4)))) ''nft'' ''1:2'') =
   Some [100, 200, 300, 400, 500]"
  by (simp add: offer_positive_buy_def offer_positive_bids_def sale_test_defs upt_rec)

text \<open>
  End-to-end scenario C of the spec: six increasing bids on one sale with the
  default history length 5; the sixth evicts the first, whose owner is refunded its
  price, and the five most recent bids remain, oldest first.
\<close>

theorem scenario_c_history_eviction:
  "let (w, rs) = sandbox_run test_sandbox (offer_positive_buy @ offer_positive_bids BID_HISTORY_LENGTH_DEFAULT) in
     last rs = Inr [NearTransfer ''user2'' 100] \<and>
     map_option (\<lambda>s. map bid_price (the (map_of (sj_bids s) NEAR))) (get_sale (sb_market w) ''nft'' ''1:2'') =
       Some [200, 300, 400, 500, 600]"
  by (simp add: offer_positive_buy_def offer_positive_bids_def sale_test_defs upt_rec)

end
