(* ===== verification/TestsAuction.thy ===== *)
theory TestsAuction
  imports TestUtils Views
begin

text \<open>
  The auction tests of the integration suite (src/tests-workspaces/src/auction.rs)
  replayed on the sandbox model, as in TestsSale.thy. Every test opens auction 0 on token
  \<open>1:1\<close> with \<open>test_auction_args\<close>; the auction starts at the block of the approval
  and a bid is accepted from the next block on.
\<close>

section \<open>Transactions of the tests\<close>

definition auction_listed :: "(env \<times> sandbox_call) list" where
  "auction_listed =
     [create_series 1 ''user1'' ''root'',
      mint_token 2 ''user1'' ''user1'' ''1'',
      deposit 3 ''user1'',
      auction_approve_tx 4 ''user1'' ''1:1'']"

definition auction_add_bid_negative :: "(env \<times> sandbox_call) list" where
  "auction_add_bid_negative =
     auction_listed @
     [tx 5 ''user2'' 10300 (CallMarket (AuctionAddBid 0 (Some ''not_near'') None)),
      tx 6 ''user2'' 10300 (CallMarket (AuctionAddBid 1 None None)),
      tx 7 ''user1'' 10300 (CallMarket (AuctionAddBid 0 None None)),
      tx 8 ''user2'' 10200 (CallMarket (AuctionAddBid 0 None None)),
      tx 9 ''user2'' 10300 (CallMarket (AuctionAddBid 0 None None)),
      tx 10 ''user2'' 10350 (CallMarket (AuctionAddBid 0 None None))]"

text \<open>\<open>auction_add_bid_positive\<close>: a bid one minute after the opening, a buyout a minute later.\<close>

definition auction_add_bid_positive :: "(env \<times> sandbox_call) list" where
  "auction_add_bid_positive =
     auction_listed @
     [tx (4 + 60 * NANOS_PER_SEC) ''user2'' 10300 (CallMarket (AuctionAddBid 0 None None)),
      tx (4 + 120 * NANOS_PER_SEC) ''user2'' 10300000000 (CallMarket (AuctionAddBid 0 None None))]"

definition cancel_auction_negative :: "(env \<times> sandbox_call) list" where
  "cancel_auction_negative =
     auction_listed @
     [tx 5 ''user1'' 2 (CallMarket (CancelAuction 0)),
      tx 6 ''user1'' 1 (CallMarket (CancelAuction 1)),
      tx 7 ''user2'' 1 (CallMarket (CancelAuction 0)),
      tx 8 ''user2'' 10300 (CallMarket (AuctionAddBid 0 None None)),
      tx 9 ''user1'' 1 (CallMarket (CancelAuction 0))]"

definition cancel_auction_positive :: "(env \<times> sandbox_call) list" where
  "cancel_auction_positive = auction_listed @ [tx 5 ''user1'' 1 (CallMarket (CancelAuction 0))]"

definition finish_auction_negative :: "(env \<times> sandbox_call) list" where
  "finish_auction_negative =
     auction_listed @
     [tx 5 ''user1'' 0 (CallMarket (FinishAuction 1)),
      tx 6 ''user1'' 0 (CallMarket (FinishAuction 0))]"

text \<open>
  \<open>finish_auction_positive\<close> opens the auction of \<open>auction_listed\<close> and stops: its call
  of \<open>finish_auction\<close> (on auction id 1) is commented out.
\<close>

definition finish_auction_positive :: "(env \<times> sandbox_call) list" where
  "finish_auction_positive = auction_listed"

section \<open>What the tests observe\<close>

lemmas auction_test_defs = test_defs sandbox_defs auction_defs market_consts

lemma nft_on_approve_auction_positive_outcome:
  "let (w, rs) = sandbox_run test_sandbox auction_listed in
     last rs = Inr [] \<and> map_option auction_end (auctions (sb_market w) 0) = Some (4 + 900000000000)"
  by (simp add: auction_listed_def auction_test_defs)

lemma auction_add_bid_negative_outcomes:
  "drop 4 (snd (sandbox_run test_sandbox auction_add_bid_negative)) =
     [Inl (TokenNotSupported ''not_near''), Inl AuctionDoesNotExist, Inl CannotBidOwnAuction,
      Inl (ShouldBidAtLeast 10300), Inr [], Inl (ShouldBidAtLeast 10403)]"
  by (simp add: auction_add_bid_negative_def auction_listed_def auction_test_defs)

lemma auction_add_bid_positive_ends:
  "let w1 = fst (sandbox_run test_sandbox (butlast auction_add_bid_positive));
       (w2, rs) = sandbox_run test_sandbox auction_add_bid_positive in
     map_option auction_end (auctions (sb_market w1) 0) =
       Some (4 + 60 * NANOS_PER_SEC + EXTENSION_DURATION) \<and>
     4 + 900000000000 < 4 + 60 * NANOS_PER_SEC + EXTENSION_DURATION \<and>
     last rs = Inr [NearTransfer ''user2'' 10300] \<and>
     map_option auction_end (auctions (sb_market w2) 0) = Some (4 + 120 * NANOS_PER_SEC) \<and>
     check_auction_in_progress (sb_market w2) (auction_env ''user2'' 0 (5 + 120 * NANOS_PER_SEC)) 0 = Inr False"
  by (simp add: auction_add_bid_positive_def auction_listed_def auction_test_defs)

lemma cancel_auction_negative_outcomes:
  "let (w, rs) = sandbox_run test_sandbox cancel_auction_negative in
     drop 4 rs = [Inl RequiresOneYocto, Inl AuctionNotActive, Inl OnlyAuctionOwnerCanCancel, Inr [],
                  Inl AuctionHasBid] \<and>
     auctions (sb_market w) 0 \<noteq> None"
  by (simp add: cancel_auction_negative_def auction_listed_def auction_test_defs)

lemma cancel_auction_positive_outcome:
  "let (w, rs) = sandbox_run test_sandbox cancel_auction_positive in
     last rs = Inr [] \<and> dom (auctions (sb_market w)) = {}"
  by (simp add: cancel_auction_positive_def auction_listed_def auction_test_defs)

lemma finish_auction_negative_outcomes:
  "drop 4 (snd (sandbox_run test_sandbox finish_auction_negative)) = [Inl AuctionNotActive, Inl AuctionNotEnded]"
  by (simp add: finish_auction_negative_def auction_listed_def auction_test_defs)

text \<open>
  The positive finishing test observes nothing: the auction it opens is the only one the
  market lists, and the finishing call it has commented out would panic, on id 1 because
  the market numbers auctions from 0, and on id 0 after the end because nobody bid.
\<close>

lemma finish_auction_positive_untested:
  "let m = sb_market (fst (sandbox_run test_sandbox finish_auction_positive)) in
     map aj_token_id (get_auctions m None None) = [''1:1''] \<and>
     finish_auction m (auction_env ''user1'' 0 5) 1 = Inl AuctionNotActive \<and>
     finish_auction m (auction_env ''user1'' 0 (5 + 900000000000)) 0 = Inl NoFinalBid"
  by (simp add: finish_auction_positive_def auction_listed_def auction_test_defs get_auctions_def
      umap_values_def u32_max_def)

end
