(* ===== verification/TestsBid.thy ===== *)
theory TestsBid
  imports TestUtils
begin

text \<open>
  The bid tests of the integration suite (src/tests-workspaces/src/bid.rs) replayed on
  the sandbox model, as in TestsSale.thy. Every test lists token \<open>1:1\<close> at 10000 and
  \<open>user2\<close> bids below that price; blocks follow each other one second apart, so a bid
  with a duration of 0.1 s has ended by the next block and one of 1000 s has not.
\<close>

section \<open>Transactions of the tests\<close>

definition bid_listed :: "(env \<times> sandbox_call) list" where
  "bid_listed =
     [create_series 1 ''user1'' ''root'',
      mint_token 2 ''user1'' ''user1'' ''1'',
      deposit 3 ''user1'',
      nft_approve_tx 4 ''user1'' ''1:1'' [(NEAR, 10000)] ''1'']"

definition block :: "nat \<Rightarrow> timestamp" where
  "block i = 4 + i * NANOS_PER_SEC"

definition remove_bid_positive :: "(env \<times> sandbox_call) list" where
  "remove_bid_positive =
     bid_listed @
     [offer_tx (block 1) ''user2'' ''1:1'' 900,
      tx (block 2) ''user2'' 1 (CallMarket (RemoveBid ''nft'' ''1:1'' NEAR 900))]"

definition remove_bid_negative :: "(env \<times> sandbox_call) list" where
  "remove_bid_negative =
     bid_listed @
     [offer_tx (block 1) ''user2'' ''1:1'' 900,
      tx (block 2) ''user2'' 2 (CallMarket (RemoveBid ''nft'' ''1:1'' NEAR 900)),
      tx (block 3) ''user2'' 1 (CallMarket (RemoveBid ''some_other_nft_contract'' ''1:1'' NEAR 900)),
      tx (block 4) ''user2'' 1 (CallMarket (RemoveBid ''nft'' ''1:10'' NEAR 900)),
      tx (block 5) ''user2'' 1 (CallMarket (RemoveBid ''nft'' ''1:1'' ''not_near'' 900))]"

definition cancel_bid_tx :: "nat \<Rightarrow> string \<Rightarrow> string \<Rightarrow> account \<Rightarrow> account \<Rightarrow> balance \<Rightarrow> env \<times> sandbox_call" where
  "cancel_bid_tx i c t ft owner price = tx (block i) ''user3'' 0 (CallMarket (CancelBid c t ft owner price))"

definition cancel_bid_positive :: "(env \<times> sandbox_call) list" where
  "cancel_bid_positive =
     bid_listed @
     [offer_with_duration (block 1) ''user2'' ''1:1'' 900 100000000,
      cancel_bid_tx 2 ''nft'' ''1:1'' NEAR ''user2'' 900]"

definition cancel_bid_negative :: "(env \<times> sandbox_call) list" where
  "cancel_bid_negative =
     bid_listed @
     [offer_with_duration (block 1) ''user2'' ''1:1'' 900 1000000000000,
      cancel_bid_tx 2 ''nft'' ''1:1'' NEAR ''user2'' 900,
      offer_tx (block 3) ''user2'' ''1:1'' 950,
      cancel_bid_tx 4 ''nft'' ''1:1'' NEAR ''user2'' 950,
      offer_with_duration (block 5) ''user2'' ''1:1'' 900 1000000000000,
      cancel_bid_tx 6 ''nft'' ''1:1'' NEAR ''user2'' 900,
      offer_with_duration (block 7) ''user2'' ''1:1'' 1000 100000000,
      cancel_bid_tx 8 ''another_nft_contract_id'' ''1:1'' NEAR ''user2'' 1000,
      cancel_bid_tx 9 ''nft'' ''another_token_id'' NEAR ''user2'' 1000,
      cancel_bid_tx 10 ''nft'' ''1:1'' ''not_near'' ''user2'' 1000,
      cancel_bid_tx 11 ''nft'' ''1:1'' NEAR ''user1'' 1000,
      cancel_bid_tx 12 ''nft'' ''1:1'' NEAR ''user2'' 1100]"

definition three_bids :: "(env \<times> sandbox_call) list" where
  "three_bids =
     bid_listed @
     [offer_with_duration (block 1) ''user2'' ''1:1'' 900 100000000,
      offer_tx (block 2) ''user2'' ''1:1'' 950,
      offer_with_duration (block 3) ''user2'' ''1:1'' 1000 100000000]"

definition cancel_expired_bids_positive :: "(env \<times> sandbox_call) list" where
  "cancel_expired_bids_positive =
     three_bids @ [tx (block 4) ''user3'' 0 (CallMarket (CancelExpiredBids ''nft'' ''1:1'' NEAR))]"

definition cancel_expired_bids_negative :: "(env \<times> sandbox_call) list" where
  "cancel_expired_bids_negative =
     three_bids @
     [tx (block 4) ''user3'' 0 (CallMarket (CancelExpiredBids ''another_nft_contract'' ''1:1'' NEAR)),
      tx (block 5) ''user3'' 0 (CallMarket (CancelExpiredBids ''nft'' ''another_token'' NEAR)),
      tx (block 6) ''user3'' 0 (CallMarket (CancelExpiredBids ''nft'' ''1:1'' ''not_near''))]"

text \<open>The view the tests read: the bids in NEAR of the sale of token \<open>1:1\<close>.\<close>

definition near_bids :: "sandbox \<Rightarrow> bid list option" where
  "near_bids w =
     (case get_sale (sb_market w) ''nft'' ''1:1'' of None \<Rightarrow> None | Some s \<Rightarrow> map_of (sj_bids s) NEAR)"

section \<open>What the tests observe\<close>

lemmas bid_test_defs = test_defs sandbox_defs sale_defs bid_defs market_consts block_def

lemma remove_bid_positive_outcome:
  "let w1 = fst (sandbox_run test_sandbox (butlast remove_bid_positive));
       (w2, rs) = sandbox_run test_sandbox remove_bid_positive in
     map_option length (near_bids w1) = Some 1 \<and> last rs = Inr [NearTransfer ''user2'' 900] \<and>
     near_bids w2 = None"
  by (simp add: remove_bid_positive_def bid_listed_def near_bids_def bid_test_defs)

lemma remove_bid_negative_outcomes:
  "drop 5 (snd (sandbox_run test_sandbox remove_bid_negative)) =
     [Inl RequiresOneYocto, Inl NoSale, Inl NoSale, Inl NoToken]"
  by (simp add: remove_bid_negative_def bid_listed_def bid_test_defs)

lemma cancel_bid_positive_outcome:
  "let w1 = fst (sandbox_run test_sandbox (butlast cancel_bid_positive));
       (w2, rs) = sandbox_run test_sandbox cancel_bid_positive in
     map_option length (near_bids w1) = Some 1 \<and> last rs = Inr [NearTransfer ''user2'' 900] \<and>
     near_bids w2 = None"
  by (simp add: cancel_bid_positive_def bid_listed_def near_bids_def cancel_bid_tx_def bid_test_defs)

lemma cancel_bid_negative_outcomes:
  "drop 4 (snd (sandbox_run test_sandbox cancel_bid_negative)) =
     [Inr [], Inl BidNotEnded, Inr [], Inl BidHasNoEnd, Inl (BidTooLow 950), Inl BidNotEnded, Inr [],
      Inl NoSale, Inl NoSale, Inl NoToken, Inl NoSuchBid, Inl NoSuchBid]"
  by (simp add: cancel_bid_negative_def bid_listed_def cancel_bid_tx_def bid_test_defs)

lemma cancel_expired_bids_positive_outcome:
  "let w1 = fst (sandbox_run test_sandbox three_bids);
       (w2, rs) = sandbox_run test_sandbox cancel_expired_bids_positive in
     map_option length (near_bids w1) = Some 3 \<and>
     last rs = Inr [NearTransfer ''user2'' 900, NearTransfer ''user2'' 1000] \<and>
     map_option (map bid_price) (near_bids w2) = Some [950]"
  by (simp add: cancel_expired_bids_positive_def three_bids_def bid_listed_def near_bids_def bid_test_defs)

lemma cancel_expired_bids_negative_outcomes:
  "drop 7 (snd (sandbox_run test_sandbox cancel_expired_bids_negative)) = [Inl NoSale, Inl NoSale, Inl NoToken]"
  by (simp add: cancel_expired_bids_negative_def three_bids_def bid_listed_def bid_test_defs)

end
