(* ===== verification/FeeSpec.thy ===== *)
theory FeeSpec
  imports Complex_Main Fee
begin

text \<open>
  An abstract specification of the fee calculator of src/market/src/fee.rs in exact
  rational arithmetic: with weights out of \<open>PAYOUT_TOTAL_VALUE\<close>, a buyer who pays a gross
  \<open>g\<close> leaves the seller the share \<open>g * 10000 / (10000 + w + 300)\<close>, and a net price \<open>p\<close>
  costs the buyer \<open>p * (10000 + 300 + w) / 10000\<close>. The u128 routines of Fee.thy refine
  it: each returns the abstract value rounded (up for the net amount, down for the
  gross price) whenever its product fits in a u128, and overflows exactly otherwise.
\<close>

section \<open>Rational model of the fees\<close>

definition net_of_gross :: "balance \<Rightarrow> nat \<Rightarrow> rat" where
  "net_of_gross g w = of_nat g * of_nat PAYOUT_TOTAL_VALUE / of_nat (PAYOUT_TOTAL_VALUE + w + PROTOCOL_FEE)"

definition gross_of_net :: "balance \<Rightarrow> nat \<Rightarrow> rat" where
  "gross_of_net p w = of_nat p * of_nat (PAYOUT_TOTAL_VALUE + PROTOCOL_FEE + w) / of_nat PAYOUT_TOTAL_VALUE"

section \<open>Refinement\<close>

text \<open>Subtracting the floor of the fee part is taking the ceiling of the remaining share.\<close>

lemma nat_minus_div_ceiling:
  assumes d: "d = t + k" and t: "0 < t"
  shows "int (a - a * k div d) = \<lceil>(of_nat a * of_nat t / of_nat d :: rat)\<rceil>"
proof -
  have dpos: "(0::rat) < of_nat d" using d t by simp
  have le: "a * k div d \<le> a"
  proof -
    have "a * k \<le> a * d" using d by simp
    then have "a * k div d \<le> a * d div d" by (rule div_le_mono)
    also have "\<dots> = a" using d t by simp
    finally show ?thesis .
  qed
  have eq: "(of_nat a * of_nat t / of_nat d :: rat) = of_nat a - of_nat (a * k) / of_nat d"
    using dpos d by (simp add: field_simps)
  have "\<lceil>(of_nat a * of_nat t / of_nat d :: rat)\<rceil> = of_nat a - \<lfloor>(of_nat (a * k) / of_nat d :: rat)\<rfloor>"
    unfolding eq ceiling_def using floor_diff_of_int [of "of_nat (a * k) / of_nat d :: rat" "int a"]
    by simp
  also have "\<dots> = int a - int (a * k div d)"
    by (simp only: floor_divide_of_nat_eq)
  finally show ?thesis using le by simp
qed

text \<open>
  C31. The fee calculator implements the rational fee model: \<open>calculate_actual_amount g w\<close>
  is the exact net share of the gross \<open>g\<close> rounded up, \<open>calculate_price_with_fees p\<close> is
  the exact gross of the net price \<open>p\<close> rounded down, and each fails exactly when its
  u128 multiplication overflows (or, for the gross, when the fee weights overflow).
\<close>

theorem fee_calculator_refines:
  "calculate_actual_amount g w =
     (if u128_max < g * (w + PROTOCOL_FEE) then None else Some (nat \<lceil>net_of_gross g w\<rceil>)) \<and>
   calculate_price_with_fees p oo =
     (case total_origins oo of
        None \<Rightarrow> None
      | Some w \<Rightarrow> if u128_max < p * (PAYOUT_TOTAL_VALUE + PROTOCOL_FEE + w) then None
                  else Some (nat \<lfloor>gross_of_net p w\<rfloor>))"
proof
  have "int (g - g * (w + PROTOCOL_FEE) div (PAYOUT_TOTAL_VALUE + w + PROTOCOL_FEE)) = \<lceil>net_of_gross g w\<rceil>"
    unfolding net_of_gross_def
    by (rule nat_minus_div_ceiling) (simp_all add: PAYOUT_TOTAL_VALUE_def)
  from this [symmetric]
  have "nat \<lceil>net_of_gross g w\<rceil> = g - g * (w + PROTOCOL_FEE) div (PAYOUT_TOTAL_VALUE + w + PROTOCOL_FEE)"
    by simp
  then show "calculate_actual_amount g w =
     (if u128_max < g * (w + PROTOCOL_FEE) then None else Some (nat \<lceil>net_of_gross g w\<rceil>))"
    by (simp add: calculate_actual_amount_def Let_def)
next
  have "nat \<lfloor>gross_of_net p w\<rfloor> = p * (PAYOUT_TOTAL_VALUE + PROTOCOL_FEE + w) div PAYOUT_TOTAL_VALUE" for w
    unfolding gross_of_net_def of_nat_mult [symmetric] floor_divide_of_nat_eq by simp
  then show "calculate_price_with_fees p oo =
     (case total_origins oo of
        None \<Rightarrow> None
      | Some w \<Rightarrow> if u128_max < p * (PAYOUT_TOTAL_VALUE + PROTOCOL_FEE + w) then None
                  else Some (nat \<lfloor>gross_of_net p w\<rfloor>))"
    by (simp add: calculate_price_with_fees_def Let_def split: option.split)
qed

end
