(* ===== verification/TestsViews.thy ===== *)
theory TestsViews
  imports TestUtils Views
begin

text \<open>
  The view tests of the integration suite replayed on the sandbox model:
  src/tests-workspaces/src/sale_views.rs lists three tokens of \<open>user1\<close>'s series \<open>1\<close> and
  two of \<open>user2\<close>'s series \<open>2\<close> at 10000, reads the supply and paginated views, sells
  token \<open>1:2\<close> through an accepted bid, removes the sale of \<open>2:2\<close>, and reads the views
  again, asserting the same views before and after (\<open>sale_views_asserts\<close>).
\<close>

section \<open>Transactions of the tests\<close>

definition views_listed :: "(env \<times> sandbox_call) list" where
  "views_listed =
     [create_series 1 ''user1'' ''root'',
      mint_token 2 ''user1'' ''user1'' ''1'',
      mint_token 3 ''user1'' ''user1'' ''1'',
      mint_token 4 ''user1'' ''user1'' ''1'',
      create_series 5 ''user2'' ''root'',
      mint_token 6 ''user2'' ''user2'' ''2'',
      mint_token 7 ''user2'' ''user2'' ''2'',
      deposit 8 ''user1'',
      deposit 9 ''user2'',
      nft_approve_tx 10 ''user1'' ''1:1'' [(NEAR, 10000)] ''1'',
      nft_approve_tx 11 ''user1'' ''1:2'' [(NEAR, 10000)] ''1'',
      nft_approve_tx 12 ''user1'' ''1:3'' [(NEAR, 10000)] ''1'',
      nft_approve_tx 13 ''user2'' ''2:1'' [(NEAR, 10000)] ''2'',
      nft_approve_tx 14 ''user2'' ''2:2'' [(NEAR, 10000)] ''2'']"

definition views_removed :: "(env \<times> sandbox_call) list" where
  "views_removed =
     views_listed @
     [offer_tx 15 ''user2'' ''1:2'' 500,
      tx 16 ''user1'' 0 (CallMarket (AcceptOffer ''nft'' ''1:2'' NEAR)),
      tx 17 ''user2'' 1 (CallMarket (RemoveSale ''nft'' ''2:2''))]"

text \<open>The token identifiers of a page.\<close>

definition page_tokens :: "error + sale_json list \<Rightarrow> error + string list" where
  "page_tokens r = (case r of Inl e \<Rightarrow> Inl e | Inr ss \<Rightarrow> Inr (map sj_token_id ss))"

text \<open>
  The assertions the test makes twice, on the views of the market, given its lists of
  listed tokens per series and the two series ids; \<open>i\<close> is the position of the page
  entry it inspects in the owner and token-type pages (1 before the removals, 0 after).
  An index past the end of a vector panics in Rust, so it is required to be in range; a
  view that panics fails the test.
\<close>

definition sale_views_asserts ::
  "market \<Rightarrow> string list \<Rightarrow> string list \<Rightarrow> string \<Rightarrow> string \<Rightarrow> nat \<Rightarrow> bool" where
  "sale_views_asserts m tokens_series1 tokens_series2 series1 series2 i =
     (let n = length tokens_series1 + length tokens_series2;
          in_either = (\<lambda>t. t \<in> set tokens_series1 \<or> t \<in> set tokens_series2);
          sales = get_sales m None None in
      get_supply_sales m = n \<and>
      length sales = n \<and> 1 < length sales \<and> in_either (sj_token_id (sales ! 1)) \<and>
      get_supply_by_owner_id m ''user1'' = length tokens_series1 \<and>
      (case get_sales_by_owner_id m ''user2'' 0 10 of
         Inl _ \<Rightarrow> False
       | Inr ss \<Rightarrow> length ss = length tokens_series2 \<and> i < length ss \<and> sj_token_id (ss ! i) \<in> set tokens_series2) \<and>
      get_supply_by_nft_contract_id m ''nft'' = n \<and>
      (case get_sales_by_nft_contract_id m ''nft'' 0 10 of
         Inl _ \<Rightarrow> False
       | Inr ss \<Rightarrow> length ss = n \<and> 1 < length ss \<and> in_either (sj_token_id (ss ! 1))) \<and>
      get_supply_by_nft_token_type m series1 = length tokens_series1 \<and>
      (case get_sales_by_nft_token_type m series2 0 10 of
         Inl _ \<Rightarrow> False
       | Inr ss \<Rightarrow> length ss = length tokens_series2 \<and> i < length ss \<and> sj_token_id (ss ! i) \<in> set tokens_series2))"

text \<open>
  The second round of assertions, after \<open>tokens_series1.remove(1)\<close> and
  \<open>tokens_series2.remove(1)\<close>.
\<close>

definition sale_views_asserts_after :: "market \<Rightarrow> bool" where
  "sale_views_asserts_after m = sale_views_asserts m [''1:1'', ''1:3''] [''2:1''] ''1'' ''2'' 0"

section \<open>What the tests observe\<close>

lemmas view_test_defs = test_defs sandbox_defs sale_defs market_consts page_tokens_def
  get_sales_by_owner_id_def get_sales_by_nft_contract_id_def get_sales_by_nft_token_type_def
  page_indices_def get_supply_by_nft_contract_id_def get_supply_by_nft_token_type_def u64_max_def
  get_sales_def umap_values_def get_supply_sales_def

lemma sale_views_listed:
  "let m = sb_market (fst (sandbox_run test_sandbox views_listed)) in
     get_supply_by_owner_id m ''user1'' = 3 \<and>
     page_tokens (get_sales_by_owner_id m ''user2'' 0 10) = Inr [''2:1'', ''2:2''] \<and>
     get_supply_by_nft_contract_id m ''nft'' = 5 \<and>
     page_tokens (get_sales_by_nft_contract_id m ''nft'' 0 10) = Inr [''1:1'', ''1:2'', ''1:3'', ''2:1'', ''2:2''] \<and>
     get_supply_by_nft_token_type m ''1'' = 3 \<and>
     page_tokens (get_sales_by_nft_token_type m ''2'' 0 10) = Inr [''2:1'', ''2:2'']"
  by (simp add: views_listed_def view_test_defs)

lemma sale_views_listed_asserts:
  "sale_views_asserts (sb_market (fst (sandbox_run test_sandbox views_listed)))
     [''1:1'', ''1:2'', ''1:3''] [''2:1'', ''2:2''] ''1'' ''2'' 1"
  by (simp add: views_listed_def view_test_defs sale_views_asserts_def u32_max_def)

lemma sale_views_removed_asserts:
  "sale_views_asserts_after (sb_market (fst (sandbox_run test_sandbox views_removed)))"
  by (simp add: views_removed_def views_listed_def view_test_defs sale_views_asserts_after_def
      sale_views_asserts_def u32_max_def)

text \<open>
  The view test's second half on both contracts: the bid of 500 that \<open>user1\<close>
  accepts is refunded in full to \<open>user2\<close>, who nevertheless owns token \<open>1:2\<close> afterwards
  (the NFT contract's payout for 500 sums to 498, two units short, and the market
  rejects it after the transfer); the sale is gone, and the pages of the contract index
  follow the swap-and-pop of its vector: \<open>1:1, 2:1, 1:3\<close>.
\<close>

theorem sale_views_removed:
  "let (w, rs) = sandbox_run test_sandbox views_removed; m = sb_market w in
     drop 14 rs = [Inr [], Inr [NearTransfer ''user2'' 500], Inr []] \<and>
     map_sum id (map_option tv_owner_id) (nft_token (sb_nft w) ''1:2'') = Inr (Some ''user2'') \<and>
     get_sale m ''nft'' ''1:2'' = None \<and>
     get_supply_by_owner_id m ''user1'' = 2 \<and>
     page_tokens (get_sales_by_owner_id m ''user2'' 0 10) = Inr [''2:1''] \<and>
     get_supply_by_nft_contract_id m ''nft'' = 3 \<and>
     page_tokens (get_sales_by_nft_contract_id m ''nft'' 0 10) = Inr [''1:1'', ''2:1'', ''1:3''] \<and>
     get_supply_by_nft_token_type m ''1'' = 2 \<and>
     page_tokens (get_sales_by_nft_token_type m ''2'' 0 10) = Inr [''2:1'']"
  by (simp add: views_removed_def views_listed_def view_test_defs)

end
