(* ===== verification/TestsNft.thy ===== *)
theory TestsNft
  imports TestUtils
begin

text \<open>
  The tests of the NFT contract in the integration suite (src/tests-workspaces/src/nft.rs
  and permissions.rs) replayed on the sandbox model. The value a call returns (the flag
  of \<open>grant\<close> and \<open>deny\<close>, the payout of \<open>nft_transfer_payout\<close>) is read by running the
  handler on the state before the call. The test's request with an unparsable fee memo
  (\<open>"invalid FeesArgs"\<close>) has no counterpart: the model receives the parsed memo.
\<close>

section \<open>Transactions of the tests\<close>

definition test_metadata :: "nat \<Rightarrow> token_metadata" where
  "test_metadata copies = \<lparr>tm_title = Some ''some title'', tm_copies = Some copies, tm_issued_at = None\<rparr>"

definition series_tx :: "timestamp \<Rightarrow> account \<Rightarrow> balance \<Rightarrow> token_metadata \<Rightarrow> (account \<times> nat) list option \<Rightarrow> env \<times> sandbox_call" where
  "series_tx t user d md royalty = tx t user d (CallNft (NftCreateSeries md royalty))"

definition nft_create_series_negative :: "(env \<times> sandbox_call) list" where
  "nft_create_series_negative =
     [tx 1 ''root'' 0 (CallNft (NftSetPrivateMinting True)),
      series_tx 2 ''user1'' (5 * 10 ^ 21) (test_metadata 7) None,
      tx 3 ''root'' 0 (CallNft (NftGrant ''user1'')),
      series_tx 4 ''user1'' (5 * 10 ^ 21) ((test_metadata 7)\<lparr>tm_title := None\<rparr>) None,
      series_tx 5 ''user1'' (5 * 10 ^ 21) (test_metadata 7) (Some [(''user1'', 500), (''user2'', 5000)])]"

definition nft_create_series_positive :: "(env \<times> sandbox_call) list" where
  "nft_create_series_positive =
     [series_tx 1 ''user1'' (2 * ONE_NEAR) (test_metadata 7) (Some [(''user1'', 500), (''user2'', 2000)]),
      tx 2 ''root'' 0 (CallNft (NftSetPrivateMinting True)),
      tx 3 ''root'' 0 (CallNft (NftGrant ''user2'')),
      series_tx 4 ''user2'' (5 * 10 ^ 21) (test_metadata 7) (Some [(''user1'', 500), (''user2'', 2000)])]"

definition mint_tx :: "timestamp \<Rightarrow> account \<Rightarrow> string \<Rightarrow> account \<Rightarrow> env \<times> sandbox_call" where
  "mint_tx t user series receiver = tx t user ONE_NEAR (CallNft (NftMint series receiver))"

definition nft_mint_negative :: "(env \<times> sandbox_call) list" where
  "nft_mint_negative =
     [series_tx 1 ''user1'' (2 * ONE_NEAR) (test_metadata 1) (Some [(''user1'', 500), (''user2'', 2000)]),
      tx 2 ''root'' 0 (CallNft (NftSetPrivateMinting True)),
      mint_tx 3 ''user1'' ''1'' ''user1'',
      tx 4 ''root'' 0 (CallNft (NftSetPrivateMinting False)),
      mint_tx 5 ''user1'' ''3'' ''user1'',
      mint_tx 6 ''user3'' ''1'' ''user1'',
      mint_tx 7 ''user1'' ''1'' ''user1'',
      mint_tx 8 ''user1'' ''1'' ''user1'']"

definition nft_mint_positive :: "(env \<times> sandbox_call) list" where
  "nft_mint_positive =
     [series_tx 1 ''user1'' (2 * ONE_NEAR) (test_metadata 1) (Some [(''user1'', 500), (''user2'', 2000)]),
      mint_tx 2 ''user1'' ''1'' ''user2'']"

definition approve_user2_tx :: "timestamp \<Rightarrow> string \<Rightarrow> env \<times> sandbox_call" where
  "approve_user2_tx t token = tx t ''user1'' ONE_NEAR (CallNft (NftApprove token ''user2'' None))"

definition payout_tx ::
  "timestamp \<Rightarrow> balance \<Rightarrow> string \<Rightarrow> nft_fees option \<Rightarrow> balance \<Rightarrow> nat \<Rightarrow> env \<times> sandbox_call" where
  "payout_tx t d token memo b l = tx t ''user2'' d (CallNft (NftTransferPayout ''user3'' token 1 memo b l))"

definition many_accounts :: "nat \<Rightarrow> nat \<Rightarrow> (account \<times> nat) list" where
  "many_accounts i k = map (\<lambda>j. (''acc'' @ string_of_nat j @ ''.near'', 100)) [i..<i + k]"

definition nft_transfer_payout_negative :: "(env \<times> sandbox_call) list" where
  "nft_transfer_payout_negative =
     [create_series_raw 1 ''user1'' (Some 4) ((''user1'', 500) # many_accounts 1 6),
      mint_token 2 ''user1'' ''user1'' ''1'',
      approve_user2_tx 3 ''1:1'',
      payout_tx 4 0 ''1:1'' None 10000 10,
      payout_tx 5 1 ''2:1'' None 10000 10,
      payout_tx 6 1 ''1:1'' None 10000 5,
      payout_tx 7 1 ''1:1'' (Some \<lparr>nf_buyer = many_accounts 1 6, nf_seller = many_accounts 7 6\<rparr>) 10000 10]"

text \<open>\<open>nft_transfer_payout_helper\<close> (utils.rs): a new series of 4 copies, its first token
  minted to \<open>user1\<close> and approved for \<open>user2\<close>, who calls \<open>nft_transfer_payout\<close> for
  \<open>user3\<close> with a fee memo and a balance.\<close>

definition nft_transfer_payout_helper ::
  "timestamp \<Rightarrow> string \<Rightarrow> (account \<times> nat) list \<Rightarrow> nft_fees \<Rightarrow> balance \<Rightarrow> (env \<times> sandbox_call) list" where
  "nft_transfer_payout_helper t series royalty fees balance =
     [create_series_raw t ''user1'' (Some 4) royalty,
      mint_token (t + 1) ''user1'' ''user1'' series,
      approve_user2_tx (t + 2) (series @ '':1''),
      payout_tx (t + 3) 1 (series @ '':1'') (Some fees) balance 10]"

definition payout_fees_2 :: nft_fees where
  "payout_fees_2 = \<lparr>nf_buyer = [(''user2'', 300)], nf_seller = [(''user2'', 300)]\<rparr>"

definition payout_fees_3 :: nft_fees where
  "payout_fees_3 = \<lparr>nf_buyer = [(''user2'', 300), (''user1'', 500)], nf_seller = [(''user2'', 300)]\<rparr>"

definition nft_transfer_payout_positive :: "(env \<times> sandbox_call) list" where
  "nft_transfer_payout_positive =
     nft_transfer_payout_helper 1 ''1'' [(''user1'', 500)] payout_fees_2 (201 * 10 ^ 22) @
     nft_transfer_payout_helper 5 ''2'' [(''user1'', 500)] payout_fees_2 (123 * 10 ^ 22) @
     nft_transfer_payout_helper 9 ''3'' [(''user1'', 500)] payout_fees_3 (345 * 10 ^ 22)"

text \<open>The amount the payout returned by the \<open>i\<close>-th transaction leaves of the balance.\<close>

definition payout_shortfall :: "(env \<times> sandbox_call) list \<Rightarrow> nat \<Rightarrow> balance option" where
  "payout_shortfall txs i =
     (case txs ! i of
        (env, CallNft (NftTransferPayout r t a memo b l)) \<Rightarrow>
          (case nft_transfer_payout (sb_nft (fst (sandbox_run test_sandbox (take i txs))))
                  (env\<lparr>current_account_id := ''nft''\<rparr>) r t a memo b l of
             Inl _ \<Rightarrow> None
           | Inr (_, p) \<Rightarrow> Some (b - sum_list (map snd p)))
      | _ \<Rightarrow> None)"

definition set_private_tx :: "timestamp \<Rightarrow> account \<Rightarrow> bool \<Rightarrow> env \<times> sandbox_call" where
  "set_private_tx t user enabled = tx t user 0 (CallNft (NftSetPrivateMinting enabled))"

definition permissions_grant :: "(env \<times> sandbox_call) list" where
  "permissions_grant =
     [set_private_tx 1 ''root'' True,
      tx 2 ''user1'' 0 (CallNft (NftGrant ''user1'')),
      tx 3 ''root'' 0 (CallNft (NftGrant ''user1'')),
      tx 4 ''root'' 0 (CallNft (NftGrant ''user1''))]"

definition permissions_deny :: "(env \<times> sandbox_call) list" where
  "permissions_deny =
     [set_private_tx 1 ''root'' True,
      tx 2 ''root'' 0 (CallNft (NftGrant ''user1'')),
      tx 3 ''user1'' 0 (CallNft (NftDeny ''user1'')),
      tx 4 ''root'' 0 (CallNft (NftDeny ''user1'')),
      tx 5 ''root'' 0 (CallNft (NftDeny ''user1''))]"

definition permissions_set_private_minting :: "(env \<times> sandbox_call) list" where
  "permissions_set_private_minting =
     [set_private_tx 1 ''user1'' True,
      set_private_tx 2 ''root'' True,
      set_private_tx 3 ''root'' False]"

definition permissions_is_allowed :: "(env \<times> sandbox_call) list" where
  "permissions_is_allowed =
     [set_private_tx 1 ''root'' True,
      tx 2 ''root'' 0 (CallNft (NftGrant ''user1''))]"

text \<open>The flag that the \<open>grant\<close> or \<open>deny\<close> of the \<open>i\<close>-th transaction returns.\<close>

definition returned_flag :: "(env \<times> sandbox_call) list \<Rightarrow> nat \<Rightarrow> bool option" where
  "returned_flag txs i =
     (let n = sb_nft (fst (sandbox_run test_sandbox (take i txs))) in
      case txs ! i of
        (env, CallNft (NftGrant a)) \<Rightarrow>
          (case grant n env a of Inl _ \<Rightarrow> None | Inr (_, b) \<Rightarrow> Some b)
      | (env, CallNft (NftDeny a)) \<Rightarrow>
          (case deny n env a of Inl _ \<Rightarrow> None | Inr (_, b) \<Rightarrow> Some b)
      | _ \<Rightarrow> None)"

text \<open>\<open>is_allowed\<close> of an account after the first \<open>i\<close> transactions.\<close>

definition allowed_after :: "(env \<times> sandbox_call) list \<Rightarrow> nat \<Rightarrow> account \<Rightarrow> bool" where
  "allowed_after txs i a = is_allowed (sb_nft (fst (sandbox_run test_sandbox (take i txs)))) a"

definition series_views_one :: "(env \<times> sandbox_call) list" where
  "series_views_one = [create_series 1 ''user1'' ''root'']"

definition series_views_three :: "(env \<times> sandbox_call) list" where
  "series_views_three = series_views_one @ [create_series 2 ''user1'' ''root'', create_series 3 ''user2'' ''root'']"

definition series_views_minted :: "nat \<Rightarrow> (env \<times> sandbox_call) list" where
  "series_views_minted k = series_views_one @ map (\<lambda>i. mint_token (i + 2) ''user1'' ''user1'' ''1'') [0..<k]"

section \<open>What the tests observe\<close>

lemmas nft_test_defs = test_defs sandbox_defs series_tx_def mint_tx_def test_metadata_def
  grant_def deny_def set_private_minting_def nft_get_series_def market_consts

lemma nft_create_series_negative_outcomes:
  "snd (sandbox_run test_sandbox nft_create_series_negative) =
     [Inr [], Inl MintAccessDenied, Inr [], Inl TitleMissing, Inl RoyaltyCapExceeded]"
  by (simp add: nft_create_series_negative_def nft_test_defs)

lemma nft_create_series_positive_views:
  "let n = sb_nft (fst (sandbox_run test_sandbox nft_create_series_positive)) in
     map_sum id (fst \<circ> snd) (nft_get_series n ''1'') = Inr ''user1'' \<and>
     map_sum id (fst \<circ> snd) (nft_get_series n ''2'') = Inr ''user2'' \<and>
     map_sum id fst (nft_get_series n ''1'') = map_sum id fst (nft_get_series n ''2'')"
  by (simp add: nft_create_series_positive_def nft_test_defs)

lemma nft_mint_negative_outcomes:
  "snd (sandbox_run test_sandbox nft_mint_negative) =
     [Inr [], Inr [], Inl MintAccessDenied, Inr [], Inl NoTokenSeries, Inl PermissionDenied, Inr [],
      Inl MaxTokenMinted]"
  by (simp add: nft_mint_negative_def nft_test_defs)

lemma nft_mint_positive_token:
  "nft_token (sb_nft (fst (sandbox_run test_sandbox nft_mint_positive))) ''1:1'' =
     Inr (Some \<lparr>tv_token_id = ''1:1'', tv_owner_id = ''user2'',
                tv_metadata = \<lparr>tm_title = Some ''some title'', tm_copies = None, tm_issued_at = Some ''2''\<rparr>,
                tv_approved_account_ids = []\<rparr>)"
  by (simp add: nft_mint_positive_def nft_test_defs)

lemmas payout_test_defs = nft_test_defs many_accounts_def approve_user2_tx_def payout_tx_def
  nft_transfer_payout_def strip_buyer_fee_def fee_shares_def
  royalty_to_payout_def series_of_token_def upt_rec

lemma nft_transfer_payout_negative_outcomes:
  "drop 3 (snd (sandbox_run test_sandbox nft_transfer_payout_negative)) =
     [Inl RequiresOneYocto, Inl NoToken, Inl TooManyReceivers, Inl TooManyReceivers]"
  by (simp add: nft_transfer_payout_negative_def payout_test_defs)

lemma nft_transfer_payout_positive_outcomes:
  "list_all (\<lambda>r. r = Inr []) (snd (sandbox_run test_sandbox nft_transfer_payout_positive)) \<and>
   payout_shortfall nft_transfer_payout_positive 3 = Some 1 \<and>
   payout_shortfall nft_transfer_payout_positive 7 = Some 1 \<and>
   payout_shortfall nft_transfer_payout_positive 11 = Some 1"
  by (simp add: nft_transfer_payout_positive_def nft_transfer_payout_helper_def payout_fees_2_def
                payout_fees_3_def payout_shortfall_def payout_test_defs)

lemmas permission_test_defs = nft_test_defs set_private_tx_def returned_flag_def allowed_after_def
  is_allowed_def

lemma permissions_grant_outcomes:
  "snd (sandbox_run test_sandbox permissions_grant) = [Inr [], Inl OnlyContractOwner, Inr [], Inr []] \<and>
   returned_flag permissions_grant 2 = Some True \<and> allowed_after permissions_grant 3 ''user1'' \<and>
   returned_flag permissions_grant 3 = Some False"
  by (simp add: permissions_grant_def permission_test_defs)

lemma permissions_deny_outcomes:
  "snd (sandbox_run test_sandbox permissions_deny) = [Inr [], Inr [], Inl OnlyContractOwner, Inr [], Inr []] \<and>
   returned_flag permissions_deny 3 = Some True \<and> \<not> allowed_after permissions_deny 4 ''user1'' \<and>
   returned_flag permissions_deny 4 = Some False"
  by (simp add: permissions_deny_def permission_test_defs)

lemma permissions_set_private_minting_outcomes:
  "snd (sandbox_run test_sandbox permissions_set_private_minting) = [Inl OnlyContractOwner, Inr [], Inr []] \<and>
   allowed_after permissions_set_private_minting 1 ''user1'' \<and>
   \<not> allowed_after permissions_set_private_minting 2 ''user1'' \<and>
   allowed_after permissions_set_private_minting 3 ''user1''"
  by (simp add: permissions_set_private_minting_def permission_test_defs)

lemma permissions_is_allowed_outcomes:
  "allowed_after permissions_is_allowed 0 ''user1'' \<and> \<not> allowed_after permissions_is_allowed 1 ''user1'' \<and>
   allowed_after permissions_is_allowed 2 ''user1''"
  by (simp add: permissions_is_allowed_def permission_test_defs)

lemma series_views_nft_get_series:
  "let n = sb_nft (fst (sandbox_run test_sandbox series_views_one)) in
     nft_get_series n ''42'' = Inl NoTokenSeries \<and>
     nft_get_series n ''1'' = Inr (test_metadata 10, ''user1'', [(''root'', 1000)])"
  by (simp add: series_views_one_def nft_test_defs)

lemma series_views_nft_series:
  "let n1 = sb_nft (fst (sandbox_run test_sandbox series_views_one));
       n3 = sb_nft (fst (sandbox_run test_sandbox series_views_three)) in
     nft_series n1 (Some 42) (Some 43) = Inl OutOfBounds \<and>
     nft_series n1 (Some 1) (Some 0) = Inl OutOfBounds \<and>
     nft_series n1 None None = Inr [(test_metadata 10, ''user1'', [(''root'', 1000)])] \<and>
     map_sum id length (nft_series n3 None None) = Inr 3"
  by (simp add: series_views_one_def series_views_three_def nft_series_def nft_test_defs)

lemma series_views_nft_supply_for_series:
  "nft_supply_for_series (sb_nft (fst (sandbox_run test_sandbox series_views_one))) ''42'' = Inl NoTokenSeries \<and>
   nft_supply_for_series (sb_nft (fst (sandbox_run test_sandbox series_views_one))) ''1'' = Inr 0 \<and>
   nft_supply_for_series (sb_nft (fst (sandbox_run test_sandbox (series_views_minted 1)))) ''1'' = Inr 1 \<and>
   nft_supply_for_series (sb_nft (fst (sandbox_run test_sandbox (series_views_minted 5)))) ''1'' = Inr 5"
  by (simp add: series_views_one_def series_views_minted_def nft_supply_for_series_def nft_test_defs upt_rec)

text \<open>
  The test meant to check the zero limit asks from index 1 of a contract with one series,
  so the call fails on the bound of \<open>from_index\<close> and never reaches the limit check; a
  zero limit is refused from index 0, and so is a limit of \<open>2^32\<close>, which the wasm32
  cast turns into 0.
\<close>

lemma series_views_zero_limit:
  "let n1 = sb_nft (fst (sandbox_run test_sandbox series_views_one)) in
     nft_series n1 (Some 0) (Some 0) = Inl ZeroLimit \<and>
     nft_series n1 (Some 0) (Some (2 ^ 32)) = Inl ZeroLimit \<and>
     nft_series n1 (Some 0) (Some (2 ^ 32 + 1)) = Inr [(test_metadata 10, ''user1'', [(''root'', 1000)])]"
  by (simp add: series_views_one_def nft_series_def nft_test_defs)

end
