(* ===== verification/TestsMarket.thy ===== *)
theory TestsMarket
  imports TestUtils Views
begin

text \<open>
  The remaining market tests of the integration suite replayed on the sandbox model:
  the fee view (src/tests-workspaces/src/fee.rs), the storage deposit and withdrawal
  (market.rs) and the auction views (auction_views.rs). A view is evaluated on the
  market state after the transactions before it, one block later.
\<close>

section \<open>Transactions of the tests\<close>

definition fee_test_origins :: origins where
  "fee_test_origins =
     [(''user1'', 100), (''user2'', 200), (''user3'', 300), (''user4'', 400), (''user5'', 500), (''user6'', 600)]"

definition fee_test_calls :: "(balance \<times> origins option) list" where
  "fee_test_calls = [(23456788765, None), (5 * ONE_NEAR, Some fee_test_origins)]"

definition storage_deposit_test :: "(env \<times> sandbox_call) list" where
  "storage_deposit_test =
     [tx 1 ''user1'' 20 (CallMarket (StorageDeposit None)),
      tx 2 ''user1'' (10 ^ 22) (CallMarket (StorageDeposit None))]"

definition storage_withdraw_test :: "(env \<times> sandbox_call) list" where
  "storage_withdraw_test =
     [tx 1 ''user1'' (5 * ONE_NEAR) (CallMarket (StorageDeposit None)),
      create_series_raw 2 ''user1'' (Some 4) [(''user1'', 500)],
      mint_token 3 ''user1'' ''user1'' ''1'',
      nft_approve_tx 4 ''user1'' ''1:1'' [(NEAR, 42000)] ''1'',
      tx 5 ''user1'' 0 (CallMarket StorageWithdraw),
      tx 6 ''user1'' 1 (CallMarket StorageWithdraw)]"

definition auction_view_setup :: "(env \<times> sandbox_call) list" where
  "auction_view_setup =
     [create_series 1 ''user1'' ''root'',
      mint_token 2 ''user1'' ''user1'' ''1'',
      deposit 3 ''user1'',
      auction_approve_tx 4 ''user1'' ''1:1'']"

definition second_auction_args :: auction_args where
  "second_auction_args =
     test_auction_args\<lparr>aa_minimal_step := 110, aa_start_price := 100000, aa_buy_out_price := Some 1000000000\<rparr>"

definition auction_view_two :: "(env \<times> sandbox_call) list" where
  "auction_view_two =
     auction_view_setup @
     [create_series 5 ''user2'' ''root'',
      mint_token 6 ''user2'' ''user2'' ''2'',
      deposit 7 ''user2'',
      tx 8 ''user2'' ONE_NEAR (CallNft (NftApprove ''2:1'' ''market'' (Some (AuctionKind second_auction_args))))]"

definition auction_view_bid :: "balance \<Rightarrow> (env \<times> sandbox_call) list" where
  "auction_view_bid d = auction_view_setup @ [tx 5 ''user2'' d (CallMarket (AuctionAddBid 0 None None))]"

definition auction_view_later :: "(env \<times> sandbox_call) list" where
  "auction_view_later =
     auction_view_setup @
     [mint_token 5 ''user1'' ''user1'' ''1'',
      tx 6 ''user1'' ONE_NEAR (CallNft (NftApprove ''1:2'' ''market''
         (Some (AuctionKind (test_auction_args\<lparr>aa_start := Some (6 + 60 * NANOS_PER_SEC)\<rparr>)))))]"

definition view_get_current_buyer_test :: "(env \<times> sandbox_call) list" where
  "view_get_current_buyer_test = auction_view_bid 10300"

definition view_get_current_bid_test :: "(env \<times> sandbox_call) list" where
  "view_get_current_bid_test = auction_view_bid 10300"

definition view_get_minimal_next_bid_test :: "(env \<times> sandbox_call) list" where
  "view_get_minimal_next_bid_test = auction_view_bid 103000"

text \<open>
  \<open>test_fees_transfers\<close> of the near-sdk-sim tests (src/market/tests/testing.rs): one block
  a minute, each call executed in the next block. \<open>user1\<close> opens two auctions in
  NEAR with a 1\<percent> origin fee, cancels the first, \<open>user2\<close> bids 10400 on the second,
  which extends it to 15 minutes after the bid; finishing fails before that end and
  succeeds one block after it. The NFT contract's payout for 10400 sums to 10398, so the
  market refunds the 10400 to \<open>user2\<close>, who keeps the token; the test only checks that
  the call succeeds.
\<close>

definition sim_minute :: timestamp where
  "sim_minute = 60 * NANOS_PER_SEC"

definition sim_auction_args :: auction_args where
  "sim_auction_args = test_auction_args\<lparr>aa_token_type := Some NEAR, aa_origins := Some [(''origin1'', 100)]\<rparr>"

definition sim_fees_transfers :: "(env \<times> sandbox_call) list" where
  "sim_fees_transfers =
     [create_series_raw sim_minute ''user1'' (Some 7) [(''user1'', 500)]] @
     map (\<lambda>i. tx ((i + 2) * sim_minute) ''user1'' (10 ^ 22) (CallNft (NftMint ''1'' ''user1''))) [0..<5] @
     [tx (7 * sim_minute) ''user1'' (10 ^ 23) (CallMarket (StorageDeposit None)),
      tx (8 * sim_minute) ''user1'' ONE_NEAR (CallNft (NftApprove ''1:1'' ''market'' (Some (AuctionKind sim_auction_args)))),
      tx (9 * sim_minute) ''user1'' ONE_NEAR (CallNft (NftApprove ''1:2'' ''market'' (Some (AuctionKind sim_auction_args)))),
      tx (10 * sim_minute) ''user1'' 1 (CallMarket (CancelAuction 0)),
      tx (11 * sim_minute) ''user2'' 10400 (CallMarket (AuctionAddBid 1 (Some NEAR) None)),
      tx (12 * sim_minute) ''user1'' 0 (CallMarket (FinishAuction 1)),
      tx (27 * sim_minute) ''user1'' 0 (CallMarket (FinishAuction 1))]"

text \<open>The market after the transactions of a test.\<close>

definition market_after :: "(env \<times> sandbox_call) list \<Rightarrow> market" where
  "market_after txs = sb_market (fst (sandbox_run test_sandbox txs))"

section \<open>What the tests observe\<close>

lemmas market_test_defs = test_defs sandbox_defs auction_defs market_consts market_after_def
  get_auction_def get_current_buyer_def get_current_bid_def storage_withdraw_def

lemma price_with_fees_test:
  "map (\<lambda>(p, os). price_with_fees p os) fee_test_calls =
     [Inr (23456788765 * (PAYOUT_TOTAL_VALUE + PROTOCOL_FEE) div PAYOUT_TOTAL_VALUE),
      Inr (5 * ONE_NEAR * (PAYOUT_TOTAL_VALUE + PROTOCOL_FEE + 2100) div PAYOUT_TOTAL_VALUE)]"
  by (simp add: fee_test_calls_def price_with_fees_def fee_test_origins_def calculate_price_with_fees_def
                total_origins_def calculate_origins_def market_consts u128_max_def)

lemma storage_deposit_test_outcomes:
  "snd (sandbox_run test_sandbox storage_deposit_test) = [Inl RequiresMinimumDeposit, Inr []]"
  by (simp add: storage_deposit_test_def market_test_defs)

lemma storage_withdraw_test_outcomes:
  "drop 4 (snd (sandbox_run test_sandbox storage_withdraw_test)) =
     [Inl RequiresOneYocto, Inr [NearTransfer ''user1'' (5 * ONE_NEAR - STORAGE_PER_SALE)]]"
  by (simp add: storage_withdraw_test_def market_test_defs)

text \<open>The fields of an auction that the tests compare.\<close>

definition auction_fields :: "error + auction_json \<Rightarrow> error + (account \<times> string \<times> account \<times> nat \<times> balance \<times> balance option)" where
  "auction_fields r =
     (case r of
        Inl e \<Rightarrow> Inl e
      | Inr a \<Rightarrow> Inr (aj_owner_id a, aj_token_id a, aj_ft_token_id a, aj_minimal_step a,
                     aj_start_price a, aj_buy_out_price a))"

lemma view_auction_get_auction:
  "get_auction (market_after auction_view_setup) 1 = Inl AuctionDoesNotExist \<and>
   auction_fields (get_auction (market_after auction_view_setup) 0) =
     Inr (''user1'', ''1:1'', NEAR, 100, 10000, Some 10000000000)"
  by (simp add: auction_view_setup_def auction_fields_def market_test_defs)

lemma view_auction_get_auctions:
  "map (\<lambda>a. auction_fields (Inr a)) (get_auctions (market_after auction_view_two) None None) =
     [Inr (''user1'', ''1:1'', NEAR, 100, 10000, Some 10000000000),
      Inr (''user2'', ''2:1'', NEAR, 110, 100000, Some 1000000000)]"
  by (simp add: auction_view_two_def auction_view_setup_def second_auction_args_def auction_fields_def
                market_test_defs get_auctions_def umap_values_def u32_max_def)

lemma view_auction_get_current_buyer:
  "get_current_buyer (market_after auction_view_setup) 1 = Inl AuctionDoesNotExist \<and>
   get_current_buyer (market_after auction_view_setup) 0 = Inr None \<and>
   snd (sandbox_run test_sandbox view_get_current_buyer_test) ! 4 = Inr [] \<and>
   get_current_buyer (market_after view_get_current_buyer_test) 0 = Inr (Some ''user2'')"
  by (simp add: view_get_current_buyer_test_def auction_view_setup_def auction_view_bid_def market_test_defs)

lemma view_auction_get_current_bid:
  "get_current_bid (market_after auction_view_setup) 1 = Inl AuctionDoesNotExist \<and>
   get_current_bid (market_after auction_view_setup) 0 = Inr None \<and>
   get_current_bid (market_after view_get_current_bid_test) 0 = Inr (Some 10000)"
  by (simp add: view_get_current_bid_test_def auction_view_setup_def auction_view_bid_def market_test_defs)

lemma view_auction_get_minimal_next_bid:
  "get_minimal_next_bid (market_after auction_view_setup) 1 = Inl AuctionDoesNotExist \<and>
   get_minimal_next_bid (market_after auction_view_setup) 0 = Inr 10000 \<and>
   snd (sandbox_run test_sandbox view_get_minimal_next_bid_test) ! 4 = Inr [] \<and>
   get_minimal_next_bid (market_after view_get_minimal_next_bid_test) 0 = Inr 100100"
  by (simp add: view_get_minimal_next_bid_test_def auction_view_setup_def auction_view_bid_def market_test_defs)

lemma view_auction_check_auction_in_progress:
  "check_auction_in_progress (market_after auction_view_setup) (auction_env ''user1'' 0 5) 1 =
     Inl AuctionDoesNotExist \<and>
   check_auction_in_progress (market_after auction_view_setup) (auction_env ''user1'' 0 5) 0 = Inr True \<and>
   check_auction_in_progress (market_after auction_view_later) (auction_env ''user1'' 0 7) 1 = Inr False"
  by (simp add: auction_view_later_def auction_view_setup_def market_test_defs)

lemma sim_fees_transfers_outcomes:
  "let (w, rs) = sandbox_run test_sandbox sim_fees_transfers in
     drop 9 rs = [Inr [], Inr [], Inl AuctionNotEnded, Inr [NearTransfer ''user2'' 10400]] \<and>
     map_option auction_end (auctions (market_after (take 11 sim_fees_transfers)) 1) =
       Some (11 * sim_minute + EXTENSION_DURATION) \<and>
     map_sum id (map_option tv_owner_id) (nft_token (sb_nft w) ''1:2'') = Inr (Some ''user2'')"
  by (simp add: sim_fees_transfers_def sim_auction_args_def sim_minute_def market_test_defs upt_rec
                with_protocol_fee_def sale_defs resolve_finish_auction_def)

end
