(* ===== verification/TestsSim.thy ===== *)
theory TestsSim
  imports TestsMarket TestsNft
begin

text \<open>
  The simulation tests of the NFT contract (src/market/tests/nft_contract.rs) replayed on
  the sandbox model. \<open>init\<close> (src/market/tests/utils.rs) deploys the market and the NFT
  contract for the root account; the simulator produces a block a minute, so the
  \<open>i\<close>-th transaction of a test runs at minute \<open>i\<close>. The refund of unused deposits
  (\<open>amount > to_yocto("999")\<close>) is storage accounting and has no counterpart.
\<close>

section \<open>Transactions of the tests\<close>

definition sim_init :: sandbox where
  "sim_init = init_sandbox ''root'' ''nft'' ''market''"

definition sim_nft_create_series_negative :: "(env \<times> sandbox_call) list" where
  "sim_nft_create_series_negative =
     [tx sim_minute ''root'' 0 (CallNft (NftSetPrivateMinting True)),
      series_tx (2 * sim_minute) ''user1'' (5 * 10 ^ 21) (test_metadata 7) None,
      tx (3 * sim_minute) ''root'' 0 (CallNft (NftGrant ''user1'')),
      series_tx (4 * sim_minute) ''user1'' (5 * 10 ^ 21) ((test_metadata 7)\<lparr>tm_title := None\<rparr>) None,
      series_tx (5 * sim_minute) ''user1'' (5 * 10 ^ 21) (test_metadata 7)
        (Some [(''user1'', 500), (''user2'', 5000)])]"

definition sim_nft_create_series_positive :: "(env \<times> sandbox_call) list" where
  "sim_nft_create_series_positive =
     [series_tx sim_minute ''user1'' (5 * 10 ^ 21) (test_metadata 7) None,
      tx (2 * sim_minute) ''root'' 0 (CallNft (NftSetPrivateMinting True)),
      tx (3 * sim_minute) ''root'' 0 (CallNft (NftGrant ''user2'')),
      series_tx (4 * sim_minute) ''user2'' ONE_NEAR (test_metadata 7) (Some [(''user1'', 500), (''user2'', 2000)])]"

definition sim_nft_mint_negative :: "(env \<times> sandbox_call) list" where
  "sim_nft_mint_negative =
     [series_tx sim_minute ''user1'' (5 * 10 ^ 21) (test_metadata 1) None,
      tx (2 * sim_minute) ''root'' 0 (CallNft (NftSetPrivateMinting True)),
      tx (3 * sim_minute) ''user1'' (2 * ONE_NEAR) (CallNft (NftMint ''1'' ''user1'')),
      tx (4 * sim_minute) ''root'' 0 (CallNft (NftSetPrivateMinting False)),
      tx (5 * sim_minute) ''user1'' (2 * ONE_NEAR) (CallNft (NftMint ''200'' ''user1'')),
      tx (6 * sim_minute) ''user2'' (2 * ONE_NEAR) (CallNft (NftMint ''1'' ''user1'')),
      tx (7 * sim_minute) ''user1'' (2 * ONE_NEAR) (CallNft (NftMint ''1'' ''user1'')),
      tx (8 * sim_minute) ''user1'' (2 * ONE_NEAR) (CallNft (NftMint ''1'' ''user1''))]"

definition sim_nft_mint_positive :: "(env \<times> sandbox_call) list" where
  "sim_nft_mint_positive =
     [series_tx sim_minute ''user1'' (5 * 10 ^ 21) (test_metadata 1) None,
      tx (2 * sim_minute) ''user1'' (2 * ONE_NEAR) (CallNft (NftMint ''1'' ''user2''))]"

section \<open>What the tests observe\<close>

lemmas sim_test_defs = nft_test_defs sim_init_def sim_minute_def

lemma sim_nft_create_series_negative_outcomes:
  "snd (sandbox_run sim_init sim_nft_create_series_negative) =
     [Inr [], Inl MintAccessDenied, Inr [], Inl TitleMissing, Inl RoyaltyCapExceeded]"
  by (simp add: sim_nft_create_series_negative_def sim_test_defs)

lemma sim_nft_create_series_positive_series:
  "let (w, rs) = sandbox_run sim_init sim_nft_create_series_positive in
     list_all (\<lambda>r. r = Inr []) rs \<and>
     nft_get_series (sb_nft w) ''2'' = Inr (test_metadata 7, ''user2'', [(''user1'', 500), (''user2'', 2000)])"
  by (simp add: sim_nft_create_series_positive_def sim_test_defs)

lemma sim_nft_mint_negative_outcomes:
  "snd (sandbox_run sim_init sim_nft_mint_negative) =
     [Inr [], Inr [], Inl MintAccessDenied, Inr [], Inl NoTokenSeries, Inl PermissionDenied, Inr [],
      Inl MaxTokenMinted]"
  by (simp add: sim_nft_mint_negative_def sim_test_defs)

lemma sim_nft_mint_positive_token:
  "nft_token (sb_nft (fst (sandbox_run sim_init sim_nft_mint_positive))) ''1:1'' =
     Inr (Some \<lparr>tv_token_id = ''1:1'', tv_owner_id = ''user2'',
                tv_metadata = (test_metadata 1)\<lparr>tm_copies := None, tm_issued_at := Some (string_of_nat (2 * sim_minute))\<rparr>,
                tv_approved_account_ids = []\<rparr>)"
  by (simp add: sim_nft_mint_positive_def sim_test_defs)

end
