(* ===== verification/Spec2Isabelle.thy ===== *)
theory Spec2Isabelle
  imports Sale Settlement Auction Payouts Invariant TestsSale TestsAuction TestsBid FeeSpec TestsViews TestsNft TestsMarket TestsSim
begin

text \<open>
  \<^bold>\<open>A verification model of the NEAR NFT marketplace (nft-market-rust).\<close>

  The repository holds two NEAR contracts. The market contract (src/market/src) lists an
  NFT for a fixed-price sale with a bid ledger per currency (sale.rs, bid.rs, inner.rs) or
  for an English auction with a single live bid, soft close and buyout (auction.rs,
  auction_views.rs); it computes fees (fee.rs), keeps secondary indices of its listings
  and settles a trade in two phases: it removes the listing and calls the NFT contract's
  \<open>nft_transfer_payout\<close>, which transfers the token and reports a payout split, then a
  callback (\<open>resolve_purchase\<close>, \<open>resolve_finish_auction\<close>) validates the split and
  pays the payees or refunds the buyer. The NFT contract (src/nft/src) mints tokens in
  series with royalties (lib.rs, permissions.rs) and computes the payout split
  (payouts.rs).

  \<^bold>\<open>Library.\<close> Each theory opens with a description of what it holds.
  \<^item> Prelude: account, balance and timestamp types, fee-share sets and payouts as
    association lists, the u32/u64/u128 bounds, the error values standing for the
    contracts' panics, the transfer primitive (\<open>Promise::transfer\<close>,
    \<open>ft_transfer\<close>), the environment record (block time, caller, signer, deposit,
    own account), shared lemmas on ordered lists, association lists and sums.
  \<^item> Fee (fee.rs): \<open>calculate_origins\<close>, \<open>calculate_actual_amount\<close>,
    \<open>calculate_price_with_fees\<close>; the exact fee round trip (C1).
  \<^item> FeeSpec: the fee calculator against an abstract model in rational arithmetic: the
    u128 routines return the exact net share rounded up and the exact gross rounded
    down, and overflow exactly when their products do (C31, a refinement).
  \<^item> Bid (bid.rs): the \<open>Bid\<close> record, the ledger of one currency (a list ordered by
    net amount, bounded by the history length), its submission, eviction, removal and
    expiry, with the ledger invariant \<open>bucket_ok\<close> and escrow lemmas; the
    \<open>enumerate\<close>/\<open>Vec::remove\<close> loop of \<open>internal_remove_bid\<close> removes exactly the
    first bid of the owner and price, keeping the others in order (C30), and equals the
    recursive removal the handlers use.
  \<^item> Market (lib.rs, sale.rs, auction.rs, market_core.rs): the \<open>Sale\<close>,
    \<open>Auction\<close> and contract-state records, the approval arguments and the effects a
    handler emits (payments, and the \<open>nft_transfer_payout\<close> call with its callback);
    the key \<open>contract || token\<close> identifies a listing for valid NEAR account ids (C32);
    the JSON records \<open>SaleJson\<close>, \<open>AuctionJson\<close> the views return
    (\<open>json_from_sale\<close>, \<open>json_from_auction\<close>).
  \<^item> Directory (inner.rs): the secondary indices as near-sdk \<open>UnorderedSet\<close>s, i.e.
    their element vectors (\<open>insert\<close> pushes, \<open>remove\<close> swaps the last element in and
    pops), and \<open>internal_remove_sale\<close>; on vectors without duplicates the index
    updates implement insertion and removal on sets. The
    \<open>UnorderedMap\<close>s of sales and auctions are their lookup, a HOL map, and their key
    vector (record fields \<open>sale_keys\<close>, \<open>auction_keys\<close>), pushed by an insert at a new
    key and swap-removed by a remove; \<open>keys_of\<close> is their representation invariant and
    \<open>umap_values\<close> the iteration of \<open>values()\<close>.
  \<^item> Sale (bid.rs, sale.rs): \<open>add_bid\<close>, \<open>remove_bid\<close>, \<open>cancel_bid\<close>,
    \<open>cancel_expired_bids\<close>, \<open>offer\<close>, \<open>accept_offer\<close>, \<open>process_purchase\<close>,
    \<open>remove_sale\<close>, \<open>update_price\<close>; the invariant of the ledgers of every sale
    (C2), strict increase (C3), eviction with refund (C4), escrow conservation (C5), and
    two findings: \<open>remove_bid\<close> pays without a bid (C6), \<open>accept_offer\<close> does not
    check its caller (C7).
  \<^item> Settlement (sale.rs, auction.rs): the callbacks on the NFT contract's answer:
    order independence of the payout check (C8), disbursement (C9), refund (C10),
    conservation of an auction's price (C11).
  \<^item> Auction (auction.rs, auction_views.rs): \<open>start_auction\<close>,
    \<open>auction_add_bid\<close>, \<open>cancel_auction\<close>, \<open>finish_auction\<close> and their views:
    outbidding by the minimal step (C12), soft close and buyout (C13), a buyout does not
    close the auction in its own block (C14), refund of the replaced bid (C15), finishing
    (C16), cancelling (C17), fresh identifiers (C18), the auction invariant (C19), and
    termination of bidding: with a positive step no infinite sequence of accepted bids
    exists, by the variant \<open>bids_left\<close> (C29).
  \<^item> Nft (nft lib.rs, permissions.rs, nft_core.rs, series_views.rs): series, minting,
    permissions, the library's transfer and approval, the views; the series limit
    \<open>l as usize\<close> is taken modulo 2^32, as on NEAR's 32-bit wasm target.
  \<^item> Payouts (payouts.rs): the payout split; its sum lies between the balance less the
    number of rounded shares and the balance plus one when the buyer's fee weight is at
    most 10000, a cap the market does not enforce (C20); only the owner or an
    approved caller with the right approval id moves the token (C21).
  \<^item> Contract (market_core.rs, sale.rs, lib.rs, hack.rs, sale_views.rs):
    \<open>nft_on_approve\<close> with \<open>start_sale\<close>, the storage deposits, the public
    test-only \<open>hack_*\<close> methods, the supply views; the datatype \<open>market_call\<close> of
    the contract's state-changing calls, the step function \<open>market_step\<close> that
    dispatches them to the handlers of Sale, Auction and this theory, the inductive set
    \<open>reachable\<close> of states reachable from \<open>new\<close>, and \<open>market_run\<close>, a
    sequence of calls in which a panicking call is reverted.
  \<^item> Views (sale_views.rs, auction_views.rs): the paginated views
    \<open>get_sales_by_owner_id\<close>, \<open>get_sales_by_nft_contract_id\<close>,
    \<open>get_sales_by_nft_token_type\<close> with the checked \<open>start + limit\<close> and the
    \<open>unwrap\<close> of each lookup, \<open>get_supply_sales\<close>, \<open>get_auction\<close>, and
    \<open>get_sales\<close>, \<open>get_auctions\<close> over the key vectors, whose indices are cast to the
    32-bit \<open>usize\<close> of the wasm target (so they wrap modulo 2^32); a page is
    \<open>take limit (drop start keys)\<close> (C33), and a view fails exactly on overflow or on a
    key without a sale (C34).
  \<^item> Scenarios: concrete runs of calls from a fresh market, evaluated by
    \<open>simp\<close>; re-approval of a listed token drops its bids without refund (C26), a
    re-listing under another token type leaves a stale type-index entry whose view
    panics, anyone can end any auction with \<open>hack_finish_auction\<close> (C28).
  \<^item> Invariant: the invariant of every reachable state (ledgers well formed, every
    sale in its indices, deposits covering the storage of the indexed sales and within
    u128, auction ids below the counter), one preservation lemma per handler, rule
    induction over \<open>reachable\<close>; its consequences: the owner can always remove a
    sale (C23), \<open>storage_withdraw\<close> never underflows (C24), every bucket of every
    reachable state is well formed (C25); the invariant also ties each key vector to its
    map, so the unpaged \<open>get_sales\<close> and \<open>get_auctions\<close> list every sale and
    auction exactly once (C35). In any state, a token re-listed by a new owner and then
    removed leaves the previous owner's index entry behind: her supply view and
    \<open>storage_withdraw\<close> still count the sale, and her view panics (C27).
  \<^item> Sandbox: both contracts side by side, as the integration tests deploy them: a
    transaction is a call of a user on either contract; a market call's effects are
    settled as receipts (payments, then \<open>nft_transfer_payout\<close> on the NFT contract and
    the market's callback on its answer), \<open>nft_approve\<close> with a message calls the
    market's \<open>nft_on_approve\<close>, and NFT state persists when the market's receipt
    panics. TestUtils translates the helpers of tests-workspaces utils.rs.
  \<^item> TestsSale, TestsAuction, TestsBid, TestsViews: the tests of
    tests-workspaces sale.rs, auction.rs, bid.rs and sale_views.rs as transaction lists,
    with the outcome of each transaction and the views each test asserts; spec scenarios
    A and C, and the view test, whose accepted bid of 500 is refunded after the token
    moved (an instance of C22), and whose pages follow the swap-and-pop order.
  \<^item> TestsNft, TestsMarket: the tests of tests-workspaces nft.rs, permissions.rs,
    series_views.rs, fee.rs, market.rs and auction_views.rs the same way, and the
    simulation test \<open>test_fees_transfers\<close> (src/market/tests/testing.rs) replayed
    as a sandbox run: its bid of 10400 is refunded in full after the token moved,
    because the payout split rounds to a shortfall of more than one.
  \<^item> TestsSim: the simulation tests of the NFT contract (src/market/tests/nft_contract.rs)
    on the same deployment (\<open>init\<close> of src/market/tests/utils.rs), one block a minute;
    \<open>nft_token\<close> returns the series metadata with the token's issue time and no copies.
  The view-test assertions of tests-workspaces sale_views.rs, made before and after the
  removals, are \<open>sale_views_asserts\<close> (TestsViews), and hold on both states.
  \<^item> This theory: the interface between the contracts (the fee memo and the
    \<open>nft_transfer_payout\<close> call) and the properties across them: a purchase whose
    payout the market rejects after the token moved leaves the buyer with the token and
    the whole price (C22).

  \<^bold>\<open>Modelling conventions.\<close> Integers are \<open>nat\<close> with the Rust width written out
  where an operation can overflow: the release profile is taken to have overflow checks
  on (spec section 7: arithmetic errors fail the call), so an overflow is an error
  value. A handler is a function from the contract state and the environment to
  \<open>error + (state, effects)\<close>: \<open>Inl\<close> is a panic, which on NEAR reverts every
  change of the call. Persistent maps are HOL maps, iterated \<open>HashMap\<close>s association
  lists, \<open>UnorderedSet\<close>s their element vectors. The environment (\<open>near_sdk::env\<close>) and the
  near-contract-standards library (token ownership, transfer, approval) are library code,
  not part of the repository: they are modelled from their documented behaviour and not
  mapped. Loops are structural recursion on the list they iterate, so every handler is a
  total function and no fuel is needed. Example states (\<open>demo_*\<close>, \<open>settle_*\<close>)
  are the concrete inputs the witnesses evaluate on.

  \<^bold>\<open>Not modelled.\<close> The serialization of the JSON records (the \<open>U64\<close>/\<open>U128\<close>
  wrappers are the numbers themselves) and the parsing of the
  approval message (the model receives the parsed \<open>ArgsKind\<close>, so the "Not valid
  args" panic is not a branch);
  log and event output, gas, storage-byte accounting of the NFT contract's refunds; the
  code that is commented out (fee.rs lines 44-113, market_core.rs lines 113-188, nft
  lib.rs lines 228-265) and the finishing call of the test \<open>finish_auction_positive\<close>;
  the refunds of unused deposits that some tests check (storage accounting).
\<close>

section \<open>The interface between the market and the NFT contract\<close>

text \<open>
  The first phase of settlement ends with the cross-contract call
  \<open>nft_transfer_payout\<close> (sale.rs \<open>process_purchase\<close>, auction.rs
  \<open>finish_auction\<close>): the market serializes its \<open>Fees\<close> to the JSON memo that the NFT
  contract parses as its own \<open>Fees\<close>, and the NFT contract answers with a payout, or
  fails. \<open>nft_answer\<close> (Sandbox.thy) runs the NFT contract's handler on the arguments
  of a \<open>TransferPayout\<close> effect; \<open>run_callback\<close> (Settlement) runs the market's
  callback on its answer.
\<close>

text \<open>A listing of token \<open>1:1\<close> at a net price of 100013, whose gross with the protocol fee is 103013.\<close>

definition settle_market :: market where
  "settle_market = demo_market\<lparr>sales := [demo_key \<mapsto> demo_sale\<lparr>sale_conditions := [(NEAR, 100013)]\<rparr>]\<rparr>"

text \<open>The call the market issues for that instant buy.\<close>

definition settle_call :: payout_call where
  "settle_call =
     \<lparr>pc_receiver_id = ''bob'', pc_token_id = ''1:1'', pc_approval_id = 0,
      pc_memo = \<lparr>fees_buyer = [(''market'', 300)], fees_seller = [(''market'', 300)]\<rparr>,
      pc_balance = 103013, pc_max_len_payout = 10, pc_nft_contract_id = ''nft''\<rparr>"


text \<open>The two contracts of that example side by side.\<close>

definition settle_sandbox :: sandbox where
  "settle_sandbox = \<lparr>sb_nft_id = ''nft'', sb_market_id = ''market'', sb_nft = demo_nft, sb_market = settle_market\<rparr>"

section \<open>Properties across the two contracts\<close>

text \<open>
  C22. Settlement can give the buyer both the token and the money, in any state: when a
  purchase in NEAR (\<open>process_purchase\<close>, reached from \<open>offer\<close> and \<open>accept_offer\<close>)
  has removed the listing and the NFT contract accepts the transfer but answers with a
  payout whose amounts fall more than one short of the price (its shares are rounded
  down, C20) or exceed it (a buyer fee weight above 10000, which the market does not
  cap), the settlement leaves the token with the buyer and its only payment is the
  refund of the whole price to the buyer: the seller is never paid.
\<close>

theorem purchase_shortfall_refunds_after_transfer:
  assumes pp: "process_purchase (sb_market w) env (sb_nft_id w) t NEAR price buyer os =
                 Inr (m', [TransferPayout call cb])"
    and ans: "nft_answer (sb_nft w) (receipt_env env (sb_market_id w) (sb_nft_id w) 1) call = Inr (n', p)"
    and off: "sum_list (map snd p) + 1 < price \<or> price < sum_list (map snd p)"
  shows "settle (w\<lparr>sb_market := m'\<rparr>) env [TransferPayout call cb] =
           (w\<lparr>sb_market := m', sb_nft := n'\<rparr>, [NearTransfer buyer price]) \<and>
         owner_by_id n' t = Some buyer \<and> sales m' (contract_and_token_id (sb_nft_id w) t) = None"
proof -
  from pp obtain sale where rs: "internal_remove_sale (sb_market w) (sb_nft_id w) t = Inr (m', sale)"
    and cb: "cb = ResolvePurchase NEAR buyer sale price"
    and call: "pc_receiver_id call = buyer" "pc_token_id call = t" "pc_nft_contract_id call = sb_nft_id w"
    by (auto simp: process_purchase_def Let_def split: sum.splits)
  from internal_remove_sale_parts [OF rs] have gone: "sales m' (contract_and_token_id (sb_nft_id w) t) = None"
    by auto
  from ans call obtain a where
    "nft_transfer_payout (sb_nft w) (receipt_env env (sb_market_id w) (sb_nft_id w) 1) buyer t a
       (memo_of_fees (pc_memo call)) (pc_balance call) (pc_max_len_payout call) = Inr (n', p)"
    by (auto simp: nft_answer_def)
  then obtain e where "nft_transfer (sb_nft w) e buyer t (Some a) = Inr n'"
    by (rule nft_transfer_payout_Inr)
  then obtain o0 where "internal_transfer (sb_nft w) (predecessor_account_id e) buyer t (Some a) = Inr (n', o0)"
    by (auto simp: nft_transfer_def split: option.splits if_splits sum.splits)
  from internal_transfer_Inr [OF this] have own: "owner_by_id n' t = Some buyer" by simp
  have "\<not> payout_fits price p" using off by (auto simp: payout_fits_def payout_remainder_eq)
  then have "run_callback cb (Some p) = ([Pay (NearTransfer buyer price)], price)"
    by (simp add: cb resolve_purchase_def)
  with ans call have "settle (w\<lparr>sb_market := m'\<rparr>) env [TransferPayout call cb] =
           (w\<lparr>sb_market := m', sb_nft := n'\<rparr>, [NearTransfer buyer price])"
    by (simp add: paid_def)
  with own gone show ?thesis by blast
qed

theorem purchase_shortfall_refunds_after_transfer_witness:
  "\<exists>m' call cb n' p.
     process_purchase settle_market (demo_env ''bob'' 103013) ''nft'' ''1:1'' NEAR 103013 ''bob'' [] =
       Inr (m', [TransferPayout call cb]) \<and>
     nft_answer demo_nft (receipt_env (demo_env ''bob'' 103013) ''market'' ''nft'' 1) call = Inr (n', p) \<and>
     sum_list (map snd p) = 103011 \<and>
     settle (settle_sandbox\<lparr>sb_market := m'\<rparr>) (demo_env ''bob'' 103013) [TransferPayout call cb] =
       (settle_sandbox\<lparr>sb_market := m', sb_nft := n'\<rparr>, [NearTransfer ''bob'' 103013]) \<and>
     owner_by_id n' ''1:1'' = Some ''bob''"
proof -
  let ?e = "demo_env ''bob'' 103013"
  have "\<exists>m' call cb. process_purchase settle_market ?e ''nft'' ''1:1'' NEAR 103013 ''bob'' [] =
       Inr (m', [TransferPayout call cb]) \<and> call = settle_call"
    by (simp add: process_purchase_def settle_market_def demo_market_def market_new_def demo_sale_def
        demo_key_def contract_and_token_id_def demo_env_def internal_remove_sale_def index_remove_def
        uset_remove_def with_protocol_fee_def settle_call_def Let_def market_consts)
  then obtain m' call cb where pp: "process_purchase settle_market ?e ''nft'' ''1:1'' NEAR 103013 ''bob'' [] =
       Inr (m', [TransferPayout call cb])" and c: "call = settle_call" by blast
  have "\<exists>n'. nft_answer demo_nft (receipt_env ?e ''market'' ''nft'' 1) settle_call =
             Inr (n', [(''market'', 6000), (''creator'', 5000), (''alice'', 92011)])"
    by (simp add: nft_answer_def memo_of_fees_def settle_call_def nft_transfer_payout_def demo_nft_def
        demo_series_def nft_new_def demo_env_def receipt_env_def series_of_token_def strip_buyer_fee_def
        fee_shares_def royalty_to_payout_def nft_transfer_def internal_transfer_def Let_def market_consts)
  then obtain n' where ans: "nft_answer demo_nft (receipt_env ?e ''market'' ''nft'' 1) call =
             Inr (n', [(''market'', 6000), (''creator'', 5000), (''alice'', 92011)])" using c by blast
  have w: "sb_market settle_sandbox = settle_market" "sb_nft settle_sandbox = demo_nft"
    "sb_nft_id settle_sandbox = ''nft''" "sb_market_id settle_sandbox = ''market''"
    by (simp_all add: settle_sandbox_def)
  have short: "sum_list (map snd [(''market'', 6000), (''creator'', 5000), (''alice'', (92011::nat))]) + 1 < 103013 \<or>
      103013 < sum_list (map snd [(''market'', 6000), (''creator'', 5000), (''alice'', (92011::nat))])"
    by simp
  from purchase_shortfall_refunds_after_transfer [of settle_sandbox, unfolded w, OF pp ans short]
  show ?thesis using pp ans by auto
qed

end
